(* ===== verification/Prelude.thy ===== *)
theory Prelude
  imports Main "HOL-Library.AList" "HOL-Library.List_Lexorder" "HOL-Library.Char_ord"
    "HOL-Library.Multiset"
begin

text \<open>
  What every component of the model shares: the fragments of the JavaScript standard library
  the services use (decimal rendering and parsing of \<^verbatim>\<open>bigint\<close>, \<^verbatim>\<open>trim\<close>, \<^verbatim>\<open>split\<close>,
  \<^verbatim>\<open>join\<close>, \<^verbatim>\<open>Map\<close>, truthiness of optional strings), the fragments of SQL the ledgers
  use (selection, guarded update, insertion with a conflict target, ordering with a limit), and
  the generic lemmas about them.  Strings are lists of 8-bit characters: the identifiers,
  addresses and amounts the services handle are ASCII.
\<close>

named_theorems run_simps \<open>equations for running a handler to its end\<close>
named_theorems ends_simps \<open>equations for the outcome of a handler\<close>
named_theorems table_simps \<open>laws of the SQL fragments\<close>

section \<open>JavaScript strings\<close>

type_synonym timestamp = int

text \<open>A nullable string is falsy when it is null, undefined or empty.\<close>

definition truthy :: "string option \<Rightarrow> bool" where
  "truthy v = (case v of None \<Rightarrow> False | Some s \<Rightarrow> s \<noteq> [])"

lemma truthy_simps [simp]: "truthy None = False" "truthy (Some s) = (s \<noteq> [])"
  by (simp_all add: truthy_def)

definition is_space :: "char \<Rightarrow> bool" where
  "is_space c = (c = CHR '' '' \<or> (9 \<le> (of_char c :: nat) \<and> (of_char c :: nat) \<le> 13))"

definition trim :: "string \<Rightarrow> string" where
  "trim s = rev (dropWhile is_space (rev (dropWhile is_space s)))"

definition toUpper :: "char \<Rightarrow> char" where
  "toUpper c = (let n = (of_char c :: nat) in if 97 \<le> n \<and> n \<le> 122 then char_of (n - 32) else c)"

definition toLower :: "char \<Rightarrow> char" where
  "toLower c = (let n = (of_char c :: nat) in if 65 \<le> n \<and> n \<le> 90 then char_of (n + 32) else c)"

definition toUpperCase :: "string \<Rightarrow> string" where
  "toUpperCase = map toUpper"

definition toLowerCase :: "string \<Rightarrow> string" where
  "toLowerCase = map toLower"

definition startsWith :: "string \<Rightarrow> string \<Rightarrow> bool" where
  "startsWith s p = (take (length p) s = p)"

fun split_on :: "char \<Rightarrow> string \<Rightarrow> string list" where
  "split_on c [] = [[]]"
| "split_on c (x # xs) =
     (if x = c then [] # split_on c xs
      else case split_on c xs of [] \<Rightarrow> [[x]] | w # ws \<Rightarrow> (x # w) # ws)"

fun join :: "string \<Rightarrow> string list \<Rightarrow> string" where
  "join sep [] = []"
| "join sep [w] = w"
| "join sep (w # v # ws) = w @ sep @ join sep (v # ws)"

lemma split_on_not_Nil [simp]: "split_on c s \<noteq> []"
  by (induction s) (auto split: list.splits)

lemma split_on_no_sep: "c \<notin> set s \<Longrightarrow> split_on c s = [s]"
  by (induction s) auto

lemma split_on_append: "c \<notin> set w \<Longrightarrow> split_on c (w @ c # s) = w # split_on c s"
  by (induction w) auto

text \<open>Splitting undoes joining when no part contains the separator.\<close>

lemma split_on_join:
  "ws \<noteq> [] \<Longrightarrow> \<forall>w\<in>set ws. c \<notin> set w \<Longrightarrow> split_on c (join [c] ws) = ws"
proof (induction "[c]" ws rule: join.induct)
  case (3 w v ws)
  then show ?case by (simp add: split_on_append)
qed (auto simp: split_on_no_sep)

lemma join_inj:
  assumes "join [c] vs = join [c] ws" and "vs \<noteq> []" and "ws \<noteq> []"
    and "\<forall>w\<in>set vs. c \<notin> set w" and "\<forall>w\<in>set ws. c \<notin> set w"
  shows "vs = ws"
  by (metis assms split_on_join)

lemma dropWhile_rev_dropWhile_id:
  "xs \<noteq> [] \<Longrightarrow> \<not> P (hd xs) \<Longrightarrow> \<not> P (last xs) \<Longrightarrow>
     rev (dropWhile P (rev (dropWhile P xs))) = xs"
  by (cases xs rule: rev_cases) (auto simp: hd_append neq_Nil_conv split: if_splits)

section \<open>Decimal text of integers\<close>

definition digit_char :: "nat \<Rightarrow> char" where
  "digit_char n = char_of (48 + n)"

definition is_digit :: "char \<Rightarrow> bool" where
  "is_digit c = (48 \<le> (of_char c :: nat) \<and> (of_char c :: nat) \<le> 57)"

definition digit_val :: "char \<Rightarrow> nat" where
  "digit_val c = of_char c - 48"

fun show_nat :: "nat \<Rightarrow> string" where
  "show_nat n = (if n < 10 then [digit_char n] else show_nat (n div 10) @ [digit_char (n mod 10)])"

declare show_nat.simps [simp del]

definition parse_nat :: "string \<Rightarrow> nat" where
  "parse_nat s = foldl (\<lambda>a c. 10 * a + digit_val c) 0 s"

text \<open>\<^verbatim>\<open>n.toString()\<close> of a \<^verbatim>\<open>bigint\<close> or of an integral \<^verbatim>\<open>number\<close>.\<close>

definition show_int :: "int \<Rightarrow> string" where
  "show_int n = (if n < 0 then CHR ''-'' # show_nat (nat (- n)) else show_nat (nat n))"

text \<open>
  \<^verbatim>\<open>BigInt(text)\<close>: \<open>None\<close> is the \<^verbatim>\<open>SyntaxError\<close>.  White space around the literal is
  ignored and the empty text is zero, as ECMAScript has it; of its literal forms the decimal
  one is modelled, the only one the services store.
\<close>

definition bigint_of :: "string \<Rightarrow> int option" where
  "bigint_of s =
     (let t = trim s in
      if t = [] then Some 0
      else if hd t = CHR ''-'' then
        (if tl t \<noteq> [] \<and> list_all is_digit (tl t) then Some (- int (parse_nat (tl t))) else None)
      else if hd t = CHR ''+'' then
        (if tl t \<noteq> [] \<and> list_all is_digit (tl t) then Some (int (parse_nat (tl t))) else None)
      else if list_all is_digit t then Some (int (parse_nat t)) else None)"

lemma digit_char_simps:
  assumes "n < 10"
  shows "is_digit (digit_char n)" "digit_val (digit_char n) = n"
    "\<not> is_space (digit_char n)" "digit_char n \<noteq> CHR ''-''" "digit_char n \<noteq> CHR ''+''"
    "digit_char n \<noteq> CHR '':''"
proof -
  have c: "(of_char (digit_char n) :: nat) = 48 + n"
    using assms by (simp add: digit_char_def)
  then show "is_digit (digit_char n)" "digit_val (digit_char n) = n"
    using assms by (simp_all add: is_digit_def digit_val_def)
  have ne: "digit_char n \<noteq> d" if "(of_char d :: nat) < 48 \<or> 58 \<le> (of_char d :: nat)" for d
    using that c assms by auto
  show "digit_char n \<noteq> CHR ''-''" "digit_char n \<noteq> CHR ''+''" "digit_char n \<noteq> CHR '':''"
    by (rule ne, simp)+
  have "digit_char n \<noteq> CHR '' ''" by (rule ne) simp
  then show "\<not> is_space (digit_char n)" using c by (simp add: is_space_def)
qed

lemma show_nat_not_Nil [simp]: "show_nat n \<noteq> []"
  by (subst show_nat.simps) simp

lemma show_nat_digits: "c \<in> set (show_nat n) \<Longrightarrow> \<exists>d<10. c = digit_char d"
proof (induction n rule: show_nat.induct)
  case (1 n)
  show ?case
  proof (cases "n < 10")
    case True
    with "1.prems" show ?thesis by (subst (asm) show_nat.simps) auto
  next
    case False
    with "1.prems" have "c \<in> set (show_nat (n div 10)) \<or> c = digit_char (n mod 10)"
      by (subst (asm) show_nat.simps) auto
    then show ?thesis using "1.IH" False by (auto intro: exI [of _ "n mod 10"])
  qed
qed

lemma show_nat_all_digits: "list_all is_digit (show_nat n)"
  using show_nat_digits digit_char_simps(1) by (fastforce simp: list_all_iff)

lemma parse_show_nat [simp]: "parse_nat (show_nat n) = n"
proof (induction n rule: show_nat.induct)
  case (1 n)
  show ?case
  proof (cases "n < 10")
    case True
    then show ?thesis
      by (subst show_nat.simps) (simp add: parse_nat_def digit_char_simps)
  next
    case False
    have "parse_nat (show_nat n) = 10 * parse_nat (show_nat (n div 10)) + n mod 10"
      using False by (subst show_nat.simps) (simp add: parse_nat_def digit_char_simps)
    with "1.IH" False show ?thesis by simp
  qed
qed

lemma show_nat_char:
  assumes "c \<in> set (show_nat n)"
  shows "\<not> is_space c" "c \<noteq> CHR ''-''" "c \<noteq> CHR ''+''" "is_digit c"
  using show_nat_digits [OF assms] digit_char_simps by metis+

lemma show_nat_ends [simp]:
  "\<not> is_space (hd (show_nat n))" "\<not> is_space (last (show_nat n))"
  "hd (show_nat n) \<noteq> CHR ''-''" "hd (show_nat n) \<noteq> CHR ''+''"
  using show_nat_char [of "hd (show_nat n)" n] show_nat_char [of "last (show_nat n)" n]
  by simp_all

lemma trim_show_int [simp]: "trim (show_int n) = show_int n"
  unfolding trim_def
proof (rule dropWhile_rev_dropWhile_id)
  have "\<not> is_space (CHR ''-'')" by (simp add: is_space_def)
  then show "\<not> is_space (hd (show_int n))" by (simp add: show_int_def)
  show "\<not> is_space (last (show_int n))" by (simp add: show_int_def)
qed (simp add: show_int_def)

text \<open>Decimal rendering loses nothing.\<close>

lemma bigint_of_show_int [simp]: "bigint_of (show_int n) = Some n"
proof (cases "n < 0")
  case True
  then show ?thesis
    unfolding bigint_of_def Let_def trim_show_int
    by (simp add: show_int_def show_nat_all_digits)
next
  case False
  then show ?thesis
    unfolding bigint_of_def Let_def trim_show_int
    by (simp add: show_int_def show_nat_all_digits)
qed

lemma show_int_inj [simp]: "show_int m = show_int n \<longleftrightarrow> m = n"
  by (metis bigint_of_show_int option.inject)

end
