(* ===== verification/Effects.thy ===== *)
theory Effects
  imports Prelude
begin

text \<open>
  Asynchronous handlers as resumptions.  An \<^verbatim>\<open>async\<close> method of the services is a program
  that does a finite number of atomic steps on the shared state: each \<^verbatim>\<open>await\<close> of a database
  query or of an RPC call is one step, and what runs between two awaits runs without
  interruption.  A program ends with a value or with a thrown exception.  The same definition of
  a handler has two readings: \<open>run\<close> executes it alone, \<open>pool_run\<close> interleaves the steps of any
  number of handlers in any order, as the event loop and several server instances do.
\<close>

section \<open>Programs\<close>

datatype (dead 's, 'e, 'a) prog =
    Ret 'a
  | Raise 'e
  | Step "'s \<Rightarrow> ('s, 'e, 'a) prog \<times> 's"

lemma prog_induct [case_names Ret Raise Step, induct type: prog]:
  fixes p :: "('s, 'e, 'a) prog"
  assumes "\<And>a. P (Ret a)" and "\<And>e. P (Raise e)"
    and "\<And>f. (\<And>s. P (fst (f s))) \<Longrightarrow> P (Step f)"
  shows "P p"
proof (rule prog.induct)
  fix f :: "'s \<Rightarrow> ('s, 'e, 'a) prog \<times> 's"
  assume "\<And>x y. x \<in> range f \<Longrightarrow> y \<in> Basic_BNFs.fsts x \<Longrightarrow> P y"
  then show "P (Step f)" by (metis assms(3) fsts.intros prod.collapse rangeI)
qed (fact assms)+

primrec bindP :: "('s, 'e, 'a) prog \<Rightarrow> ('a \<Rightarrow> ('s, 'e, 'b) prog) \<Rightarrow> ('s, 'e, 'b) prog" where
  "bindP (Ret a) k = k a"
| "bindP (Raise e) k = Raise e"
| "bindP (Step f) k = Step (map_prod (\<lambda>p. bindP p k) id \<circ> f)"

text \<open>\<^verbatim>\<open>try { p } catch (e) { h(e) }\<close>\<close>

primrec catchP :: "('s, 'e, 'a) prog \<Rightarrow> ('e \<Rightarrow> ('s, 'e, 'a) prog) \<Rightarrow> ('s, 'e, 'a) prog" where
  "catchP (Ret a) h = Ret a"
| "catchP (Raise e) h = h e"
| "catchP (Step f) h = Step (map_prod (\<lambda>p. catchP p h) id \<circ> f)"

text \<open>One awaited call: an atomic change of the state with a result or an exception.\<close>

definition await :: "('s \<Rightarrow> ('e + 'a) \<times> 's) \<Rightarrow> ('s, 'e, 'a) prog" where
  "await f = Step (\<lambda>s. (case fst (f s) of Inl e \<Rightarrow> Raise e | Inr a \<Rightarrow> Ret a, snd (f s)))"

text \<open>Reading what the process can see without waiting (the clock).\<close>

definition peek :: "('s \<Rightarrow> 'a) \<Rightarrow> ('s, 'e, 'a) prog" where
  "peek f = await (\<lambda>s. (Inr (f s), s))"

text \<open>A synchronous computation that may throw.\<close>

definition liftE :: "'e + 'a \<Rightarrow> ('s, 'e, 'a) prog" where
  "liftE r = (case r of Inl e \<Rightarrow> Raise e | Inr a \<Rightarrow> Ret a)"

definition attempt :: "('s, 'e, 'a) prog \<Rightarrow> ('s, 'e, 'e + 'a) prog" where
  "attempt p = catchP (bindP p (\<lambda>a. Ret (Inr a))) (\<lambda>e. Ret (Inl e))"

text \<open>A \<^verbatim>\<open>for ... of\<close> loop whose body awaits.\<close>

fun forP :: "'x list \<Rightarrow> ('x \<Rightarrow> ('s, 'e, 'a) prog) \<Rightarrow> ('s, 'e, 'a list) prog" where
  "forP [] body = Ret []"
| "forP (x # xs) body = bindP (body x) (\<lambda>a. bindP (forP xs body) (\<lambda>as. Ret (a # as)))"

text \<open>
  \<^verbatim>\<open>Promise.allSettled\<close> and \<^verbatim>\<open>Promise.all\<close>: all the calls are started and each runs to its end;
  \<^verbatim>\<open>all\<close> then throws the first rejection.  The schedule modelled runs them in list order.
\<close>

definition allSettled :: "('s, 'e, 'a) prog list \<Rightarrow> ('s, 'e, ('e + 'a) list) prog" where
  "allSettled ps = forP ps attempt"

fun collect :: "('e + 'a) list \<Rightarrow> 'e + 'a list" where
  "collect [] = Inr []"
| "collect (Inl e # rs) = Inl e"
| "collect (Inr a # rs) = (case collect rs of Inl e \<Rightarrow> Inl e | Inr as \<Rightarrow> Inr (a # as))"

definition allP :: "('s, 'e, 'a) prog list \<Rightarrow> ('s, 'e, 'a list) prog" where
  "allP ps = bindP (allSettled ps) (\<lambda>rs. liftE (collect rs))"

section \<open>Running one handler alone\<close>

primrec run :: "('s, 'e, 'a) prog \<Rightarrow> 's \<Rightarrow> ('e + 'a) \<times> 's" where
  "run (Ret a) s = (Inr a, s)"
| "run (Raise e) s = (Inl e, s)"
| "run (Step f) s = (case (map_prod run id \<circ> f) s of (r, s') \<Rightarrow> r s')"

lemma run_Step: "run (Step f) s = run (fst (f s)) (snd (f s))"
  by (simp add: case_prod_beta)

lemma run_bindP [run_simps]:
  "run (bindP m k) s =
     (case run m s of (r, s') \<Rightarrow> (case r of Inl e \<Rightarrow> (Inl e, s') | Inr a \<Rightarrow> run (k a) s'))"
  by (induction m arbitrary: s) (simp_all add: case_prod_beta)

lemma run_catchP [run_simps]:
  "run (catchP m h) s =
     (case run m s of (r, s') \<Rightarrow> (case r of Inl e \<Rightarrow> run (h e) s' | Inr a \<Rightarrow> (Inr a, s')))"
  by (induction m arbitrary: s) (simp_all add: case_prod_beta)

lemma run_await [run_simps]: "run (await f) s = f s"
  by (cases "f s"; cases "fst (f s)") (auto simp: await_def)

lemma run_peek [run_simps]: "run (peek f) s = (Inr (f s), s)"
  by (simp add: peek_def run_await)

lemma run_liftE [run_simps]: "run (liftE r) s = (r, s)"
  by (cases r) (simp_all add: liftE_def)

lemma run_attempt [run_simps]: "run (attempt p) s = (case run p s of (r, s') \<Rightarrow> (Inr r, s'))"
  by (auto simp: attempt_def run_catchP run_bindP split: prod.splits sum.splits)

lemmas run_basic [run_simps] = run.simps(1,2)

text \<open>Programs built by binding are a monad: sequencing is associative.\<close>

lemma bindP_assoc: "bindP (bindP m f) g = bindP m (\<lambda>a. bindP (f a) g)"
proof (induction m)
  case (Step h)
  have "map_prod (\<lambda>p. bindP p g) id (map_prod (\<lambda>p. bindP p f) id (h s)) =
        map_prod (\<lambda>p. bindP p (\<lambda>a. bindP (f a) g)) id (h s)" for s
    using Step [of s] by (cases "h s") simp
  then show ?case by (auto simp: comp_def)
qed simp_all

lemma bindP_Ret [simp]: "bindP m Ret = m"
proof (induction m)
  case (Step h)
  then have "map_prod (\<lambda>p. bindP p Ret) id (h s) = h s" for s
    by (cases "h s") (metis fst_conv id_apply map_prod_simp)
  then show ?case by (auto simp: comp_def)
qed simp_all

text \<open>
  \<open>preserves I p\<close>: every atomic step of the program, started in any state that satisfies
  \<open>I\<close>, ends in one that satisfies it, whatever other handlers did in between.
\<close>

primrec preserves :: "('s, 'e, 'a) prog \<Rightarrow> ('s \<Rightarrow> bool) \<Rightarrow> bool" where
  "preserves (Ret a) I = True"
| "preserves (Raise e) I = True"
| "preserves (Step f) I =
     (\<forall>s. I s \<longrightarrow> (case (map_prod preserves id \<circ> f) s of (r, s') \<Rightarrow> I s' \<and> r I))"

lemma preserves_Step [simp]:
  "preserves (Step f) I = (\<forall>s. I s \<longrightarrow> I (snd (f s)) \<and> preserves (fst (f s)) I)"
  by (auto simp: case_prod_beta)

declare preserves.simps(3) [simp del]

lemma preserves_bindP [intro!]:
  "preserves m I \<Longrightarrow> (\<And>a. preserves (k a) I) \<Longrightarrow> preserves (bindP m k) I"
  by (induction m) auto

lemma preserves_catchP [intro!]:
  "preserves m I \<Longrightarrow> (\<And>e. preserves (h e) I) \<Longrightarrow> preserves (catchP m h) I"
  by (induction m) auto

lemma preserves_await: "(\<And>s. I s \<Longrightarrow> I (snd (f s))) \<Longrightarrow> preserves (await f) I"
  by (auto simp: await_def split: sum.splits)

lemma preserves_peek [simp]: "preserves (peek f) I"
  by (simp add: peek_def preserves_await)

lemma preserves_liftE [simp]: "preserves (liftE r) I"
  by (cases r) (simp_all add: liftE_def)

lemma preserves_attempt [intro!]: "preserves p I \<Longrightarrow> preserves (attempt p) I"
  by (auto simp: attempt_def)

lemma preserves_forP [intro!]: "(\<And>x. x \<in> set xs \<Longrightarrow> preserves (body x) I) \<Longrightarrow> preserves (forP xs body) I"
  by (induction xs) auto

lemma preserves_allP [intro!]: "(\<And>p. p \<in> set ps \<Longrightarrow> preserves p I) \<Longrightarrow> preserves (allP ps) I"
  by (auto simp: allP_def allSettled_def)

lemma preserves_run: "preserves p I \<Longrightarrow> I s \<Longrightarrow> I (snd (run p s))"
  by (induction p arbitrary: s) (auto simp: case_prod_beta)

section \<open>Step-wise effects\<close>

text \<open>
  \<open>steps p R E\<close>: every atomic step the program can take, in any state, is in \<open>R\<close>, and every
  exception it can end with satisfies \<open>E\<close>.  Unlike \<open>preserves\<close> it relates the two ends of a step.
\<close>

primrec steps :: "('s, 'e, 'a) prog \<Rightarrow> ('s \<Rightarrow> 's \<Rightarrow> bool) \<Rightarrow> ('e \<Rightarrow> bool) \<Rightarrow> bool" where
  "steps (Ret a) R E = True"
| "steps (Raise e) R E = E e"
| "steps (Step f) R E = (\<forall>s. case (map_prod steps id \<circ> f) s of (r, s') \<Rightarrow> R s s' \<and> r R E)"

lemma steps_Step [simp]: "steps (Step f) R E = (\<forall>s. R s (snd (f s)) \<and> steps (fst (f s)) R E)"
  by (auto simp: case_prod_beta)

declare steps.simps(3) [simp del]

lemma steps_bindP [intro!]: "steps m R E \<Longrightarrow> (\<And>a. steps (k a) R E) \<Longrightarrow> steps (bindP m k) R E"
  by (induction m) auto

lemma steps_catchP:
  "steps m R E' \<Longrightarrow> (\<And>e. E' e \<Longrightarrow> steps (h e) R E) \<Longrightarrow> steps (catchP m h) R E"
  by (induction m) auto

lemma steps_await:
  "(\<And>s. R s (snd (f s))) \<Longrightarrow> (\<And>s e. fst (f s) = Inl e \<Longrightarrow> E e) \<Longrightarrow> steps (await f) R E"
  by (auto simp: await_def split: sum.splits)

lemma steps_liftE [intro]: "(\<And>e. r = Inl e \<Longrightarrow> E e) \<Longrightarrow> steps (liftE r) R E"
  by (cases r) (auto simp: liftE_def)

lemma steps_attempt: "steps p R E' \<Longrightarrow> steps (attempt p) R E"
  unfolding attempt_def by (rule steps_catchP [of _ _ E']) auto

lemma steps_forP [intro!]: "(\<And>x. x \<in> set xs \<Longrightarrow> steps (body x) R E) \<Longrightarrow> steps (forP xs body) R E"
  by (induction xs) auto

lemma steps_mono:
  "steps p R E \<Longrightarrow> (\<And>s s'. R s s' \<Longrightarrow> R' s s') \<Longrightarrow> (\<And>e. E e \<Longrightarrow> E' e) \<Longrightarrow> steps p R' E'"
  by (induction p) auto

lemma steps_allSettled: "(\<And>p. p \<in> set ps \<Longrightarrow> steps p R E') \<Longrightarrow> steps (allSettled ps) R E"
  by (auto simp: allSettled_def intro: steps_attempt)

lemma steps_preserves: "steps p R E \<Longrightarrow> (\<And>s s'. R s s' \<Longrightarrow> I s \<Longrightarrow> I s') \<Longrightarrow> preserves p I"
  by (induction p) auto

section \<open>Outcomes\<close>

text \<open>
  \<open>ends p s Q E\<close>: the handler, run alone from \<open>s\<close>, returns a value and a state that satisfy
  \<open>Q\<close>, or throws an exception and leaves a state that satisfy \<open>E\<close>.  Every handler ends, so this
  says what it does and not only what holds if it returns.
\<close>

definition ends ::
  "('s, 'e, 'a) prog \<Rightarrow> 's \<Rightarrow> ('a \<Rightarrow> 's \<Rightarrow> bool) \<Rightarrow> ('e \<Rightarrow> 's \<Rightarrow> bool) \<Rightarrow> bool" where
  "ends p s Q E = (case fst (run p s) of Inl e \<Rightarrow> E e (snd (run p s)) | Inr a \<Rightarrow> Q a (snd (run p s)))"

lemma ends_bindP [ends_simps]: "ends (bindP m k) s Q E = ends m s (\<lambda>a s'. ends (k a) s' Q E) E"
  by (simp add: ends_def run_bindP split: prod.splits sum.splits)

lemma ends_catchP [ends_simps]: "ends (catchP m h) s Q E = ends m s Q (\<lambda>e s'. ends (h e) s' Q E)"
  by (simp add: ends_def run_catchP split: prod.splits sum.splits)

lemma ends_basic [ends_simps]: "ends (Ret a) s Q E = Q a s" "ends (Raise e) s Q E = E e s"
  by (simp_all add: ends_def)

lemma ends_await [ends_simps]:
  "ends (await f) s Q E = (case fst (f s) of Inl e \<Rightarrow> E e (snd (f s)) | Inr a \<Rightarrow> Q a (snd (f s)))"
  by (simp add: ends_def run_await split: sum.split)

lemma ends_peek [ends_simps]: "ends (peek f) s Q E = Q (f s) s"
  by (simp add: ends_def run_peek)

lemma ends_liftE [ends_simps]: "ends (liftE r) s Q E = (case r of Inl e \<Rightarrow> E e s | Inr a \<Rightarrow> Q a s)"
  by (simp add: ends_def run_liftE split: sum.split)

lemma ends_mono:
  "ends p s Q E \<Longrightarrow> (\<And>a s'. Q a s' \<Longrightarrow> Q' a s') \<Longrightarrow> (\<And>e s'. E e s' \<Longrightarrow> E' e s') \<Longrightarrow> ends p s Q' E'"
  by (auto simp: ends_def split: sum.splits)

lemma ends_conj:
  "ends p s Q E \<Longrightarrow> ends p s Q' E' \<Longrightarrow> ends p s (\<lambda>a s. Q a s \<and> Q' a s) (\<lambda>e s. E e s \<and> E' e s)"
  by (auto simp: ends_def split: sum.splits)

lemma ends_returns: "ends p s Q (\<lambda>_ _. False) \<Longrightarrow> \<exists>a s'. run p s = (Inr a, s') \<and> Q a s'"
  by (cases "run p s") (auto simp: ends_def split: sum.splits)

lemma ends_True [simp]: "ends p s (\<lambda>_ _. True) (\<lambda>_ _. True)"
  by (simp add: ends_def split: sum.split)

lemma ends_bind:
  assumes "ends m s Q' E'" and "\<And>a s'. Q' a s' \<Longrightarrow> ends (k a) s' Q E" and "\<And>e s'. E' e s' \<Longrightarrow> E e s'"
  shows "ends (bindP m k) s Q E"
  unfolding ends_bindP using assms by (rule ends_mono)

lemma ends_liftE_bind:
  "(\<And>a. r = Inr a \<Longrightarrow> ends (k a) s Q E) \<Longrightarrow> (\<And>e. r = Inl e \<Longrightarrow> E e s) \<Longrightarrow> ends (bindP (liftE r) k) s Q E"
  by (auto simp: ends_bindP ends_liftE split: sum.splits)

text \<open>A relation every step respects, if it is a preorder, relates the two ends of the run.\<close>

lemma steps_ends:
  assumes "steps p R E" and "\<And>s. R s s" and "\<And>a b c. R a b \<Longrightarrow> R b c \<Longrightarrow> R a c"
  shows "ends p s (\<lambda>_. R s) (\<lambda>e s'. R s s' \<and> E e)"
  using assms(1)
proof (induction p arbitrary: s)
  case (Step f)
  then have "R s (snd (f s))" and "ends (fst (f s)) (snd (f s)) (\<lambda>_. R (snd (f s))) (\<lambda>e s'. R (snd (f s)) s' \<and> E e)"
    by auto
  then show ?case
    unfolding ends_def run_Step by (auto intro: assms(3) split: sum.splits)
qed (simp_all add: ends_basic assms(2))

text \<open>A loop that keeps \<open>I\<close> on every outcome of its body.\<close>

lemma ends_forP:
  assumes "\<And>x s. x \<in> set xs \<Longrightarrow> I s \<Longrightarrow> ends (body x) s (\<lambda>_. I) (\<lambda>_. E)" and "I s"
  shows "ends (forP xs body) s (\<lambda>as s'. I s' \<and> length as = length xs) (\<lambda>_. E)"
  using assms
proof (induction xs arbitrary: s)
  case (Cons x xs)
  then show ?case
    by (auto simp: ends_simps intro!: ends_mono [OF Cons.prems(1)] ends_mono [OF Cons.IH])
qed (simp add: ends_simps)

section \<open>Interleaving\<close>

text \<open>
  A pool is the list of the handlers in flight.  One event lets one handler do one step; the
  trace records which handler stepped, and the state before and after.  A handler that is never
  chosen again has crashed or waits.
\<close>

type_synonym ('s, 'e, 'a) pool = "('s, 'e, 'a) prog list"

inductive pool_run ::
  "('s, 'e, 'a) pool \<Rightarrow> 's \<Rightarrow> (nat \<times> 's \<times> 's) list \<Rightarrow> ('s, 'e, 'a) pool \<Rightarrow> 's \<Rightarrow> bool" where
  pool_done: "pool_run ps s [] ps s"
| pool_next: "i < length ps \<Longrightarrow> ps ! i = Step f \<Longrightarrow> f s = (p, s') \<Longrightarrow>
     pool_run (ps[i := p]) s' tr ps'' s'' \<Longrightarrow> pool_run ps s ((i, s, s') # tr) ps'' s''"

inductive_cases pool_run_ConsE: "pool_run ps s (x # tr) ps' s'"
inductive_cases pool_run_NilE: "pool_run ps s [] ps' s'"

definition finished :: "'e + 'a \<Rightarrow> ('s, 'e, 'a) prog" where
  "finished r = (case r of Inl e \<Rightarrow> Raise e | Inr a \<Rightarrow> Ret a)"

lemma finished_simps [simp]: "finished (Inl e) = Raise e" "finished (Inr a) = Ret a"
  by (simp_all add: finished_def)

text \<open>The pool semantics extends \<open>run\<close>: a handler chosen until it ends does exactly what \<open>run\<close> says.\<close>

lemma run_in_pool:
  "k < length ps \<Longrightarrow> ps ! k = p \<Longrightarrow>
   \<exists>tr. pool_run ps s tr (ps[k := finished (fst (run p s))]) (snd (run p s))"
proof (induction p arbitrary: s ps)
  case (Ret a)
  then have "ps[k := Ret a] = ps" by (simp add: list_update_same_conv)
  then show ?case by (auto intro: pool_done)
next
  case (Raise e)
  then have "ps[k := Raise e] = ps" by (simp add: list_update_same_conv)
  then show ?case by (auto intro: pool_done)
next
  case (Step f)
  obtain q s' where f: "f s = (q, s')" by fastforce
  with Step.IH [where ps = "ps[k := q]" and s = s and sa = s'] Step.prems obtain tr where
    "pool_run (ps[k := q]) s' tr (ps[k := finished (fst (run q s'))]) (snd (run q s'))"
    by auto
  then have "pool_run ps s ((k, s, s') # tr) (ps[k := finished (fst (run q s'))]) (snd (run q s'))"
    using f Step.prems by (auto intro: pool_next)
  with f show ?case by (auto simp: case_prod_beta)
qed

lemma pool_run_trans:
  "pool_run ps s tr ps' s' \<Longrightarrow> pool_run ps' s' tr' ps'' s'' \<Longrightarrow> pool_run ps s (tr @ tr') ps'' s''"
  by (induction rule: pool_run.induct) (auto intro: pool_next)

lemma pool_preserves:
  "pool_run ps s tr ps' s' \<Longrightarrow> \<forall>p\<in>set ps. preserves p I \<Longrightarrow> I s \<Longrightarrow> I s'"
proof (induction rule: pool_run.induct)
  case (pool_next i ps f s p s' tr ps'' s'')
  then have "preserves (Step f) I" by (metis nth_mem)
  with pool_next have "I s'" and "preserves p I" by (metis fst_conv preserves_Step snd_conv)+
  moreover have "\<forall>q\<in>set (ps[i := p]). preserves q I"
    using \<open>preserves p I\<close> pool_next.prems(1) by (auto dest: set_update_subset_insert [THEN subsetD])
  ultimately show ?case using pool_next.IH by blast
qed

section \<open>Ownership protocols\<close>

text \<open>
  To show that handlers do not get in each other's way, each is followed by a ghost state
  \<open>l\<close> (what it owns).  \<open>follows ag act p Q E l\<close>: from ghost state \<open>l\<close>, every step the program
  takes in a state that agrees with \<open>l\<close> is a permitted action \<open>act\<close> to a new ghost state, and
  the program ends in a ghost state that satisfies \<open>Q\<close> (or \<open>E\<close> if it throws).
\<close>

primrec follows ::
  "('s, 'e, 'a) prog \<Rightarrow> ('l \<Rightarrow> 's \<Rightarrow> bool) \<Rightarrow> ('l \<Rightarrow> 's \<Rightarrow> 'l \<Rightarrow> 's \<Rightarrow> bool) \<Rightarrow>
   ('a \<Rightarrow> 'l \<Rightarrow> bool) \<Rightarrow> ('e \<Rightarrow> 'l \<Rightarrow> bool) \<Rightarrow> 'l \<Rightarrow> bool" where
  "follows (Ret a) ag act Q E l = Q a l"
| "follows (Raise e) ag act Q E l = E e l"
| "follows (Step f) ag act Q E l =
     (\<forall>s. ag l s \<longrightarrow> (case (map_prod follows id \<circ> f) s of
        (r, s') \<Rightarrow> \<exists>l'. act l s l' s' \<and> r ag act Q E l'))"

lemma follows_Step [simp]:
  "follows (Step f) ag act Q E l =
     (\<forall>s. ag l s \<longrightarrow> (\<exists>l'. act l s l' (snd (f s)) \<and> follows (fst (f s)) ag act Q E l'))"
  by (auto simp: case_prod_beta)

declare follows.simps(3) [simp del]

lemma follows_bindP:
  "follows m ag act (\<lambda>a. follows (k a) ag act Q E) E l \<Longrightarrow> follows (bindP m k) ag act Q E l"
proof (induction m arbitrary: l)
  case (Step f)
  then show ?case by simp metis
qed simp_all

lemma follows_catchP:
  "follows m ag act Q (\<lambda>e. follows (h e) ag act Q E) l \<Longrightarrow> follows (catchP m h) ag act Q E l"
proof (induction m arbitrary: l)
  case (Step f)
  then show ?case by simp metis
qed simp_all

lemma follows_mono:
  "follows m ag act Q E l \<Longrightarrow> (\<And>a l. Q a l \<Longrightarrow> Q' a l) \<Longrightarrow> (\<And>e l. E e l \<Longrightarrow> E' e l) \<Longrightarrow>
   follows m ag act Q' E' l"
proof (induction m arbitrary: l)
  case (Step f)
  then show ?case by simp metis
qed simp_all

lemma follows_await:
  assumes "\<And>s. ag l s \<Longrightarrow> \<exists>l'. act l s l' (snd (f s)) \<and>
             (case fst (f s) of Inl e \<Rightarrow> E e l' | Inr a \<Rightarrow> Q a l')"
  shows "follows (await f) ag act Q E l"
  using assms by (fastforce simp: await_def split: sum.splits)

lemma follows_liftE: "(case r of Inl e \<Rightarrow> E e l | Inr a \<Rightarrow> Q a l) \<Longrightarrow> follows (liftE r) ag act Q E l"
  by (cases r) (simp_all add: liftE_def)

text \<open>A program whose steps are all harmless for a ghost state leaves that state as it is.\<close>

lemma follows_steps:
  "steps p R E \<Longrightarrow> (\<And>s s'. R s s' \<Longrightarrow> ag l s \<Longrightarrow> act l s l s') \<Longrightarrow>
   follows p ag act (\<lambda>_ l'. l' = l) (\<lambda>e l'. l' = l \<and> E e) l"
  by (induction p) (auto intro!: exI [of _ l])

lemma follows_Ret_eta [simp]: "follows (Ret a) ag act Q E = Q a"
  by (rule ext) simp

lemma follows_attempt:
  assumes "follows p ag act (\<lambda>a. Q (Inr a)) (\<lambda>e. Q (Inl e)) l"
  shows "follows (attempt p) ag act Q E l"
  unfolding attempt_def by (rule follows_catchP, rule follows_bindP) (simp add: assms)

text \<open>
  Loops: \<open>I xs\<close> holds of the ghost state when the calls for \<open>xs\<close> remain, and \<open>P x a\<close> of the
  result \<open>a\<close> of the call for \<open>x\<close>.
\<close>

lemma follows_forP:
  assumes "\<And>x xs l. I (x # xs) l \<Longrightarrow> follows (body x) ag act (\<lambda>a l. I xs l \<and> P x a) E l" and "I xs l"
  shows "follows (forP xs body) ag act (\<lambda>as l. I [] l \<and> list_all2 P xs as) E l"
  using assms(2)
proof (induction xs arbitrary: l)
  case (Cons x xs)
  have rest: "follows (bindP (forP xs body) (\<lambda>as. Ret (a # as))) ag act
          (\<lambda>as l. I [] l \<and> list_all2 P (x # xs) as) E l'" if "I xs l' \<and> P x a" for a l'
    using Cons.IH [of l'] that by (intro follows_bindP) (auto elim!: follows_mono)
  show ?case
    unfolding forP.simps
    by (rule follows_bindP, rule follows_mono [OF assms(1) [OF Cons.prems]]) (auto intro: rest)
qed simp

lemma collect_InlD: "collect rs = Inl e \<Longrightarrow> Inl e \<in> set rs"
  by (induction rs rule: collect.induct) (auto split: sum.splits)

lemma collect_InrD: "collect rs = Inr as \<Longrightarrow> rs = map Inr as"
  by (induction rs arbitrary: as rule: collect.induct) (auto split: sum.splits)

text \<open>\<^verbatim>\<open>Promise.all\<close>: every call runs; the first rejection is thrown at the end.\<close>

lemma follows_allP:
  assumes "\<And>x xs l. I (x # xs) l \<Longrightarrow>
      follows (g x) ag act (\<lambda>a l. I xs l \<and> P x a) (\<lambda>e l. I xs l \<and> X e) l"
    and "I xs l"
  shows "follows (allP (map g xs)) ag act (\<lambda>as l. I [] l \<and> list_all2 P xs as) (\<lambda>e l. I [] l \<and> X e) l"
proof -
  define P' where "P' x r = (case r of Inl e \<Rightarrow> X e | Inr a \<Rightarrow> P x a)" for x r
  have forP_map: "forP (map g ys) attempt = forP ys (\<lambda>x. attempt (g x))" for ys
    by (induction ys) auto
  have "follows (forP xs (\<lambda>x. attempt (g x))) ag act (\<lambda>rs l. I [] l \<and> list_all2 P' xs rs)
          (\<lambda>_ _. False) l"
    by (rule follows_forP [where I = I, OF _ assms(2)], rule follows_attempt)
       (auto simp: P'_def intro: assms(1))
  moreover have "case collect rs of Inl e \<Rightarrow> X e | Inr as \<Rightarrow> list_all2 P xs as" if "list_all2 P' xs rs" for rs
  proof (cases "collect rs")
    case (Inl e)
    then have "Inl e \<in> set rs" by (rule collect_InlD)
    with that have "\<exists>x. P' x (Inl e)" by (metis in_set_conv_nth list_all2_conv_all_nth)
    with Inl show ?thesis by (auto simp: P'_def)
  next
    case (Inr as)
    with that show ?thesis by (auto dest!: collect_InrD simp: P'_def list_all2_conv_all_nth)
  qed
  ultimately show ?thesis
    unfolding allP_def allSettled_def forP_map
    by (intro follows_bindP) (fastforce elim!: follows_mono intro!: follows_liftE split: sum.splits)
qed

text \<open>
  The interface between a protocol and the pool: a global invariant \<open>J n ls s\<close> over the ghost
  states of all handlers, the shared state and the cost \<open>n\<close> accumulated so far, which gives
  each handler what it relies on and which every permitted action maintains.
\<close>

locale protocol =
  fixes agree :: "'l \<Rightarrow> 's \<Rightarrow> bool"
    and act :: "'l \<Rightarrow> 's \<Rightarrow> 'l \<Rightarrow> 's \<Rightarrow> bool"
    and cost :: "nat \<Rightarrow> 's \<Rightarrow> 's \<Rightarrow> nat"
    and J :: "nat \<Rightarrow> 'l list \<Rightarrow> 's \<Rightarrow> bool"
  assumes J_agree: "J n ls s \<Longrightarrow> i < length ls \<Longrightarrow> agree (ls ! i) s"
    and J_act: "J n ls s \<Longrightarrow> i < length ls \<Longrightarrow> agree (ls ! i) s \<Longrightarrow> act (ls ! i) s l' s' \<Longrightarrow>
       J (n + cost i s s') (ls[i := l']) s'"
begin

definition total_cost :: "(nat \<times> 's \<times> 's) list \<Rightarrow> nat" where
  "total_cost tr = sum_list (map (\<lambda>(i, s, s'). cost i s s') tr)"

definition disciplined :: "('s, 'e, 'a) pool \<Rightarrow> 'l list \<Rightarrow> bool" where
  "disciplined ps ls \<longleftrightarrow> length ps = length ls \<and>
     (\<forall>i<length ps. follows (ps ! i) agree act (\<lambda>_ _. True) (\<lambda>_ _. True) (ls ! i))"

lemma pool_keeps_protocol:
  "pool_run ps s tr ps' s' \<Longrightarrow> disciplined ps ls \<Longrightarrow> J n ls s \<Longrightarrow>
   \<exists>ls'. disciplined ps' ls' \<and> J (n + total_cost tr) ls' s'"
proof (induction arbitrary: ls n rule: pool_run.induct)
  case (pool_done ps s)
  then show ?case by (auto simp: total_cost_def)
next
  case (pool_next i ps f s p s' tr ps'' s'')
  then have i: "i < length ls" and "follows (Step f) agree act (\<lambda>_ _. True) (\<lambda>_ _. True) (ls ! i)"
    by (auto simp: disciplined_def)
  moreover have ag: "agree (ls ! i) s" using pool_next.prems(2) i by (rule J_agree)
  ultimately obtain l' where l': "act (ls ! i) s l' s'"
    and "follows p agree act (\<lambda>_ _. True) (\<lambda>_ _. True) l'"
    using \<open>f s = (p, s')\<close> by fastforce
  then have "disciplined (ps[i := p]) (ls[i := l'])"
    using pool_next.prems(1) i by (auto simp: disciplined_def nth_list_update)
  moreover have "J (n + cost i s s') (ls[i := l']) s'"
    using pool_next.prems(2) i ag l' by (rule J_act)
  ultimately show ?case using pool_next.IH by (fastforce simp: total_cost_def add.assoc)
qed

end

end
