(* ===== verification/Types.thy ===== *)
theory Types
  imports Effects
begin

text \<open>
  The data model: the enumerations and object types of the \<^verbatim>\<open>*.types.ts\<close> files, the exceptions
  the services throw, JSON values, and the transactions and RPC results of the blockchain
  client.  Field names carry the prefix of their type, because record fields are global here.
  Time stamps, ISO-8601 texts in the code, are milliseconds since the epoch; a nullable field is
  an option; a \<^verbatim>\<open>bigint\<close> the code stores as decimal text stays text.
\<close>

section \<open>JSON\<close>

text \<open>
  Numbers split into integers and the rest; a non-integral number is held as the decimal text
  \<^verbatim>\<open>String(n)\<close> gives it.
\<close>

datatype json =
    JNull
  | JBool bool
  | JInt int
  | JFrac string
  | JStr string
  | JArr "json list"
  | JObj "(string \<times> json) list"

type_synonym jobject = "(string \<times> json) list"

definition jopt :: "string option \<Rightarrow> json" where
  "jopt v = (case v of None \<Rightarrow> JNull | Some s \<Rightarrow> JStr s)"

text \<open>
  \<^verbatim>\<open>Date.prototype.toISOString\<close>: the proleptic Gregorian date of a number of days since the epoch
  (the year of days counted from the first of March), and the four- or six-digit year.
\<close>

definition civil :: "int \<Rightarrow> int \<times> int \<times> int" where
  "civil days =
     (let z = days + 719468; era = z div 146097; doe = z mod 146097;
          yoe = (doe - doe div 1460 + doe div 36524 - doe div 146096) div 365;
          doy = doe - (365 * yoe + yoe div 4 - yoe div 100);
          mp = (5 * doy + 2) div 153;
          month = (if mp < 10 then mp + 3 else mp - 9)
      in (yoe + era * 400 + (if month \<le> 2 then 1 else 0), month, doy - (153 * mp + 2) div 5 + 1))"

definition padded :: "nat \<Rightarrow> int \<Rightarrow> string" where
  "padded width n = (let s = show_int n in replicate (width - length s) (CHR ''0'') @ s)"

definition year_text :: "int \<Rightarrow> string" where
  "year_text y = (if 0 \<le> y \<and> y \<le> 9999 then padded 4 y
     else if y < 0 then CHR ''-'' # padded 6 (- y) else CHR ''+'' # padded 6 y)"

definition toISOString :: "timestamp \<Rightarrow> string" where
  "toISOString t =
     (let (y, m, d) = civil (t div 86400000); ms = t mod 86400000 in
      year_text y @ ''-'' @ padded 2 m @ ''-'' @ padded 2 d @ ''T'' @ padded 2 (ms div 3600000) @ '':'' @
      padded 2 (ms div 60000 mod 60) @ '':'' @ padded 2 (ms div 1000 mod 60) @ ''.'' @ padded 3 (ms mod 1000) @ ''Z'')"

definition jdate :: "timestamp \<Rightarrow> json" where
  "jdate t = JStr (toISOString t)"

definition jtime :: "timestamp option \<Rightarrow> json" where
  "jtime v = (case v of None \<Rightarrow> JNull | Some t \<Rightarrow> jdate t)"

section \<open>Configuration types\<close>

datatype SettlementNetwork = AvalancheFuji | AvalancheMainnet

datatype SettlementAsset = USDC | USDT

record AssetRuntimeConfig =
  ac_symbol :: SettlementAsset
  ac_address :: "string option"
  ac_decimals :: int
  ac_maxPayoutAmount :: "string option"
  ac_configured :: bool

record NetworkSummary =
  ns_key :: SettlementNetwork
  ns_chainId :: int
  ns_name :: string
  ns_nativeTokenSymbol :: string
  ns_explorerBaseUrl :: string
  ns_rpcUrl :: string

definition asset_text :: "SettlementAsset \<Rightarrow> string" where
  "asset_text a = (case a of USDC \<Rightarrow> ''USDC'' | USDT \<Rightarrow> ''USDT'')"

definition network_text :: "SettlementNetwork \<Rightarrow> string" where
  "network_text n = (case n of AvalancheFuji \<Rightarrow> ''avalanche-fuji'' | AvalancheMainnet \<Rightarrow> ''avalanche-mainnet'')"

section \<open>Requests and audit events\<close>

record RequestContext =
  rc_clientId :: "string option"
  rc_clientName :: "string option"
  rc_correlationId :: "string option"
  rc_idempotencyKey :: "string option"
  rc_actor :: "string option"
  rc_sourceIp :: "string option"

datatype AuditEventType =
    PAYOUT_PREPARED | PAYOUT_IDEMPOTENT_REPLAY | PAYOUT_AUTHORIZED | PAYOUT_BROADCASTED
  | PAYOUT_CONFIRMED | PAYOUT_FAILED | PAYOUT_RECONCILED
  | PAYIN_CREATED | PAYIN_RECONCILED | PAYIN_SWEPT | PAYIN_SWEEP_FAILED | PAYIN_ACCEPTED
  | PAYIN_TOPUP | PRIVATE_SETTLEMENT_RECORDED | PRIVATE_SETTLEMENT_REVEALED

record AuditActor =
  aa_clientId :: "string option"
  aa_actor :: "string option"
  aa_correlationId :: "string option"
  aa_sourceIp :: "string option"

record AuditEvent =
  ae_id :: string
  ae_clientId :: "string option"
  ae_type :: AuditEventType
  ae_subjectId :: string
  ae_actor :: AuditActor
  ae_payload :: jobject
  ae_createdAt :: timestamp

text \<open>The three fields of an event that responses show.\<close>

record TrailItem =
  ti_type :: AuditEventType
  ti_createdAt :: timestamp
  ti_correlationId :: "string option"

section \<open>Payouts\<close>

datatype PayoutStatus = Prepared | Authorized | Broadcasted | Confirmed | Failed

definition payout_status_text :: "PayoutStatus \<Rightarrow> string" where
  "payout_status_text s = (case s of Prepared \<Rightarrow> ''prepared'' | Authorized \<Rightarrow> ''authorized''
     | Broadcasted \<Rightarrow> ''broadcasted'' | Confirmed \<Rightarrow> ''confirmed'' | Failed \<Rightarrow> ''failed'')"

record PayoutRecord =
  po_id :: string
  po_clientId :: "string option"
  po_externalId :: string
  po_chainFlowRequestId :: "string option"
  po_status :: PayoutStatus
  po_network :: SettlementNetwork
  po_chainId :: int
  po_asset :: SettlementAsset
  po_tokenAddress :: "string option"
  po_amount :: string
  po_amountAtomic :: string
  po_beneficiaryAddress :: string
  po_beneficiaryName :: "string option"
  po_treasuryAddress :: "string option"
  po_transactionHash :: "string option"
  po_failureReason :: "string option"
  po_memo :: "string option"
  po_metadata :: jobject
  po_createdAt :: timestamp
  po_updatedAt :: timestamp
  po_authorizedAt :: "timestamp option"
  po_broadcastedAt :: "timestamp option"
  po_confirmedAt :: "timestamp option"

record PayoutResponse =
  por_record :: PayoutRecord
  por_idempotentReplay :: bool
  por_auditTrail :: "TrailItem list"

section \<open>Pay-ins\<close>

datatype PayInStatus = PiPending | PiDetected | PiConfirmed | PiExpired | PiUnderpaid | PiOverpaid

datatype PayInCollectionMode = DerivedAddress | PaymentRouter

datatype PayInSweepStatus = SwNotRequired | SwPending | SwBroadcasted | SwConfirmed | SwFailed

definition payin_status_text :: "PayInStatus \<Rightarrow> string" where
  "payin_status_text s = (case s of PiPending \<Rightarrow> ''pending'' | PiDetected \<Rightarrow> ''detected''
     | PiConfirmed \<Rightarrow> ''confirmed'' | PiExpired \<Rightarrow> ''expired'' | PiUnderpaid \<Rightarrow> ''underpaid''
     | PiOverpaid \<Rightarrow> ''overpaid'')"

definition sweep_status_text :: "PayInSweepStatus \<Rightarrow> string" where
  "sweep_status_text s = (case s of SwNotRequired \<Rightarrow> ''not_required'' | SwPending \<Rightarrow> ''pending''
     | SwBroadcasted \<Rightarrow> ''broadcasted'' | SwConfirmed \<Rightarrow> ''confirmed'' | SwFailed \<Rightarrow> ''failed'')"

definition mode_text :: "PayInCollectionMode \<Rightarrow> string" where
  "mode_text m = (case m of DerivedAddress \<Rightarrow> ''derived-address'' | PaymentRouter \<Rightarrow> ''payment-router'')"

record PayInTransferRecord =
  tr_hash :: string
  tr_logIndex :: "string option"
  tr_from :: string
  tr_to :: string
  tr_amount :: string
  tr_amountAtomic :: string
  tr_blockNumber :: string

record PayInRecord =
  pi_id :: string
  pi_clientId :: "string option"
  pi_externalId :: string
  pi_chainFlowRequestId :: "string option"
  pi_status :: PayInStatus
  pi_network :: SettlementNetwork
  pi_chainId :: int
  pi_asset :: SettlementAsset
  pi_tokenAddress :: "string option"
  pi_expectedAmount :: string
  pi_expectedAmountAtomic :: string
  pi_receivedAmount :: string
  pi_receivedAmountAtomic :: string
  pi_depositAddress :: string
  pi_derivationIndex :: int
  pi_collectionMode :: PayInCollectionMode
  pi_routerAddress :: "string option"
  pi_routerInvoiceId :: "string option"
  pi_startBlock :: string
  pi_lastScannedBlock :: "string option"
  pi_expiresAt :: "timestamp option"
  pi_metadata :: jobject
  pi_transfers :: "PayInTransferRecord list"
  pi_sweepStatus :: PayInSweepStatus
  pi_sweepTransactionHash :: "string option"
  pi_sweptAmount :: string
  pi_sweptAmountAtomic :: string
  pi_sweptAt :: "timestamp option"
  pi_sweepFailureReason :: "string option"
  pi_createdAt :: timestamp
  pi_updatedAt :: timestamp
  pi_detectedAt :: "timestamp option"
  pi_confirmedAt :: "timestamp option"
  pi_acceptedAt :: "timestamp option"
  pi_acceptanceNote :: "string option"

record PayInResponse =
  pir_record :: PayInRecord
  pir_idempotentReplay :: bool
  pir_auditTrail :: "TrailItem list"

section \<open>Private settlements\<close>

datatype PrivateSettlementStatus = StRecorded | StRevealed

record PrivateSettlementRecord =
  ps_id :: string
  ps_clientId :: "string option"
  ps_externalId :: string
  ps_settlementId :: string
  ps_settlementRef :: string
  ps_commitment :: string
  ps_asset :: SettlementAsset
  ps_tokenAddress :: string
  ps_amount :: string
  ps_amountAtomic :: string
  ps_counterparty :: string
  ps_nonce :: string
  ps_status :: PrivateSettlementStatus
  ps_transactionHash :: "string option"
  ps_revealTransactionHash :: "string option"
  ps_metadata :: jobject
  ps_createdAt :: timestamp
  ps_updatedAt :: timestamp

section \<open>Clients\<close>

datatype ClientStatus = ClActive | ClDisabled

record ClientRecord =
  cl_id :: string
  cl_name :: string
  cl_status :: ClientStatus
  cl_apiKeyPrefix :: string
  cl_webhookUrl :: "string option"
  cl_webhookSecret :: "string option"
  cl_metadata :: jobject
  cl_createdAt :: timestamp
  cl_updatedAt :: timestamp

text \<open>A row of the clients table also holds the key hash, which no query returns.\<close>

record ClientRow =
  cr_client :: ClientRecord
  cr_apiKeyHash :: string

section \<open>Webhook outbox and delivery log\<close>

datatype OutboxStatus = ObPending | ObDelivering | ObDelivered | ObFailed | ObSkipped

record OutboxEntry =
  ob_id :: string
  ob_clientId :: string
  ob_event :: string
  ob_payload :: jobject
  ob_status :: OutboxStatus
  ob_attempts :: nat
  ob_nextAttemptAt :: timestamp
  ob_lastError :: "string option"
  ob_createdAt :: timestamp
  ob_updatedAt :: timestamp

record WebhookDelivery =
  wd_id :: string
  wd_clientId :: string
  wd_event :: string
  wd_url :: string
  wd_payload :: jobject
  wd_success :: bool
  wd_attempts :: nat
  wd_lastError :: "string option"
  wd_deliveredAt :: "timestamp option"
  wd_createdAt :: timestamp

section \<open>Blockchain client\<close>

datatype ExecStatus = ExBroadcasted | ExConfirmed

record TransferExecution =
  te_hash :: string
  te_status :: ExecStatus
  te_blockNumber :: "string option"

record SweepExecution =
  se_exec :: TransferExecution
  se_from :: string
  se_to :: string
  se_asset :: SettlementAsset
  se_amountAtomic :: string
  se_amount :: string

datatype ReconStatus = RcPending | RcSuccess | RcReverted

record TransactionReconciliation =
  rn_hash :: string
  rn_network :: SettlementNetwork
  rn_status :: ReconStatus
  rn_blockNumber :: "string option"
  rn_confirmations :: int
  rn_finalized :: bool

record TreasuryBalance =
  tb_asset :: SettlementAsset
  tb_tokenAddress :: string
  tb_decimals :: int
  tb_balanceAtomic :: string
  tb_balance :: string

record NativeTreasuryBalance =
  nb_balanceAtomic :: string
  nb_balance :: string

text \<open>What the RPC client returns: receipts and decoded event logs, whose fields may be missing.\<close>

record Receipt =
  rcpt_success :: bool
  rcpt_blockNumber :: int

record TransferLog =
  tl_transactionHash :: "string option"
  tl_blockNumber :: "int option"
  tl_logIndex :: "int option"
  tl_from :: "string option"
  tl_to :: "string option"
  tl_value :: "int option"

record InvoiceLog =
  il_transactionHash :: "string option"
  il_blockNumber :: "int option"
  il_logIndex :: "int option"
  il_invoiceId :: "string option"
  il_payer :: "string option"
  il_token :: "string option"
  il_amount :: "int option"
  il_treasury :: "string option"

record PaymentRouterInvoicePayment =
  ip_transfer :: PayInTransferRecord
  ip_invoiceId :: string
  ip_payer :: string
  ip_token :: string
  ip_treasury :: string

text \<open>A transaction handed to a wallet client: the signing account and the call.\<close>

datatype Tx =
    Erc20Transfer string string string int
      \<comment> \<open>signer, token, to, amount\<close>
  | VaultPayout string string string string string int string
      \<comment> \<open>signer, vault, payoutRef, token, to, amount, metadata\<close>
  | VaultPayoutBatch string string string string "string list" "int list" string
      \<comment> \<open>signer, vault, batchRef, token, recipients, amounts, metadata\<close>
  | RecordSettlement string string string string string
      \<comment> \<open>signer, registry, settlementRef, commitment, publicMetadata\<close>
  | RevealForAudit string string string int string string string
      \<comment> \<open>signer, registry, settlementId, amount, asset, counterparty, nonce\<close>
  | NativeTransfer string string int
      \<comment> \<open>signer, to, value\<close>

datatype AbiValue = AbiBytes32 string | AbiAddress string | AbiUint256 int

section \<open>Exceptions\<close>

datatype exn =
    BadRequest string
  | Conflict string
  | NotFound string
  | ServiceUnavailable string
  | Forbidden string
  | Unauthorized string
  | BadGatewayPayout string PayoutResponse
  | BadGatewayBatch string string
  | JsError string

text \<open>\<^verbatim>\<open>error.message\<close>\<close>

definition exn_message :: "exn \<Rightarrow> string" where
  "exn_message e = (case e of BadRequest m \<Rightarrow> m | Conflict m \<Rightarrow> m | NotFound m \<Rightarrow> m
     | ServiceUnavailable m \<Rightarrow> m | Forbidden m \<Rightarrow> m | Unauthorized m \<Rightarrow> m
     | BadGatewayPayout m _ \<Rightarrow> m | BadGatewayBatch m _ \<Rightarrow> m | JsError m \<Rightarrow> m)"

definition is_conflict :: "exn \<Rightarrow> bool" where
  "is_conflict e = (case e of Conflict _ \<Rightarrow> True | _ \<Rightarrow> False)"

lemma is_conflict_simps [simp]:
  "is_conflict (Conflict m)" "\<not> is_conflict (JsError m)" "\<not> is_conflict (ServiceUnavailable m)"
  "\<not> is_conflict (BadRequest m)" "\<not> is_conflict (NotFound m)"
  by (simp_all add: is_conflict_def)

end
