(* ===== verification/Tables.thy ===== *)
theory Tables
  imports Prelude
begin

text \<open>
  The SQL the ledgers issue, as functions on a table held as the list of its rows in insertion
  order: \<^verbatim>\<open>UPDATE ... WHERE ... RETURNING\<close>, \<^verbatim>\<open>INSERT ... ON CONFLICT (client_id, external_id) DO
  NOTHING RETURNING\<close>, the scoped and external-id lookups, \<^verbatim>\<open>ORDER BY ... DESC LIMIT OFFSET\<close>.
  The locale \<open>tenant_table\<close> states what the clients of a ledger rely on: identifiers and
  \<open>(client, external id)\<close> pairs stay unique, an insert that conflicts changes nothing, a scoped
  lookup returns only rows of its client.
\<close>

section \<open>Statements\<close>

definition sql_update :: "('r \<Rightarrow> bool) \<Rightarrow> ('r \<Rightarrow> 'r) \<Rightarrow> 'r list \<Rightarrow> 'r list \<times> 'r list" where
  "sql_update P f rows = (map (\<lambda>r. if P r then f r else r) rows, map f (filter P rows))"

text \<open>The unique index treats two null client ids as different (SQL).\<close>

definition key_conflict ::
  "('r \<Rightarrow> string option) \<Rightarrow> ('r \<Rightarrow> string) \<Rightarrow> 'r \<Rightarrow> 'r list \<Rightarrow> bool" where
  "key_conflict client ext r rows =
     (client r \<noteq> None \<and> list_ex (\<lambda>x. client x = client r \<and> ext x = ext r) rows)"

text \<open>
  \<open>Inl\<close> is the primary-key violation; otherwise the new table and the returned rows (none on a
  conflict on the conflict target).
\<close>

definition sql_insert ::
  "('r \<Rightarrow> string) \<Rightarrow> ('r \<Rightarrow> string option) \<Rightarrow> ('r \<Rightarrow> string) \<Rightarrow> 'r \<Rightarrow> 'r list \<Rightarrow>
   string + ('r list \<times> 'r list)" where
  "sql_insert rid client ext r rows =
     (if key_conflict client ext r rows then Inr (rows, [])
      else if list_ex (\<lambda>x. rid x = rid r) rows
        then Inl ''duplicate key value violates unique constraint''
      else Inr (rows @ [r], [r]))"

text \<open>\<^verbatim>\<open>WHERE id = $1 [AND client_id = $2]\<close>, the second condition only for a truthy client id.\<close>

definition find_scoped ::
  "('r \<Rightarrow> string) \<Rightarrow> ('r \<Rightarrow> string option) \<Rightarrow> string \<Rightarrow> string option \<Rightarrow> 'r list \<Rightarrow> 'r option" where
  "find_scoped rid client i c rows = find (\<lambda>r. rid r = i \<and> (truthy c \<longrightarrow> client r = c)) rows"

text \<open>\<^verbatim>\<open>WHERE external_id = $1 AND client_id IS NOT DISTINCT FROM $2\<close>\<close>

definition find_external ::
  "('r \<Rightarrow> string option) \<Rightarrow> ('r \<Rightarrow> string) \<Rightarrow> string option \<Rightarrow> string \<Rightarrow> 'r list \<Rightarrow> 'r option" where
  "find_external client ext c e rows = find (\<lambda>r. ext r = e \<and> client r = c) rows"

text \<open>\<^verbatim>\<open>ORDER BY k DESC LIMIT n OFFSET m\<close>; rows with equal keys keep their order.\<close>

definition page_desc :: "('r \<Rightarrow> int) \<Rightarrow> nat \<Rightarrow> nat \<Rightarrow> 'r list \<Rightarrow> 'r list" where
  "page_desc k n m rows = take n (drop m (sort_key (\<lambda>r. - k r) rows))"

section \<open>Laws\<close>

lemma find_SomeD: "find P xs = Some x \<Longrightarrow> P x \<and> x \<in> set xs"
  by (induction xs) (auto split: if_splits)

lemma find_None_not: "find P xs = None \<Longrightarrow> x \<in> set xs \<Longrightarrow> \<not> P x"
  by (auto simp: find_None_iff)

lemma find_cong_unique:
  "x \<in> set xs \<Longrightarrow> P x \<Longrightarrow> (\<And>y. y \<in> set xs \<Longrightarrow> P y \<Longrightarrow> y = x) \<Longrightarrow> find P xs = Some x"
  by (metis find_None_iff find_SomeD option.exhaust)

lemma set_page_desc: "set (page_desc k n m rows) \<subseteq> set rows"
  unfolding page_desc_def using set_take_subset set_drop_subset by fastforce

lemma length_page_desc: "length (page_desc k n m rows) \<le> n"
  by (simp add: page_desc_def)

lemma sorted_page_desc: "sorted (map (\<lambda>r. - k r) (page_desc k n m rows))"
  by (simp add: page_desc_def sorted_wrt_drop sorted_wrt_take flip: take_map drop_map)

lemma map_sql_update [table_simps]:
  "(\<And>r. h (f r) = h r) \<Longrightarrow> map h (fst (sql_update P f rows)) = map h rows"
  by (auto simp: sql_update_def)

lemma snd_sql_update_Nil [table_simps]: "snd (sql_update P f rows) = [] \<longleftrightarrow> (\<forall>r\<in>set rows. \<not> P r)"
  by (auto simp: sql_update_def filter_empty_conv)

lemma sql_update_none: "\<forall>r\<in>set rows. \<not> P r \<Longrightarrow> sql_update P f rows = (rows, [])"
  by (auto simp: sql_update_def intro: map_idI)

definition wf_table ::
  "('r \<Rightarrow> string) \<Rightarrow> ('r \<Rightarrow> string option) \<Rightarrow> ('r \<Rightarrow> string) \<Rightarrow> 'r list \<Rightarrow> bool" where
  "wf_table rid client ext rows \<longleftrightarrow> distinct (map rid rows) \<and>
     distinct (map (\<lambda>r. (client r, ext r)) (filter (\<lambda>r. client r \<noteq> None) rows))"

lemma wf_table_id_eq:
  "wf_table rid client ext rows \<Longrightarrow> x \<in> set rows \<Longrightarrow> y \<in> set rows \<Longrightarrow> rid x = rid y \<Longrightarrow> x = y"
  by (auto simp: wf_table_def distinct_map inj_on_def)

lemma wf_table_key_eq:
  assumes "wf_table rid client ext rows" and "x \<in> set rows" and "y \<in> set rows"
    and "client x = client y" and "ext x = ext y" and "client x \<noteq> None"
  shows "x = y"
proof -
  have "inj_on (\<lambda>r. (client r, ext r)) (set (filter (\<lambda>r. client r \<noteq> None) rows))"
    using assms(1) by (simp add: wf_table_def distinct_map)
  then show ?thesis using assms(2-) by (auto dest: inj_onD)
qed

lemma find_True: "find (\<lambda>_. True) xs = (case xs of [] \<Rightarrow> None | x # _ \<Rightarrow> Some x)"
  by (cases xs) auto

lemma find_map_key:
  "(\<And>r. h (f r) = h r) \<Longrightarrow> find (\<lambda>r. h r = i) (map f rows) = map_option f (find (\<lambda>r. h r = i) rows)"
  by (induction rows) auto

lemma filter_key_single:
  "distinct (map h xs) \<Longrightarrow> find (\<lambda>r. h r = j) xs = Some r \<Longrightarrow> filter (\<lambda>x. h x = j) xs = [r]"
proof (induction xs)
  case (Cons x xs)
  then show ?case by (cases "h x = j") (auto simp: filter_empty_conv image_iff)
qed simp

section \<open>The interface of a ledger\<close>

text \<open>
  A table with identifier, client and external id, and the patches its \<^verbatim>\<open>update\<close> applies, none
  of which touches those three columns.
\<close>

locale tenant_table =
  fixes rid :: "'r \<Rightarrow> string"
    and client :: "'r \<Rightarrow> string option"
    and ext :: "'r \<Rightarrow> string"
    and apply_patch :: "'p \<Rightarrow> 'r \<Rightarrow> 'r"
  assumes patch_rid [simp]: "rid (apply_patch p r) = rid r"
    and patch_client [simp]: "client (apply_patch p r) = client r"
    and patch_ext [simp]: "ext (apply_patch p r) = ext r"
begin

lemma patched_if [simp]:
  "rid (if b then apply_patch p r else r) = rid r"
  "client (if b then apply_patch p r else r) = client r"
  "ext (if b then apply_patch p r else r) = ext r"
  by simp_all

lemma update_wf:
  "wf_table rid client ext rows \<Longrightarrow> wf_table rid client ext (fst (sql_update P (apply_patch p) rows))"
  by (simp add: wf_table_def sql_update_def filter_map comp_def)

lemma update_find:
  "find (\<lambda>r. rid r = i) (fst (sql_update P (apply_patch p) rows)) =
   map_option (\<lambda>r. if P r then apply_patch p r else r) (find (\<lambda>r. rid r = i) rows)"
  by (simp add: sql_update_def find_map_key)

lemma update_returned:
  assumes "wf_table rid client ext rows" and "find (\<lambda>r. rid r = j) rows = Some r"
    and "\<And>x. P x \<Longrightarrow> rid x = j"
  shows "snd (sql_update P (apply_patch p) rows) = (if P r then [apply_patch p r] else [])"
proof -
  have "filter P rows = filter P (filter (\<lambda>x. rid x = j) rows)"
    using assms(3) by (auto intro: filter_cong)
  also have "filter (\<lambda>x. rid x = j) rows = [r]"
    using assms(1,2) by (intro filter_key_single) (auto simp: wf_table_def)
  finally show ?thesis by (simp add: sql_update_def)
qed

lemma insert_keeps:
  assumes "sql_insert rid client ext q rows = Inr (rows', ret)" and "find (\<lambda>r. rid r = i) rows = Some r"
  shows "find (\<lambda>r. rid r = i) rows' = Some r" and "ret = [] \<or> (ret = [q] \<and> rid q \<noteq> i)"
proof -
  have f: "find (\<lambda>r. rid r = i) (rows @ [q]) = Some r"
    using assms(2) by (induction rows) (auto split: if_splits)
  then show "find (\<lambda>r. rid r = i) rows' = Some r"
    using assms by (auto simp: sql_insert_def split: if_splits)
  show "ret = [] \<or> (ret = [q] \<and> rid q \<noteq> i)"
    using assms find_SomeD [OF assms(2)] by (auto simp: sql_insert_def list_ex_iff split: if_splits)
qed

lemma insert_wf:
  assumes "wf_table rid client ext rows" and "sql_insert rid client ext r rows = Inr (rows', ret)"
  shows "wf_table rid client ext rows'"
proof (cases "key_conflict client ext r rows")
  case True
  with assms show ?thesis by (simp add: sql_insert_def)
next
  case False
  with assms(2) have "rows' = rows @ [r]" and "rid r \<notin> rid ` set rows"
    by (auto simp: sql_insert_def list_ex_iff split: if_splits)
  moreover have "client r \<noteq> None \<Longrightarrow>
      (client r, ext r) \<notin> (\<lambda>r. (client r, ext r)) ` set (filter (\<lambda>r. client r \<noteq> None) rows)"
    using False by (auto simp: key_conflict_def list_ex_iff)
  ultimately show ?thesis using assms(1) by (auto simp: wf_table_def)
qed

lemma insert_conflict:
  assumes "wf_table rid client ext rows" and "sql_insert rid client ext r rows = Inr (rows', [])"
  shows "rows' = rows \<and> (\<exists>x\<in>set rows. client x = client r \<and> ext x = ext r \<and>
           find_external client ext (client r) (ext r) rows = Some x)"
proof -
  have k: "key_conflict client ext r rows" and r': "rows' = rows"
    using assms(2) by (auto simp: sql_insert_def split: if_splits)
  then obtain x where x: "x \<in> set rows" "client x = client r" "ext x = ext r"
    by (auto simp: key_conflict_def list_ex_iff)
  moreover have "find_external client ext (client r) (ext r) rows = Some x"
    unfolding find_external_def
    using x k by (intro find_cong_unique) (auto intro: wf_table_key_eq [OF assms(1)] simp: key_conflict_def)
  ultimately show ?thesis using r' by blast
qed

lemma insert_fresh:
  assumes "sql_insert rid client ext r rows = Inr (rows', ret)" and "ret \<noteq> []"
  shows "rows' = rows @ [r] \<and> ret = [r] \<and> rid r \<notin> rid ` set rows \<and>
    (client r \<noteq> None \<longrightarrow> find_external client ext (client r) (ext r) rows = None)"
  using assms
  by (auto simp: sql_insert_def key_conflict_def list_ex_iff find_external_def find_None_iff
      split: if_splits)

lemma insert_then_conflict:
  assumes "sql_insert rid client ext r rows = Inr (rows', ret)"
    and "client r \<noteq> None" and "client q = client r" and "ext q = ext r"
  shows "sql_insert rid client ext q rows' = Inr (rows', [])"
  using assms
  by (auto simp: sql_insert_def key_conflict_def list_ex_iff split: if_splits)

lemma scoped_owner:
  "find_scoped rid client i c rows = Some r \<Longrightarrow> truthy c \<Longrightarrow> client r = c \<and> rid r = i \<and> r \<in> set rows"
  by (auto simp: find_scoped_def dest: find_SomeD)

lemma scoped_foreign:
  "r \<in> set rows \<Longrightarrow> rid r = i \<Longrightarrow> wf_table rid client ext rows \<Longrightarrow> truthy c \<Longrightarrow> client r \<noteq> c \<Longrightarrow>
   find_scoped rid client i c rows = None"
  by (auto simp: find_scoped_def find_None_iff dest: wf_table_id_eq)

lemma scoped_own:
  "r \<in> set rows \<Longrightarrow> wf_table rid client ext rows \<Longrightarrow> truthy c \<longrightarrow> client r = c \<Longrightarrow>
   find_scoped rid client (rid r) c rows = Some r"
  unfolding find_scoped_def by (rule find_cong_unique) (auto dest: wf_table_id_eq)

end

end
