(* ===== verification/World.thy ===== *)
theory World
  imports Types Tables
begin

text \<open>
  The state the handlers share and the environment they run in.  \<open>World\<close> holds the PostgreSQL
  tables, the in-memory cache of the clients service, the transactions handed to the wallet
  clients so far (attempts included) and the number of events so far.  \<open>Env\<close> holds what the
  process is given: its environment variables, the clock, the random source, the libraries it
  calls (viem, the hash functions), and what the database connection, the RPC node and the
  webhook endpoints answer to the call made at a given event.  Nothing is assumed about these
  answers: a theorem holds for every environment, including one whose database or node fails at
  any call.
\<close>

section \<open>Shared state\<close>

datatype BackgroundTask = AutoSweep string RequestContext

record CacheEntry =
  ce_client :: ClientRecord
  ce_expiresAt :: timestamp

record World =
  w_payouts :: "PayoutRecord list"
  w_payins :: "PayInRecord list"
  w_settlements :: "PrivateSettlementRecord list"
  w_clients :: "ClientRow list"
  w_audit :: "AuditEvent list"
  w_outbox :: "OutboxEntry list"
  w_deliveries :: "WebhookDelivery list"
  w_idempotency :: "(string \<times> string) list"
  w_counter :: "int option"
  w_apiKeyCache :: "(string \<times> CacheEntry) list"
  w_sent :: "Tx list"
  w_background :: "BackgroundTask list"
  w_event :: nat

section \<open>Environment\<close>

record Env =
  process_env :: "string \<Rightarrow> string option"
  clock :: "nat \<Rightarrow> timestamp"
  db_fault :: "nat \<Rightarrow> string option"
  uuid :: "nat \<Rightarrow> string"
  randomHex :: "nat \<Rightarrow> string"
  sha256 :: "string \<Rightarrow> string"
  hmac_sha256 :: "string \<Rightarrow> string \<Rightarrow> string"
  keccak256 :: "string \<Rightarrow> string"
  encodeAbiParameters :: "AbiValue list \<Rightarrow> string"
  isAddress :: "string \<Rightarrow> bool"
  getAddress :: "string \<Rightarrow> string + string"
  parseUnits :: "string \<Rightarrow> int \<Rightarrow> string + int"
  formatUnits :: "int \<Rightarrow> int \<Rightarrow> string"
  privateKeyToAccount :: "string \<Rightarrow> string"
  mnemonicToAccount :: "string \<Rightarrow> int \<Rightarrow> int \<Rightarrow> string"
  rpc_getBlockNumber :: "nat \<Rightarrow> string + int"
  rpc_getChainId :: "nat \<Rightarrow> string + int"
  rpc_getBalance :: "nat \<Rightarrow> string \<Rightarrow> string + int"
  rpc_balanceOf :: "nat \<Rightarrow> string \<Rightarrow> string \<Rightarrow> string + int"
  rpc_funder :: "nat \<Rightarrow> string \<Rightarrow> string + string"
  rpc_allowance :: "nat \<Rightarrow> string \<Rightarrow> string \<Rightarrow> string \<Rightarrow> string + int"
  rpc_transferLogs :: "nat \<Rightarrow> string \<Rightarrow> string \<Rightarrow> int \<Rightarrow> int \<Rightarrow> string + TransferLog list"
  rpc_invoiceLogs :: "nat \<Rightarrow> string \<Rightarrow> string \<Rightarrow> string \<Rightarrow> int \<Rightarrow> int \<Rightarrow> string + InvoiceLog list"
  rpc_submit :: "nat \<Rightarrow> Tx \<Rightarrow> string + string"
  rpc_getReceipt :: "nat \<Rightarrow> string \<Rightarrow> string + Receipt"
  rpc_waitReceipt :: "nat \<Rightarrow> string \<Rightarrow> string + Receipt"
  http_post :: "nat \<Rightarrow> string \<Rightarrow> (string \<times> string) list \<Rightarrow> string \<Rightarrow> string + int"

type_synonym 'a io = "(World, exn, 'a) prog"

section \<open>Primitive calls\<close>

definition bump :: "World \<Rightarrow> World" where
  "bump w = w\<lparr>w_event := Suc (w_event w)\<rparr>"

definition time :: "Env \<Rightarrow> World \<Rightarrow> timestamp" where
  "time env w = clock env (w_event w)"

text \<open>\<^verbatim>\<open>Date.now()\<close> and \<^verbatim>\<open>new Date()\<close>\<close>

definition now :: "Env \<Rightarrow> timestamp io" where
  "now env = peek (time env)"

text \<open>
  \<^verbatim>\<open>DatabaseService.query\<close>: one SQL statement, atomic.  The statement sees the database's clock;
  the connection may fail, and then the statement has no effect.
\<close>

definition query :: "Env \<Rightarrow> (timestamp \<Rightarrow> World \<Rightarrow> (exn + 'a) \<times> World) \<Rightarrow> 'a io" where
  "query env stmt = await (\<lambda>w.
     case db_fault env (w_event w) of
       Some m \<Rightarrow> (Inl (JsError m), bump w)
     | None \<Rightarrow> (fst (stmt (time env w) w), bump (snd (stmt (time env w) w))))"

text \<open>A call of the RPC client that only reads.\<close>

definition rpc :: "(nat \<Rightarrow> string + 'a) \<Rightarrow> 'a io" where
  "rpc call = await (\<lambda>w. (case call (w_event w) of Inl m \<Rightarrow> Inl (JsError m) | Inr v \<Rightarrow> Inr v, bump w))"

text \<open>
  \<^verbatim>\<open>walletClient.writeContract\<close> and \<^verbatim>\<open>sendTransaction\<close>: the transaction leaves the process,
  whether or not the node's answer arrives.
\<close>

definition submit :: "Env \<Rightarrow> Tx \<Rightarrow> string io" where
  "submit env tx = await (\<lambda>w.
     (case rpc_submit env (w_event w) tx of Inl m \<Rightarrow> Inl (JsError m) | Inr h \<Rightarrow> Inr h,
      bump (w\<lparr>w_sent := w_sent w @ [tx]\<rparr>)))"

definition randomUUID :: "Env \<Rightarrow> string io" where
  "randomUUID env = await (\<lambda>w. (Inr (uuid env (w_event w)), bump w))"

definition randomBytesHex :: "Env \<Rightarrow> string io" where
  "randomBytesHex env = await (\<lambda>w. (Inr (randomHex env (w_event w)), bump w))"

text \<open>A library call that throws an ordinary error.\<close>

definition lib_call :: "string + 'a \<Rightarrow> exn + 'a" where
  "lib_call r = (case r of Inl m \<Rightarrow> Inl (JsError m) | Inr v \<Rightarrow> Inr v)"

text \<open>Reading a property of a value the code declares non-null, which may be null.\<close>

definition null_property :: "string \<Rightarrow> exn" where
  "null_property name = JsError (''Cannot read properties of null (reading '' @ [CHR 39] @ name @ [CHR 39] @ '')'')"

definition nonnull :: "string \<Rightarrow> 'r option \<Rightarrow> exn + 'r" where
  "nonnull name v = (case v of None \<Rightarrow> Inl (null_property name) | Some r \<Rightarrow> Inr r)"

text \<open>\<^verbatim>\<open>BigInt(text)\<close>\<close>

definition bigInt :: "string \<Rightarrow> exn + int" where
  "bigInt s = (case bigint_of s of None \<Rightarrow> Inl (JsError (''Cannot convert '' @ s @ '' to a BigInt''))
                | Some n \<Rightarrow> Inr n)"

section \<open>Running the primitives\<close>

lemma w_event_bump [simp]: "w_event (bump w) = Suc (w_event w)"
  by (simp add: bump_def)

lemma bump_fields [simp]:
  "w_payouts (bump w) = w_payouts w" "w_payins (bump w) = w_payins w"
  "w_settlements (bump w) = w_settlements w" "w_clients (bump w) = w_clients w"
  "w_audit (bump w) = w_audit w" "w_outbox (bump w) = w_outbox w"
  "w_deliveries (bump w) = w_deliveries w" "w_idempotency (bump w) = w_idempotency w"
  "w_counter (bump w) = w_counter w" "w_apiKeyCache (bump w) = w_apiKeyCache w"
  "w_sent (bump w) = w_sent w" "w_background (bump w) = w_background w"
  by (simp_all add: bump_def)

lemma run_now [run_simps]: "run (now env) w = (Inr (time env w), w)"
  by (simp add: now_def run_peek)

lemma run_query [run_simps]:
  "run (query env stmt) w =
     (case db_fault env (w_event w) of
        Some m \<Rightarrow> (Inl (JsError m), bump w)
      | None \<Rightarrow> (fst (stmt (time env w) w), bump (snd (stmt (time env w) w))))"
  by (simp add: query_def run_await)

lemma run_rpc [run_simps]:
  "run (rpc call) w =
     (case call (w_event w) of Inl m \<Rightarrow> Inl (JsError m) | Inr v \<Rightarrow> Inr v, bump w)"
  by (simp add: rpc_def run_await)

lemma run_submit [run_simps]:
  "run (submit env tx) w =
     (case rpc_submit env (w_event w) tx of Inl m \<Rightarrow> Inl (JsError m) | Inr h \<Rightarrow> Inr h,
      bump (w\<lparr>w_sent := w_sent w @ [tx]\<rparr>))"
  by (simp add: submit_def run_await)

lemma run_randomUUID [run_simps]: "run (randomUUID env) w = (Inr (uuid env (w_event w)), bump w)"
  by (simp add: randomUUID_def run_await)

lemma run_randomBytesHex [run_simps]:
  "run (randomBytesHex env) w = (Inr (randomHex env (w_event w)), bump w)"
  by (simp add: randomBytesHex_def run_await)

section \<open>Outcomes of the primitives\<close>

text \<open>A database that answers every statement.\<close>

definition healthy :: "Env \<Rightarrow> bool" where
  "healthy env \<longleftrightarrow> (\<forall>n. db_fault env n = None)"

lemma ends_now [ends_simps]: "ends (now env) w Q E = Q (time env w) w"
  by (simp add: now_def ends_peek)

lemma ends_query:
  "healthy env \<Longrightarrow> ends (query env stmt) w Q E =
     (case fst (stmt (time env w) w) of
        Inl e \<Rightarrow> E e (bump (snd (stmt (time env w) w)))
      | Inr a \<Rightarrow> Q a (bump (snd (stmt (time env w) w))))"
  by (simp add: query_def ends_await healthy_def split: sum.split)

lemma ends_read:
  "ends (query env (\<lambda>t w. (Inr (f t w), w))) w Q E =
     (case db_fault env (w_event w) of Some m \<Rightarrow> E (JsError m) (bump w) | None \<Rightarrow> Q (f (time env w) w) (bump w))"
  by (simp add: query_def ends_await split: option.split)

lemma ends_rpc [ends_simps]:
  "ends (rpc call) w Q E = (case call (w_event w) of Inl m \<Rightarrow> E (JsError m) (bump w) | Inr v \<Rightarrow> Q v (bump w))"
  by (simp add: rpc_def ends_await split: sum.split)

lemma ends_submit [ends_simps]:
  "ends (submit env tx) w Q E =
     (case rpc_submit env (w_event w) tx of
        Inl m \<Rightarrow> E (JsError m) (bump (w\<lparr>w_sent := w_sent w @ [tx]\<rparr>))
      | Inr h \<Rightarrow> Q h (bump (w\<lparr>w_sent := w_sent w @ [tx]\<rparr>)))"
  by (simp add: submit_def ends_await split: sum.split)

lemma ends_randomUUID [ends_simps]: "ends (randomUUID env) w Q E = Q (uuid env (w_event w)) (bump w)"
  by (simp add: randomUUID_def ends_await)

lemma ends_randomBytesHex [ends_simps]:
  "ends (randomBytesHex env) w Q E = Q (randomHex env (w_event w)) (bump w)"
  by (simp add: randomBytesHex_def ends_await)

section \<open>What the primitives keep\<close>

text \<open>
  An invariant that does not look at the event counter is kept by every read, and by a query
  whose statement keeps it.
\<close>

definition event_free :: "(World \<Rightarrow> bool) \<Rightarrow> bool" where
  "event_free I \<longleftrightarrow> (\<forall>w. I (bump w) = I w)"

lemma preserves_now [simp]: "preserves (now env) I"
  by (simp add: now_def)

lemma preserves_query:
  "event_free I \<Longrightarrow> (\<And>t w. I w \<Longrightarrow> I (snd (stmt t w))) \<Longrightarrow> preserves (query env stmt) I"
  unfolding query_def by (rule preserves_await) (auto simp: event_free_def split: option.splits)

lemma preserves_rpc: "event_free I \<Longrightarrow> preserves (rpc call) I"
  unfolding rpc_def by (rule preserves_await) (auto simp: event_free_def)

lemma preserves_randomUUID: "event_free I \<Longrightarrow> preserves (randomUUID env) I"
  unfolding randomUUID_def by (rule preserves_await) (auto simp: event_free_def)

lemma preserves_randomBytesHex: "event_free I \<Longrightarrow> preserves (randomBytesHex env) I"
  unfolding randomBytesHex_def by (rule preserves_await) (auto simp: event_free_def)

lemma preserves_submit:
  "event_free I \<Longrightarrow> (\<And>w tx. I w \<Longrightarrow> I (w\<lparr>w_sent := w_sent w @ [tx]\<rparr>)) \<Longrightarrow> preserves (submit env tx) I"
  unfolding submit_def by (rule preserves_await) (auto simp: event_free_def)

end
