(* ===== verification/AuditLog.thy ===== *)
theory AuditLog
  imports World
begin

text \<open>
  \<^verbatim>\<open>src/src/audit/audit.service.ts\<close>: the append-only audit log.  \<open>record_event\<close> is the method
  \<^verbatim>\<open>record\<close>; the two list methods read the log.
\<close>

definition toAuditActor :: "RequestContext \<Rightarrow> string option \<Rightarrow> AuditActor" where
  "toAuditActor ctx overrideActor =
     \<lparr>aa_clientId = rc_clientId ctx,
      aa_actor = (case overrideActor of Some a \<Rightarrow> Some a | None \<Rightarrow> rc_actor ctx),
      aa_correlationId = rc_correlationId ctx, aa_sourceIp = rc_sourceIp ctx\<rparr>"

definition insert_audit :: "AuditEvent \<Rightarrow> timestamp \<Rightarrow> World \<Rightarrow> (exn + unit) \<times> World" where
  "insert_audit ev t w =
     (Inr (), if list_ex (\<lambda>x. ae_id x = ae_id ev) (w_audit w) then w
              else w\<lparr>w_audit := w_audit w @ [ev]\<rparr>)"

definition record_event ::
  "Env \<Rightarrow> AuditEventType \<Rightarrow> string \<Rightarrow> AuditActor \<Rightarrow> jobject \<Rightarrow> AuditEvent io" where
  "record_event env ty subjectId actor payload =
     bindP (randomUUID env) (\<lambda>i.
     bindP (now env) (\<lambda>t.
     let event = \<lparr>ae_id = i, ae_clientId = aa_clientId actor, ae_type = ty,
                  ae_subjectId = subjectId, ae_actor = actor, ae_payload = payload, ae_createdAt = t\<rparr>
     in bindP (query env (insert_audit event)) (\<lambda>_. Ret event)))"

definition listBySubject :: "Env \<Rightarrow> string \<Rightarrow> AuditEvent list io" where
  "listBySubject env subjectId = query env (\<lambda>t w.
     (Inr (sort_key ae_createdAt (filter (\<lambda>e. ae_subjectId e = subjectId) (w_audit w))), w))"

record TrailFilters =
  tf_clientId :: "string option"
  tf_subjectId :: "string option"
  tf_from :: "timestamp option"
  tf_to :: "timestamp option"
  tf_limit :: nat

definition trail_where :: "TrailFilters \<Rightarrow> AuditEvent \<Rightarrow> bool" where
  "trail_where f e \<longleftrightarrow>
     (truthy (tf_clientId f) \<longrightarrow> ae_clientId e = tf_clientId f) \<and>
     (truthy (tf_subjectId f) \<longrightarrow> Some (ae_subjectId e) = tf_subjectId f) \<and>
     (case tf_from f of None \<Rightarrow> True | Some t \<Rightarrow> t \<le> ae_createdAt e) \<and>
     (case tf_to f of None \<Rightarrow> True | Some t \<Rightarrow> ae_createdAt e \<le> t)"

definition listForTrail :: "Env \<Rightarrow> TrailFilters \<Rightarrow> AuditEvent list io" where
  "listForTrail env f = query env (\<lambda>t w.
     (Inr (rev (page_desc ae_createdAt (min (tf_limit f) 1000) 0 (filter (trail_where f) (w_audit w)))), w))"

definition trail_items :: "AuditEvent list \<Rightarrow> TrailItem list" where
  "trail_items = map (\<lambda>e. \<lparr>ti_type = ae_type e, ti_createdAt = ae_createdAt e,
                        ti_correlationId = aa_correlationId (ae_actor e)\<rparr>)"

section \<open>What the log keeps\<close>

text \<open>The audit log only grows: an operation may append to it but never drops or edits an entry.\<close>

definition audit_extends :: "AuditEvent list \<Rightarrow> World \<Rightarrow> bool" where
  "audit_extends es w \<longleftrightarrow> (\<exists>new. w_audit w = es @ new)"

lemma audit_extends_event_free: "event_free (audit_extends es)"
  by (simp add: event_free_def audit_extends_def)

lemma preserves_listBySubject: "event_free I \<Longrightarrow> preserves (listBySubject env i) I"
  unfolding listBySubject_def by (rule preserves_query) auto

lemma preserves_listForTrail: "event_free I \<Longrightarrow> preserves (listForTrail env f) I"
  unfolding listForTrail_def by (rule preserves_query) auto

text \<open>Invariants that do not look at the audit log survive an audit entry.\<close>

definition audit_free :: "(World \<Rightarrow> bool) \<Rightarrow> bool" where
  "audit_free I \<longleftrightarrow> event_free I \<and> (\<forall>w es. I (w\<lparr>w_audit := es\<rparr>) = I w)"

lemma preserves_record_event: "audit_free I \<Longrightarrow> preserves (record_event env ty i a p) I"
  unfolding record_event_def Let_def
  by (auto simp: audit_free_def insert_audit_def intro: preserves_randomUUID intro!: preserves_query)

lemma record_event_extends: "preserves (record_event env ty i a p) (audit_extends es)"
  unfolding record_event_def Let_def
  by (auto simp: insert_audit_def audit_extends_def audit_extends_event_free
      intro: preserves_randomUUID intro!: preserves_query)

text \<open>With a database that answers, recording an event only appends it, and reading cannot fail.\<close>

lemma ends_record_event:
  "healthy env \<Longrightarrow> ends (record_event env ty i actor payload) w
     (\<lambda>ev w'. \<exists>es n. w' = w\<lparr>w_audit := w_audit w @ es, w_event := n\<rparr>) (\<lambda>_ _. False)"
  by (cases w) (auto simp: record_event_def Let_def ends_simps ends_query insert_audit_def bump_def)

lemma record_event_logged:
  assumes "healthy env" and "\<forall>e\<in>set (w_audit w). ae_id e \<noteq> uuid env (w_event w)"
  shows "ends (record_event env ty i actor payload) w
     (\<lambda>ev w'. w_audit w' = w_audit w @ [ev] \<and> ae_type ev = ty \<and> ae_subjectId ev = i \<and>
        ae_actor ev = actor \<and> ae_payload ev = payload \<and> ae_clientId ev = aa_clientId actor) (\<lambda>_ _. False)"
  using assms by (simp add: record_event_def Let_def ends_simps ends_query insert_audit_def list_ex_iff)

lemma ends_listBySubject:
  "healthy env \<Longrightarrow> ends (listBySubject env i) w Q E =
     Q (sort_key ae_createdAt (filter (\<lambda>e. ae_subjectId e = i) (w_audit w))) (bump w)"
  by (simp add: listBySubject_def ends_query)

lemma run_listBySubject:
  "run (listBySubject env i) w =
     (case db_fault env (w_event w) of Some m \<Rightarrow> (Inl (JsError m), bump w)
      | None \<Rightarrow> (Inr (sort_key ae_createdAt (filter (\<lambda>e. ae_subjectId e = i) (w_audit w))), bump w))"
  by (simp add: listBySubject_def run_query split: option.split)

end
