(* ===== verification/Sample.thy ===== *)
theory Sample
  imports World
begin

text \<open>
  A small concrete environment and world: one configured token, a treasury key, a node that
  accepts every transaction and a database that never fails.  The examples that show the
  hypotheses of the theorems can be met evaluate the handlers here.
\<close>

definition sample_token :: string where
  "sample_token = ''0x'' @ replicate 40 (CHR ''a'')"

definition sample_process_env :: "string \<Rightarrow> string option" where
  "sample_process_env = map_of
     [(''AVASETTLE_TREASURY_PRIVATE_KEY'', ''0x01''), (''AVASETTLE_USDC_ADDRESS'', sample_token),
      (''AVASETTLE_USDC_DECIMALS'', ''0''),
      (''AVASETTLE_PAYIN_MNEMONIC'', ''test words''), (''AVASETTLE_ADMIN_API_KEY'', ''admin'')]"

definition sample_env :: Env where
  "sample_env =
     \<lparr>process_env = sample_process_env, clock = (\<lambda>n. int n), db_fault = (\<lambda>_. None),
      uuid = (\<lambda>n. ''id-'' @ show_nat n), randomHex = (\<lambda>n. show_nat n),
      sha256 = (\<lambda>s. s), hmac_sha256 = (\<lambda>k s. k @ s), keccak256 = (\<lambda>s. ''0x'' @ s),
      encodeAbiParameters = (\<lambda>vs. concat (map (\<lambda>v. case v of AbiBytes32 s \<Rightarrow> s | AbiAddress s \<Rightarrow> s
                                                    | AbiUint256 n \<Rightarrow> show_int n) vs)),
      isAddress = (\<lambda>_. True), getAddress = (\<lambda>a. Inr a),
      parseUnits = (\<lambda>s d. case bigint_of s of None \<Rightarrow> Inl ''Invalid decimal number.'' | Some n \<Rightarrow> Inr (n * 10 ^ nat d)),
      formatUnits = (\<lambda>n d. show_int (n div 10 ^ nat d)),
      privateKeyToAccount = (\<lambda>k. ''acct-'' @ k), mnemonicToAccount = (\<lambda>m a i. ''derived-'' @ show_int i),
      rpc_getBlockNumber = (\<lambda>_. Inr 100), rpc_getChainId = (\<lambda>_. Inr 43113),
      rpc_getBalance = (\<lambda>_ _. Inr 1000), rpc_balanceOf = (\<lambda>_ _ _. Inr 1000),
      rpc_funder = (\<lambda>_ _. Inr ''funder''), rpc_allowance = (\<lambda>_ _ _ _. Inr 1000),
      rpc_transferLogs = (\<lambda>_ _ _ _ _. Inr []), rpc_invoiceLogs = (\<lambda>_ _ _ _ _ _. Inr []),
      rpc_submit = (\<lambda>_ _. Inr ''0xhash''),
      rpc_getReceipt = (\<lambda>_ _. Inr \<lparr>rcpt_success = True, rcpt_blockNumber = 90\<rparr>),
      rpc_waitReceipt = (\<lambda>_ _. Inr \<lparr>rcpt_success = True, rcpt_blockNumber = 90\<rparr>),
      http_post = (\<lambda>_ _ _ _. Inr 200)\<rparr>"

definition ready_env :: Env where
  "ready_env = sample_env\<lparr>process_env := sample_process_env(''DATABASE_URL'' \<mapsto> ''db'')\<rparr>"

definition sample_payout :: PayoutRecord where
  "sample_payout =
     \<lparr>po_id = ''p1'', po_clientId = Some ''c1'', po_externalId = ''ext-1'', po_chainFlowRequestId = None,
      po_status = Prepared, po_network = AvalancheFuji, po_chainId = 43113, po_asset = USDC,
      po_tokenAddress = Some sample_token, po_amount = ''5'', po_amountAtomic = ''5'',
      po_beneficiaryAddress = ''0xb'', po_beneficiaryName = None, po_treasuryAddress = None,
      po_transactionHash = None, po_failureReason = None, po_memo = None, po_metadata = [],
      po_createdAt = 0, po_updatedAt = 0, po_authorizedAt = None, po_broadcastedAt = None,
      po_confirmedAt = None\<rparr>"

definition sample_payin :: PayInRecord where
  "sample_payin =
     \<lparr>pi_id = ''q1'', pi_clientId = Some ''c1'', pi_externalId = ''ext-q1'', pi_chainFlowRequestId = None,
      pi_status = PiPending, pi_network = AvalancheFuji, pi_chainId = 43113, pi_asset = USDC,
      pi_tokenAddress = Some sample_token, pi_expectedAmount = ''5'', pi_expectedAmountAtomic = ''5'',
      pi_receivedAmount = ''0'', pi_receivedAmountAtomic = ''0'', pi_depositAddress = ''0xd'',
      pi_derivationIndex = 0, pi_collectionMode = DerivedAddress, pi_routerAddress = None,
      pi_routerInvoiceId = None, pi_startBlock = ''0'', pi_lastScannedBlock = None, pi_expiresAt = None,
      pi_metadata = [], pi_transfers = [], pi_sweepStatus = SwPending, pi_sweepTransactionHash = None,
      pi_sweptAmount = ''0'', pi_sweptAmountAtomic = ''0'', pi_sweptAt = None, pi_sweepFailureReason = None,
      pi_createdAt = 0, pi_updatedAt = 0, pi_detectedAt = None, pi_confirmedAt = None, pi_acceptedAt = None,
      pi_acceptanceNote = None\<rparr>"

definition sample_settlement :: PrivateSettlementRecord where
  "sample_settlement =
     \<lparr>ps_id = ''s1'', ps_clientId = Some ''c1'', ps_externalId = ''ext-s1'', ps_settlementId = ''0x1'',
      ps_settlementRef = ''0x2'', ps_commitment = ''0x3'', ps_asset = USDC, ps_tokenAddress = sample_token,
      ps_amount = ''5'', ps_amountAtomic = ''5'', ps_counterparty = ''0xc'', ps_nonce = ''0x4'',
      ps_status = StRecorded, ps_transactionHash = None, ps_revealTransactionHash = None,
      ps_metadata = [], ps_createdAt = 0, ps_updatedAt = 0\<rparr>"

definition empty_world :: World where
  "empty_world =
     \<lparr>w_payouts = [], w_payins = [], w_settlements = [], w_clients = [], w_audit = [], w_outbox = [],
      w_deliveries = [], w_idempotency = [], w_counter = Some 0, w_apiKeyCache = [], w_sent = [],
      w_background = [], w_event = 0\<rparr>"

definition sample_world :: World where
  "sample_world = empty_world\<lparr>w_payouts := [sample_payout]\<rparr>"

definition sample_context :: RequestContext where
  "sample_context =
     \<lparr>rc_clientId = Some ''c1'', rc_clientName = None, rc_correlationId = None,
      rc_idempotencyKey = None, rc_actor = None, rc_sourceIp = None\<rparr>"

text \<open>A world with one row per ledger, and a request of another client.\<close>

definition full_world :: World where
  "full_world = sample_world\<lparr>w_payins := [sample_payin], w_settlements := [sample_settlement]\<rparr>"

definition other_context :: RequestContext where
  "other_context = sample_context\<lparr>rc_clientId := Some ''c2''\<rparr>"

definition sample_transfer :: "string \<Rightarrow> string \<Rightarrow> PayInTransferRecord" where
  "sample_transfer logIndex block =
     \<lparr>tr_hash = ''0xt'', tr_logIndex = Some logIndex, tr_from = ''0xf'', tr_to = ''0xd'', tr_amount = ''5'',
      tr_amountAtomic = ''5'', tr_blockNumber = block\<rparr>"

end
