(* ===== verification/Configuration.thy ===== *)
theory Configuration
  imports Types
begin

text \<open>
  \<^verbatim>\<open>src/src/configuration\<close>: the getters of \<^verbatim>\<open>ConfigurationService\<close> over the process environment
  (a partial map from names to texts) and the loader that fills the gaps of the environment from
  the JSON configuration file.  A getter that throws returns \<open>Inl\<close>.
\<close>

section \<open>The JavaScript \<open>Number\<close> conversion\<close>

text \<open>
  \<^verbatim>\<open>Number(text)\<close>: \<open>Dec m e\<close> is the number \<open>m * 10 ^ e\<close>.  Numbers are exact here; the integers
  the settings hold are far below 2 ^ 53.
\<close>

datatype jsnum = NaN | Infinite | Dec int int

definition radix_digit :: "nat \<Rightarrow> char \<Rightarrow> nat option" where
  "radix_digit b c =
     (let n = (of_char (toLower c) :: nat);
          v = (if 48 \<le> n \<and> n \<le> 57 then n - 48 else if 97 \<le> n \<and> n \<le> 122 then n - 87 else b)
      in if v < b then Some v else None)"

definition parse_radix :: "nat \<Rightarrow> string \<Rightarrow> jsnum" where
  "parse_radix b s =
     (if s \<noteq> [] \<and> list_all (\<lambda>c. radix_digit b c \<noteq> None) s
      then Dec (int (foldl (\<lambda>a c. b * a + the (radix_digit b c)) 0 s)) 0 else NaN)"

definition parse_exponent :: "string \<Rightarrow> int option" where
  "parse_exponent s =
     (case s of [] \<Rightarrow> Some 0
      | c # r \<Rightarrow> if c = CHR ''e'' \<or> c = CHR ''E'' then
          (let neg = startsWith r ''-'';
               d = (if startsWith r ''-'' \<or> startsWith r ''+'' then tl r else r)
           in if d \<noteq> [] \<and> list_all is_digit d
              then Some (if neg then - int (parse_nat d) else int (parse_nat d)) else None)
        else None)"

definition parse_decimal :: "string \<Rightarrow> jsnum" where
  "parse_decimal s =
     (let neg = startsWith s ''-'';
          r = (if startsWith s ''-'' \<or> startsWith s ''+'' then tl s else s);
          ip = takeWhile is_digit r; r1 = dropWhile is_digit r;
          fp = (if startsWith r1 ''.'' then takeWhile is_digit (tl r1) else []);
          r2 = (if startsWith r1 ''.'' then dropWhile is_digit (tl r1) else r1)
      in if r = ''Infinity'' then Infinite
         else if ip = [] \<and> fp = [] then NaN
         else case parse_exponent r2 of None \<Rightarrow> NaN
              | Some e \<Rightarrow> Dec ((if neg then - 1 else 1) * int (parse_nat (ip @ fp))) (e - int (length fp)))"

definition jsNumber :: "string \<Rightarrow> jsnum" where
  "jsNumber s =
     (let t = trim s; p = toLowerCase (take 2 t) in
      if t = [] then Dec 0 0
      else if p = ''0x'' then parse_radix 16 (drop 2 t)
      else if p = ''0o'' then parse_radix 8 (drop 2 t)
      else if p = ''0b'' then parse_radix 2 (drop 2 t)
      else parse_decimal t)"

text \<open>\<^verbatim>\<open>Number.isInteger\<close>, with the integer.\<close>

definition integer_of :: "jsnum \<Rightarrow> int option" where
  "integer_of x =
     (case x of Dec m e \<Rightarrow>
        if 0 \<le> e then Some (m * 10 ^ nat e)
        else if m mod 10 ^ nat (- e) = 0 then Some (m div 10 ^ nat (- e)) else None
      | _ \<Rightarrow> None)"

lemma takeWhile_digits_show_nat: "takeWhile is_digit (show_nat n) = show_nat n"
  using show_nat_all_digits by (auto simp: list_all_iff takeWhile_eq_all_conv)

lemma dropWhile_digits_show_nat: "dropWhile is_digit (show_nat n) = []"
  using show_nat_all_digits by (auto simp: list_all_iff dropWhile_eq_Nil_conv)

lemma startsWith_show_nat:
  "\<not> startsWith (show_nat n) ''-''" "\<not> startsWith (show_nat n) ''+''"
proof -
  have "show_nat n = hd (show_nat n) # tl (show_nat n)" by simp
  then show "\<not> startsWith (show_nat n) ''-''" "\<not> startsWith (show_nat n) ''+''"
    unfolding startsWith_def
    by (metis (no_types, lifting) One_nat_def length_Cons list.sel(1) list.size(3) show_nat_ends(3)
        take_Suc_Cons, metis (no_types, lifting) One_nat_def length_Cons list.sel(1) list.size(3)
        show_nat_ends(4) take_Suc_Cons)
qed

section \<open>Readers\<close>

type_synonym penv = "string \<Rightarrow> string option"

definition readBoolean :: "penv \<Rightarrow> string \<Rightarrow> bool \<Rightarrow> bool" where
  "readBoolean pe name fallback =
     (case pe name of None \<Rightarrow> fallback
      | Some v \<Rightarrow> toLowerCase v \<in> set [''1'', ''true'', ''yes'', ''on''])"

definition readInt :: "penv \<Rightarrow> string \<Rightarrow> int \<Rightarrow> exn + int" where
  "readInt pe name fallback =
     (case pe name of None \<Rightarrow> Inr fallback
      | Some v \<Rightarrow> if v = [] then Inr fallback
          else case integer_of (jsNumber v) of
                 Some n \<Rightarrow> if n < 0 then Inl (JsError (name @ '' must be a non-negative integer.''))
                           else Inr n
               | None \<Rightarrow> Inl (JsError (name @ '' must be a non-negative integer.'')))"

definition is_hex :: "char \<Rightarrow> bool" where
  "is_hex c = (radix_digit 16 c \<noteq> None)"

text \<open>\<^verbatim>\<open>/^0x[a-fA-F0-9]{40}$/\<close>\<close>

definition evm_address_format :: "string \<Rightarrow> bool" where
  "evm_address_format v = (startsWith v ''0x'' \<and> length v = 42 \<and> list_all is_hex (drop 2 v))"

definition readAddress :: "penv \<Rightarrow> string \<Rightarrow> exn + string option" where
  "readAddress pe name =
     (case map_option trim (pe name) of None \<Rightarrow> Inr None
      | Some v \<Rightarrow> if v = [] then Inr None
          else if \<not> evm_address_format v then Inl (JsError (name @ '' must be a valid EVM address.''))
          else Inr (Some v))"

definition readPrivateKey :: "penv \<Rightarrow> string \<Rightarrow> string option" where
  "readPrivateKey pe name =
     (case pe name of None \<Rightarrow> None
      | Some raw \<Rightarrow> if raw = [] then None
          else Some (if startsWith raw ''0x'' then raw else ''0x'' @ raw))"

section \<open>Getters\<close>

definition serviceName :: string where
  "serviceName = ''AvaSettle On-chain Provider''"

definition version :: string where
  "version = ''0.2.0''"

definition port :: "penv \<Rightarrow> exn + int" where
  "port pe = readInt pe ''PORT'' 3001"

datatype CorsOrigins = CorsAny | CorsList "string list"

definition corsOrigins :: "penv \<Rightarrow> CorsOrigins" where
  "corsOrigins pe =
     (case pe ''AVASETTLE_CORS_ORIGINS'' of None \<Rightarrow> CorsAny
      | Some raw \<Rightarrow> if raw = [] \<or> trim raw = ''*'' then CorsAny
          else CorsList (filter (\<lambda>o'. o' \<noteq> []) (map trim (split_on (CHR '','') raw))))"

definition adminApiKey :: "penv \<Rightarrow> string" where
  "adminApiKey pe = trim (case pe ''AVASETTLE_ADMIN_API_KEY'' of None \<Rightarrow> [] | Some v \<Rightarrow> v)"

definition adminApiKeyConfigured :: "penv \<Rightarrow> bool" where
  "adminApiKeyConfigured pe = (length (adminApiKey pe) > 0)"

definition treasuryPrivateKey :: "penv \<Rightarrow> string option" where
  "treasuryPrivateKey pe = readPrivateKey pe ''AVASETTLE_TREASURY_PRIVATE_KEY''"

definition treasuryConfigured :: "penv \<Rightarrow> bool" where
  "treasuryConfigured pe = (treasuryPrivateKey pe \<noteq> None)"

definition settlementNetwork :: "penv \<Rightarrow> exn + SettlementNetwork" where
  "settlementNetwork pe =
     (let value = (case pe ''AVASETTLE_NETWORK'' of None \<Rightarrow> ''avalanche-fuji'' | Some v \<Rightarrow> v) in
      if value = ''avalanche-fuji'' then Inr AvalancheFuji
      else if value = ''avalanche-mainnet'' then Inr AvalancheMainnet
      else Inl (JsError (''Invalid AVASETTLE_NETWORK \"'' @ value @
             ''\". Use avalanche-fuji or avalanche-mainnet.'')))"

definition networkSummary :: "penv \<Rightarrow> exn + NetworkSummary" where
  "networkSummary pe =
     (case settlementNetwork pe of Inl e \<Rightarrow> Inl e
      | Inr AvalancheMainnet \<Rightarrow> Inr
          \<lparr>ns_key = AvalancheMainnet, ns_chainId = 43114, ns_name = ''Avalanche C-Chain'',
           ns_nativeTokenSymbol = ''AVAX'',
           ns_explorerBaseUrl = (case pe ''AVASETTLE_EXPLORER_BASE_URL'' of None \<Rightarrow> ''https://snowtrace.io'' | Some v \<Rightarrow> v),
           ns_rpcUrl = (case pe ''AVASETTLE_RPC_URL'' of None \<Rightarrow> ''https://api.avax.network/ext/bc/C/rpc'' | Some v \<Rightarrow> v)\<rparr>
      | Inr AvalancheFuji \<Rightarrow> Inr
          \<lparr>ns_key = AvalancheFuji, ns_chainId = 43113, ns_name = ''Avalanche Fuji Testnet'',
           ns_nativeTokenSymbol = ''AVAX'',
           ns_explorerBaseUrl = (case pe ''AVASETTLE_EXPLORER_BASE_URL'' of None \<Rightarrow> ''https://subnets-test.avax.network/c-chain'' | Some v \<Rightarrow> v),
           ns_rpcUrl = (case pe ''AVASETTLE_RPC_URL'' of None \<Rightarrow> ''https://api.avax-test.network/ext/bc/C/rpc'' | Some v \<Rightarrow> v)\<rparr>)"

definition asset_of_text :: "string \<Rightarrow> SettlementAsset option" where
  "asset_of_text s = (if s = ''USDC'' then Some USDC else if s = ''USDT'' then Some USDT else None)"

definition enabledAssets :: "penv \<Rightarrow> SettlementAsset list" where
  "enabledAssets pe =
     (let raw = (case pe ''AVASETTLE_ENABLED_ASSETS'' of None \<Rightarrow> ''USDC'' | Some v \<Rightarrow> v);
          assets = filter (\<lambda>a. a \<noteq> []) (map (\<lambda>a. toUpperCase (trim a)) (split_on (CHR '','') raw));
          enabled = map the (filter (\<lambda>a. a \<noteq> None) (map asset_of_text assets))
      in if length enabled > 0 then enabled else [USDC])"

definition minConfirmations :: "penv \<Rightarrow> exn + int" where
  "minConfirmations pe = readInt pe ''AVASETTLE_MIN_CONFIRMATIONS'' 2"

definition waitForReceipt :: "penv \<Rightarrow> bool" where
  "waitForReceipt pe = readBoolean pe ''AVASETTLE_WAIT_FOR_RECEIPT'' False"

definition databaseUrl :: "penv \<Rightarrow> string option" where
  "databaseUrl pe =
     (let value = (case pe ''AVASETTLE_DATABASE_URL'' of Some v \<Rightarrow> v
                   | None \<Rightarrow> (case pe ''DATABASE_URL'' of Some v \<Rightarrow> v | None \<Rightarrow> []))
      in if trim value = [] then None else Some (trim value))"

definition databaseConfigured :: "penv \<Rightarrow> bool" where
  "databaseConfigured pe = (databaseUrl pe \<noteq> None)"

definition databaseSsl :: "penv \<Rightarrow> bool" where
  "databaseSsl pe = readBoolean pe ''AVASETTLE_DATABASE_SSL'' False"

definition databaseSslRejectUnauthorized :: "penv \<Rightarrow> bool" where
  "databaseSslRejectUnauthorized pe = readBoolean pe ''AVASETTLE_DATABASE_SSL_REJECT_UNAUTHORIZED'' True"

definition databaseMaxConnections :: "penv \<Rightarrow> exn + int" where
  "databaseMaxConnections pe =
     (case readInt pe ''AVASETTLE_DATABASE_MAX_CONNECTIONS'' 5 of Inl e \<Rightarrow> Inl e
      | Inr value \<Rightarrow> if value = 0
          then Inl (JsError ''AVASETTLE_DATABASE_MAX_CONNECTIONS must be at least 1.'') else Inr value)"

definition databaseAutoMigrate :: "penv \<Rightarrow> bool" where
  "databaseAutoMigrate pe = readBoolean pe ''AVASETTLE_DATABASE_AUTO_MIGRATE'' True"

definition payInMnemonic :: "penv \<Rightarrow> string option" where
  "payInMnemonic pe =
     (case map_option trim (pe ''AVASETTLE_PAYIN_MNEMONIC'') of None \<Rightarrow> None
      | Some v \<Rightarrow> if v = [] then None else Some v)"

definition payInDerivationAccount :: "penv \<Rightarrow> exn + int" where
  "payInDerivationAccount pe = readInt pe ''AVASETTLE_PAYIN_DERIVATION_ACCOUNT'' 0"

definition payInLookbackBlocks :: "penv \<Rightarrow> exn + int" where
  "payInLookbackBlocks pe = readInt pe ''AVASETTLE_PAYIN_LOOKBACK_BLOCKS'' 50000"

definition payInDefaultExpirationMinutes :: "penv \<Rightarrow> exn + int option" where
  "payInDefaultExpirationMinutes pe =
     (let name = ''AVASETTLE_PAYIN_DEFAULT_EXPIRATION_MINUTES'' in
      if pe name = None \<or> pe name = Some [] then Inr None
      else case readInt pe name 0 of Inl e \<Rightarrow> Inl e
           | Inr minutes \<Rightarrow> if minutes = 0 then Inr None
               else if minutes > 10080 then Inl (JsError (name @ '' must be 10080 or lower.''))
               else Inr (Some minutes))"

definition paymentRouterAddress :: "penv \<Rightarrow> exn + string option" where
  "paymentRouterAddress pe = readAddress pe ''AVASETTLE_PAYMENT_ROUTER_ADDRESS''"

definition paymentRouterConfigured :: "penv \<Rightarrow> exn + bool" where
  "paymentRouterConfigured pe = map_sum id (\<lambda>a. a \<noteq> None) (paymentRouterAddress pe)"

definition checkoutDemoEnabled :: "penv \<Rightarrow> bool" where
  "checkoutDemoEnabled pe = readBoolean pe ''AVASETTLE_CHECKOUT_DEMO_ENABLED'' True"

definition settlementVaultAddress :: "penv \<Rightarrow> exn + string option" where
  "settlementVaultAddress pe = readAddress pe ''AVASETTLE_SETTLEMENT_VAULT_ADDRESS''"

definition settlementVaultConfigured :: "penv \<Rightarrow> exn + bool" where
  "settlementVaultConfigured pe = map_sum id (\<lambda>a. a \<noteq> None) (settlementVaultAddress pe)"

definition vaultOperatorPrivateKey :: "penv \<Rightarrow> string option" where
  "vaultOperatorPrivateKey pe = readPrivateKey pe ''AVASETTLE_VAULT_OPERATOR_PRIVATE_KEY''"

definition privateSettlementRegistryAddress :: "penv \<Rightarrow> exn + string option" where
  "privateSettlementRegistryAddress pe = readAddress pe ''AVASETTLE_PRIVATE_SETTLEMENT_REGISTRY_ADDRESS''"

definition privateSettlementRegistryConfigured :: "penv \<Rightarrow> exn + bool" where
  "privateSettlementRegistryConfigured pe =
     map_sum id (\<lambda>a. a \<noteq> None) (privateSettlementRegistryAddress pe)"

definition settlementRegistrarPrivateKey :: "penv \<Rightarrow> string option" where
  "settlementRegistrarPrivateKey pe = readPrivateKey pe ''AVASETTLE_SETTLEMENT_REGISTRAR_PRIVATE_KEY''"

definition settlementAuditorPrivateKey :: "penv \<Rightarrow> string option" where
  "settlementAuditorPrivateKey pe = readPrivateKey pe ''AVASETTLE_SETTLEMENT_AUDITOR_PRIVATE_KEY''"

definition webhookRetryAttempts :: "penv \<Rightarrow> exn + int" where
  "webhookRetryAttempts pe = readInt pe ''AVASETTLE_WEBHOOK_RETRY_ATTEMPTS'' 3"

definition webhookDispatchIntervalSeconds :: "penv \<Rightarrow> exn + int" where
  "webhookDispatchIntervalSeconds pe = readInt pe ''AVASETTLE_WEBHOOK_DISPATCH_INTERVAL_SECONDS'' 5"

definition autoSweep :: "penv \<Rightarrow> bool" where
  "autoSweep pe = readBoolean pe ''AVASETTLE_AUTO_SWEEP'' False"

definition autoReconcileIntervalSeconds :: "penv \<Rightarrow> exn + int option" where
  "autoReconcileIntervalSeconds pe =
     (if \<not> truthy (pe ''AVASETTLE_AUTO_RECONCILE_INTERVAL_SECONDS'') then Inr None
      else case integer_of (jsNumber (the (pe ''AVASETTLE_AUTO_RECONCILE_INTERVAL_SECONDS''))) of
             Some n \<Rightarrow> if n < 10
               then Inl (JsError ''AVASETTLE_AUTO_RECONCILE_INTERVAL_SECONDS must be an integer >= 10.'')
               else Inr (Some n)
           | None \<Rightarrow> Inl (JsError ''AVASETTLE_AUTO_RECONCILE_INTERVAL_SECONDS must be an integer >= 10.''))"

definition throttleRps :: "penv \<Rightarrow> exn + int" where
  "throttleRps pe = readInt pe ''AVASETTLE_THROTTLE_RPS'' 100"

datatype TrustProxy = TpBool bool | TpHops int | TpText string

definition trustProxy :: "penv \<Rightarrow> TrustProxy" where
  "trustProxy pe =
     (case map_option trim (pe ''AVASETTLE_TRUST_PROXY'') of None \<Rightarrow> TpBool False
      | Some value \<Rightarrow>
          if value = [] then TpBool False
          else let lowered = toLowerCase value in
            if lowered \<in> set [''false'', ''0'', ''no'', ''off''] then TpBool False
            else if lowered \<in> set [''true'', ''yes'', ''on''] then TpBool True
            else case integer_of (jsNumber value) of
                   Some hops \<Rightarrow> if hops > 0 then TpHops hops else TpText value
                 | None \<Rightarrow> TpText value)"

definition getAssetConfig :: "penv \<Rightarrow> SettlementAsset \<Rightarrow> exn + AssetRuntimeConfig" where
  "getAssetConfig pe asset =
     (let symbol = asset_text asset in
      case readAddress pe (''AVASETTLE_'' @ symbol @ ''_ADDRESS'') of Inl e \<Rightarrow> Inl e
      | Inr address \<Rightarrow>
        (case readInt pe (''AVASETTLE_'' @ symbol @ ''_DECIMALS'') 6 of Inl e \<Rightarrow> Inl e
         | Inr decimals \<Rightarrow> Inr
             \<lparr>ac_symbol = asset, ac_address = address, ac_decimals = decimals,
              ac_maxPayoutAmount = (case pe (''AVASETTLE_MAX_PAYOUT_'' @ symbol) of Some v \<Rightarrow> Some v
                | None \<Rightarrow> pe ''AVASETTLE_MAX_PAYOUT_AMOUNT''),
              ac_configured = (address \<noteq> None)\<rparr>))"

definition getConfiguredAssets :: "penv \<Rightarrow> exn + AssetRuntimeConfig list" where
  "getConfiguredAssets pe = collect (map (getAssetConfig pe) (enabledAssets pe))"

text \<open>The two digests are compared in constant time: equal exactly when the digests are.\<close>

definition validateAdminApiKey :: "(string \<Rightarrow> string) \<Rightarrow> penv \<Rightarrow> string option \<Rightarrow> bool" where
  "validateAdminApiKey sha pe candidate =
     (let expected = adminApiKey pe in
      if expected = [] \<or> \<not> truthy candidate then False
      else sha expected = sha (the candidate))"

section \<open>The configuration file\<close>

record AssetConfigFile =
  af_address :: "string option"
  af_decimals :: "int option"
  af_maxPayoutAmount :: "string option"

datatype OriginsSetting = OriginsText string | OriginsList "string list"

datatype ProxySetting = ProxyBool bool | ProxyHops int | ProxyText string

text \<open>Every field is optional; a missing section is a section with no field.\<close>

record ConfigFile =
  cf_network :: "string option"
  cf_port :: "int option"
  cf_rpcUrl :: "string option"
  cf_explorerBaseUrl :: "string option"
  cf_corsOrigins :: "OriginsSetting option"
  cf_database_ssl :: "bool option"
  cf_database_sslRejectUnauthorized :: "bool option"
  cf_database_maxConnections :: "int option"
  cf_database_autoMigrate :: "bool option"
  cf_payin_lookbackBlocks :: "int option"
  cf_payin_derivationAccount :: "int option"
  cf_payin_defaultExpirationMinutes :: "int option"
  cf_payin_paymentRouterAddress :: "string option"
  cf_assets_enabled :: "string list option"
  cf_assets_USDC :: AssetConfigFile
  cf_assets_USDT :: AssetConfigFile
  cf_blockchain_minConfirmations :: "int option"
  cf_blockchain_waitForReceipt :: "bool option"
  cf_webhook_retryAttempts :: "int option"
  cf_webhook_dispatchIntervalSeconds :: "int option"
  cf_autoReconcileIntervalSeconds :: "int option"
  cf_autoSweep :: "bool option"
  cf_throttleRps :: "int option"
  cf_trustProxy :: "ProxySetting option"

definition text_of_bool :: "bool \<Rightarrow> string" where
  "text_of_bool b = (if b then ''true'' else ''false'')"

text \<open>\<^verbatim>\<open>if (val != null && val !== '') v[key] = String(val)\<close>, as the entries it adds.\<close>

definition set_str :: "string \<Rightarrow> string option \<Rightarrow> (string \<times> string) list" where
  "set_str key v = (if truthy v then [(key, the v)] else [])"

definition set_int :: "string \<Rightarrow> int option \<Rightarrow> (string \<times> string) list" where
  "set_int key v = (case v of None \<Rightarrow> [] | Some n \<Rightarrow> [(key, show_int n)])"

definition set_bool :: "string \<Rightarrow> bool option \<Rightarrow> (string \<times> string) list" where
  "set_bool key v = (case v of None \<Rightarrow> [] | Some b \<Rightarrow> [(key, text_of_bool b)])"

definition asset_vars :: "string \<Rightarrow> AssetConfigFile \<Rightarrow> (string \<times> string) list" where
  "asset_vars symbol a =
     set_str (''AVASETTLE_'' @ symbol @ ''_ADDRESS'') (af_address a) @
     set_int (''AVASETTLE_'' @ symbol @ ''_DECIMALS'') (af_decimals a) @
     set_str (''AVASETTLE_MAX_PAYOUT_'' @ symbol) (af_maxPayoutAmount a)"

definition mapToEnvVars :: "ConfigFile \<Rightarrow> (string \<times> string) list" where
  "mapToEnvVars cfg =
     set_str ''AVASETTLE_NETWORK'' (cf_network cfg) @
     set_int ''PORT'' (cf_port cfg) @
     set_str ''AVASETTLE_RPC_URL'' (cf_rpcUrl cfg) @
     set_str ''AVASETTLE_EXPLORER_BASE_URL'' (cf_explorerBaseUrl cfg) @
     (case cf_corsOrigins cfg of None \<Rightarrow> []
      | Some (OriginsList os) \<Rightarrow> [(''AVASETTLE_CORS_ORIGINS'', join '','' os)]
      | Some (OriginsText t) \<Rightarrow> [(''AVASETTLE_CORS_ORIGINS'', t)]) @
     set_bool ''AVASETTLE_DATABASE_SSL'' (cf_database_ssl cfg) @
     set_bool ''AVASETTLE_DATABASE_SSL_REJECT_UNAUTHORIZED'' (cf_database_sslRejectUnauthorized cfg) @
     set_int ''AVASETTLE_DATABASE_MAX_CONNECTIONS'' (cf_database_maxConnections cfg) @
     set_bool ''AVASETTLE_DATABASE_AUTO_MIGRATE'' (cf_database_autoMigrate cfg) @
     set_int ''AVASETTLE_PAYIN_LOOKBACK_BLOCKS'' (cf_payin_lookbackBlocks cfg) @
     set_int ''AVASETTLE_PAYIN_DERIVATION_ACCOUNT'' (cf_payin_derivationAccount cfg) @
     set_int ''AVASETTLE_PAYIN_DEFAULT_EXPIRATION_MINUTES'' (cf_payin_defaultExpirationMinutes cfg) @
     set_str ''AVASETTLE_PAYMENT_ROUTER_ADDRESS'' (cf_payin_paymentRouterAddress cfg) @
     (case cf_assets_enabled cfg of None \<Rightarrow> []
      | Some xs \<Rightarrow> [(''AVASETTLE_ENABLED_ASSETS'', join '','' xs)]) @
     asset_vars ''USDC'' (cf_assets_USDC cfg) @
     asset_vars ''USDT'' (cf_assets_USDT cfg) @
     set_int ''AVASETTLE_MIN_CONFIRMATIONS'' (cf_blockchain_minConfirmations cfg) @
     set_bool ''AVASETTLE_WAIT_FOR_RECEIPT'' (cf_blockchain_waitForReceipt cfg) @
     set_int ''AVASETTLE_WEBHOOK_RETRY_ATTEMPTS'' (cf_webhook_retryAttempts cfg) @
     set_int ''AVASETTLE_WEBHOOK_DISPATCH_INTERVAL_SECONDS'' (cf_webhook_dispatchIntervalSeconds cfg) @
     set_int ''AVASETTLE_AUTO_RECONCILE_INTERVAL_SECONDS'' (cf_autoReconcileIntervalSeconds cfg) @
     set_bool ''AVASETTLE_AUTO_SWEEP'' (cf_autoSweep cfg) @
     set_int ''AVASETTLE_THROTTLE_RPS'' (cf_throttleRps cfg) @
     (case cf_trustProxy cfg of None \<Rightarrow> []
      | Some (ProxyBool b) \<Rightarrow> [(''AVASETTLE_TRUST_PROXY'', text_of_bool b)]
      | Some (ProxyHops n) \<Rightarrow> [(''AVASETTLE_TRUST_PROXY'', show_int n)]
      | Some (ProxyText t) \<Rightarrow> set_str ''AVASETTLE_TRUST_PROXY'' (Some t))"

text \<open>
  The loop of \<^verbatim>\<open>loadConfigFile\<close> over the entries: the new environment and the number of settings
  applied.  \<open>None\<close> is a file that is missing, unreadable or not JSON: the environment stays.
\<close>

fun apply_vars :: "(string \<times> string) list \<Rightarrow> penv \<Rightarrow> nat \<Rightarrow> penv \<times> nat" where
  "apply_vars [] pe applied = (pe, applied)"
| "apply_vars ((k, v) # vars) pe applied =
     (if pe k = None then apply_vars vars (pe(k \<mapsto> v)) (Suc applied)
      else apply_vars vars pe applied)"

definition loadConfigFile :: "ConfigFile option \<Rightarrow> penv \<Rightarrow> penv" where
  "loadConfigFile file pe =
     (case file of None \<Rightarrow> pe | Some cfg \<Rightarrow> fst (apply_vars (mapToEnvVars cfg) pe 0))"

section \<open>Lemmas about the getters\<close>

lemma show_nat_no_prefix:
  assumes "\<not> is_digit c" and "toLower c = c"
  shows "toLowerCase (take 2 (show_nat n)) \<noteq> [d, c]"
proof
  assume "toLowerCase (take 2 (show_nat n)) = [d, c]"
  then have "c \<in> toLower ` set (take 2 (show_nat n))"
    by (metis image_set list.set_intros toLowerCase_def)
  then obtain x where x: "x \<in> set (show_nat n)" "c = toLower x"
    by (auto dest: in_set_takeD)
  then have "is_digit x" by (simp add: show_nat_char)
  then have "toLower x = x" by (simp add: is_digit_def toLower_def Let_def)
  with x \<open>is_digit x\<close> assms(1) show False by simp
qed

lemma show_nat_not_Infinity: "show_nat n \<noteq> ''Infinity''"
proof
  assume "show_nat n = ''Infinity''"
  then have "is_digit (CHR ''I'')" by (metis list.set_intros(1) show_nat_char(4))
  then show False by (simp add: is_digit_def)
qed

lemma jsNumber_show_nat: "jsNumber (show_nat n) = Dec (int n) 0"
proof -
  have "trim (show_nat n) = show_nat n" using trim_show_int [of "int n"] by (simp add: show_int_def)
  then show ?thesis
    unfolding jsNumber_def Let_def
    by (simp add: show_nat_no_prefix is_digit_def toLower_def parse_decimal_def startsWith_show_nat
        takeWhile_digits_show_nat dropWhile_digits_show_nat show_nat_not_Infinity startsWith_def [of "[]"]
        parse_exponent_def)
qed

lemma readInt_nonneg: "0 \<le> d \<Longrightarrow> readInt pe name d = Inr n \<Longrightarrow> 0 \<le> n"
  by (auto simp: readInt_def split: option.splits if_splits)

lemma readInt_show:
  "pe name = Some (show_int n) \<Longrightarrow> 0 \<le> n \<Longrightarrow> readInt pe name d = Inr n"
  by (simp add: readInt_def show_int_def jsNumber_show_nat integer_of_def)

lemma readAddress_format: "readAddress pe name = Inr (Some a) \<Longrightarrow> evm_address_format a"
  by (auto simp: readAddress_def split: option.splits if_splits)

lemma enabledAssets_nonempty: "enabledAssets pe \<noteq> []"
  by (simp add: enabledAssets_def Let_def)

lemma apply_vars_env:
  "fst (apply_vars vars pe n) k = (case pe k of Some v \<Rightarrow> Some v | None \<Rightarrow> map_of vars k)"
  by (induction vars arbitrary: pe n) (auto split: option.splits)

lemma getAssetConfig_symbol: "getAssetConfig pe a = Inr c \<Longrightarrow> ac_symbol c = a"
  by (auto simp: getAssetConfig_def Let_def split: sum.splits)

lemma getAssetConfig_decimals: "getAssetConfig pe a = Inr c \<Longrightarrow> 0 \<le> ac_decimals c"
  by (auto simp: getAssetConfig_def Let_def dest: readInt_nonneg [rotated] split: sum.splits)

end
