(* ===== verification/Blockchain.thy ===== *)
theory Blockchain
  imports Sample Configuration
begin

text \<open>
  \<^verbatim>\<open>src/src/blockchain\<close>: the signer, the amount parser and every method of
  \<^verbatim>\<open>BlockchainService\<close>.  An account is represented by its address.  The network name is
  validated when the service is constructed, so the wallet clients it builds later cannot fail
  on it.
\<close>

abbreviation cfg :: "Env \<Rightarrow> penv" where
  "cfg env \<equiv> process_env env"

section \<open>Amounts and signers\<close>

definition parseAtomicAmount :: "Env \<Rightarrow> string \<Rightarrow> int \<Rightarrow> exn + int" where
  "parseAtomicAmount env amount decimals =
     (case parseUnits env amount decimals of Inl m \<Rightarrow> Inl (JsError m)
      | Inr parsed \<Rightarrow> if parsed \<le> 0 then Inl (JsError ''Amount must be greater than zero.'') else Inr parsed)"

definition treasuryAddress :: "Env \<Rightarrow> string option" where
  "treasuryAddress env = map_option (privateKeyToAccount env) (treasuryPrivateKey (cfg env))"

definition requireAccount :: "Env \<Rightarrow> exn + string" where
  "requireAccount env =
     (case treasuryAddress env of
        None \<Rightarrow> Inl (ServiceUnavailable ''AvaSettle treasury private key is not configured.'')
      | Some a \<Rightarrow> Inr a)"

definition requireTreasuryAddress :: "Env \<Rightarrow> exn + string" where
  "requireTreasuryAddress env =
     (case treasuryAddress env of
        None \<Rightarrow> Inl (ServiceUnavailable ''AvaSettle treasury private key is not configured.'')
      | Some a \<Rightarrow> Inr a)"

definition requireAsset :: "Env \<Rightarrow> SettlementAsset \<Rightarrow> exn + AssetRuntimeConfig \<times> string" where
  "requireAsset env asset =
     (case getAssetConfig (cfg env) asset of Inl e \<Rightarrow> Inl e
      | Inr ac \<Rightarrow> (case ac_address ac of
          None \<Rightarrow> Inl (ServiceUnavailable (''Token address for '' @ asset_text asset @ '' is not configured.''))
        | Some a \<Rightarrow> Inr (ac, a)))"

section \<open>References and addresses\<close>

definition getLatestBlockNumber :: "Env \<Rightarrow> int io" where
  "getLatestBlockNumber env = rpc (rpc_getBlockNumber env)"

definition getChainId :: "Env \<Rightarrow> int io" where
  "getChainId env = rpc (rpc_getChainId env)"

definition derivePayInAccount :: "Env \<Rightarrow> int \<Rightarrow> exn + string" where
  "derivePayInAccount env index =
     (case payInMnemonic (cfg env) of
        None \<Rightarrow> Inl (ServiceUnavailable ''AvaSettle pay-in mnemonic is not configured.'')
      | Some m \<Rightarrow> (case payInDerivationAccount (cfg env) of Inl e \<Rightarrow> Inl e
                   | Inr acct \<Rightarrow> Inr (mnemonicToAccount env m acct index)))"

definition derivePayInAddress :: "Env \<Rightarrow> int \<Rightarrow> exn + string" where
  "derivePayInAddress env index = derivePayInAccount env index"

definition routerInvoiceIdFromExternalId :: "Env \<Rightarrow> string \<Rightarrow> string" where
  "routerInvoiceIdFromExternalId env externalId = keccak256 env externalId"

definition computeRouterInvoiceId :: "Env \<Rightarrow> string \<Rightarrow> string \<Rightarrow> int \<Rightarrow> string" where
  "computeRouterInvoiceId env invoiceRef token amountAtomic =
     keccak256 env (encodeAbiParameters env [AbiBytes32 invoiceRef, AbiAddress token, AbiUint256 amountAtomic])"

definition vaultPayoutRefFromExternalId :: "Env \<Rightarrow> string \<Rightarrow> string" where
  "vaultPayoutRefFromExternalId env externalId = keccak256 env externalId"

text \<open>JavaScript sorts strings by code units: the lexicographic order on characters.\<close>

definition batchRefFromExternalIds :: "Env \<Rightarrow> string list \<Rightarrow> string" where
  "batchRefFromExternalIds env externalIds = keccak256 env (join ''|'' (sort externalIds))"

definition settlementRefFromExternalId :: "Env \<Rightarrow> string \<Rightarrow> string" where
  "settlementRefFromExternalId env externalId = keccak256 env externalId"

definition computeSettlementId :: "Env \<Rightarrow> string \<Rightarrow> string" where
  "computeSettlementId env settlementRef = keccak256 env (encodeAbiParameters env [AbiBytes32 settlementRef])"

definition computeSettlementCommitment :: "Env \<Rightarrow> int \<Rightarrow> string \<Rightarrow> string \<Rightarrow> string \<Rightarrow> string" where
  "computeSettlementCommitment env amountAtomic asset counterparty nonce =
     keccak256 env (encodeAbiParameters env
       [AbiUint256 amountAtomic, AbiAddress asset, AbiAddress counterparty, AbiBytes32 nonce])"

section \<open>Balances\<close>

definition getNativeBalance :: "Env \<Rightarrow> NativeTreasuryBalance io" where
  "getNativeBalance env =
     bindP (liftE (requireTreasuryAddress env)) (\<lambda>a.
     bindP (rpc (\<lambda>n. rpc_getBalance env n a)) (\<lambda>balance.
     Ret \<lparr>nb_balanceAtomic = show_int balance, nb_balance = formatUnits env balance 18\<rparr>))"

definition getNativeBalanceForAddress :: "Env \<Rightarrow> string \<Rightarrow> NativeTreasuryBalance io" where
  "getNativeBalanceForAddress env address =
     bindP (rpc (\<lambda>n. rpc_getBalance env n address)) (\<lambda>balance.
     Ret \<lparr>nb_balanceAtomic = show_int balance, nb_balance = formatUnits env balance 18\<rparr>)"

definition getAssetBalance :: "Env \<Rightarrow> SettlementAsset \<Rightarrow> TreasuryBalance io" where
  "getAssetBalance env asset =
     bindP (liftE (requireTreasuryAddress env)) (\<lambda>treasury.
     bindP (liftE (requireAsset env asset)) (\<lambda>(ac, token).
     bindP (rpc (\<lambda>n. rpc_balanceOf env n token treasury)) (\<lambda>balance.
     Ret \<lparr>tb_asset = asset, tb_tokenAddress = token, tb_decimals = ac_decimals ac,
          tb_balanceAtomic = show_int balance, tb_balance = formatUnits env balance (ac_decimals ac)\<rparr>)))"

definition getAssetBalanceForAddress :: "Env \<Rightarrow> SettlementAsset \<Rightarrow> string \<Rightarrow> TreasuryBalance io" where
  "getAssetBalanceForAddress env asset address =
     bindP (liftE (requireAsset env asset)) (\<lambda>(ac, token).
     bindP (rpc (\<lambda>n. rpc_balanceOf env n token address)) (\<lambda>balance.
     Ret \<lparr>tb_asset = asset, tb_tokenAddress = token, tb_decimals = ac_decimals ac,
          tb_balanceAtomic = show_int balance, tb_balance = formatUnits env balance (ac_decimals ac)\<rparr>))"

section \<open>Event logs\<close>

definition chunkSize :: int where
  "chunkSize = 2000"

function paginateLogs :: "int \<Rightarrow> int \<Rightarrow> (int \<Rightarrow> int \<Rightarrow> 'l list io) \<Rightarrow> 'l list io" where
  "paginateLogs from toBlock fetchChunk =
     (if from \<le> toBlock then
        let to = (if from + chunkSize - 1 < toBlock then from + chunkSize - 1 else toBlock) in
        bindP (fetchChunk from to) (\<lambda>chunk.
        bindP (paginateLogs (from + chunkSize) toBlock fetchChunk) (\<lambda>rest.
        Ret (chunk @ rest)))
      else Ret [])"
  by pat_completeness auto
termination
  by (relation "measure (\<lambda>(from, to, _). nat (to - from + 1))") (auto simp: chunkSize_def)

declare paginateLogs.simps [simp del]

text \<open>
  The first block of a scan: a positive start is used as it is, otherwise the scan looks back a
  configured number of blocks.
\<close>

definition scan_start :: "int \<Rightarrow> int \<Rightarrow> int \<Rightarrow> int" where
  "scan_start fromBlock latestBlock lookback =
     (if fromBlock > 0 then fromBlock
      else if latestBlock > lookback then latestBlock - lookback else 0)"

definition transfer_of_log :: "Env \<Rightarrow> int \<Rightarrow> TransferLog \<Rightarrow> PayInTransferRecord" where
  "transfer_of_log env decimals log =
     \<lparr>tr_hash = (case tl_transactionHash log of None \<Rightarrow> ''0x'' | Some h \<Rightarrow> h),
      tr_logIndex = map_option show_int (tl_logIndex log),
      tr_from = (case tl_from log of None \<Rightarrow> ''0x'' | Some a \<Rightarrow> a),
      tr_to = (case tl_to log of None \<Rightarrow> ''0x'' | Some a \<Rightarrow> a),
      tr_amount = formatUnits env (case tl_value log of None \<Rightarrow> 0 | Some v \<Rightarrow> v) decimals,
      tr_amountAtomic = show_int (case tl_value log of None \<Rightarrow> 0 | Some v \<Rightarrow> v),
      tr_blockNumber = show_int (case tl_blockNumber log of None \<Rightarrow> 0 | Some b \<Rightarrow> b)\<rparr>"

definition findIncomingErc20Transfers ::
  "Env \<Rightarrow> SettlementAsset \<Rightarrow> string \<Rightarrow> int \<Rightarrow> int option \<Rightarrow> PayInTransferRecord list io" where
  "findIncomingErc20Transfers env asset to fromBlock toBlock =
     bindP (liftE (requireAsset env asset)) (\<lambda>(ac, token).
     bindP (case toBlock of Some b \<Rightarrow> Ret b | None \<Rightarrow> rpc (rpc_getBlockNumber env)) (\<lambda>latestBlock.
     bindP (if fromBlock > 0 then Ret 0 else liftE (payInLookbackBlocks (cfg env))) (\<lambda>lookback.
     let from = scan_start fromBlock latestBlock lookback in
     if from > latestBlock then Ret []
     else
       bindP (paginateLogs from latestBlock
                (\<lambda>a b. rpc (\<lambda>n. rpc_transferLogs env n token to a b))) (\<lambda>logs.
       Ret (map (transfer_of_log env (ac_decimals ac)) logs)))))"

definition payment_of_log :: "Env \<Rightarrow> int \<Rightarrow> InvoiceLog \<Rightarrow> PaymentRouterInvoicePayment" where
  "payment_of_log env decimals log =
     \<lparr>ip_transfer =
        \<lparr>tr_hash = (case il_transactionHash log of None \<Rightarrow> ''0x'' | Some h \<Rightarrow> h),
         tr_logIndex = map_option show_int (il_logIndex log),
         tr_from = (case il_payer log of None \<Rightarrow> ''0x'' | Some a \<Rightarrow> a),
         tr_to = (case il_treasury log of None \<Rightarrow> ''0x'' | Some a \<Rightarrow> a),
         tr_amount = formatUnits env (case il_amount log of None \<Rightarrow> 0 | Some v \<Rightarrow> v) decimals,
         tr_amountAtomic = show_int (case il_amount log of None \<Rightarrow> 0 | Some v \<Rightarrow> v),
         tr_blockNumber = show_int (case il_blockNumber log of None \<Rightarrow> 0 | Some b \<Rightarrow> b)\<rparr>,
      ip_invoiceId = (case il_invoiceId log of None \<Rightarrow> ''0x'' | Some a \<Rightarrow> a),
      ip_payer = (case il_payer log of None \<Rightarrow> ''0x'' | Some a \<Rightarrow> a),
      ip_token = (case il_token log of None \<Rightarrow> ''0x'' | Some a \<Rightarrow> a),
      ip_treasury = (case il_treasury log of None \<Rightarrow> ''0x'' | Some a \<Rightarrow> a)\<rparr>"

definition findPaymentRouterInvoicePayments ::
  "Env \<Rightarrow> SettlementAsset \<Rightarrow> string \<Rightarrow> int \<Rightarrow> int \<Rightarrow> int option \<Rightarrow> PaymentRouterInvoicePayment list io" where
  "findPaymentRouterInvoicePayments env asset invoiceRef amountAtomic fromBlock toBlock =
     bindP (liftE (paymentRouterAddress (cfg env))) (\<lambda>router.
     case router of
       None \<Rightarrow> Raise (ServiceUnavailable ''AVASETTLE_PAYMENT_ROUTER_ADDRESS is not configured.'')
     | Some routerAddress \<Rightarrow>
     bindP (liftE (requireAsset env asset)) (\<lambda>(ac, token).
     let invoiceId = computeRouterInvoiceId env invoiceRef token amountAtomic in
     bindP (case toBlock of Some b \<Rightarrow> Ret b | None \<Rightarrow> rpc (rpc_getBlockNumber env)) (\<lambda>latestBlock.
     bindP (if fromBlock > 0 then Ret 0 else liftE (payInLookbackBlocks (cfg env))) (\<lambda>lookback.
     let from = scan_start fromBlock latestBlock lookback in
     if from > latestBlock then Ret []
     else
       bindP (paginateLogs from latestBlock
                (\<lambda>a b. rpc (\<lambda>n. rpc_invoiceLogs env n routerAddress invoiceId token a b))) (\<lambda>logs.
       Ret (map (payment_of_log env (ac_decimals ac)) logs))))))"

section \<open>Transactions\<close>

definition waitForTransaction :: "Env \<Rightarrow> string \<Rightarrow> unit io" where
  "waitForTransaction env hash = bindP (rpc (\<lambda>n. rpc_waitReceipt env n hash)) (\<lambda>_. Ret ())"

definition toTransferExecution :: "Env \<Rightarrow> string \<Rightarrow> TransferExecution io" where
  "toTransferExecution env hash =
     (if \<not> waitForReceipt (cfg env)
      then Ret \<lparr>te_hash = hash, te_status = ExBroadcasted, te_blockNumber = None\<rparr>
      else bindP (rpc (\<lambda>n. rpc_waitReceipt env n hash)) (\<lambda>receipt.
           Ret \<lparr>te_hash = hash,
                te_status = (if rcpt_success receipt then ExConfirmed else ExBroadcasted),
                te_blockNumber = Some (show_int (rcpt_blockNumber receipt))\<rparr>))"

definition sendErc20Transfer :: "Env \<Rightarrow> SettlementAsset \<Rightarrow> string \<Rightarrow> int \<Rightarrow> TransferExecution io" where
  "sendErc20Transfer env asset to amountAtomic =
     (if \<not> isAddress env to then Raise (BadRequest ''Beneficiary address is not a valid EVM address.'')
      else
        bindP (liftE (requireAccount env)) (\<lambda>account.
        bindP (liftE (requireAsset env asset)) (\<lambda>(ac, token).
        bindP (submit env (Erc20Transfer account token to amountAtomic)) (\<lambda>hash.
        toTransferExecution env hash))))"

definition requireVaultAddress :: "Env \<Rightarrow> exn + string" where
  "requireVaultAddress env =
     (case settlementVaultAddress (cfg env) of Inl e \<Rightarrow> Inl e
      | Inr None \<Rightarrow> Inl (ServiceUnavailable ''AVASETTLE_SETTLEMENT_VAULT_ADDRESS is not configured.'')
      | Inr (Some a) \<Rightarrow> Inr a)"

definition requireVaultOperatorAccount :: "Env \<Rightarrow> exn + string" where
  "requireVaultOperatorAccount env =
     (case vaultOperatorPrivateKey (cfg env) of
        Some k \<Rightarrow> Inr (privateKeyToAccount env k) | None \<Rightarrow> requireAccount env)"

definition ensureVaultAllowance :: "Env \<Rightarrow> string \<Rightarrow> string \<Rightarrow> int \<Rightarrow> unit io" where
  "ensureVaultAllowance env vault token amount =
     bindP (rpc (\<lambda>n. rpc_funder env n vault)) (\<lambda>funder.
     bindP (rpc (\<lambda>n. rpc_allowance env n token funder vault)) (\<lambda>allowance.
     if allowance < amount
     then Raise (Conflict (''SettlementVault funder '' @ funder @ '' has not approved enough of '' @ token @
            '' (allowance '' @ show_int allowance @ '' < '' @ show_int amount @
            ''). Approve the vault from the funder treasury.''))
     else Ret ()))"

definition vaultPayout :: "Env \<Rightarrow> SettlementAsset \<Rightarrow> string \<Rightarrow> string \<Rightarrow> int \<Rightarrow> TransferExecution io" where
  "vaultPayout env asset payoutRef to amountAtomic =
     (if \<not> isAddress env to then Raise (BadRequest ''Beneficiary address is not a valid EVM address.'')
      else
        bindP (liftE (requireVaultAddress env)) (\<lambda>vault.
        bindP (liftE (requireAsset env asset)) (\<lambda>(ac, token).
        bindP (ensureVaultAllowance env vault token amountAtomic) (\<lambda>_.
        bindP (liftE (requireVaultOperatorAccount env)) (\<lambda>account.
        bindP (submit env (VaultPayout account vault payoutRef token to amountAtomic ''0x'')) (\<lambda>hash.
        toTransferExecution env hash))))))"

definition vaultPayoutBatch ::
  "Env \<Rightarrow> SettlementAsset \<Rightarrow> string \<Rightarrow> string list \<Rightarrow> int list \<Rightarrow> TransferExecution io" where
  "vaultPayoutBatch env asset batchRef recipients amountsAtomic =
     bindP (liftE (requireVaultAddress env)) (\<lambda>vault.
     bindP (liftE (requireAsset env asset)) (\<lambda>(ac, token).
     case find (\<lambda>to. \<not> isAddress env to) recipients of
       Some to \<Rightarrow> Raise (BadRequest (''Invalid beneficiary address: '' @ to @ ''.''))
     | None \<Rightarrow>
        bindP (ensureVaultAllowance env vault token (foldl (+) 0 amountsAtomic)) (\<lambda>_.
        bindP (liftE (requireVaultOperatorAccount env)) (\<lambda>account.
        bindP (submit env (VaultPayoutBatch account vault batchRef token recipients amountsAtomic ''0x'')) (\<lambda>hash.
        toTransferExecution env hash)))))"

definition sendNativeTransfer :: "Env \<Rightarrow> string \<Rightarrow> int \<Rightarrow> TransferExecution io" where
  "sendNativeTransfer env to amountWei =
     (if \<not> isAddress env to then Raise (BadRequest ''Recipient is not a valid EVM address.'')
      else
        bindP (liftE (requireAccount env)) (\<lambda>account.
        bindP (rpc (\<lambda>n. rpc_getBalance env n account)) (\<lambda>nativeBalance.
        if nativeBalance < amountWei
        then Raise (Conflict ''Treasury has insufficient AVAX balance for top-up.'')
        else
          bindP (submit env (NativeTransfer account to amountWei)) (\<lambda>hash.
          if \<not> waitForReceipt (cfg env)
          then Ret \<lparr>te_hash = hash, te_status = ExBroadcasted, te_blockNumber = None\<rparr>
          else bindP (rpc (\<lambda>n. rpc_waitReceipt env n hash)) (\<lambda>receipt.
               Ret \<lparr>te_hash = hash,
                    te_status = (if rcpt_success receipt then ExConfirmed else ExBroadcasted),
                    te_blockNumber = None\<rparr>)))))"

definition sweepDerivedPayIn ::
  "Env \<Rightarrow> SettlementAsset \<Rightarrow> int \<Rightarrow> string \<Rightarrow> int option \<Rightarrow> SweepExecution io" where
  "sweepDerivedPayIn env asset derivationIndex expectedAddress amount =
     (if derivationIndex < 0 then Raise (BadRequest ''Invalid pay-in derivation index.'')
      else
        bindP (liftE (requireTreasuryAddress env)) (\<lambda>treasury.
        bindP (liftE (derivePayInAccount env derivationIndex)) (\<lambda>account.
        bindP (liftE (lib_call (getAddress env account))) (\<lambda>derived.
        bindP (liftE (lib_call (getAddress env expectedAddress))) (\<lambda>expected.
        if derived \<noteq> expected
        then Raise (Conflict ''Derived signer does not match stored pay-in deposit address.'')
        else
        bindP (rpc (\<lambda>n. rpc_getBalance env n account)) (\<lambda>nativeBalance.
        if nativeBalance = 0
        then Raise (Conflict ''Derived deposit address has no AVAX for sweep gas.'')
        else
        bindP (liftE (requireAsset env asset)) (\<lambda>(ac, token).
        bindP (rpc (\<lambda>n. rpc_balanceOf env n token account)) (\<lambda>tokenBalance.
        let amountAtomic = (case amount of Some a \<Rightarrow> a | None \<Rightarrow> tokenBalance) in
        if amountAtomic \<le> 0 then Raise (Conflict ''Derived deposit address has no token balance.'')
        else if amountAtomic > tokenBalance
        then Raise (Conflict ''Sweep amount exceeds deposit address balance.'')
        else
        bindP (submit env (Erc20Transfer account token treasury amountAtomic)) (\<lambda>hash.
        bindP (toTransferExecution env hash) (\<lambda>exec.
        Ret \<lparr>se_exec = exec, se_from = account, se_to = treasury, se_asset = asset,
             se_amountAtomic = show_int amountAtomic,
             se_amount = formatUnits env amountAtomic (ac_decimals ac)\<rparr>))))))))))"

definition reconcileTransaction :: "Env \<Rightarrow> string \<Rightarrow> TransactionReconciliation io" where
  "reconcileTransaction env hash =
     bindP (catchP (bindP (rpc (\<lambda>n. rpc_getReceipt env n hash)) (\<lambda>r. Ret (Some r))) (\<lambda>_. Ret None)) (\<lambda>rcpt.
     case rcpt of
       None \<Rightarrow>
         bindP (liftE (settlementNetwork (cfg env))) (\<lambda>net.
         Ret \<lparr>rn_hash = hash, rn_network = net, rn_status = RcPending, rn_blockNumber = None,
              rn_confirmations = 0, rn_finalized = False\<rparr>)
     | Some receipt \<Rightarrow>
         bindP (rpc (rpc_getBlockNumber env)) (\<lambda>latestBlock.
         let confirmations = (if latestBlock > rcpt_blockNumber receipt
                              then latestBlock - rcpt_blockNumber receipt else 0) in
         bindP (liftE (settlementNetwork (cfg env))) (\<lambda>net.
         bindP (if rcpt_success receipt then liftE (minConfirmations (cfg env)) else Ret 0) (\<lambda>minConf.
         Ret \<lparr>rn_hash = hash, rn_network = net,
              rn_status = (if rcpt_success receipt then RcSuccess else RcReverted),
              rn_blockNumber = Some (show_int (rcpt_blockNumber receipt)),
              rn_confirmations = confirmations,
              rn_finalized = (rcpt_success receipt \<and> confirmations \<ge> minConf)\<rparr>))))"

section \<open>Private settlement registry\<close>

definition requireRegistryAddress :: "Env \<Rightarrow> exn + string" where
  "requireRegistryAddress env =
     (case privateSettlementRegistryAddress (cfg env) of Inl e \<Rightarrow> Inl e
      | Inr None \<Rightarrow> Inl (ServiceUnavailable ''AVASETTLE_PRIVATE_SETTLEMENT_REGISTRY_ADDRESS is not configured.'')
      | Inr (Some a) \<Rightarrow> Inr a)"

definition requireRegistrarAccount :: "Env \<Rightarrow> exn + string" where
  "requireRegistrarAccount env =
     (case settlementRegistrarPrivateKey (cfg env) of
        None \<Rightarrow> Inl (ServiceUnavailable ''AVASETTLE_SETTLEMENT_REGISTRAR_PRIVATE_KEY is not configured.'')
      | Some k \<Rightarrow> Inr (privateKeyToAccount env k))"

definition requireAuditorAccount :: "Env \<Rightarrow> exn + string" where
  "requireAuditorAccount env =
     (case settlementAuditorPrivateKey (cfg env) of
        None \<Rightarrow> Inl (ServiceUnavailable ''AVASETTLE_SETTLEMENT_AUDITOR_PRIVATE_KEY is not configured.'')
      | Some k \<Rightarrow> Inr (privateKeyToAccount env k))"

definition recordPrivateSettlement :: "Env \<Rightarrow> string \<Rightarrow> string \<Rightarrow> TransferExecution io" where
  "recordPrivateSettlement env settlementRef commitment =
     bindP (liftE (requireRegistryAddress env)) (\<lambda>registry.
     bindP (liftE (requireRegistrarAccount env)) (\<lambda>account.
     bindP (submit env (RecordSettlement account registry settlementRef commitment ''0x'')) (\<lambda>hash.
     toTransferExecution env hash)))"

definition revealPrivateSettlement ::
  "Env \<Rightarrow> string \<Rightarrow> int \<Rightarrow> string \<Rightarrow> string \<Rightarrow> string \<Rightarrow> TransferExecution io" where
  "revealPrivateSettlement env settlementId amountAtomic asset counterparty nonce =
     bindP (liftE (requireRegistryAddress env)) (\<lambda>registry.
     bindP (liftE (requireAuditorAccount env)) (\<lambda>account.
     bindP (submit env (RevealForAudit account registry settlementId amountAtomic asset counterparty nonce)) (\<lambda>hash.
     toTransferExecution env hash)))"

section \<open>Lemmas\<close>

lemma filter_sorted_split:
  assumes "sorted (map k xs)" and "(a::int) \<le> b + 1" and "b \<le> c"
  shows "filter (\<lambda>x. a \<le> k x \<and> k x \<le> b) xs @ filter (\<lambda>x. b + 1 \<le> k x \<and> k x \<le> c) xs =
         filter (\<lambda>x. a \<le> k x \<and> k x \<le> c) xs"
  using assms(1)
proof (induction xs)
  case (Cons x xs)
  show ?case
  proof (cases "a \<le> k x \<and> k x \<le> b")
    case True
    then show ?thesis using Cons assms(2,3) by simp
  next
    case False
    show ?thesis
    proof (cases "b + 1 \<le> k x \<and> k x \<le> c")
      case later: True
      then have "filter (\<lambda>x. a \<le> k x \<and> k x \<le> b) xs = []"
        using Cons.prems by (fastforce simp: filter_empty_conv)
      then show ?thesis using later Cons assms(2) False by auto
    qed (use False Cons assms(2,3) in auto)
  qed
qed simp

text \<open>
  C18: a paginated scan misses no block and reads none twice.  If the node answers each range query
  with the logs of that range, in block order, the result over all chunks is exactly the logs of the
  whole range, each once and in block order, whatever the length of the range.
\<close>

theorem paginateLogs_complete:
  assumes "sorted (map block logs)"
  shows "fst (run (paginateLogs lo hi (\<lambda>a b. rpc (\<lambda>n. Inr (filter (\<lambda>l. a \<le> block l \<and> block l \<le> b) logs)))) w)
    = Inr (filter (\<lambda>l. lo \<le> block l \<and> block l \<le> hi) logs)"
proof (induction lo hi "\<lambda>a b. rpc (\<lambda>n. Inr (filter (\<lambda>l. a \<le> block l \<and> block l \<le> b) logs)) :: 'a list io"
    arbitrary: w rule: paginateLogs.induct)
  case (1 lo hi)
  show ?case
  proof (cases "lo \<le> hi")
    case False
    then have "filter (\<lambda>l. lo \<le> block l \<and> block l \<le> hi) logs = []" by (auto simp: filter_empty_conv)
    then show ?thesis using False by (subst paginateLogs.simps) (simp add: run_simps)
  next
    case True
    let ?hi = "if lo + chunkSize - 1 < hi then lo + chunkSize - 1 else hi"
    have "filter (\<lambda>l. lo \<le> block l \<and> block l \<le> ?hi) logs @
        filter (\<lambda>l. lo + chunkSize \<le> block l \<and> block l \<le> hi) logs =
        filter (\<lambda>l. lo \<le> block l \<and> block l \<le> hi) logs"
    proof (cases "lo + chunkSize - 1 < hi")
      case more: True
      then show ?thesis
        using filter_sorted_split [OF assms, of lo "lo + chunkSize - 1" hi]
        by (simp add: chunkSize_def algebra_simps)
    next
      case False
      then have "filter (\<lambda>l. lo + chunkSize \<le> block l \<and> block l \<le> hi) logs = []"
        by (auto simp: filter_empty_conv)
      then show ?thesis using False by simp
    qed
    then show ?thesis
      using True 1 [OF True refl]
      by (subst paginateLogs.simps) (simp add: run_simps Let_def case_prod_beta)
  qed
qed

theorem paginateLogs_complete_witness:
  "\<forall>w. fst (run (paginateLogs 1 5000 (\<lambda>a b. rpc (\<lambda>n. Inr (filter (\<lambda>l. a \<le> l \<and> l \<le> b) [1, 2000, 2001, 5001])))) w)
    = Inr [1, 2000, 2001 :: int]"
  using paginateLogs_complete [of "\<lambda>l. l" "[1, 2000, 2001, 5001 :: int]" 1 5000] by simp



end
