(* ===== verification/Clients.thy ===== *)
theory Clients
  imports World Configuration
begin

text \<open>
  \<^verbatim>\<open>src/src/clients\<close> and \<^verbatim>\<open>src/src/auth\<close>: the registry of tenants, the API-key cache of
  \<^verbatim>\<open>ClientsService\<close>, the two guards that authenticate a request, and
  \<^verbatim>\<open>extractRequestContext\<close> of \<^verbatim>\<open>src/src/common\<close>.
\<close>

section \<open>Repository\<close>

definition client_insert ::
  "string \<Rightarrow> string \<Rightarrow> string \<Rightarrow> string \<Rightarrow> string option \<Rightarrow> string option \<Rightarrow> jobject \<Rightarrow>
   timestamp \<Rightarrow> World \<Rightarrow> (exn + ClientRecord) \<times> World" where
  "client_insert i name apiKeyHash apiKeyPrefix webhookUrl webhookSecret metadata t w =
     (if list_ex (\<lambda>r. cl_id (cr_client r) = i \<or> cr_apiKeyHash r = apiKeyHash) (w_clients w)
      then (Inl (JsError ''duplicate key value violates unique constraint''), w)
      else let c = \<lparr>cl_id = i, cl_name = name, cl_status = ClActive, cl_apiKeyPrefix = apiKeyPrefix,
                    cl_webhookUrl = webhookUrl, cl_webhookSecret = webhookSecret, cl_metadata = metadata,
                    cl_createdAt = t, cl_updatedAt = t\<rparr>
           in (Inr c, w\<lparr>w_clients := w_clients w @ [\<lparr>cr_client = c, cr_apiKeyHash = apiKeyHash\<rparr>]\<rparr>))"

definition client_findById :: "Env \<Rightarrow> string \<Rightarrow> ClientRecord option io" where
  "client_findById env i = query env (\<lambda>t w.
     (Inr (map_option cr_client (find (\<lambda>r. cl_id (cr_client r) = i) (w_clients w))), w))"

definition findActiveByApiKeyHash :: "Env \<Rightarrow> string \<Rightarrow> ClientRecord option io" where
  "findActiveByApiKeyHash env h = query env (\<lambda>t w.
     (Inr (map_option cr_client
        (find (\<lambda>r. cr_apiKeyHash r = h \<and> cl_status (cr_client r) = ClActive) (w_clients w))), w))"

definition client_list :: "Env \<Rightarrow> ClientRecord list io" where
  "client_list env = query env (\<lambda>t w. (Inr (sort_key cl_createdAt (map cr_client (w_clients w))), w))"

definition client_count :: "Env \<Rightarrow> nat io" where
  "client_count env = query env (\<lambda>t w. (Inr (length (w_clients w)), w))"

text \<open>A field that is \<open>None\<close> is \<^verbatim>\<open>undefined\<close>; for the webhook fields \<open>Some None\<close> is an explicit null.\<close>

record ClientPatch =
  cp_name :: "string option"
  cp_status :: "ClientStatus option"
  cp_webhookUrl :: "string option option"
  cp_webhookSecret :: "string option option"
  cp_metadata :: "jobject option"

definition apply_client_patch :: "ClientPatch \<Rightarrow> timestamp \<Rightarrow> ClientRecord \<Rightarrow> ClientRecord" where
  "apply_client_patch p t c = c\<lparr>
     cl_name := (case cp_name p of Some n \<Rightarrow> n | None \<Rightarrow> cl_name c),
     cl_status := (case cp_status p of Some s \<Rightarrow> s | None \<Rightarrow> cl_status c),
     cl_webhookUrl := (case cp_webhookUrl p of Some u \<Rightarrow> u | None \<Rightarrow> cl_webhookUrl c),
     cl_webhookSecret := (case cp_webhookSecret p of Some u \<Rightarrow> u | None \<Rightarrow> cl_webhookSecret c),
     cl_metadata := (case cp_metadata p of Some m \<Rightarrow> m | None \<Rightarrow> cl_metadata c),
     cl_updatedAt := t\<rparr>"

definition client_update :: "Env \<Rightarrow> string \<Rightarrow> ClientPatch \<Rightarrow> ClientRecord option io" where
  "client_update env i p = query env (\<lambda>t w.
     let (rows, ret) = sql_update (\<lambda>r. cl_id (cr_client r) = i)
           (\<lambda>r. r\<lparr>cr_client := apply_client_patch p t (cr_client r)\<rparr>) (w_clients w)
     in (Inr (map_option cr_client (find (\<lambda>_. True) ret)), w\<lparr>w_clients := rows\<rparr>))"

definition client_rotateApiKey :: "Env \<Rightarrow> string \<Rightarrow> string \<Rightarrow> string \<Rightarrow> ClientRecord option io" where
  "client_rotateApiKey env i apiKeyHash apiKeyPrefix = query env (\<lambda>t w.
     if list_ex (\<lambda>r. cl_id (cr_client r) = i) (w_clients w) \<and>
        list_ex (\<lambda>r. cl_id (cr_client r) \<noteq> i \<and> cr_apiKeyHash r = apiKeyHash) (w_clients w)
     then (Inl (JsError ''duplicate key value violates unique constraint''), w)
     else
     let (rows, ret) = sql_update (\<lambda>r. cl_id (cr_client r) = i)
           (\<lambda>r. r\<lparr>cr_client := (cr_client r)\<lparr>cl_apiKeyPrefix := apiKeyPrefix, cl_updatedAt := t\<rparr>,
                   cr_apiKeyHash := apiKeyHash\<rparr>) (w_clients w)
     in (Inr (map_option cr_client (find (\<lambda>_. True) ret)), w\<lparr>w_clients := rows\<rparr>))"

section \<open>Service\<close>

text \<open>A change of the in-process cache, which needs no wait.\<close>

definition modify_cache ::
  "((string \<times> CacheEntry) list \<Rightarrow> (string \<times> CacheEntry) list) \<Rightarrow> unit io" where
  "modify_cache f = await (\<lambda>w. (Inr (), w\<lparr>w_apiKeyCache := f (w_apiKeyCache w)\<rparr>))"

record ClientResponse =
  clr_id :: string
  clr_name :: string
  clr_status :: ClientStatus
  clr_apiKeyPrefix :: string
  clr_webhookUrl :: "string option"
  clr_metadata :: jobject
  clr_createdAt :: timestamp
  clr_updatedAt :: timestamp
  clr_webhookSecretConfigured :: bool

record CreateClientDto =
  ccd_name :: string
  ccd_webhookUrl :: "string option"
  ccd_webhookSecret :: "string option"
  ccd_metadata :: "jobject option"

definition API_KEY_PREFIX :: string where
  "API_KEY_PREFIX = ''avk_''"

definition API_KEY_CACHE_TTL_MS :: int where
  "API_KEY_CACHE_TTL_MS = 30000"

definition hashApiKey :: "Env \<Rightarrow> string \<Rightarrow> string" where
  "hashApiKey env apiKey = sha256 env apiKey"

definition client_toResponse :: "ClientRecord \<Rightarrow> ClientResponse" where
  "client_toResponse c =
     \<lparr>clr_id = cl_id c, clr_name = cl_name c, clr_status = cl_status c,
      clr_apiKeyPrefix = cl_apiKeyPrefix c, clr_webhookUrl = cl_webhookUrl c,
      clr_metadata = cl_metadata c, clr_createdAt = cl_createdAt c, clr_updatedAt = cl_updatedAt c,
      clr_webhookSecretConfigured = truthy (cl_webhookSecret c)\<rparr>"

definition requireClient :: "Env \<Rightarrow> string \<Rightarrow> ClientRecord io" where
  "requireClient env i = bindP (client_findById env i) (\<lambda>c.
     case c of None \<Rightarrow> Raise (NotFound ''Client not found.'') | Some r \<Rightarrow> Ret r)"

text \<open>The key, its hash and its prefix.\<close>

definition generateApiKey :: "Env \<Rightarrow> (string \<times> string \<times> string) io" where
  "generateApiKey env = bindP (randomBytesHex env) (\<lambda>hex.
     let apiKey = API_KEY_PREFIX @ hex in
     Ret (apiKey, hashApiKey env apiKey, take (length API_KEY_PREFIX + 8) apiKey))"

definition createClient :: "Env \<Rightarrow> CreateClientDto \<Rightarrow> (ClientResponse \<times> string) io" where
  "createClient env dto =
     bindP (generateApiKey env) (\<lambda>(apiKey, apiKeyHash, apiKeyPrefix).
     bindP (randomUUID env) (\<lambda>i.
     bindP (query env (client_insert i (ccd_name dto) apiKeyHash apiKeyPrefix (ccd_webhookUrl dto)
              (ccd_webhookSecret dto) (case ccd_metadata dto of None \<Rightarrow> [] | Some m \<Rightarrow> m))) (\<lambda>c.
     Ret (client_toResponse c, apiKey))))"

definition listClients :: "Env \<Rightarrow> ClientResponse list io" where
  "listClients env = bindP (client_list env) (\<lambda>cs. Ret (map client_toResponse cs))"

definition getClient :: "Env \<Rightarrow> string \<Rightarrow> ClientResponse io" where
  "getClient env i = bindP (requireClient env i) (\<lambda>c. Ret (client_toResponse c))"

definition updateClient :: "Env \<Rightarrow> string \<Rightarrow> ClientPatch \<Rightarrow> ClientResponse io" where
  "updateClient env i dto =
     bindP (requireClient env i) (\<lambda>_.
     bindP (client_update env i dto) (\<lambda>updated.
     case updated of None \<Rightarrow> Raise (NotFound ''Client not found.'')
     | Some c \<Rightarrow> bindP (modify_cache (\<lambda>_. [])) (\<lambda>_. Ret (client_toResponse c))))"

definition rotateApiKey :: "Env \<Rightarrow> string \<Rightarrow> (ClientResponse \<times> string) io" where
  "rotateApiKey env i =
     bindP (requireClient env i) (\<lambda>_.
     bindP (generateApiKey env) (\<lambda>(apiKey, apiKeyHash, apiKeyPrefix).
     bindP (client_rotateApiKey env i apiKeyHash apiKeyPrefix) (\<lambda>updated.
     case updated of None \<Rightarrow> Raise (NotFound ''Client not found.'')
     | Some c \<Rightarrow> bindP (modify_cache (\<lambda>_. [])) (\<lambda>_. Ret (client_toResponse c, apiKey)))))"

definition resolveActiveClientByApiKey :: "Env \<Rightarrow> string \<Rightarrow> ClientRecord option io" where
  "resolveActiveClientByApiKey env apiKey =
     (let h = hashApiKey env apiKey in
      bindP (peek (\<lambda>w. map_of (w_apiKeyCache w) h)) (\<lambda>cached.
      bindP (now env) (\<lambda>t.
      if (case cached of Some e \<Rightarrow> ce_expiresAt e > t | None \<Rightarrow> False)
      then Ret (map_option ce_client cached)
      else
        bindP (findActiveByApiKeyHash env h) (\<lambda>client.
        bindP (case client of
                 Some c \<Rightarrow> bindP (now env) (\<lambda>t'.
                   modify_cache (AList.update h \<lparr>ce_client = c, ce_expiresAt = t' + API_KEY_CACHE_TTL_MS\<rparr>))
               | None \<Rightarrow> modify_cache (AList.delete h)) (\<lambda>_.
        Ret client)))))"

section \<open>Request authentication\<close>

datatype HeaderValue = HeaderOne string | HeaderMany "string list"

record Request =
  rq_apiKey :: "HeaderValue option"
  rq_authorization :: "string option"
  rq_correlationId :: "HeaderValue option"
  rq_idempotencyKey :: "HeaderValue option"
  rq_ip :: "string option"

definition firstHeader :: "HeaderValue option \<Rightarrow> string option" where
  "firstHeader v = (case v of None \<Rightarrow> None | Some (HeaderOne s) \<Rightarrow> Some s
     | Some (HeaderMany []) \<Rightarrow> None | Some (HeaderMany (s # _)) \<Rightarrow> Some s)"

definition extractApiKey :: "Request \<Rightarrow> string option" where
  "extractApiKey request =
     (let single = firstHeader (rq_apiKey request) in
      if truthy single then single
      else case rq_authorization request of None \<Rightarrow> None
        | Some a \<Rightarrow> if \<not> startsWith a ''Bearer '' then None
            else let k = trim (drop (length ''Bearer '') a) in if k = [] then None else Some k)"

definition client_canActivate :: "Env \<Rightarrow> Request \<Rightarrow> ClientRecord io" where
  "client_canActivate env request =
     (case extractApiKey request of
        None \<Rightarrow> Raise (Unauthorized ''Missing AvaSettle API key.'')
      | Some apiKey \<Rightarrow> bindP (resolveActiveClientByApiKey env apiKey) (\<lambda>client.
          case client of None \<Rightarrow> Raise (Unauthorized ''Invalid AvaSettle API key.'')
          | Some c \<Rightarrow> Ret c))"

definition admin_canActivate :: "Env \<Rightarrow> Request \<Rightarrow> exn + unit" where
  "admin_canActivate env request =
     (if \<not> adminApiKeyConfigured (process_env env)
      then Inl (Unauthorized ''AVASETTLE_ADMIN_API_KEY is not configured.'')
      else if \<not> validateAdminApiKey (sha256 env) (process_env env) (extractApiKey request)
      then Inl (Unauthorized ''Invalid AvaSettle admin API key.'')
      else Inr ())"

definition extractRequestContext :: "ClientRecord option \<Rightarrow> Request \<Rightarrow> string option \<Rightarrow> RequestContext" where
  "extractRequestContext client request actor =
     \<lparr>rc_clientId = map_option cl_id client, rc_clientName = map_option cl_name client,
      rc_correlationId = firstHeader (rq_correlationId request),
      rc_idempotencyKey = firstHeader (rq_idempotencyKey request),
      rc_actor = actor, rc_sourceIp = rq_ip request\<rparr>"

section \<open>Lemmas\<close>

lemma run_modify_cache [run_simps]:
  "run (modify_cache f) w = (Inr (), w\<lparr>w_apiKeyCache := f (w_apiKeyCache w)\<rparr>)"
  by (simp add: modify_cache_def run_await)

lemma preserves_client_findById: "event_free I \<Longrightarrow> preserves (client_findById env i) I"
  unfolding client_findById_def by (rule preserves_query) auto

end
