(* ===== verification/Webhooks.thy ===== *)
theory Webhooks
  imports Clients
begin

text \<open>
  \<^verbatim>\<open>src/src/webhooks\<close>: the durable outbox.  \<open>enqueue\<close> runs in the request path, \<open>dispatchDueEvents\<close>
  claims due rows and delivers each once, \<open>tick\<close> is the body of the interval timer.
\<close>

section \<open>JSON text\<close>

definition hex_char :: "nat \<Rightarrow> char" where
  "hex_char n = (if n < 10 then digit_char n else char_of (87 + n))"

definition escape_char :: "char \<Rightarrow> string" where
  "escape_char c =
     (let n = (of_char c :: nat) in
      if n = 34 then [CHR 92, CHR 34] else if n = 92 then [CHR 92, CHR 92]
      else if n = 8 then CHR 92 # ''b'' else if n = 12 then CHR 92 # ''f''
      else if n = 10 then CHR 92 # ''n'' else if n = 13 then CHR 92 # ''r''
      else if n = 9 then CHR 92 # ''t''
      else if n < 32 then CHR 92 # ''u00'' @ [hex_char (n div 16), hex_char (n mod 16)]
      else [c])"

definition json_string :: "string \<Rightarrow> string" where
  "json_string s = [CHR 34] @ concat (map escape_char s) @ [CHR 34]"

text \<open>\<^verbatim>\<open>JSON.stringify\<close>\<close>

fun stringify :: "json \<Rightarrow> string" where
  "stringify JNull = ''null''"
| "stringify (JBool b) = (if b then ''true'' else ''false'')"
| "stringify (JInt n) = show_int n"
| "stringify (JFrac s) = s"
| "stringify (JStr s) = json_string s"
| "stringify (JArr vs) = ''['' @ join '','' (map stringify vs) @ '']''"
| "stringify (JObj fs) = ''{'' @ join '','' (map (\<lambda>(k, v). json_string k @ '':'' @ stringify v) fs) @ ''}''"

section \<open>Outbox\<close>

definition RETRY_DELAYS_MS :: "int list" where
  "RETRY_DELAYS_MS = [1000, 5000, 30000]"

definition STUCK_DELIVERY_TIMEOUT_MS :: int where
  "STUCK_DELIVERY_TIMEOUT_MS = 5 * 60 * 1000"

text \<open>
  Keys of the spread payload replace the two leading ones.  A failed insert is logged and
  swallowed.
\<close>

definition enqueue :: "Env \<Rightarrow> string option \<Rightarrow> string \<Rightarrow> jobject \<Rightarrow> unit io" where
  "enqueue env clientId event payload =
     (if \<not> truthy clientId then Ret ()
      else
        bindP (now env) (\<lambda>t0.
        let fullPayload = fold (\<lambda>(k, v). AList.update k v) payload
              [(''event'', JStr event), (''timestamp'', jdate t0)] in
        catchP (query env (\<lambda>t w. (Inr (), w\<lparr>w_outbox := w_outbox w @
            [\<lparr>ob_id = uuid env (w_event w), ob_clientId = the clientId, ob_event = event,
              ob_payload = fullPayload, ob_status = ObPending, ob_attempts = 0, ob_nextAttemptAt = t,
              ob_lastError = None, ob_createdAt = t, ob_updatedAt = t\<rparr>]\<rparr>)))
          (\<lambda>_. Ret ())))"

definition recover_stuck :: "timestamp \<Rightarrow> OutboxEntry list \<Rightarrow> OutboxEntry list" where
  "recover_stuck t rows = fst (sql_update
     (\<lambda>r. ob_status r = ObDelivering \<and> ob_updatedAt r < t - STUCK_DELIVERY_TIMEOUT_MS)
     (\<lambda>r. r\<lparr>ob_status := ObPending, ob_updatedAt := t\<rparr>) rows)"

text \<open>The ids the inner \<^verbatim>\<open>SELECT\<close> picks, then the claimed rows as the update returns them.\<close>

definition due_ids :: "timestamp \<Rightarrow> nat \<Rightarrow> OutboxEntry list \<Rightarrow> string list" where
  "due_ids t batchSize rows = map ob_id (take batchSize (sort_key ob_nextAttemptAt
     (filter (\<lambda>r. ob_status r = ObPending \<and> ob_nextAttemptAt r \<le> t) rows)))"

definition claim_due :: "nat \<Rightarrow> timestamp \<Rightarrow> World \<Rightarrow> (exn + OutboxEntry list) \<times> World" where
  "claim_due batchSize t w =
     (let (rows, ret) = sql_update (\<lambda>r. ob_id r \<in> set (due_ids t batchSize (w_outbox w)))
            (\<lambda>r. r\<lparr>ob_status := ObDelivering, ob_updatedAt := t\<rparr>) (w_outbox w)
      in (Inr ret, w\<lparr>w_outbox := rows\<rparr>))"

definition setStatus :: "Env \<Rightarrow> string \<Rightarrow> OutboxStatus \<Rightarrow> nat \<Rightarrow> string option \<Rightarrow> unit io" where
  "setStatus env i st attempts lastError = query env (\<lambda>t w. (Inr (), w\<lparr>w_outbox := fst (sql_update
     (\<lambda>r. ob_id r = i)
     (\<lambda>r. r\<lparr>ob_status := st, ob_attempts := attempts, ob_lastError := lastError, ob_updatedAt := t\<rparr>)
     (w_outbox w))\<rparr>))"

definition retry_delay :: "nat \<Rightarrow> int" where
  "retry_delay attempts = RETRY_DELAYS_MS ! min (attempts - 1) (length RETRY_DELAYS_MS - 1)"

definition reschedule :: "Env \<Rightarrow> OutboxEntry \<Rightarrow> nat \<Rightarrow> string \<Rightarrow> unit io" where
  "reschedule env row attempts lastError = query env (\<lambda>t w. (Inr (), w\<lparr>w_outbox := fst (sql_update
     (\<lambda>r. ob_id r = ob_id row)
     (\<lambda>r. r\<lparr>ob_status := ObPending, ob_attempts := attempts, ob_lastError := Some lastError,
             ob_nextAttemptAt := t + retry_delay attempts, ob_updatedAt := t\<rparr>)
     (w_outbox w))\<rparr>))"

definition recordDelivery ::
  "Env \<Rightarrow> string \<Rightarrow> OutboxEntry \<Rightarrow> string \<Rightarrow> bool \<Rightarrow> nat \<Rightarrow> string option \<Rightarrow> timestamp option \<Rightarrow> unit io" where
  "recordDelivery env clientId row url success attempts lastError deliveredAt =
     catchP (query env (\<lambda>t w. (Inr (), w\<lparr>w_deliveries := w_deliveries w @
         [\<lparr>wd_id = uuid env (w_event w), wd_clientId = clientId, wd_event = ob_event row, wd_url = url,
           wd_payload = ob_payload row, wd_success = success, wd_attempts = attempts,
           wd_lastError = lastError, wd_deliveredAt = deliveredAt, wd_createdAt = t\<rparr>]\<rparr>)))
       (\<lambda>_. Ret ())"

definition isRetryableStatus :: "int \<Rightarrow> bool" where
  "isRetryableStatus status = (status = 429 \<or> status \<ge> 500)"

definition response_ok :: "int \<Rightarrow> bool" where
  "response_ok status = (200 \<le> status \<and> status \<le> 299)"

definition webhook_headers :: "Env \<Rightarrow> string option \<Rightarrow> string \<Rightarrow> (string \<times> string) list" where
  "webhook_headers env secret body =
     [(''content-type'', ''application/json''), (''user-agent'', ''AvaSettle-Webhook/1.0'')] @
     (if truthy secret
      then [(''x-avasettle-signature'', ''sha256='' @ hmac_sha256 env (the secret) body)] else [])"

text \<open>
  What the \<^verbatim>\<open>try\<close> around the HTTP call comes to: the event was delivered and booked, or an error
  text with whether it may be retried.
\<close>

definition post_event ::
  "Env \<Rightarrow> OutboxEntry \<Rightarrow> ClientRecord \<Rightarrow> string \<Rightarrow> nat \<Rightarrow> (string \<times> bool) option io" where
  "post_event env row client url attempts =
     (let body = stringify (JObj (ob_payload row)) in
      catchP
        (bindP (rpc (\<lambda>n. http_post env n url (webhook_headers env (cl_webhookSecret client) body) body)) (\<lambda>status.
         if response_ok status then
           bindP (setStatus env (ob_id row) ObDelivered attempts None) (\<lambda>_.
           bindP (now env) (\<lambda>t.
           bindP (recordDelivery env (cl_id client) row url True attempts None (Some t)) (\<lambda>_.
           Ret None)))
         else Ret (Some (''HTTP '' @ show_int status, isRetryableStatus status))))
        (\<lambda>e. Ret (Some (exn_message e, True))))"

definition deliverOnce :: "Env \<Rightarrow> OutboxEntry \<Rightarrow> unit io" where
  "deliverOnce env row =
     bindP (attempt (client_findById env (ob_clientId row))) (\<lambda>found.
     case found of
       Inl e \<Rightarrow> reschedule env row (ob_attempts row + 1) (exn_message e)
     | Inr client \<Rightarrow>
       (case client of
          Some c \<Rightarrow>
            if cl_status c = ClActive \<and> truthy (cl_webhookUrl c) then
              let url = the (cl_webhookUrl c); attempts = ob_attempts row + 1 in
              bindP (liftE (webhookRetryAttempts (process_env env))) (\<lambda>retryAttempts.
              let maxAttempts = max 1 (nat retryAttempts) in
              bindP (post_event env row c url attempts) (\<lambda>outcome.
              case outcome of
                None \<Rightarrow> Ret ()
              | Some (lastError, retryable) \<Rightarrow>
                  if \<not> retryable \<or> attempts \<ge> maxAttempts then
                    bindP (setStatus env (ob_id row) ObFailed attempts (Some lastError)) (\<lambda>_.
                    recordDelivery env (cl_id c) row url False attempts (Some lastError) None)
                  else reschedule env row attempts lastError))
            else setStatus env (ob_id row) ObSkipped (ob_attempts row) (Some ''Client has no active webhook endpoint.'')
        | None \<Rightarrow> setStatus env (ob_id row) ObSkipped (ob_attempts row) (Some ''Client has no active webhook endpoint.'')))"

definition dispatchDueEvents :: "Env \<Rightarrow> nat \<Rightarrow> nat io" where
  "dispatchDueEvents env batchSize =
     bindP (query env (\<lambda>t w. (Inr (), w\<lparr>w_outbox := recover_stuck t (w_outbox w)\<rparr>))) (\<lambda>_.
     bindP (query env (claim_due batchSize)) (\<lambda>claimed.
     bindP (forP claimed (deliverOnce env)) (\<lambda>_.
     Ret (length claimed))))"

definition listRecentDeliveries :: "Env \<Rightarrow> string \<Rightarrow> nat \<Rightarrow> bool \<Rightarrow> WebhookDelivery list io" where
  "listRecentDeliveries env clientId limit onlyFailed = query env (\<lambda>t w.
     (Inr (page_desc wd_createdAt limit 0
        (filter (\<lambda>d. wd_clientId d = clientId \<and> (onlyFailed \<longrightarrow> \<not> wd_success d)) (w_deliveries w))), w))"

text \<open>The timer callback: skipped while the previous one still runs; errors are logged.\<close>

definition dispatcher_tick :: "Env \<Rightarrow> bool \<Rightarrow> unit io" where
  "dispatcher_tick env running =
     (if running then Ret ()
      else catchP (bindP (dispatchDueEvents env 10) (\<lambda>_. Ret ())) (\<lambda>_. Ret ()))"

section \<open>Lemmas\<close>

text \<open>Invariants that do not look at the outbox survive an enqueued event.\<close>

definition outbox_free :: "(World \<Rightarrow> bool) \<Rightarrow> bool" where
  "outbox_free I \<longleftrightarrow> event_free I \<and> (\<forall>w es. I (w\<lparr>w_outbox := es\<rparr>) = I w)"

lemma preserves_enqueue: "outbox_free I \<Longrightarrow> preserves (enqueue env c ev p) I"
  unfolding enqueue_def Let_def
  by (auto simp: outbox_free_def intro!: preserves_query)

text \<open>\<open>enqueue\<close> never throws, whatever the database does.\<close>

lemma enqueue_no_throw: "\<exists>w'. run (enqueue env c ev p) w = (Inr (), w')"
  by (auto simp: enqueue_def Let_def run_simps split: option.splits)

end
