(* ===== verification/Payouts.thy ===== *)
theory Payouts
  imports AuditLog Blockchain Webhooks
begin

text \<open>
  \<^verbatim>\<open>src/src/payouts\<close>: the payout ledger (one definition per SQL statement) and every method of
  \<^verbatim>\<open>PayoutsService\<close>.  \<open>authorizePayout\<close> is split where its \<^verbatim>\<open>try\<close> begins: \<open>broadcast_payout\<close> is the
  body of the \<^verbatim>\<open>try\<close>, \<open>broadcast_failed\<close> the \<^verbatim>\<open>catch\<close>; the batch is split in the same way.  A
  \<^verbatim>\<open>return this.toResponse(...)\<close> that is not awaited runs outside the surrounding \<^verbatim>\<open>try\<close>.
\<close>

section \<open>Requests\<close>

record CreatePayoutDto =
  cpd_externalId :: string
  cpd_amount :: string
  cpd_asset :: SettlementAsset
  cpd_beneficiaryAddress :: string
  cpd_beneficiaryName :: "string option"
  cpd_chainFlowRequestId :: "string option"
  cpd_memo :: "string option"
  cpd_metadata :: "jobject option"
  cpd_executeImmediately :: bool

record AuthorizePayoutDto =
  apd_approvedBy :: "string option"
  apd_riskDecisionId :: "string option"
  apd_notes :: "string option"

record PayoutFilters =
  pf_clientId :: "string option"
  pf_status :: "PayoutStatus option"
  pf_externalId :: "string option"
  pf_limit :: "nat option"
  pf_offset :: "nat option"

section \<open>Ledger\<close>

text \<open>The columns a patch may set, one constructor per key of \<^verbatim>\<open>PATCH_COLUMNS\<close>.\<close>

datatype PayoutField =
    PoStatus PayoutStatus
  | PoTreasuryAddress "string option"
  | PoTransactionHash "string option"
  | PoFailureReason "string option"
  | PoMetadata jobject
  | PoAuthorizedAt "timestamp option"
  | PoBroadcastedAt "timestamp option"
  | PoConfirmedAt "timestamp option"

fun set_payout_field :: "PayoutField \<Rightarrow> PayoutRecord \<Rightarrow> PayoutRecord" where
  "set_payout_field (PoStatus s) r = r\<lparr>po_status := s\<rparr>"
| "set_payout_field (PoTreasuryAddress a) r = r\<lparr>po_treasuryAddress := a\<rparr>"
| "set_payout_field (PoTransactionHash h) r = r\<lparr>po_transactionHash := h\<rparr>"
| "set_payout_field (PoFailureReason m) r = r\<lparr>po_failureReason := m\<rparr>"
| "set_payout_field (PoMetadata m) r = r\<lparr>po_metadata := m\<rparr>"
| "set_payout_field (PoAuthorizedAt t) r = r\<lparr>po_authorizedAt := t\<rparr>"
| "set_payout_field (PoBroadcastedAt t) r = r\<lparr>po_broadcastedAt := t\<rparr>"
| "set_payout_field (PoConfirmedAt t) r = r\<lparr>po_confirmedAt := t\<rparr>"

text \<open>The \<^verbatim>\<open>SET\<close> clause: the fields of the patch, then \<^verbatim>\<open>updated_at = now()\<close>.\<close>

definition apply_payout_patch :: "timestamp \<times> PayoutField list \<Rightarrow> PayoutRecord \<Rightarrow> PayoutRecord" where
  "apply_payout_patch p r = (fold set_payout_field (snd p) r)\<lparr>po_updatedAt := fst p\<rparr>"

text \<open>The guard \<^verbatim>\<open>AND status = ANY(...)\<close>, when there is one.\<close>

definition payout_guard :: "string \<Rightarrow> PayoutStatus list option \<Rightarrow> PayoutRecord \<Rightarrow> bool" where
  "payout_guard i expectedStatus r \<longleftrightarrow> po_id r = i \<and>
     (case expectedStatus of None \<Rightarrow> True | Some ss \<Rightarrow> po_status r \<in> set ss)"

definition payout_update_stmt ::
  "string \<Rightarrow> PayoutField list \<Rightarrow> PayoutStatus list option \<Rightarrow> timestamp \<Rightarrow> World \<Rightarrow>
   (exn + PayoutRecord option) \<times> World" where
  "payout_update_stmt i patch expectedStatus t w =
     (let (rows, ret) = sql_update (payout_guard i expectedStatus) (apply_payout_patch (t, patch)) (w_payouts w)
      in (Inr (find (\<lambda>_. True) ret), w\<lparr>w_payouts := rows\<rparr>))"

definition payout_update ::
  "Env \<Rightarrow> string \<Rightarrow> PayoutField list \<Rightarrow> PayoutStatus list option \<Rightarrow> PayoutRecord option io" where
  "payout_update env i patch expectedStatus = query env (payout_update_stmt i patch expectedStatus)"

text \<open>The token address is a \<^verbatim>\<open>NOT NULL\<close> column, checked before the conflict target.\<close>

definition payout_insert_stmt ::
  "PayoutRecord \<Rightarrow> timestamp \<Rightarrow> World \<Rightarrow> (exn + PayoutRecord option) \<times> World" where
  "payout_insert_stmt r t w =
     (if po_tokenAddress r = None
      then (Inl (JsError ''null value in column \"token_address\" violates not-null constraint''), w)
      else case sql_insert po_id po_clientId po_externalId r (w_payouts w) of
        Inl m \<Rightarrow> (Inl (JsError m), w)
      | Inr (rows, ret) \<Rightarrow> (Inr (find (\<lambda>_. True) ret), w\<lparr>w_payouts := rows\<rparr>))"

definition payout_findById :: "Env \<Rightarrow> string \<Rightarrow> string option \<Rightarrow> PayoutRecord option io" where
  "payout_findById env i clientId =
     query env (\<lambda>t w. (Inr (find_scoped po_id po_clientId i clientId (w_payouts w)), w))"

definition payout_findByExternalId :: "Env \<Rightarrow> string option \<Rightarrow> string \<Rightarrow> PayoutRecord option io" where
  "payout_findByExternalId env clientId externalId =
     query env (\<lambda>t w. (Inr (find_external po_clientId po_externalId clientId externalId (w_payouts w)), w))"

definition payout_createOrGetExisting :: "Env \<Rightarrow> PayoutRecord \<Rightarrow> (PayoutRecord \<times> bool) io" where
  "payout_createOrGetExisting env r =
     bindP (query env (payout_insert_stmt r)) (\<lambda>inserted.
     case inserted of
       Some row \<Rightarrow> Ret (row, False)
     | None \<Rightarrow>
         bindP (payout_findByExternalId env (po_clientId r) (po_externalId r)) (\<lambda>existing.
         case existing of
           None \<Rightarrow> Raise (JsError (''Payout insert conflicted but no existing record found for externalId \"''
                     @ po_externalId r @ ''\".''))
         | Some e \<Rightarrow> Ret (e, True)))"

definition payout_where :: "PayoutFilters \<Rightarrow> PayoutRecord \<Rightarrow> bool" where
  "payout_where f r \<longleftrightarrow>
     (truthy (pf_clientId f) \<longrightarrow> po_clientId r = pf_clientId f) \<and>
     (case pf_status f of None \<Rightarrow> True | Some s \<Rightarrow> po_status r = s) \<and>
     (truthy (pf_externalId f) \<longrightarrow> Some (po_externalId r) = pf_externalId f)"

definition payout_list :: "Env \<Rightarrow> PayoutFilters \<Rightarrow> PayoutRecord list io" where
  "payout_list env f = query env (\<lambda>t w.
     (Inr (page_desc po_createdAt (case pf_limit f of None \<Rightarrow> 200 | Some n \<Rightarrow> n)
             (case pf_offset f of None \<Rightarrow> 0 | Some n \<Rightarrow> n)
             (filter (payout_where f) (w_payouts w))), w))"

section \<open>Service: reading\<close>

definition payout_toResponse :: "Env \<Rightarrow> PayoutRecord \<Rightarrow> bool \<Rightarrow> PayoutResponse io" where
  "payout_toResponse env r idempotentReplay =
     bindP (listBySubject env (po_id r)) (\<lambda>trail.
     Ret \<lparr>por_record = r, por_idempotentReplay = idempotentReplay, por_auditTrail = trail_items trail\<rparr>)"

definition requirePayout :: "Env \<Rightarrow> string \<Rightarrow> RequestContext \<Rightarrow> PayoutRecord io" where
  "requirePayout env i context =
     bindP (payout_findById env i (rc_clientId context)) (\<lambda>payout.
     case payout of None \<Rightarrow> Raise (NotFound ''Payout not found.'') | Some r \<Rightarrow> Ret r)"

definition listPayouts :: "Env \<Rightarrow> PayoutFilters \<Rightarrow> RequestContext \<Rightarrow> PayoutResponse list io" where
  "listPayouts env f context =
     bindP (payout_list env (f\<lparr>pf_clientId := rc_clientId context\<rparr>)) (\<lambda>records.
     allP (map (\<lambda>r. payout_toResponse env r False) records))"

definition getPayout :: "Env \<Rightarrow> string \<Rightarrow> RequestContext \<Rightarrow> PayoutResponse io" where
  "getPayout env i context =
     bindP (requirePayout env i context) (\<lambda>payout. payout_toResponse env payout False)"

definition getPayoutByExternalId :: "Env \<Rightarrow> string \<Rightarrow> RequestContext \<Rightarrow> PayoutResponse io" where
  "getPayoutByExternalId env externalId context =
     bindP (payout_findByExternalId env (rc_clientId context) externalId) (\<lambda>payout.
     case payout of None \<Rightarrow> Raise (NotFound ''Payout not found.'')
     | Some r \<Rightarrow> payout_toResponse env r False)"

section \<open>Service: authorization\<close>

definition payout_confirmed_event :: "PayoutRecord \<Rightarrow> jobject" where
  "payout_confirmed_event u =
     [(''id'', JStr (po_id u)), (''externalId'', JStr (po_externalId u)),
      (''asset'', JStr (asset_text (po_asset u))), (''amount'', JStr (po_amount u)),
      (''beneficiaryAddress'', JStr (po_beneficiaryAddress u)),
      (''transactionHash'', jopt (po_transactionHash u)), (''confirmedAt'', jtime (po_confirmedAt u))]"

definition execution_status :: "TransferExecution \<Rightarrow> PayoutStatus" where
  "execution_status ex = (if te_status ex = ExConfirmed then Confirmed else Broadcasted)"

text \<open>The patch that books a sent transaction.\<close>

definition sent_patch :: "TransferExecution \<Rightarrow> timestamp \<Rightarrow> PayoutField list" where
  "sent_patch ex t =
     [PoStatus (execution_status ex), PoTransactionHash (Some (te_hash ex)), PoBroadcastedAt (Some t),
      PoConfirmedAt (if execution_status ex = Confirmed then Some t else None), PoFailureReason None]"

definition sent_event :: "TransferExecution \<Rightarrow> AuditEventType" where
  "sent_event ex = (if execution_status ex = Confirmed then PAYOUT_CONFIRMED else PAYOUT_BROADCASTED)"

text \<open>The transfer of an authorized payout: through the vault when one is configured.\<close>

definition execute_transfer :: "Env \<Rightarrow> PayoutRecord \<Rightarrow> TransferExecution io" where
  "execute_transfer env r =
     bindP (liftE (settlementVaultConfigured (cfg env))) (\<lambda>vault.
     if vault then
       bindP (liftE (bigInt (po_amountAtomic r))) (\<lambda>amountAtomic.
       vaultPayout env (po_asset r) (vaultPayoutRefFromExternalId env (po_externalId r))
         (po_beneficiaryAddress r) amountAtomic)
     else
       bindP (liftE (bigInt (po_amountAtomic r))) (\<lambda>amountAtomic.
       sendErc20Transfer env (po_asset r) (po_beneficiaryAddress r) amountAtomic))"

definition check_treasury :: "Env \<Rightarrow> PayoutRecord \<Rightarrow> unit io" where
  "check_treasury env r =
     bindP (getAssetBalance env (po_asset r)) (\<lambda>treasuryBalance.
     bindP (liftE (bigInt (tb_balanceAtomic treasuryBalance))) (\<lambda>balance.
     bindP (liftE (bigInt (po_amountAtomic r))) (\<lambda>amount.
     if balance < amount
     then Raise (Conflict (''Insufficient treasury '' @ asset_text (po_asset r) @ '' balance.''))
     else Ret ())))"

definition book_transfer ::
  "Env \<Rightarrow> string \<Rightarrow> AuditActor \<Rightarrow> timestamp \<Rightarrow> TransferExecution \<Rightarrow> PayoutRecord option io" where
  "book_transfer env i actor t transfer =
     bindP (payout_update env i (sent_patch transfer t) (Some [Authorized])) (\<lambda>updated.
     bindP (liftE (settlementVaultConfigured (cfg env))) (\<lambda>vault.
     bindP (record_event env (sent_event transfer) i actor
              [(''transactionHash'', JStr (te_hash transfer)),
               (''rail'', JStr (if vault then ''vault'' else ''direct''))]) (\<lambda>_.
     if execution_status transfer = Confirmed then
       bindP (liftE (nonnull ''clientId'' updated)) (\<lambda>u.
       bindP (enqueue env (po_clientId u) ''payout.confirmed'' (payout_confirmed_event u)) (\<lambda>_.
       Ret updated))
     else Ret updated)))"

definition broadcast_payout ::
  "Env \<Rightarrow> string \<Rightarrow> AuditActor \<Rightarrow> timestamp \<Rightarrow> PayoutRecord \<Rightarrow> PayoutRecord option io" where
  "broadcast_payout env i actor t authorized =
     bindP (check_treasury env authorized) (\<lambda>_.
     bindP (execute_transfer env authorized) (\<lambda>transfer.
     book_transfer env i actor t transfer))"

definition broadcast_failed :: "Env \<Rightarrow> string \<Rightarrow> AuditActor \<Rightarrow> exn \<Rightarrow> 'a io" where
  "broadcast_failed env i actor e =
     (if is_conflict e then
        bindP (payout_update env i [PoStatus Prepared, PoFailureReason (Some (exn_message e))]
                 (Some [Authorized])) (\<lambda>_.
        Raise e)
      else
        bindP (payout_update env i [PoStatus Failed, PoFailureReason (Some (exn_message e))]
                 (Some [Authorized])) (\<lambda>failed.
        bindP (record_event env PAYOUT_FAILED i actor [(''failureReason'', JStr (exn_message e))]) (\<lambda>_.
        bindP (liftE (nonnull ''id'' failed)) (\<lambda>f.
        bindP (payout_toResponse env f False) (\<lambda>response.
        Raise (BadGatewayPayout ''Failed to broadcast payout on Avalanche.'' response))))))"

definition settle_claimed ::
  "Env \<Rightarrow> string \<Rightarrow> AuditActor \<Rightarrow> timestamp \<Rightarrow> PayoutRecord \<Rightarrow> PayoutRecord option io" where
  "settle_claimed env i actor t authorized =
     catchP (broadcast_payout env i actor t authorized) (broadcast_failed env i actor)"

definition authorize_lost ::
  "Env \<Rightarrow> string \<Rightarrow> RequestContext \<Rightarrow> PayoutResponse io" where
  "authorize_lost env i context =
     bindP (requirePayout env i context) (\<lambda>current.
     if po_status current \<in> {Authorized, Broadcasted, Confirmed}
     then payout_toResponse env current True
     else Raise (Conflict (''Payout cannot be authorized from status '' @
            payout_status_text (po_status current) @ ''.'')))"

definition authorizePayout ::
  "Env \<Rightarrow> string \<Rightarrow> AuthorizePayoutDto \<Rightarrow> RequestContext \<Rightarrow> PayoutResponse io" where
  "authorizePayout env i dto context =
     (let actor = toAuditActor context (apd_approvedBy dto) in
      bindP (requirePayout env i context) (\<lambda>payout.
      if po_status payout \<in> {Broadcasted, Confirmed} then payout_toResponse env payout True
      else
      bindP (now env) (\<lambda>t.
      bindP (payout_update env i [PoStatus Authorized, PoAuthorizedAt (Some t)] (Some [Prepared])) (\<lambda>claim.
      case claim of
        None \<Rightarrow> authorize_lost env i context
      | Some authorized \<Rightarrow>
          bindP (record_event env PAYOUT_AUTHORIZED i actor
                   [(''riskDecisionId'', jopt (apd_riskDecisionId dto)), (''notes'', jopt (apd_notes dto))]) (\<lambda>_.
          bindP (settle_claimed env i actor t authorized) (\<lambda>updated.
          bindP (liftE (nonnull ''id'' updated)) (\<lambda>u.
          payout_toResponse env u False)))))))"

section \<open>Service: creation\<close>

definition parseAmount :: "Env \<Rightarrow> string \<Rightarrow> AssetRuntimeConfig \<Rightarrow> exn + int" where
  "parseAmount env amount ac =
     (case parseAtomicAmount env amount (ac_decimals ac) of
        Inl e \<Rightarrow> Inl (BadRequest (exn_message e)) | Inr n \<Rightarrow> Inr n)"

definition check_max :: "Env \<Rightarrow> SettlementAsset \<Rightarrow> AssetRuntimeConfig \<Rightarrow> int \<Rightarrow> exn + unit" where
  "check_max env asset ac amountAtomic =
     (if truthy (ac_maxPayoutAmount ac) then
        (case parseAtomicAmount env (the (ac_maxPayoutAmount ac)) (ac_decimals ac) of
           Inl e \<Rightarrow> Inl e
         | Inr maxAtomic \<Rightarrow>
             if amountAtomic > maxAtomic
             then Inl (BadRequest (''Payout exceeds configured max for '' @ asset_text asset @ ''.''))
             else Inr ())
      else Inr ())"

definition new_payout ::
  "Env \<Rightarrow> CreatePayoutDto \<Rightarrow> RequestContext \<Rightarrow> AssetRuntimeConfig \<Rightarrow> int \<Rightarrow> timestamp \<Rightarrow> string \<Rightarrow>
   SettlementNetwork \<Rightarrow> NetworkSummary \<Rightarrow> PayoutRecord" where
  "new_payout env dto context ac amountAtomic t i net summary =
     \<lparr>po_id = i, po_clientId = rc_clientId context, po_externalId = cpd_externalId dto,
      po_chainFlowRequestId = cpd_chainFlowRequestId dto, po_status = Prepared,
      po_network = net, po_chainId = ns_chainId summary,
      po_asset = cpd_asset dto, po_tokenAddress = ac_address ac, po_amount = cpd_amount dto,
      po_amountAtomic = show_int amountAtomic, po_beneficiaryAddress = cpd_beneficiaryAddress dto,
      po_beneficiaryName = cpd_beneficiaryName dto, po_treasuryAddress = treasuryAddress env,
      po_transactionHash = None, po_failureReason = None, po_memo = cpd_memo dto,
      po_metadata = (case cpd_metadata dto of None \<Rightarrow> [] | Some m \<Rightarrow> m),
      po_createdAt = t, po_updatedAt = t,
      po_authorizedAt = None, po_broadcastedAt = None, po_confirmedAt = None\<rparr>"

definition createPayout :: "Env \<Rightarrow> CreatePayoutDto \<Rightarrow> RequestContext \<Rightarrow> PayoutResponse io" where
  "createPayout env dto context =
     bindP (liftE (getAssetConfig (cfg env) (cpd_asset dto))) (\<lambda>ac.
     bindP (liftE (parseAmount env (cpd_amount dto) ac)) (\<lambda>amountAtomic.
     bindP (liftE (check_max env (cpd_asset dto) ac amountAtomic)) (\<lambda>_.
     bindP (now env) (\<lambda>t.
     bindP (randomUUID env) (\<lambda>i.
     bindP (liftE (settlementNetwork (cfg env))) (\<lambda>net.
     bindP (liftE (networkSummary (cfg env))) (\<lambda>summary.
     bindP (payout_createOrGetExisting env (new_payout env dto context ac amountAtomic t i net summary))
       (\<lambda>(r, existed).
     if existed then
       bindP (record_event env PAYOUT_IDEMPOTENT_REPLAY (po_id r) (toAuditActor context None)
                [(''externalId'', JStr (cpd_externalId dto))]) (\<lambda>_.
       payout_toResponse env r True)
     else
       bindP (record_event env PAYOUT_PREPARED (po_id r) (toAuditActor context None)
                [(''externalId'', JStr (po_externalId r)), (''amount'', JStr (po_amount r)),
                 (''asset'', JStr (asset_text (po_asset r))),
                 (''beneficiaryAddress'', JStr (po_beneficiaryAddress r))]) (\<lambda>_.
       if cpd_executeImmediately dto
       then authorizePayout env (po_id r)
              \<lparr>apd_approvedBy = None, apd_riskDecisionId = None, apd_notes = None\<rparr> context
       else payout_toResponse env r False)))))))))"

section \<open>Service: batches\<close>

text \<open>\<^verbatim>\<open>[...new Set(xs)]\<close>: the first occurrence of each element, in order.\<close>

definition js_dedup :: "'x list \<Rightarrow> 'x list" where
  "js_dedup xs = rev (remdups (rev xs))"

definition release_legs :: "Env \<Rightarrow> PayoutField list \<Rightarrow> PayoutRecord list \<Rightarrow> unit io" where
  "release_legs env patch claimed =
     bindP (allP (map (\<lambda>c. payout_update env (po_id c) patch (Some [Authorized])) claimed)) (\<lambda>_. Ret ())"

fun claim_legs ::
  "Env \<Rightarrow> timestamp \<Rightarrow> PayoutRecord list \<Rightarrow> PayoutRecord list \<Rightarrow> PayoutRecord list io" where
  "claim_legs env t claimed [] = Ret claimed"
| "claim_legs env t claimed (payout # payouts) =
     bindP (payout_update env (po_id payout) [PoStatus Authorized, PoAuthorizedAt (Some t)]
              (Some [Prepared])) (\<lambda>authorized.
     case authorized of
       None \<Rightarrow>
         bindP (release_legs env [PoStatus Prepared] claimed) (\<lambda>_.
         Raise (Conflict (''Payout '' @ po_id payout @
                  '' could not be claimed for the batch (concurrent change).'')))
     | Some a \<Rightarrow> claim_legs env t (claimed @ [a]) payouts)"

definition book_leg ::
  "Env \<Rightarrow> AuditActor \<Rightarrow> TransferExecution \<Rightarrow> PayoutRecord option \<Rightarrow> unit io" where
  "book_leg env actor exec updated =
     bindP (liftE (nonnull ''id'' updated)) (\<lambda>u.
     bindP (record_event env (sent_event exec) (po_id u) actor
              [(''transactionHash'', JStr (te_hash exec)), (''rail'', JStr ''vault''), (''batch'', JBool True)]) (\<lambda>_.
     if execution_status exec = Confirmed
     then enqueue env (po_clientId u) ''payout.confirmed'' (payout_confirmed_event u)
     else Ret ()))"

definition broadcast_batch ::
  "Env \<Rightarrow> SettlementAsset \<Rightarrow> AuditActor \<Rightarrow> timestamp \<Rightarrow> PayoutRecord list \<Rightarrow> PayoutRecord option list io" where
  "broadcast_batch env asset actor t claimed =
     bindP (liftE (collect (map (\<lambda>c. bigInt (po_amountAtomic c)) claimed))) (\<lambda>amounts.
     bindP (vaultPayoutBatch env asset (batchRefFromExternalIds env (map po_externalId claimed))
              (map po_beneficiaryAddress claimed) amounts) (\<lambda>exec.
     bindP (allP (map (\<lambda>c. payout_update env (po_id c) (sent_patch exec t) (Some [Authorized])) claimed)) (\<lambda>updated.
     bindP (forP updated (book_leg env actor exec)) (\<lambda>_.
     Ret updated))))"

definition batch_failed ::
  "Env \<Rightarrow> AuditActor \<Rightarrow> PayoutRecord list \<Rightarrow> exn \<Rightarrow> 'a io" where
  "batch_failed env actor claimed e =
     bindP (release_legs env
              [PoStatus (if is_conflict e then Prepared else Failed), PoFailureReason (Some (exn_message e))]
              claimed) (\<lambda>_.
     if is_conflict e then Raise e
     else
       bindP (allP (map (\<lambda>c. record_event env PAYOUT_FAILED (po_id c) actor
                [(''failureReason'', JStr (exn_message e)), (''batch'', JBool True)]) claimed)) (\<lambda>_.
       Raise (BadGatewayBatch ''Failed to broadcast batch payout on Avalanche.'' (exn_message e))))"

definition settle_batch ::
  "Env \<Rightarrow> SettlementAsset \<Rightarrow> AuditActor \<Rightarrow> timestamp \<Rightarrow> PayoutRecord list \<Rightarrow> PayoutRecord option list io" where
  "settle_batch env asset actor t claimed =
     catchP (broadcast_batch env asset actor t claimed) (batch_failed env actor claimed)"

text \<open>The checks on the loaded payouts, and the total the treasury must hold.\<close>

definition check_batch :: "PayoutRecord list \<Rightarrow> exn + int" where
  "check_batch payouts =
     (if list_ex (\<lambda>p. po_asset p \<noteq> po_asset (hd payouts)) payouts
      then Inl (BadRequest ''All payouts in a batch must use the same asset.'')
      else let notPrepared = filter (\<lambda>p. po_status p \<noteq> Prepared) payouts in
      if notPrepared \<noteq> []
      then Inl (Conflict (''Payouts must be prepared to batch-authorize: '' @
             join '', '' (map po_id notPrepared) @ '' are not.''))
      else map_sum id (foldl (+) 0) (collect (map (\<lambda>p. bigInt (po_amountAtomic p)) payouts)))"

definition authorizePayoutBatch ::
  "Env \<Rightarrow> string list \<Rightarrow> AuthorizePayoutDto \<Rightarrow> RequestContext \<Rightarrow> PayoutResponse list io" where
  "authorizePayoutBatch env payoutIds dto context =
     (let actor = toAuditActor context (apd_approvedBy dto) in
      bindP (liftE (settlementVaultConfigured (cfg env))) (\<lambda>vault.
      if \<not> vault
      then Raise (BadRequest ''Batch payouts require the SettlementVault (set AVASETTLE_SETTLEMENT_VAULT_ADDRESS).'')
      else
      let ids = js_dedup payoutIds in
      if ids = [] then Raise (BadRequest ''No payout ids provided.'')
      else
      bindP (allP (map (\<lambda>i. requirePayout env i context) ids)) (\<lambda>payouts.
      let asset = po_asset (hd payouts) in
      bindP (liftE (check_batch payouts)) (\<lambda>totalAtomic.
      bindP (getAssetBalance env asset) (\<lambda>treasuryBalance.
      bindP (liftE (bigInt (tb_balanceAtomic treasuryBalance))) (\<lambda>balance.
      if balance < totalAtomic
      then Raise (Conflict (''Insufficient treasury '' @ asset_text asset @ '' balance for the batch.''))
      else
      bindP (now env) (\<lambda>t.
      bindP (claim_legs env t [] payouts) (\<lambda>claimed.
      bindP (allP (map (\<lambda>c. record_event env PAYOUT_AUTHORIZED (po_id c) actor
               [(''batch'', JBool True), (''riskDecisionId'', jopt (apd_riskDecisionId dto)),
                (''notes'', jopt (apd_notes dto))]) claimed)) (\<lambda>_.
      bindP (settle_batch env asset actor t claimed) (\<lambda>updated.
      allP (map (\<lambda>u. bindP (liftE (nonnull ''id'' u)) (\<lambda>r. payout_toResponse env r False)) updated)))))))))))"

section \<open>Service: reconciliation\<close>

definition recon_status_text :: "ReconStatus \<Rightarrow> string" where
  "recon_status_text s = (case s of RcPending \<Rightarrow> ''pending'' | RcSuccess \<Rightarrow> ''success'' | RcReverted \<Rightarrow> ''reverted'')"

definition reconciliation_json :: "TransactionReconciliation \<Rightarrow> jobject" where
  "reconciliation_json r =
     [(''hash'', JStr (rn_hash r)), (''network'', JStr (network_text (rn_network r))),
      (''status'', JStr (recon_status_text (rn_status r))), (''blockNumber'', jopt (rn_blockNumber r)),
      (''confirmations'', JInt (rn_confirmations r)), (''finalized'', JBool (rn_finalized r))]"

text \<open>The patch a reconciliation writes; \<open>t\<close> is the time of a confirmation.\<close>

definition reconciled_patch ::
  "PayoutRecord \<Rightarrow> TransactionReconciliation \<Rightarrow> timestamp \<Rightarrow> PayoutField list" where
  "reconciled_patch payout rn t =
     (let s1 = (if rn_status rn = RcReverted then Failed else po_status payout);
          m1 = (if rn_status rn = RcReverted then Some ''Transaction reverted on-chain.''
                else po_failureReason payout)
      in if rn_finalized rn
         then [PoStatus Confirmed, PoConfirmedAt (Some t), PoFailureReason None]
         else [PoStatus s1, PoConfirmedAt (po_confirmedAt payout), PoFailureReason m1])"

definition reconcilePayout :: "Env \<Rightarrow> string \<Rightarrow> RequestContext \<Rightarrow> PayoutResponse io" where
  "reconcilePayout env i context =
     bindP (requirePayout env i context) (\<lambda>payout.
     if \<not> truthy (po_transactionHash payout)
     then Raise (Conflict ''Payout has no transaction hash to reconcile.'')
     else
     bindP (reconcileTransaction env (the (po_transactionHash payout))) (\<lambda>reconciliation.
     bindP (now env) (\<lambda>t.
     bindP (payout_update env i (reconciled_patch payout reconciliation t) None) (\<lambda>updated.
     bindP (record_event env PAYOUT_RECONCILED i (toAuditActor context None)
              (reconciliation_json reconciliation)) (\<lambda>_.
     bindP (liftE (nonnull ''id'' updated)) (\<lambda>u.
     payout_toResponse env u False))))))"

end
