(* ===== verification/Neutral.thy ===== *)
theory Neutral
  imports AuditLog Blockchain Webhooks
begin

text \<open>
  The calls that leave the ledgers alone.  The audit log, the webhook outbox, the RPC client and
  the wallets do not touch the tables of payouts, pay-ins, settlements and clients nor the
  derivation counter.  The locale states this once for every relation that only looks at those.
\<close>

definition same_ledgers :: "World \<Rightarrow> World \<Rightarrow> bool" where
  "same_ledgers w w' \<longleftrightarrow> w_payouts w' = w_payouts w \<and> w_payins w' = w_payins w \<and>
     w_settlements w' = w_settlements w \<and> w_clients w' = w_clients w \<and> w_counter w' = w_counter w"

lemma same_ledgers_bump [simp]: "same_ledgers w (bump w') = same_ledgers w w'"
  by (simp add: same_ledgers_def)

lemma same_ledgers_refl [simp]: "same_ledgers w w"
  by (simp add: same_ledgers_def)

lemma steps_query:
  "(\<And>t w. R w (bump (snd (stmt t w)))) \<Longrightarrow> (\<And>w. R w (bump w)) \<Longrightarrow>
   (\<And>t w e. fst (stmt t w) = Inl e \<Longrightarrow> E e) \<Longrightarrow> (\<And>m. E (JsError m)) \<Longrightarrow> steps (query env stmt) R E"
  unfolding query_def by (rule steps_await) (auto split: option.splits)

locale ledger_relation =
  fixes R :: "World \<Rightarrow> World \<Rightarrow> bool"
  assumes same: "same_ledgers w w' \<Longrightarrow> R w w'"
begin

abbreviation harmless :: "'a io \<Rightarrow> bool" where
  "harmless p \<equiv> steps p R (\<lambda>_. True)"

lemma harmless_query: "(\<And>t w. R w (bump (snd (stmt t w)))) \<Longrightarrow> harmless (query env stmt)"
  by (rule steps_query) (auto intro: same)

lemma harmless_read: "(\<And>t w. snd (stmt t w) = w) \<Longrightarrow> harmless (query env stmt)"
  by (rule harmless_query) (auto intro: same)

lemma harmless_catch: "harmless p \<Longrightarrow> (\<And>e. harmless (h e)) \<Longrightarrow> harmless (catchP p h)"
  by (rule steps_catchP)

lemma harmless_allP: "(\<And>p. p \<in> set ps \<Longrightarrow> harmless p) \<Longrightarrow> harmless (allP ps)"
  unfolding allP_def by (auto intro!: steps_allSettled)

lemma harmless_primitives:
  "harmless (now env)" "harmless (rpc call)" "harmless (submit env tx)" "harmless (randomUUID env)"
  "harmless (randomBytesHex env)" "harmless (liftE r)"
  unfolding now_def peek_def rpc_def submit_def randomUUID_def randomBytesHex_def
  by (auto intro!: steps_await same simp: same_ledgers_def)

lemma harmless_record_event: "harmless (record_event env ty i a p)"
  unfolding record_event_def Let_def
  by (auto intro!: harmless_primitives harmless_query same simp: insert_audit_def same_ledgers_def)

lemma harmless_listBySubject: "harmless (listBySubject env i)"
  unfolding listBySubject_def by (rule harmless_read) simp

lemma harmless_enqueue: "harmless (enqueue env c ev p)"
  unfolding enqueue_def Let_def
  by (auto intro!: harmless_primitives harmless_query harmless_catch same simp: same_ledgers_def)

lemmas harmless_calls = harmless_primitives harmless_record_event harmless_listBySubject harmless_enqueue

lemma harmless_paginateLogs: "(\<And>a b. harmless (fetch a b)) \<Longrightarrow> harmless (paginateLogs a b fetch)"
proof (induction a b fetch rule: paginateLogs.induct)
  case (1 a b fetch)
  then show ?case by (subst paginateLogs.simps) (auto simp: Let_def)
qed

lemma harmless_execution: "harmless (toTransferExecution env h)"
  unfolding toTransferExecution_def by (auto intro!: harmless_calls)

lemma harmless_wait: "harmless (waitForTransaction env h)"
  unfolding waitForTransaction_def by (auto intro!: harmless_calls)

lemma harmless_latestBlock: "harmless (getLatestBlockNumber env)"
  unfolding getLatestBlockNumber_def by (rule harmless_calls)

lemma harmless_transfers: "harmless (findIncomingErc20Transfers env a to lo hi)"
  unfolding findIncomingErc20Transfers_def Let_def
  by (auto intro!: harmless_calls harmless_paginateLogs split: option.splits)

lemma harmless_payments: "harmless (findPaymentRouterInvoicePayments env a r n lo hi)"
  unfolding findPaymentRouterInvoicePayments_def Let_def
  by (auto intro!: harmless_calls harmless_paginateLogs split: option.splits)

lemma harmless_sendNativeTransfer: "harmless (sendNativeTransfer env to n)"
  unfolding sendNativeTransfer_def by (auto intro!: harmless_calls)

lemma harmless_sweepDerivedPayIn: "harmless (sweepDerivedPayIn env a i addr n)"
  unfolding sweepDerivedPayIn_def Let_def by (auto intro!: harmless_calls harmless_execution)

lemma harmless_balance: "harmless (getAssetBalance env a)"
  unfolding getAssetBalance_def by (auto intro!: harmless_calls)

lemma harmless_allowance: "harmless (ensureVaultAllowance env v tk n)"
  unfolding ensureVaultAllowance_def by (auto intro!: harmless_calls)

lemma harmless_sendErc20Transfer: "harmless (sendErc20Transfer env a to n)"
  unfolding sendErc20Transfer_def by (auto intro!: harmless_calls harmless_execution split: option.splits)

lemma harmless_vaultPayout: "harmless (vaultPayout env a ref to n)"
  unfolding vaultPayout_def
  by (auto intro!: harmless_calls harmless_execution harmless_allowance split: option.splits)

lemma harmless_vaultPayoutBatch: "harmless (vaultPayoutBatch env a ref tos ns)"
  unfolding vaultPayoutBatch_def
  by (auto intro!: harmless_calls harmless_execution harmless_allowance split: option.splits)

lemma harmless_recordPrivateSettlement: "harmless (recordPrivateSettlement env p q)"
  unfolding recordPrivateSettlement_def by (auto intro!: harmless_calls harmless_execution split: option.splits)

lemma harmless_revealPrivateSettlement: "harmless (revealPrivateSettlement env p q r s t)"
  unfolding revealPrivateSettlement_def by (auto intro!: harmless_calls harmless_execution split: option.splits)

lemma harmless_reconcileTransaction: "harmless (reconcileTransaction env h)"
  unfolding reconcileTransaction_def
  by (auto intro!: harmless_calls harmless_catch simp: Let_def split: option.splits)

lemmas harmless_chain = harmless_balance harmless_sendErc20Transfer harmless_vaultPayout
  harmless_vaultPayoutBatch harmless_recordPrivateSettlement harmless_revealPrivateSettlement
  harmless_reconcileTransaction harmless_execution harmless_wait harmless_latestBlock harmless_transfers
  harmless_payments harmless_sendNativeTransfer harmless_sweepDerivedPayIn

end

text \<open>The ledgers themselves: a handler built from such calls leaves every row as it was.\<close>

interpretation frame: ledger_relation same_ledgers
  by unfold_locales

lemma same_ledgers_trans: "same_ledgers a b \<Longrightarrow> same_ledgers b c \<Longrightarrow> same_ledgers a c"
  by (simp add: same_ledgers_def)

lemma ends_frame:
  assumes "steps p same_ledgers E"
  shows "ends p w (\<lambda>_. same_ledgers w) (\<lambda>e w'. same_ledgers w w' \<and> E e)"
  by (rule steps_ends [OF assms]) (auto intro: same_ledgers_trans)

end
