(* ===== verification/PayoutSafety.thy ===== *)
theory PayoutSafety
  imports Payouts Neutral
begin

text \<open>
  What the payout handlers guarantee when any number of them run at the same time, on any number
  of server instances, against a database and a node that may fail at every call.  Each handler
  is followed by a ghost phase with respect to one payout \<open>i\<close>: it has not claimed it, it owns the
  claim, it has handed a transaction to the wallet, or it knows that the payout is settled.
\<close>

section \<open>The ledger as a tenant table\<close>

lemma set_payout_field_key [simp]:
  "po_id (set_payout_field f r) = po_id r" "po_clientId (set_payout_field f r) = po_clientId r"
  "po_externalId (set_payout_field f r) = po_externalId r"
  by (cases f; simp)+

lemma apply_payout_patch_key [simp]:
  "po_id (apply_payout_patch p r) = po_id r" "po_clientId (apply_payout_patch p r) = po_clientId r"
  "po_externalId (apply_payout_patch p r) = po_externalId r"
proof -
  have "po_id (fold set_payout_field fs r) = po_id r \<and> po_clientId (fold set_payout_field fs r) = po_clientId r
      \<and> po_externalId (fold set_payout_field fs r) = po_externalId r" for fs
    by (induction fs arbitrary: r) auto
  then show "po_id (apply_payout_patch p r) = po_id r" "po_clientId (apply_payout_patch p r) = po_clientId r"
    "po_externalId (apply_payout_patch p r) = po_externalId r"
    by (simp_all add: apply_payout_patch_def)
qed

interpretation payouts: tenant_table po_id po_clientId po_externalId apply_payout_patch
  by unfold_locales simp_all

definition wf_payouts :: "World \<Rightarrow> bool" where
  "wf_payouts w = wf_table po_id po_clientId po_externalId (w_payouts w)"

section \<open>One payout\<close>

definition settled :: "PayoutStatus \<Rightarrow> bool" where
  "settled s = (s \<in> {Broadcasted, Confirmed, Failed})"

lemma settled_simps [simp]:
  "settled Broadcasted" "settled Confirmed" "settled Failed" "\<not> settled Prepared" "\<not> settled Authorized"
  by (simp_all add: settled_def)

definition row_of :: "string \<Rightarrow> World \<Rightarrow> PayoutRecord option" where
  "row_of i w = find (\<lambda>r. po_id r = i) (w_payouts w)"

text \<open>The payout exists, keys are unique, and a payout with a transaction hash has left the claim.\<close>

definition payout_ok :: "string \<Rightarrow> World \<Rightarrow> bool" where
  "payout_ok i w \<longleftrightarrow> wf_payouts w \<and>
     (\<exists>r. row_of i w = Some r \<and> (po_transactionHash r \<noteq> None \<longrightarrow> settled (po_status r)))"

definition status_of :: "string \<Rightarrow> World \<Rightarrow> PayoutStatus" where
  "status_of i w = po_status (the (row_of i w))"

definition same_row :: "string \<Rightarrow> World \<Rightarrow> World \<Rightarrow> bool" where
  "same_row i w w' \<longleftrightarrow> (payout_ok i w \<longrightarrow> payout_ok i w' \<and> row_of i w' = row_of i w)"

definition quiet :: "string \<Rightarrow> World \<Rightarrow> World \<Rightarrow> bool" where
  "quiet i w w' \<longleftrightarrow> same_row i w w' \<and> w_sent w' = w_sent w"

definition noconf :: "exn \<Rightarrow> bool" where
  "noconf e = (\<not> is_conflict e)"

lemma noconf_simps [simp]: "noconf (JsError m)" "noconf (ServiceUnavailable m)" "noconf (BadRequest m)"
  by (simp_all add: noconf_def)

lemma same_payouts: "w_payouts w' = w_payouts w \<Longrightarrow> same_row i w w'"
  by (simp add: same_row_def payout_ok_def wf_payouts_def row_of_def)

lemma quiet_payouts: "w_payouts w' = w_payouts w \<Longrightarrow> w_sent w' = w_sent w \<Longrightarrow> quiet i w w'"
  by (simp add: quiet_def same_payouts)

lemma row_of_Some: "row_of i w = Some r \<Longrightarrow> po_id r = i \<and> r \<in> set (w_payouts w)"
  by (auto simp: row_of_def dest: find_SomeD)

lemma row_unique: "wf_payouts w \<Longrightarrow> row_of i w = Some r \<Longrightarrow> x \<in> set (w_payouts w) \<Longrightarrow> po_id x = i \<Longrightarrow> x = r"
  by (auto simp: wf_payouts_def dest!: row_of_Some intro: wf_table_id_eq)

text \<open>What an update of payout \<open>j\<close> does to the row of payout \<open>i\<close>, and what it returns.\<close>

lemma update_stmt_row:
  assumes "payout_update_stmt j patch g t w = (x, w')" and "wf_payouts w"
  shows "wf_payouts w'" and "w_sent w' = w_sent w"
    and "\<exists>a. x = Inr a \<and> (\<forall>r. a = Some r \<longrightarrow> po_id r = j)"
    and "row_of i w' = map_option (\<lambda>r. if payout_guard j g r then apply_payout_patch (t, patch) r else r) (row_of i w)"
    and "row_of j w = Some r \<Longrightarrow>
         x = Inr (if payout_guard j g r then Some (apply_payout_patch (t, patch) r) else None)"
proof -
  let ?P = "payout_guard j g" and ?f = "apply_payout_patch (t, patch)"
  have x: "x = Inr (find (\<lambda>_. True) (snd (sql_update ?P ?f (w_payouts w))))"
    and w': "w' = w\<lparr>w_payouts := fst (sql_update ?P ?f (w_payouts w))\<rparr>"
    using assms(1) by (auto simp: payout_update_stmt_def split: prod.splits)
  show "wf_payouts w'"
    using payouts.update_wf assms(2) w' by (simp add: wf_payouts_def)
  show "w_sent w' = w_sent w" using w' by simp
  show "\<exists>a. x = Inr a \<and> (\<forall>r. a = Some r \<longrightarrow> po_id r = j)"
    using x by (auto dest!: find_SomeD simp: payout_guard_def sql_update_def)
  show "row_of i w' = map_option (\<lambda>r. if ?P r then ?f r else r) (row_of i w)"
    unfolding row_of_def w' by (simp add: payouts.update_find)
  assume "row_of j w = Some r"
  then have "snd (sql_update ?P ?f (w_payouts w)) = (if ?P r then [?f r] else [])"
    using assms(2) by (intro payouts.update_returned) (auto simp: wf_payouts_def row_of_def payout_guard_def)
  then show "x = Inr (if ?P r then Some (?f r) else None)" using x by auto
qed

section \<open>Steps that leave the payout alone\<close>

lemma quiet_bump [simp]: "quiet i w (bump w)"
  by (simp add: quiet_payouts)

lemma quiet_refl [simp]: "quiet i w w"
  by (simp add: quiet_payouts)

named_theorems quiet_steps \<open>programs whose steps leave a payout and the wallets alone\<close>

lemma quiet_now [quiet_steps]: "steps (now env) (quiet i) noconf"
  unfolding now_def peek_def by (rule steps_await) auto

lemma quiet_rpc [quiet_steps]: "steps (rpc call) (quiet i) noconf"
  unfolding rpc_def by (rule steps_await) (auto split: sum.splits)

lemma quiet_uuid [quiet_steps]: "steps (randomUUID env) (quiet i) noconf"
  unfolding randomUUID_def by (rule steps_await) auto

lemma quiet_record_event [quiet_steps]: "steps (record_event env ty j a p) (quiet i) noconf"
  unfolding record_event_def Let_def
  by (auto intro!: quiet_steps steps_query quiet_payouts simp: insert_audit_def)

lemma quiet_enqueue [quiet_steps]: "steps (enqueue env c ev p) (quiet i) noconf"
  unfolding enqueue_def Let_def
  by (auto intro!: quiet_steps steps_query quiet_payouts steps_catchP [of _ _ "\<lambda>_. True"])

lemma quiet_response [quiet_steps]: "steps (payout_toResponse env r b) (quiet i) noconf"
  unfolding payout_toResponse_def listBySubject_def by (auto intro!: steps_query)

lemma quiet_update [quiet_steps]: "j \<noteq> i \<Longrightarrow> steps (payout_update env j p g) (quiet i) noconf"
  unfolding payout_update_def
proof (rule steps_query)
  fix t w
  assume "j \<noteq> i"
  obtain x w' where s: "payout_update_stmt j p g t w = (x, w')" by fastforce
  have "payout_ok i w' \<and> row_of i w' = row_of i w" if ok: "payout_ok i w"
  proof -
    have wf: "wf_payouts w" using ok by (simp add: payout_ok_def)
    have "row_of i w' = row_of i w"
      using update_stmt_row(4) [OF s wf, where i = i] ok \<open>j \<noteq> i\<close>
      by (auto simp: payout_ok_def payout_guard_def dest: row_of_Some)
    then show ?thesis using update_stmt_row(1) [OF s wf] ok by (simp add: payout_ok_def)
  qed
  moreover have "w_sent w' = w_sent w"
    using s by (auto simp: payout_update_stmt_def split: prod.splits)
  ultimately show "quiet i w (bump (snd (payout_update_stmt j p g t w)))"
    using s by (simp add: quiet_def same_row_def payout_ok_def wf_payouts_def row_of_def)
qed (auto simp: payout_update_stmt_def split: prod.splits)

section \<open>Ghost phases\<close>

datatype Phase = Free | Own | Spent | Settled

text \<open>Whether the handler acts on payout \<open>i\<close> at all, and its phase.\<close>

type_synonym ghost = "bool \<times> Phase"

definition agree :: "string \<Rightarrow> ghost \<Rightarrow> World \<Rightarrow> bool" where
  "agree i l w \<longleftrightarrow> payout_ok i w \<and> (snd l = Own \<longrightarrow> fst l \<and> status_of i w = Authorized) \<and>
     (snd l = Settled \<longrightarrow> settled (status_of i w))"

text \<open>
  The permitted actions: anything that leaves the payout alone (a handler that does not act on
  it may even send transactions), claiming it, sending its transaction, giving the claim back,
  settling a claimed payout, learning that it is settled, and updating a settled one.
\<close>

definition permitted :: "string \<Rightarrow> ghost \<Rightarrow> World \<Rightarrow> ghost \<Rightarrow> World \<Rightarrow> bool" where
  "permitted i l w l' w' \<longleftrightarrow> fst l' = fst l \<and> payout_ok i w' \<and>
     ((snd l' = snd l \<and> row_of i w' = row_of i w \<and> (fst l \<longrightarrow> w_sent w' = w_sent w)) \<or>
      (fst l \<and> snd l = Own \<and> snd l' = Spent \<and> row_of i w' = row_of i w \<and>
         length (w_sent w') = Suc (length (w_sent w))) \<or>
      w_sent w' = w_sent w \<and>
       ((fst l \<and> snd l = Free \<and> snd l' = Own \<and> status_of i w = Prepared \<and> status_of i w' = Authorized) \<or>
        (snd l = Own \<and> snd l' = Free \<and> status_of i w' = Prepared) \<or>
        (snd l \<in> {Own, Spent} \<and> snd l' = Settled \<and> status_of i w = Authorized \<and> settled (status_of i w')) \<or>
        (snd l = Free \<and> snd l' = Settled \<and> row_of i w' = row_of i w \<and> settled (status_of i w)) \<or>
        (snd l = Settled \<and> snd l' = Settled \<and> settled (status_of i w'))))"

text \<open>Transactions sent by the handlers of \<open>K\<close>.\<close>

definition sends :: "nat set \<Rightarrow> nat \<Rightarrow> World \<Rightarrow> World \<Rightarrow> nat" where
  "sends K k w w' = (if k \<in> K then length (w_sent w') - length (w_sent w) else 0)"

definition custody :: "string \<Rightarrow> nat set \<Rightarrow> nat \<Rightarrow> ghost list \<Rightarrow> World \<Rightarrow> bool" where
  "custody i K n ls w \<longleftrightarrow> payout_ok i w \<and> n \<le> 1 \<and> (n = 1 \<longrightarrow> status_of i w \<noteq> Prepared) \<and>
     (\<forall>k<length ls. fst (ls ! k) = (k \<in> K)) \<and>
     (\<forall>k<length ls. snd (ls ! k) = Own \<longrightarrow> fst (ls ! k) \<and> status_of i w = Authorized \<and> n = 0 \<and>
        (\<forall>k'<length ls. snd (ls ! k') = Own \<longrightarrow> k' = k)) \<and>
     (\<forall>k<length ls. snd (ls ! k) = Spent \<longrightarrow> n = 1) \<and>
     (\<forall>k<length ls. snd (ls ! k) = Settled \<longrightarrow> settled (status_of i w))"

lemma status_of_same: "row_of i w' = row_of i w \<Longrightarrow> status_of i w' = status_of i w"
  by (simp add: status_of_def)

text \<open>The permitted actions, one by one, with the transactions they send.\<close>

lemma permitted_cases:
  assumes "permitted i l w l' w'" and "fst l = (k \<in> K)"
  obtains
      (same) "snd l' = snd l" "row_of i w' = row_of i w" "sends K k w w' = 0"
    | (spend) "k \<in> K" "snd l = Own" "snd l' = Spent" "row_of i w' = row_of i w" "sends K k w w' = 1"
    | (claim) "k \<in> K" "snd l = Free" "snd l' = Own" "status_of i w = Prepared"
        "status_of i w' = Authorized" "sends K k w w' = 0"
    | (release) "snd l = Own" "snd l' = Free" "status_of i w' = Prepared" "sends K k w w' = 0"
    | (settle) "snd l \<in> {Own, Spent}" "snd l' = Settled" "status_of i w = Authorized"
        "settled (status_of i w')" "sends K k w w' = 0"
    | (learn) "snd l' = Settled" "row_of i w' = row_of i w" "settled (status_of i w)" "sends K k w w' = 0"
    | (rewrite) "snd l = Settled" "snd l' = Settled" "settled (status_of i w')" "sends K k w w' = 0"
  using assms unfolding permitted_def sends_def by auto

lemma custody_act:
  assumes "custody i K n ls w" and "k < length ls" and "permitted i (ls ! k) w l' w'"
  shows "custody i K (n + sends K k w w') (ls[k := l']) w'"
proof -
  have k: "fst (ls ! k) = (k \<in> K)" and l': "fst l' = (k \<in> K)"
    using assms by (auto simp: custody_def permitted_def)
  have own: "snd (ls ! k) = Own \<Longrightarrow> n = 0 \<and> (\<forall>k'<length ls. snd (ls ! k') = Own \<longrightarrow> k' = k)"
    and spent: "\<And>k'. k' < length ls \<Longrightarrow> snd (ls ! k') = Spent \<Longrightarrow> n = 1"
    using assms(1,2) by (auto simp: custody_def)
  have "payout_ok i w'" using assms(3) by (simp add: permitted_def)
  from assms(3) k show ?thesis
  proof (cases rule: permitted_cases)
    case same
    then show ?thesis using assms(1,2) l' \<open>payout_ok i w'\<close> status_of_same [OF same(2)]
      unfolding custody_def by (auto simp: nth_list_update)
  next
    case spend
    then show ?thesis using assms(1,2) l' \<open>payout_ok i w'\<close> status_of_same [OF spend(4)] own
      unfolding custody_def by (auto simp: nth_list_update)
  next
    case claim
    then show ?thesis using assms(1,2) l' \<open>payout_ok i w'\<close>
      unfolding custody_def by (auto simp: nth_list_update)
  next
    case release
    then show ?thesis using assms(1,2) l' \<open>payout_ok i w'\<close> own spent
      unfolding custody_def by (auto simp: nth_list_update)
  next
    case settle
    then show ?thesis using assms(1,2) l' \<open>payout_ok i w'\<close> own spent
      unfolding custody_def by (auto simp: nth_list_update)
  next
    case learn
    then show ?thesis using assms(1,2) l' \<open>payout_ok i w'\<close> status_of_same [OF learn(2)]
      unfolding custody_def by (auto simp: nth_list_update)
  next
    case rewrite
    then show ?thesis using assms(1,2) l' \<open>payout_ok i w'\<close>
      unfolding custody_def by (auto simp: nth_list_update)
  qed
qed

interpretation payout_protocol: protocol "agree i" "permitted i" "sends K" "custody i K" for i K
proof unfold_locales
  fix n ls w k
  assume "custody i K n ls w" and "k < length ls"
  then show "agree i (ls ! k) w" by (auto simp: custody_def agree_def)
qed (rule custody_act)

section \<open>The handlers keep to the protocol\<close>

abbreviation fol ::
  "string \<Rightarrow> 'a io \<Rightarrow> ('a \<Rightarrow> ghost \<Rightarrow> bool) \<Rightarrow> (exn \<Rightarrow> ghost \<Rightarrow> bool) \<Rightarrow> ghost \<Rightarrow> bool" where
  "fol i p Q E l \<equiv> follows p (agree i) (permitted i) Q E l"

lemma bump_row [simp]:
  "row_of i (bump w) = row_of i w" "wf_payouts (bump w) = wf_payouts w"
  "payout_ok i (bump w) = payout_ok i w" "status_of i (bump w) = status_of i w"
  by (simp_all add: row_of_def wf_payouts_def payout_ok_def status_of_def)

lemma permitted_bump [simp]: "permitted i l w l' (bump w') = permitted i l w l' w'"
  by (simp add: permitted_def)

lemma permitted_stutter: "agree i l w \<Longrightarrow> permitted i l w l w"
  by (simp add: permitted_def agree_def)

lemma follows_quiet:
  assumes "steps p (quiet i) X"
  shows "fol i p (\<lambda>_ l'. l' = l) (\<lambda>e l'. l' = l \<and> X e) l"
  using assms by (rule follows_steps) (auto simp: quiet_def same_row_def permitted_def agree_def)

lemma quiet_bind:
  assumes "steps p (quiet i) X" and "\<And>e. X e \<Longrightarrow> E e l" and "\<And>a. fol i (k a) Q E l"
  shows "fol i (bindP p k) Q E l"
  by (rule follows_bindP, rule follows_mono [OF follows_quiet [OF assms(1)]]) (auto intro: assms(2,3))

lemma quiet_end:
  assumes "steps p (quiet i) X" and "\<And>e. X e \<Longrightarrow> E e l" and "\<And>a. Q a l"
  shows "fol i p Q E l"
  by (rule follows_mono [OF follows_quiet [OF assms(1)]]) (auto intro: assms(2,3))

lemma follows_query:
  assumes "\<And>t w. agree i l w \<Longrightarrow> \<exists>l'. permitted i l w l' (snd (stmt t w)) \<and>
      (case fst (stmt t w) of Inl e \<Rightarrow> E e l' | Inr a \<Rightarrow> Q a l')"
    and "\<And>m. E (JsError m) l"
  shows "fol i (query env stmt) Q E l"
  unfolding query_def
proof (rule follows_await)
  fix w
  assume ag: "agree i l w"
  show "\<exists>l'. permitted i l w l' (snd (case db_fault env (w_event w) of
          Some m \<Rightarrow> (Inl (JsError m), bump w)
        | None \<Rightarrow> (fst (stmt (time env w) w), bump (snd (stmt (time env w) w))))) \<and>
      (case fst (case db_fault env (w_event w) of
          Some m \<Rightarrow> (Inl (JsError m), bump w)
        | None \<Rightarrow> (fst (stmt (time env w) w), bump (snd (stmt (time env w) w)))) of
         Inl e \<Rightarrow> E e l' | Inr a \<Rightarrow> Q a l')"
    using assms(1) [OF ag, of "time env w"] assms(2) permitted_stutter [OF ag]
    by (cases "db_fault env (w_event w)") (auto simp del: split_paired_Ex intro: exI [of _ l])
qed

text \<open>
  An update of payout \<open>i\<close> itself: what it does to the row depends only on the guard.
\<close>

lemma update_own:
  assumes "\<And>a. po_id a = i \<Longrightarrow> Q (Some a) lnew"
    and "\<And>w r t w'. agree i l w \<Longrightarrow> row_of i w = Some r \<Longrightarrow> payout_guard i g r \<Longrightarrow>
           w_sent w' = w_sent w \<Longrightarrow> wf_payouts w' \<Longrightarrow>
           row_of i w' = Some (apply_payout_patch (t, patch) r) \<Longrightarrow> permitted i l w lnew w'"
    and "\<And>w r. agree i l w \<Longrightarrow> row_of i w = Some r \<Longrightarrow> \<not> payout_guard i g r \<Longrightarrow> Q None l"
    and "\<And>m. E (JsError m) l"
  shows "fol i (payout_update env i patch g) Q E l"
  unfolding payout_update_def
proof (rule follows_query)
  fix t w
  assume ag: "agree i l w"
  obtain x w' where s: "payout_update_stmt i patch g t w = (x, w')" by fastforce
  obtain r where r: "row_of i w = Some r" and wf: "wf_payouts w"
    using ag by (auto simp: agree_def payout_ok_def)
  note u = update_stmt_row(1,2) [OF s wf] update_stmt_row(4) [OF s wf, where i = i] update_stmt_row(5) [OF s wf r]
  show "\<exists>l'. permitted i l w l' (snd (payout_update_stmt i patch g t w)) \<and>
      (case fst (payout_update_stmt i patch g t w) of Inl e \<Rightarrow> E e l' | Inr a \<Rightarrow> Q a l')"
  proof (cases "payout_guard i g r")
    case True
    then have "permitted i l w lnew w'" and "x = Inr (Some (apply_payout_patch (t, patch) r))"
      using assms(2) [OF ag r] u r by auto
    moreover have "Q (Some (apply_payout_patch (t, patch) r)) lnew"
      using assms(1) row_of_Some [OF r] by simp
    ultimately show ?thesis using s by (intro exI [of _ lnew]) simp
  next
    case False
    then have "row_of i w' = row_of i w" and "x = Inr None" using u r by auto
    moreover have "payout_ok i w'" using ag u \<open>row_of i w' = row_of i w\<close> by (auto simp: agree_def payout_ok_def)
    ultimately show ?thesis
      using assms(3) [OF ag r False] s u(2) by (intro exI [of _ l]) (simp add: permitted_def)
  qed
qed (rule assms(4))

lemma update_other:
  assumes "j \<noteq> i"
  shows "fol i (payout_update env j patch g) (\<lambda>a l'. l' = l \<and> (\<forall>r. a = Some r \<longrightarrow> po_id r = j))
           (\<lambda>e l'. l' = l \<and> noconf e) l"
  unfolding payout_update_def
proof (rule follows_query)
  fix t w
  assume ag: "agree i l w"
  obtain x w' where s: "payout_update_stmt j patch g t w = (x, w')" by fastforce
  have wf: "wf_payouts w" using ag by (simp add: agree_def payout_ok_def)
  have row: "row_of i w' = row_of i w"
    using update_stmt_row(4) [OF s wf, where i = i] assms ag
    by (auto simp: agree_def payout_ok_def payout_guard_def dest: row_of_Some)
  then have "permitted i l w l w'"
    using update_stmt_row(1,2) [OF s wf] ag by (simp add: permitted_def agree_def payout_ok_def)
  then show "\<exists>l'. permitted i l w l' (snd (payout_update_stmt j patch g t w)) \<and>
      (case fst (payout_update_stmt j patch g t w) of Inl e \<Rightarrow> l' = l \<and> noconf e
       | Inr a \<Rightarrow> l' = l \<and> (\<forall>r. a = Some r \<longrightarrow> po_id r = j))"
    using s update_stmt_row(3) [OF s wf] by (intro exI [of _ l]) auto
qed simp

lemma apply_claim [simp]:
  "po_status (apply_payout_patch (t, [PoStatus s, PoAuthorizedAt a]) r) = s"
  "po_transactionHash (apply_payout_patch (t, [PoStatus s, PoAuthorizedAt a]) r) = po_transactionHash r"
  "po_status (apply_payout_patch (t, [PoStatus s]) r) = s"
  "po_transactionHash (apply_payout_patch (t, [PoStatus s]) r) = po_transactionHash r"
  "po_status (apply_payout_patch (t, [PoStatus s, PoFailureReason m]) r) = s"
  "po_transactionHash (apply_payout_patch (t, [PoStatus s, PoFailureReason m]) r) = po_transactionHash r"
  "po_status (apply_payout_patch (t, sent_patch ex t') r) = execution_status ex"
  by (simp_all add: apply_payout_patch_def sent_patch_def)

lemma settled_execution [simp]: "settled (execution_status ex)"
  by (simp add: execution_status_def)

lemma follows_claim:
  assumes "j = i \<longrightarrow> c"
  shows "fol i (payout_update env j [PoStatus Authorized, PoAuthorizedAt t] (Some [Prepared]))
     (\<lambda>a l. l = (c, if j = i \<and> a \<noteq> None then Own else Free) \<and> (\<forall>r. a = Some r \<longrightarrow> po_id r = j))
     (\<lambda>e l. l = (c, Free) \<and> noconf e) (c, Free)"
proof (cases "j = i")
  case True
  then show ?thesis
    using assms
    by (auto intro!: update_own [where lnew = "(True, Own)"]
        simp: permitted_def agree_def payout_ok_def status_of_def payout_guard_def)
next
  case False
  then show ?thesis by (auto intro: follows_mono [OF update_other])
qed

lemma follows_settle:
  assumes "\<And>t r. settled (po_status (apply_payout_patch (t, patch) r))" and "ph \<in> {Own, Spent, Settled}"
  shows "fol i (payout_update env i patch (Some [Authorized]))
     (\<lambda>a l. l = (c, ph) \<or> l = (c, Settled)) (\<lambda>e l. l = (c, ph) \<and> noconf e) (c, ph)"
  using assms
  by (auto intro!: update_own [where lnew = "(c, Settled)"]
      simp: permitted_def agree_def payout_ok_def status_of_def payout_guard_def)

lemma follows_release:
  assumes "\<And>t r. po_status (apply_payout_patch (t, patch) r) = Prepared"
    and "\<And>t r. po_transactionHash (apply_payout_patch (t, patch) r) = po_transactionHash r"
  shows "fol i (payout_update env i patch (Some [Authorized]))
     (\<lambda>a l. fst l = c) (\<lambda>e l. l = (c, Own) \<and> noconf e) (c, Own)"
  using assms
  by (auto intro!: update_own [where lnew = "(c, Free)"]
      simp: permitted_def agree_def payout_ok_def status_of_def payout_guard_def)

text \<open>Handing over a transaction: from owning to spent, or outside payout \<open>i\<close> altogether.\<close>

definition handed_over :: "ghost \<Rightarrow> ghost" where
  "handed_over l = (fst l, if fst l then Spent else snd l)"

lemma follows_submit:
  assumes "l = (True, Own) \<or> l = (False, Free)"
  shows "fol i (submit env tx) (\<lambda>_ l'. l' = handed_over l) (\<lambda>e l'. l' = handed_over l \<and> noconf e) l"
  unfolding submit_def
proof (rule follows_await)
  fix w
  let ?w' = "bump (w\<lparr>w_sent := w_sent w @ [tx]\<rparr>)"
  assume ag: "agree i l w"
  have "row_of i ?w' = row_of i w" and "payout_ok i ?w'"
    using ag by (simp_all add: agree_def payout_ok_def row_of_def wf_payouts_def)
  then have "permitted i l w (handed_over l) ?w'"
    using assms by (auto simp: permitted_def handed_over_def)
  then show "\<exists>l'. permitted i l w l' (snd (case rpc_submit env (w_event w) tx of
           Inl m \<Rightarrow> Inl (JsError m) | Inr h \<Rightarrow> Inr h, ?w')) \<and>
      (case fst (case rpc_submit env (w_event w) tx of Inl m \<Rightarrow> Inl (JsError m) | Inr h \<Rightarrow> Inr h, ?w') of
         Inl e \<Rightarrow> l' = handed_over l \<and> noconf e | Inr a \<Rightarrow> l' = handed_over l)"
    by (intro exI [of _ "handed_over l"]) (simp split: sum.splits)
qed

subsection \<open>Calls of the blockchain service\<close>

lemma quiet_any: "steps p (quiet i) noconf \<Longrightarrow> steps p (quiet i) (\<lambda>_. True)"
  by (rule steps_mono) auto

lemma quiet_lift [intro!]: "steps (liftE r) (quiet i) (\<lambda>_. True)"
  by (rule steps_liftE) simp

lemmas quiet_any_steps = quiet_steps [THEN quiet_any]

lemma quiet_getAssetBalance: "steps (getAssetBalance env a) (quiet i) (\<lambda>_. True)"
  unfolding getAssetBalance_def by (auto intro!: quiet_any_steps)

lemma quiet_allowance: "steps (ensureVaultAllowance env v tk n) (quiet i) (\<lambda>_. True)"
  unfolding ensureVaultAllowance_def by (auto intro!: quiet_any_steps)

lemma quiet_execution [quiet_steps]: "steps (toTransferExecution env h) (quiet i) noconf"
  unfolding toTransferExecution_def by (auto intro!: quiet_steps)

lemma quiet_reconcile: "steps (reconcileTransaction env h) (quiet i) (\<lambda>_. True)"
  unfolding reconcileTransaction_def
  by (auto intro!: quiet_any_steps steps_catchP [of _ _ "\<lambda>_. True"] simp: Let_def split: option.splits)

lemma quiet_requirePayout: "steps (requirePayout env j ctx) (quiet i) (\<lambda>_. True)"
  unfolding requirePayout_def payout_findById_def
  by (auto intro!: steps_query split: option.splits)

lemma follows_submit_exec:
  assumes "l = (True, Own) \<or> l = (False, Free)"
  shows "fol i (bindP (submit env tx) (toTransferExecution env)) (\<lambda>_ l'. l' = handed_over l)
           (\<lambda>e l'. l' = l \<or> l' = handed_over l \<and> noconf e) l"
  by (rule follows_bindP, rule follows_mono [OF follows_submit [OF assms]])
     (auto intro: quiet_end [OF quiet_execution])

lemma follows_sendErc20Transfer:
  assumes "l = (True, Own) \<or> l = (False, Free)"
  shows "fol i (sendErc20Transfer env a to n) (\<lambda>_ l'. l' = handed_over l)
           (\<lambda>e l'. l' = l \<or> l' = handed_over l \<and> noconf e) l"
  unfolding sendErc20Transfer_def
  by (auto intro!: quiet_bind [OF quiet_lift] follows_submit_exec [OF assms])

lemma follows_vaultPayout:
  assumes "l = (True, Own) \<or> l = (False, Free)"
  shows "fol i (vaultPayout env a ref to n) (\<lambda>_ l'. l' = handed_over l)
           (\<lambda>e l'. l' = l \<or> l' = handed_over l \<and> noconf e) l"
  unfolding vaultPayout_def
  by (auto intro!: quiet_bind [OF quiet_lift] quiet_bind [OF quiet_allowance] follows_submit_exec [OF assms])

lemma follows_vaultPayoutBatch:
  assumes "l = (True, Own) \<or> l = (False, Free)"
  shows "fol i (vaultPayoutBatch env a ref tos ns) (\<lambda>_ l'. l' = handed_over l)
           (\<lambda>e l'. l' = l \<or> l' = handed_over l \<and> noconf e) l"
  unfolding vaultPayoutBatch_def
  by (auto intro!: quiet_bind [OF quiet_lift] quiet_bind [OF quiet_allowance] follows_submit_exec [OF assms]
      split: option.splits)

lemma follows_execute_transfer:
  assumes "l = (True, Own) \<or> l = (False, Free)"
  shows "fol i (execute_transfer env r) (\<lambda>_ l'. l' = handed_over l)
           (\<lambda>e l'. l' = l \<or> l' = handed_over l \<and> noconf e) l"
  unfolding execute_transfer_def
  by (auto intro!: quiet_bind [OF quiet_lift] follows_vaultPayout [OF assms] follows_sendErc20Transfer [OF assms])

subsection \<open>Authorizing one payout\<close>

text \<open>What a handler that claimed payout \<open>j\<close> is with respect to \<open>i\<close>, before it gives up the claim.\<close>

definition claimant :: "bool \<Rightarrow> ghost \<Rightarrow> bool" where
  "claimant mine l = (if mine then fst l \<and> snd l \<in> {Own, Spent, Settled} else l = (False, Free))"

lemma noconf_vaultConfigured: "settlementVaultConfigured pe = Inl e \<Longrightarrow> noconf e"
  by (auto simp: settlementVaultConfigured_def settlementVaultAddress_def readAddress_def
      split: option.splits if_splits)

lemma noconf_nonnull: "nonnull n v = Inl e \<Longrightarrow> noconf e"
  by (auto simp: nonnull_def null_property_def split: option.splits)

lemma follows_settle_any:
  assumes "\<And>t r. settled (po_status (apply_payout_patch (t, patch) r))" and "claimant (j = i) l"
  shows "fol i (payout_update env j patch (Some [Authorized])) (\<lambda>_. claimant (j = i))
           (\<lambda>e l'. claimant (j = i) l' \<and> noconf e) l"
proof (cases "j = i")
  case True
  then obtain ph where l: "l = (True, ph)" "ph \<in> {Own, Spent, Settled}"
    using assms(2) by (cases l) (auto simp: claimant_def)
  show ?thesis
    unfolding True l(1) using l(2)
    by (intro follows_mono [OF follows_settle [OF assms(1) l(2)]]) (auto simp: claimant_def)
next
  case False
  then show ?thesis using assms(2) by (auto intro: quiet_end [OF quiet_update])
qed

lemma follows_book_transfer:
  assumes "claimant (j = i) l"
  shows "fol i (book_transfer env j actor t ex) (\<lambda>_. claimant (j = i))
           (\<lambda>e l'. claimant (j = i) l' \<and> noconf e) l"
  unfolding book_transfer_def
proof (rule follows_bindP, rule follows_mono [OF follows_settle_any [OF _ assms]])
  fix u l
  assume "claimant (j = i) l"
  then show "fol i (bindP (liftE (settlementVaultConfigured (cfg env))) (\<lambda>vault.
     bindP (record_event env (sent_event ex) j actor
              [(''transactionHash'', JStr (te_hash ex)),
               (''rail'', JStr (if vault then ''vault'' else ''direct''))]) (\<lambda>_.
     if execution_status ex = Confirmed then
       bindP (liftE (nonnull ''clientId'' u)) (\<lambda>v.
       bindP (enqueue env (po_clientId v) ''payout.confirmed'' (payout_confirmed_event v)) (\<lambda>_. Ret u))
     else Ret u))) (\<lambda>_. claimant (j = i)) (\<lambda>e l'. claimant (j = i) l' \<and> noconf e) l"
    by (intro quiet_end [where X = noconf])
       (auto intro!: quiet_steps dest: noconf_vaultConfigured noconf_nonnull)
qed auto

definition claim_start :: "bool \<Rightarrow> ghost" where
  "claim_start mine = (mine, if mine then Own else Free)"

lemma claim_start_simps:
  "claim_start m = (True, Own) \<or> claim_start m = (False, Free)"
  "claimant m (claim_start m)" "claimant m (handed_over (claim_start m))"
  by (auto simp: claim_start_def claimant_def handed_over_def)

lemma quiet_check_treasury: "steps (check_treasury env r) (quiet i) (\<lambda>_. True)"
  unfolding check_treasury_def by (auto intro!: quiet_getAssetBalance)

text \<open>A conflict is raised only while nothing has been handed to a wallet.\<close>

lemma follows_broadcast_payout:
  "fol i (broadcast_payout env j actor t r) (\<lambda>_. claimant (j = i))
     (\<lambda>e l'. claimant (j = i) l' \<and> (is_conflict e \<longrightarrow> l' = claim_start (j = i))) (claim_start (j = i))"
  unfolding broadcast_payout_def
proof (rule quiet_bind [OF quiet_check_treasury], goal_cases)
  case (2 a)
  show ?case
    by (rule follows_bindP, rule follows_mono [OF follows_execute_transfer [OF claim_start_simps(1)]])
       (auto simp: claim_start_simps noconf_def intro!: follows_mono [OF follows_book_transfer])
qed (simp add: claim_start_simps)

lemma follows_broadcast_failed:
  assumes "claimant (j = i) l" and "is_conflict e \<longrightarrow> l = claim_start (j = i)"
  shows "fol i (broadcast_failed env j actor e) Q (\<lambda>_ _. True) l"
proof (cases "is_conflict e")
  case True
  then have l: "l = claim_start (j = i)" using assms(2) by simp
  have "fol i (payout_update env j [PoStatus Prepared, PoFailureReason (Some (exn_message e))]
          (Some [Authorized])) (\<lambda>_ _. True) (\<lambda>_ _. True) l"
  proof (cases "j = i")
    case True
    then show ?thesis
      unfolding l claim_start_def by (auto intro!: follows_mono [OF follows_release])
  next
    case False
    then show ?thesis by (auto intro: quiet_end [OF quiet_update])
  qed
  with True show ?thesis
    unfolding broadcast_failed_def by (auto intro!: follows_bindP elim: follows_mono)
next
  case False
  have tail: "fol i (bindP (record_event env PAYOUT_FAILED j actor [(''failureReason'', JStr (exn_message e))]) (\<lambda>_.
        bindP (liftE (nonnull ''id'' failed)) (\<lambda>f.
        bindP (payout_toResponse env f False) (\<lambda>response.
        Raise (BadGatewayPayout ''Failed to broadcast payout on Avalanche.'' response))))) Q (\<lambda>_ _. True) l" for failed l
    by (auto intro!: quiet_bind [OF quiet_lift] quiet_bind [OF quiet_any_steps(4)] quiet_bind [OF quiet_any_steps(6)])
  have "fol i (bindP (payout_update env j [PoStatus Failed, PoFailureReason (Some (exn_message e))]
                 (Some [Authorized])) (\<lambda>failed.
        bindP (record_event env PAYOUT_FAILED j actor [(''failureReason'', JStr (exn_message e))]) (\<lambda>_.
        bindP (liftE (nonnull ''id'' failed)) (\<lambda>f.
        bindP (payout_toResponse env f False) (\<lambda>response.
        Raise (BadGatewayPayout ''Failed to broadcast payout on Avalanche.'' response)))))) Q (\<lambda>_ _. True) l"
    by (rule follows_bindP, rule follows_mono [OF follows_settle_any [OF _ assms(1)]]) (rule tail | simp)+
  then show ?thesis unfolding broadcast_failed_def using False by simp
qed

lemma follows_settle_claimed:
  "fol i (settle_claimed env j actor t r) (\<lambda>_ _. True) (\<lambda>_ _. True) (claim_start (j = i))"
  unfolding settle_claimed_def
  by (rule follows_catchP, rule follows_mono [OF follows_broadcast_payout])
     (auto intro: follows_broadcast_failed)

lemma quiet_authorize_lost: "steps (authorize_lost env j ctx) (quiet i) (\<lambda>_. True)"
  unfolding authorize_lost_def by (auto intro!: quiet_requirePayout quiet_any_steps)

lemma follows_authorizePayout:
  "fol i (authorizePayout env j dto ctx) (\<lambda>_ _. True) (\<lambda>_ _. True) (j = i, Free)"
  unfolding authorizePayout_def Let_def
proof (rule quiet_bind [OF quiet_requirePayout], goal_cases)
  case (2 payout)
  have won: "fol i (bindP (record_event env PAYOUT_AUTHORIZED j a p) (\<lambda>_.
          bindP (settle_claimed env j a t r) (\<lambda>updated.
          bindP (liftE (nonnull ''id'' updated)) (\<lambda>u. payout_toResponse env u False))))
        (\<lambda>_ _. True) (\<lambda>_ _. True) (claim_start (j = i))" for a p t r
    by (rule quiet_bind [OF quiet_record_event], simp, rule follows_bindP,
        rule follows_mono [OF follows_settle_claimed])
       (auto intro!: quiet_bind [OF quiet_lift] quiet_end [OF quiet_response])
  have "fol i (bindP (payout_update env j [PoStatus Authorized, PoAuthorizedAt (Some t)] (Some [Prepared])) (\<lambda>claim.
      case claim of None \<Rightarrow> authorize_lost env j ctx
      | Some authorized \<Rightarrow>
          bindP (record_event env PAYOUT_AUTHORIZED j (toAuditActor ctx (apd_approvedBy dto))
             [(''riskDecisionId'', jopt (apd_riskDecisionId dto)), (''notes'', jopt (apd_notes dto))]) (\<lambda>_.
          bindP (settle_claimed env j (toAuditActor ctx (apd_approvedBy dto)) t authorized) (\<lambda>updated.
          bindP (liftE (nonnull ''id'' updated)) (\<lambda>u. payout_toResponse env u False)))))
        (\<lambda>_ _. True) (\<lambda>_ _. True) (j = i, Free)" for t
  proof (rule follows_bindP, rule follows_mono [OF follows_claim], goal_cases)
    case (2 claim l)
    then show ?case
      using won by (cases claim) (auto simp: claim_start_def intro!: quiet_end [OF quiet_authorize_lost])
  qed auto
  then show ?case
    by (auto intro!: quiet_end [OF quiet_response] quiet_bind [OF quiet_now])
qed simp

subsection \<open>Batches\<close>

abbreviation ids :: "PayoutRecord list \<Rightarrow> string list" where
  "ids rs \<equiv> map po_id rs"

text \<open>Every leg is given back: only the leg of payout \<open>i\<close> matters, and it occurs once.\<close>

lemma follows_release_legs:
  assumes "\<And>t r. po_status (apply_payout_patch (t, patch) r) = Prepared"
    and "\<And>t r. po_transactionHash (apply_payout_patch (t, patch) r) = po_transactionHash r"
    and "distinct (ids claimed)" and "i \<in> set (ids claimed) \<longrightarrow> l = (True, Own)"
  shows "fol i (release_legs env patch claimed) (\<lambda>_ _. True) (\<lambda>_ _. True) l"
proof -
  define I where "I cs l = (distinct (ids cs) \<and> (i \<in> set (ids cs) \<longrightarrow> l = (True, Own)))" for cs and l :: ghost
  have "fol i (payout_update env (po_id c) patch (Some [Authorized]))
      (\<lambda>a l. I cs l \<and> True) (\<lambda>e l. I cs l \<and> True) l" if "I (c # cs) l" for c cs l
  proof (cases "po_id c = i")
    case True
    with that have "l = (True, Own)" and "i \<notin> set (ids cs)" and "distinct (ids cs)" by (auto simp: I_def)
    then show ?thesis
      unfolding True by (auto simp: I_def intro!: follows_mono [OF follows_release [OF assms(1,2)]])
  next
    case False
    with that show ?thesis by (intro quiet_end [OF quiet_update]) (auto simp: I_def)
  qed
  from follows_allP [of I "\<lambda>c. payout_update env (po_id c) patch (Some [Authorized])", OF this]
  have "fol i (allP (map (\<lambda>c. payout_update env (po_id c) patch (Some [Authorized])) claimed))
      (\<lambda>as l. I [] l \<and> list_all2 (\<lambda>_ _. True) claimed as) (\<lambda>e l. I [] l \<and> True) l"
    using assms(3,4) by (simp add: I_def)
  then show ?thesis
    unfolding release_legs_def by (intro follows_bindP) (rule follows_mono, simp_all)
qed

definition batch_start :: "string \<Rightarrow> bool \<Rightarrow> PayoutRecord list \<Rightarrow> ghost" where
  "batch_start i c claimed = (c, if i \<in> set (ids claimed) then Own else Free)"

lemma follows_claim_legs:
  "distinct (ids (claimed @ payouts)) \<Longrightarrow> (i \<in> set (ids (claimed @ payouts)) \<Longrightarrow> c) \<Longrightarrow>
   fol i (claim_legs env t claimed payouts)
     (\<lambda>cs l. ids cs = ids (claimed @ payouts) \<and> l = batch_start i c cs) (\<lambda>_ _. True) (batch_start i c claimed)"
proof (induction payouts arbitrary: claimed)
  case (Cons p ps)
  let ?upd = "payout_update env (po_id p) [PoStatus Authorized, PoAuthorizedAt (Some t)] (Some [Prepared])"
  let ?Q = "\<lambda>a l. (\<forall>r. a = Some r \<longrightarrow> po_id r = po_id p \<and> l = batch_start i c (claimed @ [r])) \<and>
             (a = None \<longrightarrow> l = batch_start i c claimed)"
  have upd: "fol i ?upd ?Q (\<lambda>_ _. True) (batch_start i c claimed)"
  proof (cases "po_id p = i")
    case True
    then have start: "batch_start i c claimed = (c, Free)" and c
      using Cons.prems by (auto simp: batch_start_def)
    have "batch_start i c (claimed @ [r]) = (c, Own)" if "po_id r = i" for r
      using that by (simp add: batch_start_def)
    then show ?thesis
      unfolding start by (rule_tac follows_mono [OF follows_claim]) (use True \<open>c\<close> in auto)
  next
    case False
    have eq: "batch_start i c (claimed @ [r]) = batch_start i c claimed" if "po_id r = po_id p" for r
      using that False by (simp add: batch_start_def)
    show ?thesis
    proof (rule follows_mono [OF update_other [OF False]], goal_cases)
      case (1 a l)
      then show ?case using eq by (cases a) simp_all
    qed simp
  qed
  have lost: "fol i (bindP (release_legs env [PoStatus Prepared] claimed) (\<lambda>_. Raise e))
      (\<lambda>cs l. ids cs = ids (claimed @ p # ps) \<and> l = batch_start i c cs) (\<lambda>_ _. True) (batch_start i c claimed)" for e
    using Cons.prems
    by (intro follows_bindP follows_mono [OF follows_release_legs]) (auto simp: batch_start_def)
  have won: "fol i (claim_legs env t (claimed @ [r]) ps)
      (\<lambda>cs l. ids cs = ids (claimed @ p # ps) \<and> l = batch_start i c cs) (\<lambda>_ _. True)
      (batch_start i c (claimed @ [r]))" if "po_id r = po_id p" for r
    using Cons.IH [of "claimed @ [r]"] Cons.prems that by simp
  show ?case
    unfolding claim_legs.simps
  proof (rule follows_bindP, rule follows_mono [OF upd], goal_cases)
    case (1 a l)
    then show ?case using lost won by (cases a) simp_all
  qed simp
qed simp

text \<open>Booking, or failing, every leg: safe in every phase after the claim.\<close>

lemma follows_settle_legs:
  assumes "\<And>t r. settled (po_status (apply_payout_patch (t, patch) r))"
    and "claimant (i \<in> set (ids claimed)) l"
  shows "fol i (allP (map (\<lambda>c. payout_update env (po_id c) patch (Some [Authorized])) claimed))
           (\<lambda>_. claimant (i \<in> set (ids claimed)))
           (\<lambda>e l. claimant (i \<in> set (ids claimed)) l \<and> noconf e) l"
proof -
  define I where "I cs l = (set cs \<subseteq> set claimed \<and> claimant (i \<in> set (ids claimed)) l)" for cs and l :: ghost
  have "fol i (payout_update env (po_id c) patch (Some [Authorized]))
      (\<lambda>a l. I cs l \<and> True) (\<lambda>e l. I cs l \<and> noconf e) l" if "I (c # cs) l" for c cs l
  proof (cases "po_id c = i")
    case True
    then have "(i \<in> set (ids claimed)) = (po_id c = i)" using that by (auto simp: I_def)
    then show ?thesis
      using that by (intro follows_mono [OF follows_settle_any [OF assms(1)]]) (auto simp: I_def)
  next
    case False
    with that show ?thesis by (intro quiet_end [OF quiet_update]) (auto simp: I_def)
  qed
  from follows_allP [of I "\<lambda>c. payout_update env (po_id c) patch (Some [Authorized])", OF this]
  have "fol i (allP (map (\<lambda>c. payout_update env (po_id c) patch (Some [Authorized])) claimed))
      (\<lambda>as l. I [] l \<and> list_all2 (\<lambda>_ _. True) claimed as) (\<lambda>e l. I [] l \<and> noconf e) l"
    using assms(2) by (simp add: I_def)
  then show ?thesis by (rule follows_mono) (auto simp: I_def)
qed

lemma quiet_book_leg: "steps (book_leg env actor ex u) (quiet i) noconf"
  unfolding book_leg_def by (auto intro!: quiet_steps dest: noconf_nonnull)

lemma follows_broadcast_batch:
  fixes claimed :: "PayoutRecord list" and i :: string
  defines "mine \<equiv> i \<in> set (ids claimed)"
  shows "fol i (broadcast_batch env asset actor t claimed) (\<lambda>_. claimant mine)
     (\<lambda>e l'. claimant mine l' \<and> (is_conflict e \<longrightarrow> l' = claim_start mine)) (claim_start mine)"
  unfolding broadcast_batch_def
proof (rule quiet_bind [OF quiet_lift], goal_cases)
  case (2 amounts)
  have book: "fol i (bindP (allP (map (\<lambda>c. payout_update env (po_id c) (sent_patch ex t) (Some [Authorized])) claimed))
      (\<lambda>updated. bindP (forP updated (book_leg env actor ex)) (\<lambda>_. Ret updated)))
      (\<lambda>_. claimant mine) (\<lambda>e l'. claimant mine l' \<and> noconf e) l" if "claimant mine l" for ex l
    using that unfolding mine_def
    by (intro follows_bindP, elim follows_mono [OF follows_settle_legs, rotated])
       (auto intro!: quiet_bind [where X = noconf] quiet_book_leg)
  show ?case
    by (rule follows_bindP, rule follows_mono [OF follows_vaultPayoutBatch [OF claim_start_simps(1)]])
       (auto simp: claim_start_simps noconf_def intro!: follows_mono [OF book])
qed (simp add: claim_start_simps)

lemma follows_batch_failed:
  fixes claimed :: "PayoutRecord list" and i :: string
  defines "mine \<equiv> i \<in> set (ids claimed)"
  assumes "claimant mine l" and "is_conflict e \<longrightarrow> l = claim_start mine" and "distinct (ids claimed)"
  shows "fol i (batch_failed env actor claimed e) Q (\<lambda>_ _. True) l"
proof (cases "is_conflict e")
  case True
  then show ?thesis
    unfolding batch_failed_def using assms
    by (intro follows_bindP follows_mono [OF follows_release_legs]) (auto simp: claim_start_def)
next
  case False
  have rel: "fol i (release_legs env [PoStatus Failed, PoFailureReason (Some (exn_message e))] claimed)
      (\<lambda>_ _. True) (\<lambda>_ _. True) l"
    unfolding release_legs_def
    by (rule follows_bindP, rule follows_mono [OF follows_settle_legs]) (use assms in auto)
  have audits: "steps (allP (map (\<lambda>c. record_event env PAYOUT_FAILED (po_id c) actor p) claimed)) (quiet i) (\<lambda>_. True)" for p
    unfolding allP_def by (auto intro!: steps_allSettled [of _ _ noconf] quiet_steps)
  show ?thesis
    unfolding batch_failed_def
    by (simp only: False if_False, rule follows_bindP, rule follows_mono [OF rel])
       (auto intro!: quiet_bind [OF audits])
qed

lemma follows_settle_batch:
  "distinct (ids claimed) \<Longrightarrow>
   fol i (settle_batch env asset actor t claimed) (\<lambda>_ _. True) (\<lambda>_ _. True) (claim_start (i \<in> set (ids claimed)))"
  unfolding settle_batch_def
  by (rule follows_catchP, rule follows_mono [OF follows_broadcast_batch])
     (auto intro: follows_batch_failed)

lemma follows_requirePayout:
  "fol i (requirePayout env j ctx) (\<lambda>r l'. l' = l \<and> po_id r = j) (\<lambda>_ l'. l' = l) l"
  unfolding requirePayout_def payout_findById_def
  by (rule follows_bindP, rule follows_query)
     (auto simp: find_scoped_def simp del: split_paired_Ex
       intro!: exI [of _ l] permitted_stutter split: option.splits dest!: find_SomeD)

lemma distinct_js_dedup [simp]: "distinct (js_dedup xs)" "set (js_dedup xs) = set xs"
  by (simp_all add: js_dedup_def)

lemma load_bind:
  assumes "\<And>rs. ids rs = js_dedup js \<Longrightarrow> fol i (k rs) Q (\<lambda>_ _. True) l"
  shows "fol i (bindP (allP (map (\<lambda>j. requirePayout env j ctx) (js_dedup js))) k) Q (\<lambda>_ _. True) l"
proof (rule follows_bindP, rule follows_mono)
  show "fol i (allP (map (\<lambda>j. requirePayout env j ctx) (js_dedup js)))
      (\<lambda>rs l'. l' = l \<and> list_all2 (\<lambda>j r. po_id r = j) (js_dedup js) rs) (\<lambda>e l'. l' = l \<and> True) l"
    by (rule follows_allP) (auto intro: follows_mono [OF follows_requirePayout])
  fix rs :: "PayoutRecord list" and l'
  assume "l' = l \<and> list_all2 (\<lambda>j r. po_id r = j) (js_dedup js) rs"
  then have "l' = l" and "ids rs = js_dedup js"
    by (auto simp: list_all2_conv_all_nth intro: nth_equalityI)
  then show "fol i (k rs) Q (\<lambda>_ _. True) l'" using assms by simp
qed simp

lemma follows_authorizePayoutBatch:
  "fol i (authorizePayoutBatch env js dto ctx) (\<lambda>_ _. True) (\<lambda>_ _. True) (i \<in> set js, Free)"
proof -
  let ?c = "i \<in> set js" and ?T = "\<lambda>_ _. True" and ?actor = "toAuditActor ctx (apd_approvedBy dto)"
  have finish: "fol i (bindP (allP (map (\<lambda>c. record_event env PAYOUT_AUTHORIZED (po_id c) ?actor p) claimed)) (\<lambda>_.
      bindP (settle_batch env a ?actor t claimed) (\<lambda>updated.
      allP (map (\<lambda>u. bindP (liftE (nonnull ''id'' u)) (\<lambda>r. payout_toResponse env r False)) updated))))
      ?T ?T (claim_start (i \<in> set (ids claimed)))" if "distinct (ids claimed)" for p a t claimed
  proof (rule quiet_bind [where X = "\<lambda>_. True"])
    show "steps (allP (map (\<lambda>c. record_event env PAYOUT_AUTHORIZED (po_id c) ?actor p) claimed)) (quiet i) (\<lambda>_. True)"
      unfolding allP_def by (auto intro!: steps_allSettled [of _ _ noconf] quiet_steps)
    have "steps (allP (map (\<lambda>u. bindP (liftE (nonnull ''id'' u)) (\<lambda>r. payout_toResponse env r False)) us))
        (quiet i) (\<lambda>_. True)" for us
      unfolding allP_def by (auto intro!: steps_allSettled [of _ _ "\<lambda>_. True"] quiet_any_steps)
    then show "fol i (bindP (settle_batch env a ?actor t claimed) (\<lambda>updated.
        allP (map (\<lambda>u. bindP (liftE (nonnull ''id'' u)) (\<lambda>r. payout_toResponse env r False)) updated)))
        ?T ?T (claim_start (i \<in> set (ids claimed)))" for x
      by (rule_tac follows_bindP, rule_tac follows_mono [OF follows_settle_batch [OF that]])
         (auto intro: quiet_end)
  qed simp
  have st: "batch_start i ?c rs = claim_start (i \<in> set (ids rs))" if "ids rs = js_dedup js" for rs
    unfolding that by (simp add: batch_start_def claim_start_def that del: set_map)
  have claim: "fol i (bindP (claim_legs env t [] payouts) (\<lambda>claimed.
      bindP (allP (map (\<lambda>c. record_event env PAYOUT_AUTHORIZED (po_id c) ?actor p) claimed)) (\<lambda>_.
      bindP (settle_batch env a ?actor t claimed) (\<lambda>updated.
      allP (map (\<lambda>u. bindP (liftE (nonnull ''id'' u)) (\<lambda>r. payout_toResponse env r False)) updated)))))
      ?T ?T (?c, Free)" if "ids payouts = js_dedup js" for p a t payouts
  proof (rule follows_bindP, rule follows_mono)
    show "fol i (claim_legs env t [] payouts)
        (\<lambda>cs l. ids cs = js_dedup js \<and> l = claim_start (i \<in> set (ids cs))) ?T (?c, Free)"
    proof -
      have "batch_start i ?c [] = (?c, Free)" by (simp add: batch_start_def)
      moreover have "distinct (ids ([] @ payouts))" and "set (ids ([] @ payouts)) = set js"
        by (simp_all add: that del: set_map)
      ultimately have "fol i (claim_legs env t [] payouts)
          (\<lambda>cs l. ids cs = js_dedup js \<and> l = batch_start i ?c cs) ?T (?c, Free)"
        using follows_claim_legs [of "[]" payouts i ?c env t] that by simp
      then show ?thesis by (rule follows_mono) (use st in \<open>auto simp del: set_map\<close>)
    qed
  next
    show "fol i (bindP (allP (map (\<lambda>c. record_event env PAYOUT_AUTHORIZED (po_id c) ?actor p) cs)) (\<lambda>_.
        bindP (settle_batch env a ?actor t cs) (\<lambda>updated.
        allP (map (\<lambda>u. bindP (liftE (nonnull ''id'' u)) (\<lambda>r. payout_toResponse env r False)) updated))))
        ?T ?T l" if "ids cs = js_dedup js \<and> l = claim_start (i \<in> set (ids cs))" for cs l
      using finish [of cs p a t] that by (metis distinct_js_dedup(1))
  qed simp
  show ?thesis
    unfolding authorizePayoutBatch_def Let_def
    by (auto intro!: quiet_bind [OF quiet_lift] load_bind quiet_bind [OF quiet_getAssetBalance]
        quiet_bind [OF quiet_now] claim)
qed

subsection \<open>Reconciling and creating\<close>

text \<open>A reconciliation writes only over a payout it has seen with a hash, which is settled for good.\<close>

lemma settled_reconciled:
  "settled (po_status r) \<Longrightarrow> settled (po_status (apply_payout_patch (t, reconciled_patch r rn t') q))"
  by (simp add: apply_payout_patch_def reconciled_patch_def Let_def)

lemma follows_reconcilePayout:
  "fol i (reconcilePayout env j ctx) (\<lambda>_ _. True) (\<lambda>_ _. True) (j = i, Free)"
proof -
  let ?T = "\<lambda>_ _. True"
  define seen where "seen r l \<longleftrightarrow> (if truthy (po_transactionHash r) \<and> j = i
      then l = (True, Settled) \<and> settled (po_status r) else l = (j = i, Free))" for r :: PayoutRecord and l
  have load: "fol i (requirePayout env j ctx) seen ?T (j = i, Free)"
    unfolding requirePayout_def payout_findById_def
  proof (rule follows_bindP, rule follows_query)
    fix t :: timestamp and w :: World
    let ?r = "find_scoped po_id po_clientId j (rc_clientId ctx) (w_payouts w)"
    assume ag: "agree i (j = i, Free) w"
    let ?l = "(j = i, if j = i \<and> (\<exists>r. ?r = Some r \<and> truthy (po_transactionHash r)) then Settled else Free)"
    have row: "?r = Some r \<Longrightarrow> j = i \<Longrightarrow> row_of i w = Some r" for r
      using ag row_unique [of w i _ r]
      by (auto simp: agree_def payout_ok_def find_scoped_def dest!: find_SomeD)
    have hash: "?r = Some r \<Longrightarrow> j = i \<Longrightarrow> truthy (po_transactionHash r) \<Longrightarrow> settled (po_status r)" for r
      using ag row [of r] by (auto simp: agree_def payout_ok_def)
    have "permitted i (j = i, Free) w ?l w"
      using ag row hash by (auto simp: permitted_def agree_def status_of_def)
    then show "\<exists>l'. permitted i (j = i, Free) w l' (snd (Inr ?r, w)) \<and>
        (case fst (Inr ?r, w) of Inl e \<Rightarrow> True
         | Inr a \<Rightarrow> fol i (case a of None \<Rightarrow> Raise (NotFound ''Payout not found.'') | Some r \<Rightarrow> Ret r) seen ?T l')"
      using hash by (intro exI [of _ ?l]) (auto simp: seen_def split: option.splits)
  qed simp
  have upd: "fol i (payout_update env j (reconciled_patch r rn t) None) ?T ?T l"
    if "seen r l" and "truthy (po_transactionHash r)" for r rn t l
  proof (cases "j = i")
    case True
    with that have "settled (po_status r)" and l: "l = (True, Settled)" by (auto simp: seen_def)
    then show ?thesis
      unfolding True l
      by (intro update_own [where lnew = "(True, Settled)"])
         (auto simp: permitted_def agree_def payout_ok_def status_of_def settled_reconciled)
  next
    case False
    then show ?thesis by (auto intro: quiet_end [OF quiet_update])
  qed
  have "fol i (bindP (payout_update env j (reconciled_patch r rn t) None) (\<lambda>updated.
     bindP (record_event env PAYOUT_RECONCILED j a p) (\<lambda>_.
     bindP (liftE (nonnull ''id'' updated)) (\<lambda>u. payout_toResponse env u False)))) ?T ?T l"
    if "seen r l" and "truthy (po_transactionHash r)" for r rn t l a p
    by (rule follows_bindP, rule follows_mono [OF upd [OF that]])
       (auto intro!: quiet_bind [OF quiet_record_event] quiet_bind [OF quiet_lift] quiet_end [OF quiet_response])
  then show ?thesis
    unfolding reconcilePayout_def
    by (rule_tac follows_bindP, rule_tac follows_mono [OF load])
       (auto intro!: quiet_bind [OF quiet_reconcile] quiet_bind [OF quiet_now])
qed

lemma follows_insert:
  "fol i (query env (payout_insert_stmt r)) (\<lambda>a l'. l' = l \<and> (\<forall>q. a = Some q \<longrightarrow> po_id q \<noteq> i))
     (\<lambda>_ l'. l' = l) l"
proof (rule follows_query)
  fix t w
  assume ag: "agree i l w"
  then obtain x where x: "row_of i w = Some x" and wf: "wf_payouts w" by (auto simp: agree_def payout_ok_def)
  have stutter: "permitted i l w l w" using ag by (rule permitted_stutter)
  show "\<exists>l'. permitted i l w l' (snd (payout_insert_stmt r t w)) \<and>
      (case fst (payout_insert_stmt r t w) of Inl e \<Rightarrow> l' = l
       | Inr a \<Rightarrow> l' = l \<and> (\<forall>q. a = Some q \<longrightarrow> po_id q \<noteq> i))"
  proof (cases "sql_insert po_id po_clientId po_externalId r (w_payouts w)")
    case (Inl m)
    with stutter show ?thesis by (intro exI [of _ l]) (simp add: payout_insert_stmt_def)
  next
    case (Inr p)
    obtain rows ret where p: "p = (rows, ret)" by fastforce
    note ins = Inr [unfolded p]
    have "row_of i (w\<lparr>w_payouts := rows\<rparr>) = row_of i w"
      using payouts.insert_keeps(1) [OF ins] x by (simp add: row_of_def)
    moreover have "wf_payouts (w\<lparr>w_payouts := rows\<rparr>)"
      using payouts.insert_wf [OF _ ins] wf by (simp add: wf_payouts_def)
    ultimately have "permitted i l w l (w\<lparr>w_payouts := rows\<rparr>)"
      using ag by (simp add: permitted_def agree_def payout_ok_def)
    moreover have "\<forall>q. find (\<lambda>_. True) ret = Some q \<longrightarrow> po_id q \<noteq> i"
      using payouts.insert_keeps(2) [OF ins, of i x] x by (auto simp: row_of_def find_True)
    ultimately show ?thesis
      using stutter Inr p by (intro exI [of _ l]) (simp add: payout_insert_stmt_def)
  qed
qed simp

lemma create_bind:
  assumes "\<And>q existed. existed \<or> po_id q \<noteq> i \<Longrightarrow> fol i (k (q, existed)) Q (\<lambda>_ _. True) l"
  shows "fol i (bindP (payout_createOrGetExisting env r) k) Q (\<lambda>_ _. True) l"
proof -
  have ext: "steps (payout_findByExternalId env c e) (quiet i) (\<lambda>_. True)" for c e
    unfolding payout_findByExternalId_def by (rule steps_query) auto
  show ?thesis
    unfolding payout_createOrGetExisting_def bindP_assoc
    by (rule follows_bindP, rule follows_mono [OF follows_insert])
       (auto simp: bindP_assoc intro!: quiet_bind [OF ext] assms split: option.splits)
qed

lemma follows_createPayout:
  "fol i (createPayout env dto ctx) (\<lambda>_ _. True) (\<lambda>_ _. True) (False, Free)"
proof -
  have auth: "po_id r \<noteq> i \<Longrightarrow>
      fol i (authorizePayout env (po_id r) d ctx) (\<lambda>_ _. True) (\<lambda>_ _. True) (False, Free)" for r d
    using follows_authorizePayout [where i = i and j = "po_id r"] by simp
  show ?thesis
    unfolding createPayout_def
    by (auto intro!: quiet_bind [OF quiet_lift] quiet_bind [OF quiet_now] quiet_bind [OF quiet_uuid]
        create_bind quiet_bind [OF quiet_record_event] quiet_end [OF quiet_response] auth)
qed

section \<open>All handlers together\<close>

text \<open>The requests the payouts controller forwards.\<close>

datatype PayoutRequest =
    ReqCreate CreatePayoutDto RequestContext
  | ReqList PayoutFilters RequestContext
  | ReqGet string RequestContext
  | ReqGetByExternalId string RequestContext
  | ReqAuthorize string AuthorizePayoutDto RequestContext
  | ReqBatch "string list" AuthorizePayoutDto RequestContext
  | ReqReconcile string RequestContext

definition one :: "'a io \<Rightarrow> 'a list io" where
  "one p = bindP p (\<lambda>a. Ret [a])"

fun handle_payout :: "Env \<Rightarrow> PayoutRequest \<Rightarrow> PayoutResponse list io" where
  "handle_payout env (ReqCreate dto ctx) = one (createPayout env dto ctx)"
| "handle_payout env (ReqList f ctx) = listPayouts env f ctx"
| "handle_payout env (ReqGet i ctx) = one (getPayout env i ctx)"
| "handle_payout env (ReqGetByExternalId e ctx) = one (getPayoutByExternalId env e ctx)"
| "handle_payout env (ReqAuthorize i dto ctx) = one (authorizePayout env i dto ctx)"
| "handle_payout env (ReqBatch js dto ctx) = authorizePayoutBatch env js dto ctx"
| "handle_payout env (ReqReconcile i ctx) = one (reconcilePayout env i ctx)"

text \<open>The requests that name payout \<open>i\<close>.\<close>

fun names_payout :: "string \<Rightarrow> PayoutRequest \<Rightarrow> bool" where
  "names_payout i (ReqAuthorize j dto ctx) = (j = i)"
| "names_payout i (ReqBatch js dto ctx) = (i \<in> set js)"
| "names_payout i (ReqReconcile j ctx) = (j = i)"
| "names_payout i _ = False"

lemma follows_one: "fol i p (\<lambda>_ _. True) (\<lambda>_ _. True) l \<Longrightarrow> fol i (one p) (\<lambda>_ _. True) (\<lambda>_ _. True) l"
  unfolding one_def by (auto intro: follows_bindP)

lemma quiet_reads:
  "steps (listPayouts env f ctx) (quiet i) (\<lambda>_. True)"
  "steps (getPayout env j ctx) (quiet i) (\<lambda>_. True)"
  "steps (getPayoutByExternalId env e ctx) (quiet i) (\<lambda>_. True)"
  unfolding listPayouts_def getPayout_def getPayoutByExternalId_def payout_list_def payout_findByExternalId_def allP_def
  by (auto intro!: steps_query steps_allSettled [of _ _ noconf] quiet_any_steps quiet_steps quiet_requirePayout
      split: option.splits)

lemma follows_handle_payout:
  "fol i (handle_payout env req) (\<lambda>_ _. True) (\<lambda>_ _. True) (names_payout i req, Free)"
  by (cases req)
     (auto intro!: follows_one follows_createPayout follows_authorizePayoutBatch
        quiet_end [OF quiet_reads(1)] quiet_end [OF quiet_reads(2)] quiet_end [OF quiet_reads(3)]
        simp: follows_authorizePayout [simplified] follows_reconcilePayout)

text \<open>The transactions sent, in a trace, by the handlers of requests that name payout \<open>i\<close>.\<close>

definition payout_sends :: "string \<Rightarrow> PayoutRequest list \<Rightarrow> (nat \<times> World \<times> World) list \<Rightarrow> nat" where
  "payout_sends i reqs tr =
     sum_list (map (\<lambda>(k, w, w'). sends {k. k < length reqs \<and> names_payout i (reqs ! k)} k w w') tr)"

text \<open>At the start no handler has claimed a payout.\<close>

lemma payouts_disciplined:
  "payout_protocol.disciplined i (map (\<lambda>(env, req). handle_payout env req) calls)
     (map (\<lambda>c. (names_payout i (snd c), Free)) calls)"
  by (auto simp: payout_protocol.disciplined_def case_prod_beta follows_handle_payout)

lemma payouts_custody:
  "payout_ok i w \<Longrightarrow> custody i {k. k < length (map snd calls) \<and> names_payout i (map snd calls ! k)} 0
     (map (\<lambda>c. (names_payout i (snd c), Free)) calls) w"
  by (simp add: custody_def)

lemma pool_custody:
  assumes "payout_ok i w"
    and "pool_run (map (\<lambda>(env, req). handle_payout env req) calls) w tr ps w'"
  shows "\<exists>ls. custody i {k. k < length (map snd calls) \<and> names_payout i (map snd calls ! k)}
           (payout_sends i (map snd calls) tr) ls w'"
  using payout_protocol.pool_keeps_protocol [OF assms(2) payouts_disciplined payouts_custody [OF assms(1)]]
  by (auto simp: payout_protocol.total_cost_def payout_sends_def)

definition no_approval :: AuthorizePayoutDto where
  "no_approval = \<lparr>apd_approvedBy = None, apd_riskDecisionId = None, apd_notes = None\<rparr>"

text \<open>Two concurrent authorizations of the sample payout, one after the other: the trace exists.\<close>

definition rival_calls :: "(Env \<times> PayoutRequest) list" where
  "rival_calls = replicate 2 (sample_env, ReqAuthorize ''p1'' no_approval sample_context)"

definition rival_world :: World where
  "rival_world = snd (run (handle_payout sample_env (ReqAuthorize ''p1'' no_approval sample_context))
     (snd (run (handle_payout sample_env (ReqAuthorize ''p1'' no_approval sample_context)) sample_world)))"

lemma rival_run: "\<exists>tr ps. pool_run (map (\<lambda>(env, req). handle_payout env req) rival_calls) sample_world tr ps rival_world"
proof -
  let ?p = "handle_payout sample_env (ReqAuthorize ''p1'' no_approval sample_context)"
  let ?q = "finished (fst (run ?p sample_world))" and ?w = "snd (run ?p sample_world)"
  obtain tr where "pool_run [?p, ?p] sample_world tr [?q, ?p] ?w"
    using run_in_pool [of 0 "[?p, ?p]" ?p sample_world] by (auto simp del: handle_payout.simps)
  moreover obtain tr' where "pool_run [?q, ?p] ?w tr' [?q, finished (fst (run ?p ?w))] rival_world"
    using run_in_pool [of 1 "[?q, ?p]" ?p ?w] by (auto simp: rival_world_def simp del: handle_payout.simps)
  ultimately show ?thesis
    by (auto simp: rival_calls_def numeral_2_eq_2 simp del: handle_payout.simps dest: pool_run_trans)
qed

lemma sample_payout_ok: "payout_ok ''p1'' sample_world"
  by (simp add: payout_ok_def wf_payouts_def wf_table_def row_of_def sample_world_def sample_payout_def)

text \<open>
  C1: at most one transaction per payout.  Whatever set of payout requests runs at the same time
  (single and batch authorizations, reconciliations, creations, reads; on any number of server
  instances, each with its own environment), in whatever order their database and node calls
  interleave and whichever of these calls fail, the requests that name a payout together hand at
  most one transaction to a wallet.
\<close>

theorem payout_sent_at_most_once:
  assumes "payout_ok i w"
    and "pool_run (map (\<lambda>(env, req). handle_payout env req) calls) w tr ps w'"
  shows "payout_sends i (map snd calls) tr \<le> 1"
  using pool_custody [OF assms] by (auto simp: custody_def)

theorem payout_sent_at_most_once_witness:
  "\<exists>tr ps. pool_run (map (\<lambda>(env, req). handle_payout env req) rival_calls) sample_world tr ps rival_world \<and>
     length (w_sent rival_world) = 1 \<and> payout_sends ''p1'' (map snd rival_calls) tr \<le> 1"
proof -
  have "length (w_sent rival_world) = 1" by code_simp
  then show ?thesis using rival_run payout_sent_at_most_once [OF sample_payout_ok] by blast
qed

text \<open>
  C2: a payout for which a transaction was handed to a wallet never becomes prepared again, so no
  later authorization can claim it; the ledger's keys stay unique and a payout with a transaction
  hash stays out of the prepared and authorized statuses.
\<close>

theorem payout_sent_not_reclaimable:
  assumes "payout_ok i w"
    and "pool_run (map (\<lambda>(env, req). handle_payout env req) calls) w tr ps w'"
  shows "payout_ok i w' \<and> (payout_sends i (map snd calls) tr = 1 \<longrightarrow> status_of i w' \<noteq> Prepared)"
  using pool_custody [OF assms] by (auto simp: custody_def)

theorem payout_sent_not_reclaimable_witness:
  "\<exists>tr ps. pool_run (map (\<lambda>(env, req). handle_payout env req) rival_calls) sample_world tr ps rival_world \<and>
     payout_ok ''p1'' rival_world"
  using rival_run payout_sent_not_reclaimable [OF sample_payout_ok] by blast

end
