(* ===== verification/PayoutLifecycle.thy ===== *)
theory PayoutLifecycle
  imports PayoutSafety
begin

text \<open>
  What the payouts component promises, as an abstract machine over the status of a payout and the
  number of transactions sent for it, and the refinement: every interleaving of the handlers is a
  run of that machine.
\<close>

section \<open>Protocols that refine an abstract machine\<close>

text \<open>
  A protocol whose permitted actions are, through an abstraction of the shared state and of the
  accumulated cost, runs of an abstract step relation.
\<close>

locale refined_protocol = protocol agree act cost J
  for agree :: "'l \<Rightarrow> 's \<Rightarrow> bool" and act :: "'l \<Rightarrow> 's \<Rightarrow> 'l \<Rightarrow> 's \<Rightarrow> bool"
    and cost :: "nat \<Rightarrow> 's \<Rightarrow> 's \<Rightarrow> nat" and J :: "nat \<Rightarrow> 'l list \<Rightarrow> 's \<Rightarrow> bool" +
  fixes abs :: "'s \<Rightarrow> 'a" and machine :: "'a \<times> nat \<Rightarrow> 'a \<times> nat \<Rightarrow> bool"
  assumes act_simulated: "J n ls s \<Longrightarrow> i < length ls \<Longrightarrow> agree (ls ! i) s \<Longrightarrow> act (ls ! i) s l' s' \<Longrightarrow>
       machine\<^sup>=\<^sup>= (abs s, n) (abs s', n + cost i s s')"
begin

definition step_refines :: "nat \<Rightarrow> (nat \<times> 's \<times> 's) list \<Rightarrow> nat \<Rightarrow> bool" where
  "step_refines n tr m \<longleftrightarrow> (case tr ! m of (i, u, u') \<Rightarrow>
     machine\<^sup>=\<^sup>= (abs u, n + total_cost (take m tr)) (abs u', n + total_cost (take (Suc m) tr)))"

lemma step_refines_Cons [simp]:
  "step_refines n ((i, s, s') # tr) 0 = machine\<^sup>=\<^sup>= (abs s, n) (abs s', n + cost i s s')"
  "step_refines n ((i, s, s') # tr) (Suc m) = step_refines (n + cost i s s') tr m"
  by (simp_all add: step_refines_def total_cost_def add.assoc split: prod.splits)

lemma pool_refines:
  "pool_run ps s tr ps' s' \<Longrightarrow> disciplined ps ls \<Longrightarrow> J n ls s \<Longrightarrow>
   machine\<^sup>*\<^sup>* (abs s, n) (abs s', n + total_cost tr) \<and> (\<forall>m<length tr. step_refines n tr m)"
proof (induction arbitrary: ls n rule: pool_run.induct)
  case (pool_done ps s)
  then show ?case by (simp add: total_cost_def)
next
  case (pool_next i ps f s p s' tr ps'' s'')
  then have i: "i < length ls" and "follows (Step f) agree act (\<lambda>_ _. True) (\<lambda>_ _. True) (ls ! i)"
    by (auto simp: disciplined_def)
  moreover have ag: "agree (ls ! i) s" using pool_next.prems(2) i by (rule J_agree)
  ultimately obtain l' where l': "act (ls ! i) s l' s'"
    and "follows p agree act (\<lambda>_ _. True) (\<lambda>_ _. True) l'"
    using \<open>f s = (p, s')\<close> by fastforce
  then have "disciplined (ps[i := p]) (ls[i := l'])"
    using pool_next.prems(1) i by (auto simp: disciplined_def nth_list_update)
  moreover have "J (n + cost i s s') (ls[i := l']) s'"
    using pool_next.prems(2) i ag l' by (rule J_act)
  ultimately have "machine\<^sup>*\<^sup>* (abs s', n + cost i s s') (abs s'', n + cost i s s' + total_cost tr) \<and>
      (\<forall>m<length tr. step_refines (n + cost i s s') tr m)"
    by (rule pool_next.IH)
  moreover have "machine\<^sup>=\<^sup>= (abs s, n) (abs s', n + cost i s s')"
    using act_simulated [OF pool_next.prems(2) i ag l'] .
  ultimately show ?case
    by (auto simp: less_Suc_eq_0_disj total_cost_def add.assoc)
qed

end

section \<open>The life of a payout\<close>

text \<open>
  A prepared payout is claimed; a claim is given back only before a transaction was sent, and
  the one transaction is sent only under a claim; a claimed payout is settled (broadcast, confirmed or
  failed), and settled payouts change among the settled statuses only.
\<close>

inductive payout_life :: "PayoutStatus \<times> nat \<Rightarrow> PayoutStatus \<times> nat \<Rightarrow> bool" where
  claim: "payout_life (Prepared, 0) (Authorized, 0)"
| release: "payout_life (Authorized, 0) (Prepared, 0)"
| send: "payout_life (Authorized, 0) (Authorized, 1)"
| settle: "settled a \<Longrightarrow> n \<le> 1 \<Longrightarrow> payout_life (Authorized, n) (a, n)"
| revise: "settled a \<Longrightarrow> settled b \<Longrightarrow> n \<le> 1 \<Longrightarrow> payout_life (a, n) (b, n)"

inductive_cases payout_lifeE: "payout_life (a, n) (b, m)"

text \<open>What the machine guarantees: settled for good, and at most one transaction.\<close>

lemma life_settled: "payout_life\<^sup>*\<^sup>* x y \<Longrightarrow> settled (fst x) \<Longrightarrow> settled (fst y)"
  by (induction rule: rtranclp_induct) (auto elim!: payout_lifeE)

lemma life_sends: "payout_life\<^sup>*\<^sup>* x y \<Longrightarrow> snd x \<le> 1 \<Longrightarrow> snd x \<le> snd y \<and> snd y \<le> 1"
  by (induction rule: rtranclp_induct) (auto elim!: payout_lifeE)

lemma custody_simulated:
  assumes "custody i K n ls w" and "k < length ls" and "permitted i (ls ! k) w l' w'"
  shows "payout_life\<^sup>=\<^sup>= (status_of i w, n) (status_of i w', n + sends K k w w')"
proof -
  have facts: "n \<le> 1" "n = 1 \<longrightarrow> status_of i w \<noteq> Prepared" "fst (ls ! k) = (k \<in> K)"
    "snd (ls ! k) = Own \<longrightarrow> status_of i w = Authorized \<and> n = 0"
    "snd (ls ! k) = Settled \<longrightarrow> settled (status_of i w)"
    using assms(1,2) by (auto simp: custody_def)
  from assms(3) facts(3) show ?thesis
  proof (cases rule: permitted_cases)
    case same
    with status_of_same [OF same(2)] show ?thesis by simp
  next
    case spend
    with status_of_same [OF spend(4)] show ?thesis using facts payout_life.send by simp
  next
    case claim
    then show ?thesis using facts by (auto intro: payout_life.claim simp: le_Suc_eq)
  next
    case release
    then show ?thesis using facts by (auto intro: payout_life.release)
  next
    case settle
    then show ?thesis using facts by (auto intro: payout_life.settle)
  next
    case learn
    with status_of_same [OF learn(2)] show ?thesis by simp
  next
    case rewrite
    then show ?thesis using facts by (auto intro: payout_life.revise)
  qed
qed

interpretation payout_refinement:
  refined_protocol "agree i" "permitted i" "sends K" "custody i K" "status_of i" payout_life for i K
  by unfold_locales (rule custody_simulated)

text \<open>
  C3: The ledger refines the life of a payout.  Whatever payout requests run at the same time, in
  whatever order their database and node calls interleave and whichever fail, each step is for any
  one payout, together with the count of the transactions sent for it, either invisible or one step
  of the abstract machine: claimed from prepared, given back only while nothing was sent,
  sent once and only under a claim, settled from the claim, and then never unsettled.
\<close>

theorem payout_lifecycle:
  assumes "payout_ok i w"
    and "pool_run (map (\<lambda>(env, req). handle_payout env req) calls) w tr ps w'"
  shows "payout_life\<^sup>*\<^sup>* (status_of i w, 0) (status_of i w', payout_sends i (map snd calls) tr) \<and>
    (\<forall>m<length tr. case tr ! m of (k, u, u') \<Rightarrow>
       payout_life\<^sup>=\<^sup>= (status_of i u, payout_sends i (map snd calls) (take m tr))
         (status_of i u', payout_sends i (map snd calls) (take (Suc m) tr)))"
  using payout_refinement.pool_refines [OF assms(2) payouts_disciplined [of i] payouts_custody [OF assms(1)]]
  by (simp add: payout_refinement.step_refines_def payout_sends_def payout_protocol.total_cost_def)

theorem payout_lifecycle_witness:
  "\<exists>tr ps. pool_run (map (\<lambda>(env, req). handle_payout env req) rival_calls) sample_world tr ps rival_world \<and>
     payout_life\<^sup>*\<^sup>* (Prepared, 0) (Broadcasted, payout_sends ''p1'' (map snd rival_calls) tr)"
proof -
  have "status_of ''p1'' sample_world = Prepared" and "status_of ''p1'' rival_world = Broadcasted" by code_simp+
  then show ?thesis using rival_run payout_lifecycle [OF sample_payout_ok] by metis
qed

end
