(* ===== verification/PayoutOutcomes.thy ===== *)
theory PayoutOutcomes
  imports PayoutSafety Neutral
begin

text \<open>
  What the payout handlers do when they run alone and the database answers: where an authorized
  payout ends up on every branch, what the wallet was asked to send, what a repeated creation
  returns, and what a request of another tenant sees.
\<close>

section \<open>One row followed through a handler\<close>

text \<open>The table is well formed, payout \<open>i\<close> is \<open>r\<close>, and every other row is as in \<open>w0\<close>.\<close>

definition stands :: "string \<Rightarrow> PayoutRecord \<Rightarrow> World \<Rightarrow> World \<Rightarrow> bool" where
  "stands i r w0 w \<longleftrightarrow> wf_payouts w \<and> row_of i w = Some r \<and> (\<forall>j. j \<noteq> i \<longrightarrow> row_of j w = row_of j w0)"

lemma stands_same [simp]:
  "stands i r w0 (bump w) = stands i r w0 w"
  "stands i r w0 (w\<lparr>w_audit := es, w_event := n\<rparr>) = stands i r w0 w"
  by (simp_all add: stands_def row_of_def wf_payouts_def)

lemma stands_frame: "same_ledgers w w' \<Longrightarrow> stands i r w0 w \<Longrightarrow> stands i r w0 w'"
  by (simp add: stands_def row_of_def wf_payouts_def same_ledgers_def)

lemma ends_update:
  assumes "healthy env" and "stands i r w0 w"
  shows "ends (payout_update env i patch g) w
     (\<lambda>a w'. w_sent w' = w_sent w \<and>
        (if payout_guard i g r
         then \<exists>t. a = Some (apply_payout_patch (t, patch) r) \<and> stands i (apply_payout_patch (t, patch) r) w0 w'
         else a = None \<and> stands i r w0 w')) (\<lambda>_ _. False)"
proof -
  obtain x w' where s: "payout_update_stmt i patch g (time env w) w = (x, w')" by fastforce
  have wf: "wf_payouts w" and r: "row_of i w = Some r" using assms(2) by (auto simp: stands_def)
  note u = update_stmt_row [OF s wf]
  have "stands i (if payout_guard i g r then apply_payout_patch (time env w, patch) r else r) w0 w'"
    using assms(2) u(1) u(4) [of i] u(4) row_of_Some
    by (fastforce simp: stands_def payout_guard_def map_option_case split: option.splits)
  then show ?thesis
    using s u(2) u(5) [OF r] by (auto simp: payout_update_def ends_query [OF assms(1)])
qed

lemma ends_response:
  "healthy env \<Longrightarrow> ends (payout_toResponse env r b) w
     (\<lambda>resp w'. w' = bump w \<and> por_record resp = r \<and> por_idempotentReplay resp = b) (\<lambda>_ _. False)"
  by (simp add: payout_toResponse_def ends_simps ends_listBySubject)

lemma ends_require:
  assumes "healthy env" and "stands i r w0 w" and "truthy (rc_clientId ctx) \<longrightarrow> po_clientId r = rc_clientId ctx"
  shows "ends (requirePayout env i ctx) w (\<lambda>a w'. a = r \<and> w' = bump w) (\<lambda>_ _. False)"
proof -
  have "r \<in> set (w_payouts w)" and "po_id r = i" using assms(2) by (auto simp: stands_def dest: row_of_Some)
  then have "find_scoped po_id po_clientId i (rc_clientId ctx) (w_payouts w) = Some r"
    using payouts.scoped_own [of r] assms(2,3) by (auto simp: stands_def wf_payouts_def)
  then show ?thesis
    by (simp add: requirePayout_def payout_findById_def ends_simps ends_query [OF assms(1)])
qed

section \<open>The transfer\<close>

text \<open>The transaction pays the payout: its beneficiary, its amount.\<close>

definition pays :: "PayoutRecord \<Rightarrow> Tx \<Rightarrow> bool" where
  "pays r tx = (case tx of
       Erc20Transfer _ _ to n \<Rightarrow> to = po_beneficiaryAddress r \<and> bigint_of (po_amountAtomic r) = Some n
     | VaultPayout _ _ _ _ to n _ \<Rightarrow> to = po_beneficiaryAddress r \<and> bigint_of (po_amountAtomic r) = Some n
     | _ \<Rightarrow> False)"

lemma steps_execute: "steps (execute_transfer env r) same_ledgers (\<lambda>_. True)"
  unfolding execute_transfer_def by (auto intro!: frame.harmless_chain frame.harmless_calls)

lemma steps_check: "steps (check_treasury env r) same_ledgers (\<lambda>_. True)"
  unfolding check_treasury_def by (auto intro!: frame.harmless_chain frame.harmless_calls)

lemma ends_execution_sent:
  "ends (toTransferExecution env h) w (\<lambda>ex w'. w_sent w' = w_sent w \<and> te_hash ex = h)
     (\<lambda>e w'. w_sent w' = w_sent w \<and> \<not> is_conflict e)"
  by (auto simp: toTransferExecution_def ends_simps split: sum.splits)

lemma pays_transfer:
  "bigInt (po_amountAtomic r) = Inr n \<Longrightarrow> pays r (Erc20Transfer a tk (po_beneficiaryAddress r) n)"
  "bigInt (po_amountAtomic r) = Inr n \<Longrightarrow> pays r (VaultPayout a v ref tk (po_beneficiaryAddress r) n m)"
  by (auto simp: pays_def bigInt_def split: option.splits)

abbreviation maybe_sent :: "PayoutRecord \<Rightarrow> World \<Rightarrow> exn \<Rightarrow> World \<Rightarrow> bool" where
  "maybe_sent r w e w' \<equiv> w_sent w' = w_sent w \<or>
     (\<exists>tx. w_sent w' = w_sent w @ [tx] \<and> pays r tx \<and> \<not> is_conflict e)"

abbreviation surely_sent :: "PayoutRecord \<Rightarrow> World \<Rightarrow> 'a \<Rightarrow> World \<Rightarrow> bool" where
  "surely_sent r w a w' \<equiv> \<exists>tx. w_sent w' = w_sent w @ [tx] \<and> pays r tx"

lemma ends_submitted:
  assumes "pays r tx" and "w_sent w' = w_sent w"
  shows "ends (bindP (submit env tx) (toTransferExecution env)) w' (surely_sent r w) (maybe_sent r w)"
proof -
  have "ends (toTransferExecution env h) w'' (surely_sent r w) (maybe_sent r w)"
    if "w_sent w'' = w_sent w @ [tx]" for w'' h
    using that assms(1) by (intro ends_mono [OF ends_execution_sent]) auto
  then show ?thesis using assms by (auto simp: ends_simps split: sum.split)
qed

lemma ends_allowance:
  "ends (ensureVaultAllowance env v tk n) w (\<lambda>_ w'. w_sent w' = w_sent w) (\<lambda>_ w'. w_sent w' = w_sent w)"
  by (auto simp: ensureVaultAllowance_def ends_simps split: sum.splits)

lemma ends_send_direct:
  assumes "bigInt (po_amountAtomic r) = Inr n"
  shows "ends (sendErc20Transfer env a (po_beneficiaryAddress r) n) w (surely_sent r w) (maybe_sent r w)"
  unfolding sendErc20Transfer_def
  by (auto intro!: ends_liftE_bind ends_submitted pays_transfer assms simp: ends_basic)

lemma ends_send_vault:
  assumes "bigInt (po_amountAtomic r) = Inr n"
  shows "ends (vaultPayout env a ref (po_beneficiaryAddress r) n) w (surely_sent r w) (maybe_sent r w)"
proof -
  have tail: "ends (bindP (liftE (requireVaultOperatorAccount env)) (\<lambda>account.
      bindP (submit env (VaultPayout account v ref tk (po_beneficiaryAddress r) n ''0x'')) (toTransferExecution env)))
      w' (surely_sent r w) (maybe_sent r w)" if "w_sent w' = w_sent w" for v tk w'
    using that by (auto intro!: ends_liftE_bind ends_submitted pays_transfer assms)
  show ?thesis
    unfolding vaultPayout_def
    by (auto intro!: ends_liftE_bind ends_mono [OF ends_allowance] tail
        simp: ends_basic ends_bindP [of "ensureVaultAllowance _ _ _ _"])
qed

lemma ends_execute_sent: "ends (execute_transfer env r) w (surely_sent r w) (maybe_sent r w)"
  unfolding execute_transfer_def
  by (auto intro!: ends_liftE_bind ends_send_direct ends_send_vault)

section \<open>Authorization\<close>

lemma ends_record:
  assumes "healthy env" and "stands i r w0 w"
  shows "ends (record_event env ty j actor payload) w
     (\<lambda>_ w'. stands i r w0 w' \<and> w_sent w' = w_sent w) (\<lambda>_ _. False)"
  using assms(2) by (intro ends_mono [OF ends_record_event [OF assms(1)]]) auto

lemma ends_enqueue:
  assumes "stands i r w0 w"
  shows "ends (enqueue env c ev p) w (\<lambda>_ w'. stands i r w0 w' \<and> w_sent w' = w_sent w) (\<lambda>_ _. False)"
  using assms
  by (auto simp: enqueue_def Let_def ends_simps query_def stands_def row_of_def wf_payouts_def split: option.splits)

text \<open>The patch that books a transfer, on a row the handler still owns.\<close>

definition booked :: "TransferExecution \<Rightarrow> PayoutRecord \<Rightarrow> PayoutRecord \<Rightarrow> bool" where
  "booked ex r r' \<longleftrightarrow> (\<exists>t t'. r' = apply_payout_patch (t, sent_patch ex t') r)"

lemma booked_simps:
  "booked ex r r' \<Longrightarrow> po_status r' = execution_status ex"
  "booked ex r r' \<Longrightarrow> po_transactionHash r' = Some (te_hash ex)"
  "booked ex r r' \<Longrightarrow> po_failureReason r' = None"
  "booked ex r r' \<Longrightarrow> po_id r' = po_id r"
  by (auto simp: booked_def apply_payout_patch_def sent_patch_def)

lemma ends_book:
  assumes "healthy env" and "stands i r w0 w" and "po_status r = Authorized"
    and "settlementVaultConfigured (cfg env) = Inr v"
  shows "ends (book_transfer env i actor t ex) w
     (\<lambda>a w'. \<exists>r'. a = Some r' \<and> booked ex r r' \<and> stands i r' w0 w' \<and> w_sent w' = w_sent w) (\<lambda>_ _. False)"
proof -
  have g: "payout_guard i (Some [Authorized]) r"
    using assms(2,3) by (auto simp: payout_guard_def stands_def dest: row_of_Some)
  let ?Q = "\<lambda>a w'. \<exists>r'. a = Some r' \<and> booked ex r r' \<and> stands i r' w0 w' \<and> w_sent w' = w_sent w"
  have tail: "ends (if execution_status ex = Confirmed
        then bindP (liftE (nonnull ''clientId'' (Some r'))) (\<lambda>u.
             bindP (enqueue env (po_clientId u) ''payout.confirmed'' (payout_confirmed_event u)) (\<lambda>_. Ret (Some r')))
        else Ret (Some r')) w' ?Q (\<lambda>_ _. False)"
    if "booked ex r r'" "stands i r' w0 w'" "w_sent w' = w_sent w" for r' w'
    using that by (auto simp: ends_simps nonnull_def intro!: ends_mono [OF ends_enqueue])
  show ?thesis
    unfolding book_transfer_def
  proof (rule ends_bind [OF ends_update [OF assms(1,2)]], goal_cases)
    case (1 a w')
    then obtain r' where r': "a = Some r'" "booked ex r r'" "stands i r' w0 w'" "w_sent w' = w_sent w"
      using g by (auto simp: booked_def)
    show ?case
      by (simp only: ends_liftE ends_bindP [of "liftE _"] assms(4) sum.case r'(1))
         (rule ends_bind [OF ends_record [OF assms(1) r'(3)]], rule tail [OF r'(2)], auto simp: r'(4))
  qed simp
qed

lemma ends_broadcast:
  assumes "healthy env" and "stands i r w0 w" and "po_status r = Authorized"
  shows "ends (broadcast_payout env i actor t r) w
     (\<lambda>a w'. \<exists>r' ex. a = Some r' \<and> booked ex r r' \<and> stands i r' w0 w' \<and> surely_sent r w a w')
     (\<lambda>e w'. stands i r w0 w' \<and> maybe_sent r w e w')"
proof -
  have check: "ends (check_treasury env r) w (\<lambda>_ w'. stands i r w0 w' \<and> w_sent w' = w_sent w)
       (\<lambda>_ w'. stands i r w0 w' \<and> w_sent w' = w_sent w)"
    using assms(2) by (auto simp: check_treasury_def getAssetBalance_def ends_simps split: sum.splits)
  have vault: "ends (execute_transfer env r) w' (\<lambda>_ _. \<exists>v. settlementVaultConfigured (cfg env) = Inr v) (\<lambda>_ _. True)" for w'
    unfolding execute_transfer_def by (rule ends_liftE_bind) (auto intro: ends_mono [OF ends_True])
  have exec: "ends (execute_transfer env r) w'
      (\<lambda>ex w''. stands i r w0 w'' \<and> surely_sent r w' ex w'' \<and> (\<exists>v. settlementVaultConfigured (cfg env) = Inr v))
      (\<lambda>e w''. stands i r w0 w'' \<and> maybe_sent r w' e w'')" if "stands i r w0 w'" for w'
    using that
    by (intro ends_mono [OF ends_conj [OF ends_conj [OF ends_execute_sent vault] ends_frame [OF steps_execute]]])
       (auto intro: stands_frame)
  show ?thesis
    unfolding broadcast_payout_def
    by (rule ends_bind [OF check], rule ends_bind [OF exec])
       (auto intro!: ends_mono [OF ends_book [OF assms(1) _ assms(3)]])
qed

text \<open>Where a failed broadcast leaves the payout, and what the caller sees.\<close>

definition given_back :: "exn \<Rightarrow> PayoutRecord \<Rightarrow> PayoutRecord \<Rightarrow> exn \<Rightarrow> bool" where
  "given_back cause r r' e \<longleftrightarrow> po_transactionHash r' = po_transactionHash r \<and>
     po_failureReason r' = Some (exn_message cause) \<and>
     (if is_conflict cause then e = cause \<and> po_status r' = Prepared
      else po_status r' = Failed \<and>
        (\<exists>resp. e = BadGatewayPayout ''Failed to broadcast payout on Avalanche.'' resp \<and> por_record resp = r'))"

lemma ends_failed:
  assumes "healthy env" and "stands i r w0 w" and "po_status r = Authorized"
  shows "ends (broadcast_failed env i actor e) w Q
     (\<lambda>e' w'. \<exists>r'. stands i r' w0 w' \<and> given_back e r r' e' \<and> w_sent w' = w_sent w)"
proof -
  have g: "payout_guard i (Some [Authorized]) r"
    using assms(2,3) by (auto simp: payout_guard_def stands_def dest: row_of_Some)
  have reason: "po_failureReason (apply_payout_patch (t, [PoStatus s, PoFailureReason m]) r) = m" for t s m
    by (simp add: apply_payout_patch_def)
  show ?thesis
  proof (cases "is_conflict e")
    case True
    then show ?thesis
      unfolding broadcast_failed_def
      by simp (rule ends_bind [OF ends_update [OF assms(1,2)]],
        use g in \<open>auto simp: ends_basic given_back_def reason\<close>)
  next
    case False
    have answer: "ends (bindP (payout_toResponse env r' False) (\<lambda>response.
          Raise (BadGatewayPayout ''Failed to broadcast payout on Avalanche.'' response))) w' Q
        (\<lambda>e' w'. \<exists>r'. stands i r' w0 w' \<and> given_back e r r' e' \<and> w_sent w' = w_sent w)"
      if "stands i r' w0 w'" "w_sent w' = w_sent w" "po_status r' = Failed"
        "po_transactionHash r' = po_transactionHash r" "po_failureReason r' = Some (exn_message e)" for r' w'
      using that False
      by (intro ends_bind [OF ends_response [OF assms(1)]]) (auto simp: ends_basic given_back_def)
    from False show ?thesis
      unfolding broadcast_failed_def
      by simp (rule ends_bind [OF ends_update [OF assms(1,2)]],
        use g in \<open>auto simp: reason ends_liftE ends_bindP [of "liftE _"] nonnull_def
          intro!: ends_bind [OF ends_record [OF assms(1)]] answer\<close>)
  qed
qed

lemma pays_claim [simp]: "pays (apply_payout_patch (t, [PoStatus s, PoAuthorizedAt a]) r) tx = pays r tx"
  by (simp add: pays_def apply_payout_patch_def split: Tx.split)

lemma ends_settle:
  assumes "healthy env" and "stands i r w0 w" and "po_status r = Authorized"
  shows "ends (settle_claimed env i actor t r) w
     (\<lambda>a w'. \<exists>r' ex. a = Some r' \<and> booked ex r r' \<and> stands i r' w0 w' \<and> surely_sent r w a w')
     (\<lambda>e' w'. \<exists>r' e. stands i r' w0 w' \<and> given_back e r r' e' \<and> maybe_sent r w e w')"
  unfolding settle_claimed_def ends_catchP
  by (rule ends_mono [OF ends_broadcast [OF assms]])
     (blast, fastforce intro: ends_mono [OF ends_failed [OF assms(1) _ assms(3)]])

text \<open>
  C4: Authorizing a prepared payout with a database that answers always leaves it settled: it is
  broadcast or confirmed with the hash of the one transaction that was sent, which pays its
  beneficiary its amount; or it is prepared again and nothing was sent (a conflict, reported as
  such); or it is failed and the caller gets the failed record.  It never stays authorized, and no
  other payout changes.
\<close>

theorem authorizePayout_outcome:
  assumes "healthy env" and "wf_payouts w" and "row_of i w = Some r" and "po_status r = Prepared"
    and "truthy (rc_clientId ctx) \<longrightarrow> po_clientId r = rc_clientId ctx"
  shows "ends (authorizePayout env i dto ctx) w
     (\<lambda>resp w'. row_of i w' = Some (por_record resp) \<and> (\<forall>j. j \<noteq> i \<longrightarrow> row_of j w' = row_of j w) \<and>
        po_status (por_record resp) \<in> {Broadcasted, Confirmed} \<and>
        po_transactionHash (por_record resp) \<noteq> None \<and>
        (\<exists>tx. w_sent w' = w_sent w @ [tx] \<and> pays r tx))
     (\<lambda>e w'. \<exists>r'. row_of i w' = Some r' \<and> (\<forall>j. j \<noteq> i \<longrightarrow> row_of j w' = row_of j w) \<and>
        po_transactionHash r' = po_transactionHash r \<and> po_failureReason r' \<noteq> None \<and>
        (if is_conflict e then po_status r' = Prepared \<and> w_sent w' = w_sent w
         else po_status r' = Failed \<and>
           (\<exists>resp. e = BadGatewayPayout ''Failed to broadcast payout on Avalanche.'' resp \<and> por_record resp = r')))"
    (is "ends _ w ?Q ?E")
proof -
  define Q where "Q = ?Q"
  define E where "E = ?E"
  have st: "stands i r w w" using assms(2,3) by (simp add: stands_def)
  have g: "payout_guard i (Some [Prepared]) r"
    using assms(3,4) by (auto simp: payout_guard_def dest: row_of_Some)
  have exec: "execution_status ex \<in> {Broadcasted, Confirmed}" for ex by (simp add: execution_status_def)
  have answer: "ends (bindP (liftE (nonnull ''id'' (Some r'))) (\<lambda>u. payout_toResponse env u False)) w' Q E"
    if "booked ex a r'" "stands i r' w w'" "surely_sent r w x w'" for ex a r' w' x
    using that booked_simps(1,2) [OF that(1)] exec [of ex]
    by (auto simp: Q_def ends_liftE ends_bindP [of "liftE _"] nonnull_def stands_def row_of_def
        intro!: ends_mono [OF ends_response [OF assms(1)]])
  have settle: "ends (bindP (settle_claimed env i actor t a) (\<lambda>updated.
      bindP (liftE (nonnull ''id'' updated)) (\<lambda>u. payout_toResponse env u False))) w' Q E"
    if "stands i a w w'" "w_sent w' = w_sent w" "a = apply_payout_patch (t', [PoStatus Authorized, PoAuthorizedAt s]) r"
    for actor t a w' t' s
  proof -
    have a: "po_status a = Authorized" "po_transactionHash a = po_transactionHash r" "pays a = pays r"
      using that(3) by (auto simp: fun_eq_iff)
    note sent = that(2)
    show ?thesis
    proof (rule ends_bind [OF ends_settle [OF assms(1) that(1) a(1)]], goal_cases)
      case (1 updated w'')
      then obtain r' ex where r': "updated = Some r'" "booked ex a r'" "stands i r' w w''"
          "surely_sent r w updated w''"
        unfolding a(3) sent by blast
      show ?case unfolding r'(1) by (rule answer [OF r'(2-4)])
    next
      case (2 e w'')
      then show ?case
        unfolding E_def a(3) sent given_back_def a(2) stands_def
        by (auto simp: is_conflict_def [of "BadGatewayPayout _ _"] split: if_splits)
    qed
  qed
  have "ends (authorizePayout env i dto ctx) w Q E"
    unfolding authorizePayout_def Let_def
    by (rule ends_bind [OF ends_require [OF assms(1) st assms(5)]])
       (use g assms(4) st in \<open>auto simp: ends_now ends_bindP [of "now _"]
          intro!: ends_bind [OF ends_update [OF assms(1), of i r w]] ends_bind [OF ends_record [OF assms(1)]] settle [OF _ _ refl]\<close>)
  then show ?thesis unfolding Q_def E_def .
qed

lemma sample_facts:
  "healthy sample_env" "wf_payouts sample_world" "row_of ''p1'' sample_world = Some sample_payout"
  "po_status sample_payout = Prepared" "rc_clientId sample_context = po_clientId sample_payout"
  by (simp_all add: healthy_def sample_env_def wf_payouts_def wf_table_def sample_world_def row_of_def
      sample_payout_def sample_context_def)

theorem authorizePayout_outcome_witness:
  "ends (authorizePayout sample_env ''p1'' \<lparr>apd_approvedBy = None, apd_riskDecisionId = None, apd_notes = None\<rparr>
     sample_context) sample_world
     (\<lambda>resp w'. po_status (por_record resp) \<in> {Broadcasted, Confirmed} \<and>
        (\<exists>tx. w_sent w' = w_sent sample_world @ [tx] \<and> pays sample_payout tx))
     (\<lambda>e w'. \<exists>r'. row_of ''p1'' w' = Some r' \<and> po_status r' \<in> {Prepared, Failed})"
  by (rule ends_mono [OF authorizePayout_outcome [OF sample_facts(1-4)]])
     (auto simp: sample_facts(5) split: if_splits)

section \<open>Creation\<close>

text \<open>The checks a creation passes before it touches the ledger.\<close>

definition accepts :: "Env \<Rightarrow> CreatePayoutDto \<Rightarrow> bool" where
  "accepts env dto \<longleftrightarrow> (\<exists>ac n net summary. getAssetConfig (cfg env) (cpd_asset dto) = Inr ac \<and>
     ac_address ac \<noteq> None \<and> parseAmount env (cpd_amount dto) ac = Inr n \<and>
     check_max env (cpd_asset dto) ac n = Inr () \<and>
     settlementNetwork (cfg env) = Inr net \<and> networkSummary (cfg env) = Inr summary)"

definition keyed :: "RequestContext \<Rightarrow> CreatePayoutDto \<Rightarrow> PayoutRecord \<Rightarrow> bool" where
  "keyed ctx dto r \<longleftrightarrow> po_clientId r = rc_clientId ctx \<and> po_externalId r = cpd_externalId dto"

text \<open>The insert, and the read that follows when it conflicts.\<close>

lemma ends_createOrGet:
  assumes "healthy env" and "wf_payouts w" and "po_tokenAddress q \<noteq> None" and "po_clientId q \<noteq> None"
  shows "ends (payout_createOrGetExisting env q) w
     (\<lambda>(r, existed) w'. wf_payouts w' \<and> r \<in> set (w_payouts w') \<and> w_sent w' = w_sent w \<and>
        po_clientId r = po_clientId q \<and> po_externalId r = po_externalId q \<and>
        (if existed then w_payouts w' = w_payouts w else r = q \<and> w_payouts w' = w_payouts w @ [q]))
     (\<lambda>_ w'. w_payouts w' = w_payouts w \<and> w_sent w' = w_sent w \<and>
        (\<forall>r\<in>set (w_payouts w). \<not> (po_clientId r = po_clientId q \<and> po_externalId r = po_externalId q)))"
proof (cases "sql_insert po_id po_clientId po_externalId q (w_payouts w)")
  case (Inl m)
  then have "\<not> key_conflict po_clientId po_externalId q (w_payouts w)"
    by (auto simp: sql_insert_def split: if_splits)
  with Inl assms show ?thesis
    by (auto simp: payout_createOrGetExisting_def ends_bindP ends_query payout_insert_stmt_def
        key_conflict_def list_ex_iff)
next
  case (Inr p)
  then obtain rows ret where ins: "sql_insert po_id po_clientId po_externalId q (w_payouts w) = Inr (rows, ret)"
    by (cases p) auto
  have wf: "wf_table po_id po_clientId po_externalId rows"
    using payouts.insert_wf [OF _ ins] assms(2) by (simp add: wf_payouts_def)
  show ?thesis
  proof (cases "ret = []")
    case True
    with payouts.insert_conflict [of "w_payouts w"] ins assms(2) obtain x where x: "rows = w_payouts w"
      "x \<in> set (w_payouts w)" "po_clientId x = po_clientId q" "po_externalId x = po_externalId q"
      "find_external po_clientId po_externalId (po_clientId q) (po_externalId q) (w_payouts w) = Some x"
      by (fastforce simp: wf_payouts_def)
    with True ins assms show ?thesis
      by (auto simp: payout_createOrGetExisting_def ends_simps ends_query payout_insert_stmt_def
          payout_findByExternalId_def wf_payouts_def)
  next
    case False
    with payouts.insert_fresh [OF ins] have "rows = w_payouts w @ [q]" and "ret = [q]" by auto
    with ins assms wf show ?thesis
      by (auto simp: payout_createOrGetExisting_def ends_simps ends_query payout_insert_stmt_def wf_payouts_def)
  qed
qed

lemma keyed_unique:
  "wf_payouts w \<Longrightarrow> r \<in> set (w_payouts w) \<Longrightarrow> q \<in> set (w_payouts w) \<Longrightarrow> keyed ctx dto r \<Longrightarrow>
   keyed ctx' dto' q \<Longrightarrow> rc_clientId ctx' = rc_clientId ctx \<Longrightarrow> cpd_externalId dto' = cpd_externalId dto \<Longrightarrow>
   rc_clientId ctx \<noteq> None \<Longrightarrow> q = r"
  by (auto simp: wf_payouts_def keyed_def intro: wf_table_key_eq)

definition created :: "RequestContext \<Rightarrow> CreatePayoutDto \<Rightarrow> World \<Rightarrow> PayoutResponse \<Rightarrow> World \<Rightarrow> bool" where
  "created ctx dto w resp w' \<longleftrightarrow>
     wf_payouts w' \<and> por_record resp \<in> set (w_payouts w') \<and> keyed ctx dto (por_record resp) \<and>
     w_sent w' = w_sent w \<and>
     (if por_idempotentReplay resp then w_payouts w' = w_payouts w
      else w_payouts w' = w_payouts w @ [por_record resp] \<and> po_status (por_record resp) = Prepared \<and>
        po_amount (por_record resp) = cpd_amount dto \<and> po_asset (por_record resp) = cpd_asset dto \<and>
        po_beneficiaryAddress (por_record resp) = cpd_beneficiaryAddress dto)"

lemma ends_record_frame:
  "healthy env \<Longrightarrow> ends (record_event env ty j actor payload) w
     (\<lambda>_ w'. w_payouts w' = w_payouts w \<and> w_sent w' = w_sent w) (\<lambda>_ _. False)"
  by (rule ends_mono [OF ends_record_event]) auto

lemma ends_create:
  assumes "healthy env" and "wf_payouts w" and "accepts env dto" and "rc_clientId ctx \<noteq> None"
    and "\<not> cpd_executeImmediately dto"
  shows "ends (createPayout env dto ctx) w (created ctx dto w)
     (\<lambda>_ w'. w_payouts w' = w_payouts w \<and> w_sent w' = w_sent w \<and> (\<forall>r\<in>set (w_payouts w). \<not> keyed ctx dto r))"
proof -
  obtain ac n net summary where ok: "getAssetConfig (cfg env) (cpd_asset dto) = Inr ac" "ac_address ac \<noteq> None"
    "parseAmount env (cpd_amount dto) ac = Inr n" "check_max env (cpd_asset dto) ac n = Inr ()"
    "settlementNetwork (cfg env) = Inr net" "networkSummary (cfg env) = Inr summary"
    using assms(3) by (auto simp: accepts_def)
  define E where "E = (\<lambda>(_::exn) (w' :: World). w_payouts w' = w_payouts w \<and> w_sent w' = w_sent w \<and>
     (\<forall>r\<in>set (w_payouts w). \<not> keyed ctx dto r))"
  have answer: "ends (bindP (record_event env ty j actor payload) (\<lambda>_. payout_toResponse env r b)) w'
       (created ctx dto w) E"
    if "\<And>resp w'. por_record resp = r \<Longrightarrow> por_idempotentReplay resp = b \<Longrightarrow> w_payouts w' = w_payouts v \<Longrightarrow>
          w_sent w' = w_sent v \<Longrightarrow> created ctx dto w resp w'"
      and "w_payouts w' = w_payouts v" and "w_sent w' = w_sent v" for ty j actor payload r b w' v
    using that by (intro ends_bind [OF ends_record_frame [OF assms(1)]] ends_mono [OF ends_response [OF assms(1)]]) auto
  let ?q = "new_payout env dto ctx ac n (time env w) (uuid env (w_event w)) net summary"
  have q: "po_tokenAddress ?q \<noteq> None" "po_clientId ?q \<noteq> None" "po_status ?q = Prepared"
    "po_clientId ?q = rc_clientId ctx" "po_externalId ?q = cpd_externalId dto" "po_amount ?q = cpd_amount dto"
    "po_asset ?q = cpd_asset dto" "po_beneficiaryAddress ?q = cpd_beneficiaryAddress dto"
    using assms(4) ok(2) by (simp_all add: new_payout_def)
  have "wf_payouts (bump w)" using assms(2) by simp
  note ins = ends_createOrGet [OF assms(1) this q(1,2)]
  have main: "ends (createPayout env dto ctx) w (created ctx dto w) E"
    unfolding createPayout_def
  proof (simp only: ends_bindP [of "liftE _"] ends_bindP [of "now _"] ends_bindP [of "randomUUID _"]
      ends_liftE ends_now ends_randomUUID ok sum.case, rule ends_bind [OF ins], goal_cases)
    case (1 p w')
    obtain r existed where p: "p = (r, existed)" by fastforce
    note r = 1 [unfolded p case_prod_conv q bump_fields]
    show ?case
      unfolding p case_prod_conv
      using r assms(5) by (auto simp: created_def keyed_def wf_payouts_def q intro!: answer [where v = w'])
  next
    case (2 e w')
    then show ?case unfolding q by (simp add: E_def keyed_def)
  qed
  show ?thesis using main unfolding E_def .
qed


definition sample_create :: "string \<Rightarrow> CreatePayoutDto" where
  "sample_create amount =
     \<lparr>cpd_externalId = ''ext-2'', cpd_amount = amount, cpd_asset = USDC, cpd_beneficiaryAddress = ''0xb'',
      cpd_beneficiaryName = None, cpd_chainFlowRequestId = None, cpd_memo = None, cpd_metadata = None,
      cpd_executeImmediately = False\<rparr>"

lemma sample_accepts: "accepts sample_env (sample_create ''5'')" "accepts sample_env (sample_create ''7'')"
proof -
  have net: "settlementNetwork (cfg sample_env) = Inr AvalancheFuji" by code_simp
  obtain summary where sm: "networkSummary (cfg sample_env) = Inr summary"
    by (simp add: networkSummary_def net)
  let ?ac = "projr (getAssetConfig (cfg sample_env) USDC)"
  have ac: "getAssetConfig (cfg sample_env) USDC = Inr ?ac" by code_simp
  have "ac_address ?ac \<noteq> None" by code_simp
  moreover have "parseAmount sample_env ''5'' ?ac = Inr 5" "parseAmount sample_env ''7'' ?ac = Inr 7" by code_simp+
  moreover have "check_max sample_env USDC ?ac 5 = Inr ()" "check_max sample_env USDC ?ac 7 = Inr ()" by code_simp+
  ultimately show "accepts sample_env (sample_create ''5'')" "accepts sample_env (sample_create ''7'')"
    using net sm ac unfolding accepts_def by (auto simp: sample_create_def)
qed


end
