(* ===== verification/Payins.thy ===== *)
theory Payins
  imports Payouts
begin

text \<open>
  \<^verbatim>\<open>src/src/payins\<close>: the pay-in ledger, the merge of scanned transfers, and every method of
  \<^verbatim>\<open>PayinsService\<close>.  The auto-sweep that \<^verbatim>\<open>reconcilePayIn\<close> starts without awaiting it is queued
  in \<open>w_background\<close>; \<open>background_sweep\<close> is what that detached call does.
\<close>

section \<open>Requests\<close>

record CreatePayInDto =
  cid_externalId :: string
  cid_amount :: string
  cid_asset :: SettlementAsset
  cid_chainFlowRequestId :: "string option"
  cid_collectionMode :: "PayInCollectionMode option"
  cid_routerInvoiceId :: "string option"
  cid_expiresInMinutes :: "int option"
  cid_metadata :: "jobject option"

record SweepPayInDto =
  swd_amount :: "string option"
  swd_notes :: "string option"

record PayInFilters =
  pif_clientId :: "string option"
  pif_status :: "PayInStatus option"
  pif_externalId :: "string option"
  pif_limit :: "nat option"
  pif_offset :: "nat option"

section \<open>Ledger\<close>

text \<open>One constructor per key of \<^verbatim>\<open>PATCH_COLUMNS\<close>.\<close>

datatype PayInField =
    PfStatus PayInStatus
  | PfReceivedAmount string
  | PfReceivedAmountAtomic string
  | PfSweepStatus PayInSweepStatus
  | PfSweepTransactionHash "string option"
  | PfSweptAmount string
  | PfSweptAmountAtomic string
  | PfSweptAt "timestamp option"
  | PfSweepFailureReason "string option"
  | PfLastScannedBlock "string option"
  | PfAcceptedAt "timestamp option"
  | PfAcceptanceNote "string option"
  | PfMetadata jobject
  | PfTransfers "PayInTransferRecord list"
  | PfDetectedAt "timestamp option"
  | PfConfirmedAt "timestamp option"

fun set_payin_field :: "PayInField \<Rightarrow> PayInRecord \<Rightarrow> PayInRecord" where
  "set_payin_field (PfStatus v) r = r\<lparr>pi_status := v\<rparr>"
| "set_payin_field (PfReceivedAmount v) r = r\<lparr>pi_receivedAmount := v\<rparr>"
| "set_payin_field (PfReceivedAmountAtomic v) r = r\<lparr>pi_receivedAmountAtomic := v\<rparr>"
| "set_payin_field (PfSweepStatus v) r = r\<lparr>pi_sweepStatus := v\<rparr>"
| "set_payin_field (PfSweepTransactionHash v) r = r\<lparr>pi_sweepTransactionHash := v\<rparr>"
| "set_payin_field (PfSweptAmount v) r = r\<lparr>pi_sweptAmount := v\<rparr>"
| "set_payin_field (PfSweptAmountAtomic v) r = r\<lparr>pi_sweptAmountAtomic := v\<rparr>"
| "set_payin_field (PfSweptAt v) r = r\<lparr>pi_sweptAt := v\<rparr>"
| "set_payin_field (PfSweepFailureReason v) r = r\<lparr>pi_sweepFailureReason := v\<rparr>"
| "set_payin_field (PfLastScannedBlock v) r = r\<lparr>pi_lastScannedBlock := v\<rparr>"
| "set_payin_field (PfAcceptedAt v) r = r\<lparr>pi_acceptedAt := v\<rparr>"
| "set_payin_field (PfAcceptanceNote v) r = r\<lparr>pi_acceptanceNote := v\<rparr>"
| "set_payin_field (PfMetadata v) r = r\<lparr>pi_metadata := v\<rparr>"
| "set_payin_field (PfTransfers v) r = r\<lparr>pi_transfers := v\<rparr>"
| "set_payin_field (PfDetectedAt v) r = r\<lparr>pi_detectedAt := v\<rparr>"
| "set_payin_field (PfConfirmedAt v) r = r\<lparr>pi_confirmedAt := v\<rparr>"

definition apply_payin_patch :: "timestamp \<times> PayInField list \<Rightarrow> PayInRecord \<Rightarrow> PayInRecord" where
  "apply_payin_patch p r = (fold set_payin_field (snd p) r)\<lparr>pi_updatedAt := fst p\<rparr>"

record PayInUpdateGuard =
  expectedStatus :: "PayInStatus list option"
  expectedSweepStatus :: "PayInSweepStatus list option"

definition no_guard :: PayInUpdateGuard where
  "no_guard = \<lparr>expectedStatus = None, expectedSweepStatus = None\<rparr>"

definition status_guard :: "PayInStatus list \<Rightarrow> PayInUpdateGuard" where
  "status_guard ss = \<lparr>expectedStatus = Some ss, expectedSweepStatus = None\<rparr>"

definition sweep_guard :: "PayInSweepStatus list \<Rightarrow> PayInUpdateGuard" where
  "sweep_guard ss = \<lparr>expectedStatus = None, expectedSweepStatus = Some ss\<rparr>"

definition payin_guard :: "string \<Rightarrow> PayInUpdateGuard \<Rightarrow> PayInRecord \<Rightarrow> bool" where
  "payin_guard i g r \<longleftrightarrow> pi_id r = i \<and>
     (case expectedStatus g of None \<Rightarrow> True | Some ss \<Rightarrow> pi_status r \<in> set ss) \<and>
     (case expectedSweepStatus g of None \<Rightarrow> True | Some ss \<Rightarrow> pi_sweepStatus r \<in> set ss)"

definition payin_update_stmt ::
  "string \<Rightarrow> PayInField list \<Rightarrow> PayInUpdateGuard \<Rightarrow> timestamp \<Rightarrow> World \<Rightarrow>
   (exn + PayInRecord option) \<times> World" where
  "payin_update_stmt i patch g t w =
     (let (rows, ret) = sql_update (payin_guard i g) (apply_payin_patch (t, patch)) (w_payins w)
      in (Inr (find (\<lambda>_. True) ret), w\<lparr>w_payins := rows\<rparr>))"

definition payin_update ::
  "Env \<Rightarrow> string \<Rightarrow> PayInField list \<Rightarrow> PayInUpdateGuard \<Rightarrow> PayInRecord option io" where
  "payin_update env i patch g = query env (payin_update_stmt i patch g)"

definition payin_insert_stmt ::
  "PayInRecord \<Rightarrow> timestamp \<Rightarrow> World \<Rightarrow> (exn + PayInRecord option) \<times> World" where
  "payin_insert_stmt r t w =
     (if pi_tokenAddress r = None
      then (Inl (JsError ''null value in column \"token_address\" violates not-null constraint''), w)
      else case sql_insert pi_id pi_clientId pi_externalId r (w_payins w) of
        Inl m \<Rightarrow> (Inl (JsError m), w)
      | Inr (rows, ret) \<Rightarrow> (Inr (find (\<lambda>_. True) ret), w\<lparr>w_payins := rows\<rparr>))"

definition payin_findById :: "Env \<Rightarrow> string \<Rightarrow> string option \<Rightarrow> PayInRecord option io" where
  "payin_findById env i clientId =
     query env (\<lambda>t w. (Inr (find_scoped pi_id pi_clientId i clientId (w_payins w)), w))"

definition payin_findByExternalId :: "Env \<Rightarrow> string option \<Rightarrow> string \<Rightarrow> PayInRecord option io" where
  "payin_findByExternalId env clientId externalId =
     query env (\<lambda>t w. (Inr (find_external pi_clientId pi_externalId clientId externalId (w_payins w)), w))"

definition payin_createOrGetExisting :: "Env \<Rightarrow> PayInRecord \<Rightarrow> (PayInRecord \<times> bool) io" where
  "payin_createOrGetExisting env r =
     bindP (query env (payin_insert_stmt r)) (\<lambda>inserted.
     case inserted of
       Some row \<Rightarrow> Ret (row, False)
     | None \<Rightarrow>
         bindP (payin_findByExternalId env (pi_clientId r) (pi_externalId r)) (\<lambda>existing.
         case existing of
           None \<Rightarrow> Raise (JsError (''Pay-in insert conflicted but no existing record found for externalId \"''
                     @ pi_externalId r @ ''\".''))
         | Some e \<Rightarrow> Ret (e, True)))"

definition payin_where :: "PayInFilters \<Rightarrow> PayInRecord \<Rightarrow> bool" where
  "payin_where f r \<longleftrightarrow>
     (truthy (pif_clientId f) \<longrightarrow> pi_clientId r = pif_clientId f) \<and>
     (case pif_status f of None \<Rightarrow> True | Some s \<Rightarrow> pi_status r = s) \<and>
     (truthy (pif_externalId f) \<longrightarrow> Some (pi_externalId r) = pif_externalId f)"

definition payin_list :: "Env \<Rightarrow> PayInFilters \<Rightarrow> PayInRecord list io" where
  "payin_list env f = query env (\<lambda>t w.
     (Inr (page_desc pi_createdAt (case pif_limit f of None \<Rightarrow> 200 | Some n \<Rightarrow> n)
             (case pif_offset f of None \<Rightarrow> 0 | Some n \<Rightarrow> n)
             (filter (payin_where f) (w_payins w))), w))"

text \<open>\<^verbatim>\<open>ORDER BY confirmed_at ASC NULLS LAST\<close>\<close>

definition by_confirmation :: "PayInRecord list \<Rightarrow> PayInRecord list" where
  "by_confirmation rs =
     sort_key (\<lambda>r. the (pi_confirmedAt r)) (filter (\<lambda>r. pi_confirmedAt r \<noteq> None) rs) @
     filter (\<lambda>r. pi_confirmedAt r = None) rs"

definition sweep_retry_where :: "int \<Rightarrow> timestamp \<Rightarrow> PayInRecord \<Rightarrow> bool" where
  "sweep_retry_where cooldownMinutes t r \<longleftrightarrow> pi_status r = PiConfirmed \<and>
     pi_sweepStatus r \<in> {SwPending, SwFailed} \<and> pi_updatedAt r < t - cooldownMinutes * 60000"

definition listSweepRetryCandidates :: "Env \<Rightarrow> nat \<Rightarrow> int \<Rightarrow> PayInRecord list io" where
  "listSweepRetryCandidates env limit cooldownMinutes = query env (\<lambda>t w.
     (Inr (take limit (by_confirmation (filter (sweep_retry_where cooldownMinutes t) (w_payins w)))), w))"

definition namespacedKey :: "string option \<Rightarrow> string \<Rightarrow> string" where
  "namespacedKey clientId key = (case clientId of None \<Rightarrow> ''global'' | Some c \<Rightarrow> c) @ '':'' @ key"

definition findByIdempotencyKey :: "Env \<Rightarrow> string option \<Rightarrow> string \<Rightarrow> PayInRecord option io" where
  "findByIdempotencyKey env clientId key =
     bindP (query env (\<lambda>t w. (Inr (map_of (w_idempotency w) (namespacedKey clientId key)), w))) (\<lambda>recordId.
     case recordId of None \<Rightarrow> Ret None | Some i \<Rightarrow> payin_findById env i None)"

definition storeIdempotencyKey :: "Env \<Rightarrow> string option \<Rightarrow> string \<Rightarrow> string \<Rightarrow> unit io" where
  "storeIdempotencyKey env clientId key recordId = query env (\<lambda>t w.
     (Inr (), if map_of (w_idempotency w) (namespacedKey clientId key) = None
              then w\<lparr>w_idempotency := w_idempotency w @ [(namespacedKey clientId key, recordId)]\<rparr> else w))"

text \<open>\<^verbatim>\<open>DatabaseService.claimNextPayInIndex\<close>: the counter row is \<open>None\<close> before the migrations ran.\<close>

definition claimNextPayInIndex :: "Env \<Rightarrow> int io" where
  "claimNextPayInIndex env = query env (\<lambda>t w.
     case w_counter w of
       None \<Rightarrow> (Inl (JsError ''Derivation counter row is missing. Run database migrations.''), w)
     | Some n \<Rightarrow> (Inr n, w\<lparr>w_counter := Some (n + 1)\<rparr>))"

section \<open>Scanning\<close>

definition RESCAN_OVERLAP_BLOCKS :: int where
  "RESCAN_OVERLAP_BLOCKS = 30"

definition SWEEP_RETRY_COOLDOWN_MINUTES :: int where
  "SWEEP_RETRY_COOLDOWN_MINUTES = 10"

definition scanFromBlock :: "PayInRecord \<Rightarrow> exn + int" where
  "scanFromBlock payin =
     (case bigInt (pi_startBlock payin) of Inl e \<Rightarrow> Inl e
      | Inr start \<Rightarrow>
          if \<not> truthy (pi_lastScannedBlock payin) then Inr start
          else (case bigInt (the (pi_lastScannedBlock payin)) of Inl e \<Rightarrow> Inl e
            | Inr scanned \<Rightarrow> let resume = scanned - RESCAN_OVERLAP_BLOCKS + 1
                             in Inr (if resume > start then resume else start)))"

definition transferKey :: "PayInTransferRecord \<Rightarrow> string" where
  "transferKey t =
     (case tr_logIndex t of
        Some n \<Rightarrow> tr_hash t @ '':'' @ n
      | None \<Rightarrow> tr_hash t @ '':'' @ tr_from t @ '':'' @ tr_amountAtomic t @ '':'' @ tr_blockNumber t)"

text \<open>The values of the \<^verbatim>\<open>Map\<close> keyed by \<open>transferKey\<close>: a later transfer replaces an earlier one in place.\<close>

definition dedup_transfers :: "PayInTransferRecord list \<Rightarrow> PayInTransferRecord list" where
  "dedup_transfers ts = map snd (fold (\<lambda>t. AList.update (transferKey t) t) ts [])"

definition block_of :: "PayInTransferRecord \<Rightarrow> int" where
  "block_of t = (case bigint_of (tr_blockNumber t) of None \<Rightarrow> 0 | Some n \<Rightarrow> n)"

text \<open>
  The sort compares two block numbers, so with two transfers or more it throws if one of the
  texts is not an integer.  The comparator never answers 0; the engine's merge sort only asks
  whether the answer is negative, which makes the sort stable.
\<close>

definition mergeTransfers ::
  "PayInTransferRecord list \<Rightarrow> PayInTransferRecord list \<Rightarrow> exn + PayInTransferRecord list" where
  "mergeTransfers existing incoming =
     (let ts = dedup_transfers (existing @ incoming) in
      if length ts < 2 then Inr ts
      else case collect (map (\<lambda>t. bigInt (tr_blockNumber t)) ts) of
        Inl e \<Rightarrow> Inl e | Inr _ \<Rightarrow> Inr (sort_key block_of ts))"

definition findPayInTransfers :: "Env \<Rightarrow> PayInRecord \<Rightarrow> int \<Rightarrow> PayInTransferRecord list io" where
  "findPayInTransfers env payin toBlock =
     bindP (liftE (scanFromBlock payin)) (\<lambda>fromBlock.
     if pi_collectionMode payin = PaymentRouter then
       if \<not> truthy (pi_routerInvoiceId payin) then Raise (BadRequest ''Router pay-in has no invoice id.'')
       else
         bindP (liftE (bigInt (pi_expectedAmountAtomic payin))) (\<lambda>amountAtomic.
         bindP (findPaymentRouterInvoicePayments env (pi_asset payin) (the (pi_routerInvoiceId payin))
                  amountAtomic fromBlock (Some toBlock)) (\<lambda>payments.
         Ret (map ip_transfer payments)))
     else findIncomingErc20Transfers env (pi_asset payin) (pi_depositAddress payin) fromBlock (Some toBlock))"

section \<open>Service: creation and reading\<close>

definition payin_toResponse :: "Env \<Rightarrow> PayInRecord \<Rightarrow> bool \<Rightarrow> PayInResponse io" where
  "payin_toResponse env r idempotentReplay =
     bindP (listBySubject env (pi_id r)) (\<lambda>trail.
     Ret \<lparr>pir_record = r, pir_idempotentReplay = idempotentReplay, pir_auditTrail = trail_items trail\<rparr>)"

definition requirePayIn :: "Env \<Rightarrow> string \<Rightarrow> RequestContext \<Rightarrow> PayInRecord io" where
  "requirePayIn env i context =
     bindP (payin_findById env i (rc_clientId context)) (\<lambda>payin.
     case payin of None \<Rightarrow> Raise (NotFound ''Pay-in not found.'') | Some r \<Rightarrow> Ret r)"

definition requirePaymentRouterAddress :: "Env \<Rightarrow> exn + string" where
  "requirePaymentRouterAddress env =
     (case paymentRouterAddress (cfg env) of Inl e \<Rightarrow> Inl e
      | Inr None \<Rightarrow> Inl (ServiceUnavailable
          ''AVASETTLE_PAYMENT_ROUTER_ADDRESS is required for payment-router pay-ins.'')
      | Inr (Some a) \<Rightarrow> Inr a)"

definition listPayIns :: "Env \<Rightarrow> PayInFilters \<Rightarrow> RequestContext \<Rightarrow> PayInResponse list io" where
  "listPayIns env f context =
     bindP (payin_list env (f\<lparr>pif_clientId := rc_clientId context\<rparr>)) (\<lambda>records.
     allP (map (\<lambda>r. payin_toResponse env r False) records))"

definition getPayIn :: "Env \<Rightarrow> string \<Rightarrow> RequestContext \<Rightarrow> PayInResponse io" where
  "getPayIn env i context = bindP (requirePayIn env i context) (\<lambda>r. payin_toResponse env r False)"

definition payin_expiry :: "int option \<Rightarrow> timestamp \<Rightarrow> timestamp option" where
  "payin_expiry minutes t =
     (case minutes of None \<Rightarrow> None | Some m \<Rightarrow> if m = 0 then None else Some (t + m * 60000))"

definition new_payin ::
  "Env \<Rightarrow> CreatePayInDto \<Rightarrow> RequestContext \<Rightarrow> AssetRuntimeConfig \<Rightarrow> int \<Rightarrow> PayInCollectionMode \<Rightarrow>
   string option \<Rightarrow> string option \<Rightarrow> int \<Rightarrow> timestamp \<Rightarrow> timestamp option \<Rightarrow> int \<Rightarrow> string \<Rightarrow> string \<Rightarrow>
   SettlementNetwork \<Rightarrow> NetworkSummary \<Rightarrow> PayInRecord" where
  "new_payin env dto context ac expectedAtomic mode routerAddress routerInvoiceId startBlock t expiresAt
     derivationIndex depositAddress i net summary =
     \<lparr>pi_id = i, pi_clientId = rc_clientId context, pi_externalId = cid_externalId dto,
      pi_chainFlowRequestId = cid_chainFlowRequestId dto, pi_status = PiPending,
      pi_network = net, pi_chainId = ns_chainId summary, pi_asset = cid_asset dto,
      pi_tokenAddress = ac_address ac, pi_expectedAmount = cid_amount dto,
      pi_expectedAmountAtomic = show_int expectedAtomic, pi_receivedAmount = ''0'',
      pi_receivedAmountAtomic = ''0'', pi_depositAddress = depositAddress,
      pi_derivationIndex = derivationIndex, pi_collectionMode = mode,
      pi_routerAddress = routerAddress, pi_routerInvoiceId = routerInvoiceId,
      pi_startBlock = show_int startBlock, pi_lastScannedBlock = None, pi_expiresAt = expiresAt,
      pi_metadata = (case cid_metadata dto of None \<Rightarrow> [] | Some m \<Rightarrow> m), pi_transfers = [],
      pi_sweepStatus = (if mode = PaymentRouter then SwNotRequired else SwPending),
      pi_sweepTransactionHash = None, pi_sweptAmount = ''0'', pi_sweptAmountAtomic = ''0'',
      pi_sweptAt = None, pi_sweepFailureReason = None, pi_createdAt = t, pi_updatedAt = t,
      pi_detectedAt = None, pi_confirmedAt = None, pi_acceptedAt = None, pi_acceptanceNote = None\<rparr>"

definition payin_created_event :: "PayInRecord \<Rightarrow> jobject" where
  "payin_created_event r =
     [(''externalId'', JStr (pi_externalId r)), (''depositAddress'', JStr (pi_depositAddress r)),
      (''derivationIndex'', JInt (pi_derivationIndex r)),
      (''collectionMode'', JStr (mode_text (pi_collectionMode r))),
      (''routerInvoiceId'', jopt (pi_routerInvoiceId r)),
      (''expectedAmount'', JStr (pi_expectedAmount r)), (''asset'', JStr (asset_text (pi_asset r)))]"

text \<open>The rail of a new pay-in: the router address and invoice id, both null for a derived address.\<close>

definition router_rail :: "Env \<Rightarrow> CreatePayInDto \<Rightarrow> bool \<Rightarrow> exn + string option \<times> string option" where
  "router_rail env dto isRouterMode =
     (if isRouterMode then
        (case requirePaymentRouterAddress env of Inl e \<Rightarrow> Inl e
         | Inr a \<Rightarrow> Inr (Some a, Some (case cid_routerInvoiceId dto of Some r \<Rightarrow> r
                     | None \<Rightarrow> routerInvoiceIdFromExternalId env (cid_externalId dto))))
      else Inr (None, None))"

definition create_new_payin :: "Env \<Rightarrow> CreatePayInDto \<Rightarrow> RequestContext \<Rightarrow> PayInResponse io" where
  "create_new_payin env dto context =
     bindP (liftE (getAssetConfig (cfg env) (cid_asset dto))) (\<lambda>ac.
     bindP (liftE (parseAmount env (cid_amount dto) ac)) (\<lambda>expectedAtomic.
     let mode = (case cid_collectionMode dto of None \<Rightarrow> DerivedAddress | Some m \<Rightarrow> m);
         isRouterMode = (mode = PaymentRouter) in
     bindP (liftE (router_rail env dto isRouterMode)) (\<lambda>(routerAddress, routerInvoiceId).
     bindP (getLatestBlockNumber env) (\<lambda>startBlock.
     bindP (now env) (\<lambda>t.
     bindP (case cid_expiresInMinutes dto of Some m \<Rightarrow> Ret (Some m)
            | None \<Rightarrow> liftE (payInDefaultExpirationMinutes (cfg env))) (\<lambda>minutes.
     bindP (if isRouterMode then Ret (-1) else claimNextPayInIndex env) (\<lambda>derivationIndex.
     bindP (case routerAddress of Some a \<Rightarrow> Ret a
            | None \<Rightarrow> liftE (derivePayInAddress env derivationIndex)) (\<lambda>depositAddress.
     bindP (randomUUID env) (\<lambda>i.
     bindP (liftE (settlementNetwork (cfg env))) (\<lambda>net.
     bindP (liftE (networkSummary (cfg env))) (\<lambda>summary.
     bindP (payin_createOrGetExisting env (new_payin env dto context ac expectedAtomic mode routerAddress
              routerInvoiceId startBlock t (payin_expiry minutes t) derivationIndex depositAddress i net summary))
       (\<lambda>(r, existed).
     if existed then payin_toResponse env r True
     else
       bindP (if truthy (rc_idempotencyKey context)
              then storeIdempotencyKey env (rc_clientId context) (the (rc_idempotencyKey context)) (pi_id r)
              else Ret ()) (\<lambda>_.
       bindP (record_event env PAYIN_CREATED (pi_id r) (toAuditActor context None) (payin_created_event r)) (\<lambda>_.
       payin_toResponse env r False))))))))))))))"

definition createPayIn :: "Env \<Rightarrow> CreatePayInDto \<Rightarrow> RequestContext \<Rightarrow> PayInResponse io" where
  "createPayIn env dto context =
     bindP (if truthy (rc_idempotencyKey context)
            then findByIdempotencyKey env (rc_clientId context) (the (rc_idempotencyKey context))
            else Ret None) (\<lambda>prior.
     case prior of Some r \<Rightarrow> payin_toResponse env r True
     | None \<Rightarrow> create_new_payin env dto context)"

section \<open>Service: reconciliation\<close>

definition latest_block :: "int list \<Rightarrow> int option" where
  "latest_block bs = foldl (\<lambda>l b. case l of None \<Rightarrow> Some b | Some m \<Rightarrow> Some (if b > m then b else m)) None bs"

definition payin_status ::
  "int \<Rightarrow> int \<Rightarrow> bool \<Rightarrow> bool \<Rightarrow> PayInStatus" where
  "payin_status received expected enoughConfirmations expired =
     (if received = 0 then (if expired then PiExpired else PiPending)
      else if received < expected then PiUnderpaid
      else if received > expected then PiOverpaid
      else if enoughConfirmations then PiConfirmed else PiDetected)"

definition enough_confirmations :: "Env \<Rightarrow> int \<Rightarrow> int list \<Rightarrow> exn + bool" where
  "enough_confirmations env latestBlock blocks =
     (case latest_block blocks of None \<Rightarrow> Inr False
      | Some b \<Rightarrow> if latestBlock > b
          then map_sum id (\<lambda>minConf. latestBlock - b \<ge> minConf) (minConfirmations (cfg env))
          else Inr False)"

definition payin_expired :: "PayInRecord \<Rightarrow> timestamp \<Rightarrow> bool" where
  "payin_expired payin t = (case pi_expiresAt payin of None \<Rightarrow> False | Some e \<Rightarrow> e < t)"

definition reconcile_patch ::
  "Env \<Rightarrow> PayInRecord \<Rightarrow> AssetRuntimeConfig \<Rightarrow> PayInTransferRecord list \<Rightarrow> int \<Rightarrow> PayInStatus \<Rightarrow> int \<Rightarrow>
   timestamp \<Rightarrow> PayInField list" where
  "reconcile_patch env payin ac transfers received status latestBlock t =
     [PfStatus status, PfReceivedAmountAtomic (show_int received),
      PfReceivedAmount (formatUnits env received (ac_decimals ac)), PfTransfers transfers,
      PfLastScannedBlock (Some (show_int latestBlock)),
      PfDetectedAt (if transfers \<noteq> [] \<and> pi_detectedAt payin = None then Some t else pi_detectedAt payin),
      PfConfirmedAt (if status = PiConfirmed \<and> pi_confirmedAt payin = None then Some t else pi_confirmedAt payin)]"

definition payin_detected_event :: "PayInRecord \<Rightarrow> jobject" where
  "payin_detected_event u =
     [(''id'', JStr (pi_id u)), (''externalId'', JStr (pi_externalId u)), (''asset'', JStr (asset_text (pi_asset u))),
      (''depositAddress'', JStr (pi_depositAddress u)), (''receivedAmount'', JStr (pi_receivedAmount u)),
      (''expectedAmount'', JStr (pi_expectedAmount u)), (''detectedAt'', jtime (pi_detectedAt u))]"

definition payin_confirmed_event :: "PayInRecord \<Rightarrow> jobject" where
  "payin_confirmed_event u =
     [(''id'', JStr (pi_id u)), (''externalId'', JStr (pi_externalId u)), (''asset'', JStr (asset_text (pi_asset u))),
      (''receivedAmount'', JStr (pi_receivedAmount u)), (''depositAddress'', JStr (pi_depositAddress u)),
      (''confirmedAt'', jtime (pi_confirmedAt u))]"

definition start_background :: "BackgroundTask \<Rightarrow> unit io" where
  "start_background task = await (\<lambda>w. (Inr (), w\<lparr>w_background := w_background w @ [task]\<rparr>))"

text \<open>What follows the update: the audit entry, the webhooks and the detached sweep.\<close>

definition announce_reconciled ::
  "Env \<Rightarrow> string \<Rightarrow> RequestContext \<Rightarrow> PayInRecord \<Rightarrow> PayInRecord \<Rightarrow> PayInTransferRecord list \<Rightarrow> int \<Rightarrow>
   PayInStatus \<Rightarrow> unit io" where
  "announce_reconciled env i context payin updated transfers received status =
     bindP (record_event env PAYIN_RECONCILED i (toAuditActor context None)
              [(''status'', JStr (payin_status_text status)), (''receivedAmountAtomic'', JStr (show_int received)),
               (''transferCount'', JInt (int (length transfers)))]) (\<lambda>_.
     bindP (if transfers \<noteq> [] \<and> pi_detectedAt payin = None
            then enqueue env (pi_clientId updated) ''payin.detected'' (payin_detected_event updated)
            else Ret ()) (\<lambda>_.
     if status = PiConfirmed \<and> pi_confirmedAt payin = None then
       bindP (enqueue env (pi_clientId updated) ''payin.confirmed'' (payin_confirmed_event updated)) (\<lambda>_.
       if autoSweep (cfg env) \<and> pi_collectionMode payin \<noteq> PaymentRouter
       then start_background (AutoSweep i context) else Ret ())
     else Ret ()))"

definition reconcilePayIn :: "Env \<Rightarrow> string \<Rightarrow> RequestContext \<Rightarrow> PayInResponse io" where
  "reconcilePayIn env i context =
     bindP (requirePayIn env i context) (\<lambda>payin.
     if pi_status payin = PiConfirmed then payin_toResponse env payin True
     else
     bindP (getLatestBlockNumber env) (\<lambda>latestBlock.
     bindP (findPayInTransfers env payin latestBlock) (\<lambda>newTransfers.
     bindP (liftE (mergeTransfers (pi_transfers payin) newTransfers)) (\<lambda>transfers.
     bindP (liftE (collect (map (\<lambda>t. bigInt (tr_amountAtomic t)) transfers))) (\<lambda>amounts.
     let received = foldl (+) 0 amounts in
     bindP (liftE (bigInt (pi_expectedAmountAtomic payin))) (\<lambda>expected.
     bindP (liftE (getAssetConfig (cfg env) (pi_asset payin))) (\<lambda>ac.
     bindP (now env) (\<lambda>t.
     bindP (liftE (collect (map (\<lambda>t. bigInt (tr_blockNumber t)) transfers))) (\<lambda>blocks.
     bindP (liftE (enough_confirmations env latestBlock blocks)) (\<lambda>enough.
     let status = payin_status received expected enough (payin_expired payin t) in
     bindP (payin_update env i (reconcile_patch env payin ac transfers received status latestBlock t) no_guard)
       (\<lambda>updated.
     case updated of
       None \<Rightarrow> Raise (Conflict ''Unable to update pay-in.'')
     | Some u \<Rightarrow>
         bindP (announce_reconciled env i context payin u transfers received status) (\<lambda>_.
         payin_toResponse env u False))))))))))))"

section \<open>Service: sweeping\<close>

definition sweep_execution_status :: "SweepExecution \<Rightarrow> PayInSweepStatus" where
  "sweep_execution_status sweep = (if te_status (se_exec sweep) = ExConfirmed then SwConfirmed else SwBroadcasted)"

definition swept_patch :: "SweepExecution \<Rightarrow> timestamp \<Rightarrow> PayInField list" where
  "swept_patch sweep t =
     [PfSweepStatus (sweep_execution_status sweep), PfSweepTransactionHash (Some (te_hash (se_exec sweep))),
      PfSweptAmount (se_amount sweep), PfSweptAmountAtomic (se_amountAtomic sweep), PfSweptAt (Some t),
      PfSweepFailureReason None]"

text \<open>The body of the \<^verbatim>\<open>try\<close>: the record to answer with, and whether it is a replay.\<close>

definition attempt_sweep ::
  "Env \<Rightarrow> string \<Rightarrow> SweepPayInDto \<Rightarrow> RequestContext \<Rightarrow> PayInRecord \<Rightarrow> int option \<Rightarrow> (PayInRecord \<times> bool) io" where
  "attempt_sweep env i dto context payin amountAtomic =
     bindP (sweepDerivedPayIn env (pi_asset payin) (pi_derivationIndex payin) (pi_depositAddress payin) amountAtomic)
       (\<lambda>sweep.
     bindP (now env) (\<lambda>t.
     bindP (payin_update env i (swept_patch sweep t) (sweep_guard [SwPending, SwFailed])) (\<lambda>updated.
     bindP (record_event env PAYIN_SWEPT i (toAuditActor context None)
              [(''transactionHash'', JStr (te_hash (se_exec sweep))), (''from'', JStr (se_from sweep)),
               (''to'', JStr (se_to sweep)), (''amount'', JStr (se_amount sweep)),
               (''amountAtomic'', JStr (se_amountAtomic sweep)), (''notes'', jopt (swd_notes dto))]) (\<lambda>_.
     case updated of
       None \<Rightarrow> bindP (requirePayIn env i context) (\<lambda>current. Ret (current, True))
     | Some u \<Rightarrow> Ret (u, False)))))"

definition sweep_failed ::
  "Env \<Rightarrow> string \<Rightarrow> SweepPayInDto \<Rightarrow> RequestContext \<Rightarrow> exn \<Rightarrow> (PayInRecord \<times> bool) io" where
  "sweep_failed env i dto context e =
     bindP (payin_update env i [PfSweepStatus SwFailed, PfSweepFailureReason (Some (exn_message e))]
              (sweep_guard [SwPending, SwFailed])) (\<lambda>failed.
     bindP (record_event env PAYIN_SWEEP_FAILED i (toAuditActor context None)
              [(''failureReason'', JStr (exn_message e)), (''notes'', jopt (swd_notes dto))]) (\<lambda>_.
     case failed of Some f \<Rightarrow> Ret (f, False) | None \<Rightarrow> Raise e))"

definition sweepPayIn :: "Env \<Rightarrow> string \<Rightarrow> SweepPayInDto \<Rightarrow> RequestContext \<Rightarrow> PayInResponse io" where
  "sweepPayIn env i dto context =
     bindP (requirePayIn env i context) (\<lambda>payin.
     if pi_collectionMode payin = PaymentRouter then
       bindP (payin_update env i [PfSweepStatus SwNotRequired, PfSweepFailureReason None] no_guard) (\<lambda>updated.
       case updated of None \<Rightarrow> Raise (Conflict ''Unable to update pay-in.'')
       | Some u \<Rightarrow> payin_toResponse env u True)
     else if pi_sweepStatus payin \<in> {SwBroadcasted, SwConfirmed} then payin_toResponse env payin True
     else
       bindP (liftE (getAssetConfig (cfg env) (pi_asset payin))) (\<lambda>ac.
       bindP (if truthy (swd_amount dto)
              then liftE (map_sum id Some (parseAmount env (the (swd_amount dto)) ac)) else Ret None) (\<lambda>amountAtomic.
       bindP (catchP (attempt_sweep env i dto context payin amountAtomic) (sweep_failed env i dto context))
         (\<lambda>(r, replay). payin_toResponse env r replay))))"

definition parseEther :: "Env \<Rightarrow> string \<Rightarrow> exn + int" where
  "parseEther env s = lib_call (parseUnits env s 18)"

definition exec_status_text :: "ExecStatus \<Rightarrow> string" where
  "exec_status_text s = (case s of ExBroadcasted \<Rightarrow> ''broadcasted'' | ExConfirmed \<Rightarrow> ''confirmed'')"

text \<open>Gas for a deposit address: the transfer and its audit entry, the same in both callers.\<close>

definition send_topup :: "Env \<Rightarrow> string \<Rightarrow> string option \<Rightarrow> RequestContext \<Rightarrow> PayInRecord \<Rightarrow> TransferExecution io" where
  "send_topup env i amountAvax context payin =
     bindP (liftE (parseEther env (if truthy amountAvax then the amountAvax else ''0.002''))) (\<lambda>amountWei.
     bindP (sendNativeTransfer env (pi_depositAddress payin) amountWei) (\<lambda>transfer.
     bindP (record_event env PAYIN_TOPUP i (toAuditActor context None)
              [(''depositAddress'', JStr (pi_depositAddress payin)),
               (''amountAvax'', JStr (formatUnits env amountWei 18)),
               (''transactionHash'', JStr (te_hash transfer)),
               (''status'', JStr (exec_status_text (te_status transfer)))]) (\<lambda>_.
     Ret transfer)))"

definition topUpPayIn :: "Env \<Rightarrow> string \<Rightarrow> string option \<Rightarrow> RequestContext \<Rightarrow> PayInResponse io" where
  "topUpPayIn env i amountAvax context =
     bindP (requirePayIn env i context) (\<lambda>payin.
     if pi_collectionMode payin = PaymentRouter
     then Raise (BadRequest ''PaymentRouter pay-ins do not require gas top-up - the payer funds the gas.'')
     else bindP (send_topup env i amountAvax context payin) (\<lambda>_. payin_toResponse env payin False))"

definition topUpAndSweep ::
  "Env \<Rightarrow> string \<Rightarrow> string option \<Rightarrow> string option \<Rightarrow> RequestContext \<Rightarrow> PayInResponse io" where
  "topUpAndSweep env i amountAvax notes context =
     bindP (requirePayIn env i context) (\<lambda>payin.
     if pi_collectionMode payin = PaymentRouter
     then Raise (BadRequest ''PaymentRouter pay-ins route directly to treasury - no top-up or sweep needed.'')
     else
       bindP (send_topup env i amountAvax context payin) (\<lambda>topup.
       bindP (if te_status topup = ExBroadcasted then waitForTransaction env (te_hash topup) else Ret ()) (\<lambda>_.
       sweepPayIn env i \<lparr>swd_amount = None, swd_notes = notes\<rparr> context)))"

definition retryPendingSweeps :: "Env \<Rightarrow> nat \<Rightarrow> RequestContext \<Rightarrow> nat io" where
  "retryPendingSweeps env limit context =
     bindP (listSweepRetryCandidates env limit SWEEP_RETRY_COOLDOWN_MINUTES) (\<lambda>candidates.
     bindP (forP candidates (\<lambda>payin.
              catchP (bindP (topUpAndSweep env (pi_id payin) None None context) (\<lambda>_. Ret ())) (\<lambda>_. Ret ()))) (\<lambda>_.
     Ret (length candidates)))"

definition background_sweep :: "Env \<Rightarrow> BackgroundTask \<Rightarrow> unit io" where
  "background_sweep env task = (case task of AutoSweep i context \<Rightarrow>
     catchP (bindP (topUpAndSweep env i None None context) (\<lambda>_. Ret ())) (\<lambda>_. Ret ()))"

section \<open>Service: manual acceptance\<close>

definition acceptPayIn :: "Env \<Rightarrow> string \<Rightarrow> string option \<Rightarrow> RequestContext \<Rightarrow> PayInResponse io" where
  "acceptPayIn env i note context =
     bindP (requirePayIn env i context) (\<lambda>payin.
     bindP (now env) (\<lambda>t.
     bindP (payin_update env i
              [PfStatus PiConfirmed, PfAcceptedAt (Some t), PfAcceptanceNote note,
               PfConfirmedAt (case pi_confirmedAt payin of Some c \<Rightarrow> Some c | None \<Rightarrow> Some t)]
              (status_guard [PiUnderpaid, PiOverpaid])) (\<lambda>updated.
     case updated of
       None \<Rightarrow>
         bindP (requirePayIn env i context) (\<lambda>current.
         if pi_status current = PiConfirmed then payin_toResponse env current True
         else Raise (Conflict (''Pay-in cannot be accepted from status \"'' @ payin_status_text (pi_status current) @
                ''\". Only underpaid or overpaid pay-ins can be manually accepted.'')))
     | Some u \<Rightarrow>
         bindP (record_event env PAYIN_ACCEPTED i (toAuditActor context None)
                  [(''previousStatus'', JStr (payin_status_text (pi_status payin))),
                   (''receivedAmount'', JStr (pi_receivedAmount payin)),
                   (''expectedAmount'', JStr (pi_expectedAmount payin)), (''note'', jopt note)]) (\<lambda>_.
         bindP (enqueue env (pi_clientId u) ''payin.confirmed''
                  (payin_confirmed_event u @ [(''acceptedManually'', JBool True)])) (\<lambda>_.
         payin_toResponse env u False)))))"

end
