(* ===== verification/PayinSafety.thy ===== *)
theory PayinSafety
  imports Payins Neutral
begin

text \<open>
  What the pay-in component guarantees: the merge of scanned transfers, the classification of a
  pay-in, manual acceptance, and, for any interleaving of handlers, that no two pay-ins share a
  derivation index and so a deposit address.
\<close>

section \<open>The ledger as a tenant table\<close>

lemma set_payin_field_key [simp]:
  "pi_id (set_payin_field f r) = pi_id r" "pi_clientId (set_payin_field f r) = pi_clientId r"
  "pi_externalId (set_payin_field f r) = pi_externalId r"
  "pi_derivationIndex (set_payin_field f r) = pi_derivationIndex r"
  by (cases f; simp)+

lemma fold_payin_field_key [simp]:
  "pi_id (fold set_payin_field fs r) = pi_id r" "pi_clientId (fold set_payin_field fs r) = pi_clientId r"
  "pi_externalId (fold set_payin_field fs r) = pi_externalId r"
  "pi_derivationIndex (fold set_payin_field fs r) = pi_derivationIndex r"
  by (induction fs arbitrary: r) auto

lemma apply_payin_patch_key [simp]:
  "pi_id (apply_payin_patch p r) = pi_id r" "pi_clientId (apply_payin_patch p r) = pi_clientId r"
  "pi_externalId (apply_payin_patch p r) = pi_externalId r"
  "pi_derivationIndex (apply_payin_patch p r) = pi_derivationIndex r"
  by (simp_all add: apply_payin_patch_def)

interpretation payins: tenant_table pi_id pi_clientId pi_externalId apply_payin_patch
  by unfold_locales simp_all

section \<open>Merging transfers\<close>

abbreviation transfer_map :: "PayInTransferRecord list \<Rightarrow> (string \<times> PayInTransferRecord) list \<Rightarrow> (string \<times> PayInTransferRecord) list" where
  "transfer_map ts al \<equiv> fold (\<lambda>t. AList.update (transferKey t) t) ts al"

definition keyed :: "(string \<times> PayInTransferRecord) list \<Rightarrow> bool" where
  "keyed al \<longleftrightarrow> distinct (map fst al) \<and> (\<forall>(k, t)\<in>set al. k = transferKey t)"

lemma set_AList_update: "set (AList.update k v al) \<subseteq> insert (k, v) (set al)"
  by (induction al) auto

lemma keyed_update: "keyed al \<Longrightarrow> keyed (AList.update (transferKey t) t al)"
  using set_AList_update [of "transferKey t" t al] by (auto simp: keyed_def intro: distinct_update)

lemma keyed_transfer_map: "keyed al \<Longrightarrow> keyed (transfer_map ts al)"
  by (induction ts arbitrary: al) (auto simp: keyed_update)

lemma set_transfer_map: "snd ` set (transfer_map ts al) \<subseteq> set ts \<union> snd ` set al"
proof (induction ts arbitrary: al)
  case (Cons t ts)
  have "snd ` set (AList.update (transferKey t) t al) \<subseteq> insert t (snd ` set al)"
    using set_AList_update [of "transferKey t" t al] by auto
  with Cons.IH [of "AList.update (transferKey t) t al"]
  show ?case by (simp add: comp_def) blast
qed simp

lemma keys_transfer_map: "fst ` set (transfer_map ts al) = transferKey ` set ts \<union> fst ` set al"
  by (induction ts arbitrary: al) (auto simp: dom_update)

lemma map_fst_keyed: "keyed al \<Longrightarrow> map transferKey (map snd al) = map fst al"
  by (auto simp: keyed_def)

lemma dedup_keys:
  "distinct (map transferKey (dedup_transfers ts))"
  "transferKey ` set (dedup_transfers ts) = transferKey ` set ts"
  "set (dedup_transfers ts) \<subseteq> set ts"
proof -
  let ?al = "transfer_map ts []"
  have k: "keyed ?al" by (rule keyed_transfer_map) (simp add: keyed_def)
  have eq: "map transferKey (dedup_transfers ts) = map fst ?al"
    using map_fst_keyed [OF k] by (simp add: dedup_transfers_def)
  then show "distinct (map transferKey (dedup_transfers ts))"
    using k by (simp add: keyed_def)
  have "transferKey ` set (dedup_transfers ts) = fst ` set ?al"
    using arg_cong [OF eq, of set] by simp
  then show "transferKey ` set (dedup_transfers ts) = transferKey ` set ts"
    using keys_transfer_map [of ts "[]"] by simp
  show "set (dedup_transfers ts) \<subseteq> set ts"
    using set_transfer_map [of ts "[]"] by (simp add: dedup_transfers_def)
qed

lemma update_present: "distinct (map fst al) \<Longrightarrow> (k, v) \<in> set al \<Longrightarrow> AList.update k v al = al"
  by (induction al) (auto simp: rev_image_eqI)

lemma update_absent: "k \<notin> fst ` set al \<Longrightarrow> AList.update k v al = al @ [(k, v)]"
  by (induction al) auto

lemma transfer_map_fresh:
  "distinct (map transferKey ts) \<Longrightarrow> transferKey ` set ts \<inter> fst ` set al = {} \<Longrightarrow>
   transfer_map ts al = al @ map (\<lambda>t. (transferKey t, t)) ts"
proof (induction ts arbitrary: al)
  case (Cons t ts)
  then have "transferKey t \<notin> fst ` set al" by auto
  then show ?case using Cons by (auto simp: update_absent)
qed simp

lemma transfer_map_present:
  "distinct (map fst al) \<Longrightarrow> \<forall>t\<in>set ts. (transferKey t, t) \<in> set al \<Longrightarrow> transfer_map ts al = al"
  by (induction ts) (auto simp: update_present)

lemma dedup_again:
  assumes "distinct (map transferKey xs)" and "set ys \<subseteq> set xs"
  shows "dedup_transfers (xs @ ys) = xs"
proof -
  let ?al = "map (\<lambda>t. (transferKey t, t)) xs"
  have "transfer_map xs [] = ?al" using transfer_map_fresh [OF assms(1), of "[]"] by simp
  moreover have "transfer_map ys ?al = ?al"
    using assms by (intro transfer_map_present) (auto simp: comp_def)
  ultimately show ?thesis by (simp add: dedup_transfers_def comp_def)
qed

lemma sort_key_sorted: "sorted (map f xs) \<Longrightarrow> sort_key f xs = xs"
  by (induction xs) (auto simp: insort_is_Cons)

lemma merged_sorted: "mergeTransfers xs ys = Inr ts \<Longrightarrow> sorted (map block_of ts) \<and> distinct (map transferKey ts)"
proof -
  assume m: "mergeTransfers xs ys = Inr ts"
  let ?d = "dedup_transfers (xs @ ys)"
  have "ts = ?d \<and> length ?d < 2 \<or> ts = sort_key block_of ?d"
    using m by (auto simp: mergeTransfers_def Let_def split: if_splits sum.splits)
  moreover have "sorted (map block_of ?d)" if "length ?d < 2"
    using that by (cases ?d) (auto simp: less_Suc_eq)
  moreover have "distinct (map transferKey (sort_key block_of ?d))"
    using dedup_keys(1) [of "xs @ ys"] by (metis distinct_map distinct_sort set_sort)
  ultimately show ?thesis using dedup_keys(1) [of "xs @ ys"] by auto
qed

lemma merged_set: "mergeTransfers xs ys = Inr ts \<Longrightarrow> set ts = set (dedup_transfers (xs @ ys))"
  by (auto simp: mergeTransfers_def Let_def split: if_splits sum.splits)

text \<open>The part after the last colon, and so what is before it, is determined.\<close>

lemma last_sep_inj: "x @ c # a = y @ c # b \<Longrightarrow> c \<notin> set a \<Longrightarrow> c \<notin> set b \<Longrightarrow> x = y \<and> a = b"
  by (auto simp: append_eq_append_conv2 append_eq_Cons_conv Cons_eq_append_conv)

lemma transferKey_log:
  "tr_logIndex t = Some a \<Longrightarrow> tr_logIndex u = Some b \<Longrightarrow> CHR '':'' \<notin> set a \<union> set b \<Longrightarrow>
   transferKey t = transferKey u \<Longrightarrow> tr_hash t = tr_hash u \<and> a = b"
  using last_sep_inj [of "tr_hash t" "CHR '':''" a "tr_hash u" b] by (simp add: transferKey_def)

text \<open>
  C8: the merged transfers of a pay-in count every on-chain log once.  No two merged transfers have
  the same key, every key seen before or now is there, nothing is invented, the list is in
  block order, and two logs have the same key only when they are the same log of the same
  transaction.
\<close>

theorem mergeTransfers_spec:
  assumes "mergeTransfers existing incoming = Inr ts"
  shows "distinct (map transferKey ts) \<and> sorted (map block_of ts) \<and>
    transferKey ` set ts = transferKey ` (set existing \<union> set incoming) \<and>
    set ts \<subseteq> set existing \<union> set incoming \<and>
    (\<forall>t u a b. tr_logIndex t = Some a \<and> tr_logIndex u = Some b \<and> CHR '':'' \<notin> set a \<union> set b \<and>
       transferKey t = transferKey u \<longrightarrow> tr_hash t = tr_hash u \<and> a = b)"
  using merged_sorted [OF assms] merged_set [OF assms] dedup_keys(2,3) [of "existing @ incoming"] transferKey_log by auto

text \<open>
  Scanning blocks again is harmless: merging any part of the transfers already recorded into
  them changes nothing, so the overlap of thirty blocks never counts a payment twice.
\<close>

lemma rescan_idempotent:
  assumes "mergeTransfers existing incoming = Inr ts" and "set again \<subseteq> set ts"
  shows "mergeTransfers ts again = Inr ts"
proof -
  have s: "sorted (map block_of ts)" "distinct (map transferKey ts)" using merged_sorted [OF assms(1)] by auto
  have d: "dedup_transfers (ts @ again) = ts" using s(2) assms(2) by (rule dedup_again)
  show ?thesis
  proof (cases "length ts < 2")
    case True
    then show ?thesis by (simp add: mergeTransfers_def d)
  next
    case False
    let ?bs = "\<lambda>xs. map (\<lambda>t. bigInt (tr_blockNumber t)) xs"
    have long: "\<not> length (dedup_transfers (existing @ incoming)) < 2"
    proof
      assume "length (dedup_transfers (existing @ incoming)) < 2"
      with assms(1) have "ts = dedup_transfers (existing @ incoming)" by (simp add: mergeTransfers_def Let_def)
      with False \<open>length (dedup_transfers (existing @ incoming)) < 2\<close> show False by simp
    qed
    then obtain as where "collect (?bs (dedup_transfers (existing @ incoming))) = Inr as"
      using assms(1) by (auto simp: mergeTransfers_def Let_def split: sum.splits)
    then have "Inr ` set as = (\<lambda>t. bigInt (tr_blockNumber t)) ` set (dedup_transfers (existing @ incoming))"
      using arg_cong [OF collect_InrD, of _ _ set] by fastforce
    then have "\<forall>t\<in>set (dedup_transfers (existing @ incoming)). \<exists>n. bigInt (tr_blockNumber t) = Inr n"
      by blast
    then have "\<nexists>e. collect (?bs ts) = Inl e"
      using merged_set [OF assms(1)] by (force dest!: collect_InlD)
    then obtain bs where "collect (?bs ts) = Inr bs" by (cases "collect (?bs ts)") auto
    then show ?thesis using False by (simp add: mergeTransfers_def d sort_key_sorted s(1))
  qed
qed

theorem mergeTransfers_spec_witness:
  "\<exists>ts. mergeTransfers [sample_transfer ''1'' ''9''] [sample_transfer ''2'' ''5'', sample_transfer ''1'' ''9''] = Inr ts \<and>
     length ts = 2 \<and> distinct (map transferKey ts) \<and> sorted (map block_of ts)"
proof -
  have "mergeTransfers [sample_transfer ''1'' ''9''] [sample_transfer ''2'' ''5'', sample_transfer ''1'' ''9''] =
      Inr [sample_transfer ''2'' ''5'', sample_transfer ''1'' ''9'']" by code_simp
  then show ?thesis using mergeTransfers_spec by fastforce
qed

lemma rescan_idempotent_witness:
  "mergeTransfers [sample_transfer ''2'' ''5'', sample_transfer ''1'' ''9''] [sample_transfer ''1'' ''9''] =
     Inr [sample_transfer ''2'' ''5'', sample_transfer ''1'' ''9'']"
proof (rule rescan_idempotent)
  show "mergeTransfers [sample_transfer ''1'' ''9''] [sample_transfer ''2'' ''5''] =
      Inr [sample_transfer ''2'' ''5'', sample_transfer ''1'' ''9'']" by code_simp
qed simp

section \<open>Derivation indices\<close>

text \<open>The indices of the pay-ins with a derived address; router pay-ins have index -1.\<close>

definition indices :: "World \<Rightarrow> int list" where
  "indices w = filter (\<lambda>n. n \<noteq> -1) (map pi_derivationIndex (w_payins w))"

definition same_indices :: "World \<Rightarrow> World \<Rightarrow> bool" where
  "same_indices w w' \<longleftrightarrow> indices w' = indices w \<and> w_counter w' = w_counter w"

interpretation index_relation: ledger_relation same_indices
  by unfold_locales (simp add: same_ledgers_def same_indices_def indices_def)

lemmas index_calls = index_relation.harmless_calls index_relation.harmless_chain

lemma harmless_payin_update: "index_relation.harmless (payin_update env i p g)"
  unfolding payin_update_def
  by (rule index_relation.harmless_query)
     (auto simp: payin_update_stmt_def sql_update_def same_indices_def indices_def comp_def
        intro!: arg_cong [where f = "filter _"])

lemma harmless_payin_reads:
  "index_relation.harmless (payin_findById env i c)"
  "index_relation.harmless (requirePayIn env i ctx)"
  "index_relation.harmless (payin_toResponse env r b)"
  "index_relation.harmless (payin_list env f)"
  "index_relation.harmless (payin_findByExternalId env c e)"
  "index_relation.harmless (findByIdempotencyKey env c k)"
  "index_relation.harmless (listSweepRetryCandidates env n m)"
  unfolding requirePayIn_def payin_toResponse_def findByIdempotencyKey_def payin_findById_def payin_list_def
    payin_findByExternalId_def listSweepRetryCandidates_def
  by (auto intro!: index_relation.harmless_read index_calls split: option.splits)

lemma harmless_findPayInTransfers: "index_relation.harmless (findPayInTransfers env r n)"
  unfolding findPayInTransfers_def by (auto intro!: index_calls)

lemma harmless_start_background: "index_relation.harmless (start_background task)"
  unfolding start_background_def
  by (rule steps_await) (auto simp: same_indices_def indices_def)

lemma harmless_reconcilePayIn: "index_relation.harmless (reconcilePayIn env i ctx)"
  unfolding reconcilePayIn_def announce_reconciled_def Let_def
  by (auto intro!: harmless_payin_reads index_calls harmless_findPayInTransfers harmless_payin_update
      harmless_start_background split: option.splits)

lemma harmless_sweepPayIn: "index_relation.harmless (sweepPayIn env i dto ctx)"
  unfolding sweepPayIn_def attempt_sweep_def sweep_failed_def
  by (auto intro!: harmless_payin_reads index_calls harmless_payin_update index_relation.harmless_catch
      split: option.splits)

lemma harmless_topup: "index_relation.harmless (send_topup env i a ctx r)"
  unfolding send_topup_def by (auto intro!: index_calls)

lemma harmless_topUps:
  "index_relation.harmless (topUpPayIn env i a ctx)"
  "index_relation.harmless (topUpAndSweep env i a n ctx)"
  unfolding topUpPayIn_def topUpAndSweep_def
  by (auto intro!: harmless_payin_reads index_calls harmless_topup harmless_sweepPayIn)

lemma harmless_acceptPayIn: "index_relation.harmless (acceptPayIn env i n ctx)"
  unfolding acceptPayIn_def
  by (auto intro!: harmless_payin_reads index_calls harmless_payin_update split: option.splits)

lemma harmless_sweep_jobs:
  "index_relation.harmless (retryPendingSweeps env n ctx)"
  "index_relation.harmless (background_sweep env task)"
  unfolding retryPendingSweeps_def background_sweep_def
  by (auto intro!: harmless_payin_reads harmless_topUps index_relation.harmless_catch
      split: BackgroundTask.splits)

lemma harmless_listings:
  "index_relation.harmless (listPayIns env f ctx)" "index_relation.harmless (getPayIn env i ctx)"
  unfolding listPayIns_def getPayIn_def
  by (auto intro!: harmless_payin_reads index_relation.harmless_allP)

subsection \<open>Claimed indices\<close>

text \<open>
  The ghost state of a handler is the index it has claimed and not yet stored.  An action leaves
  counter and indices alone, claims the next index, or stores the claimed one.
\<close>

definition index_act :: "int option \<Rightarrow> World \<Rightarrow> int option \<Rightarrow> World \<Rightarrow> bool" where
  "index_act l w l' w' \<longleftrightarrow>
     (l' = l \<and> same_indices w w') \<or>
     (\<exists>n. w_counter w = Some n \<and> w_counter w' = Some (n + 1) \<and> indices w' = indices w \<and> l' = Some n) \<or>
     (\<exists>n. l = Some n \<and> indices w' = indices w @ [n] \<and> w_counter w' = w_counter w \<and> l' = None)"

definition index_custody :: "nat \<Rightarrow> int option list \<Rightarrow> World \<Rightarrow> bool" where
  "index_custody c ls w \<longleftrightarrow> distinct (indices w) \<and>
     (\<forall>x\<in>set (indices w). \<exists>n. w_counter w = Some n \<and> x < n) \<and>
     (\<forall>k<length ls. \<forall>x. ls ! k = Some x \<longrightarrow> x \<notin> set (indices w) \<and> (\<exists>n. w_counter w = Some n \<and> x < n) \<and>
        (\<forall>k'<length ls. ls ! k' = Some x \<longrightarrow> k' = k))"

interpretation index_protocol:
  protocol "\<lambda>(l :: int option) (w :: World). True" index_act "\<lambda>_ _ _. 0" index_custody
proof unfold_locales
  fix n ls w k l' w'
  assume c: "index_custody n ls w" and k: "k < length ls" and act: "index_act (ls ! k) w l' w'"
  from act consider
      (same) "l' = ls ! k" "indices w' = indices w" "w_counter w' = w_counter w"
    | (claim) m where "w_counter w = Some m" "w_counter w' = Some (m + 1)" "indices w' = indices w" "l' = Some m"
    | (store) m where "ls ! k = Some m" "indices w' = indices w @ [m]" "w_counter w' = w_counter w" "l' = None"
    unfolding index_act_def same_indices_def by blast
  then show "index_custody (n + 0) (ls[k := l']) w'"
  proof cases
    case same
    then show ?thesis using c k by (simp add: index_custody_def)
  next
    case claim
    have below: "\<forall>x\<in>set (indices w). x < m" and d: "distinct (indices w)"
      and held: "\<forall>k'<length ls. \<forall>x. ls ! k' = Some x \<longrightarrow> x < m \<and> x \<notin> set (indices w) \<and>
        (\<forall>k''<length ls. ls ! k'' = Some x \<longrightarrow> k'' = k')"
      using c claim(1) by (auto simp: index_custody_def)
    have "\<forall>k'<length ls. \<forall>x. ls[k := Some m] ! k' = Some x \<longrightarrow> x \<notin> set (indices w) \<and> x < m + 1 \<and>
        (\<forall>k''<length ls. ls[k := Some m] ! k'' = Some x \<longrightarrow> k'' = k')"
    proof (intro allI impI)
      fix k' x
      assume k': "k' < length ls" and x: "ls[k := Some m] ! k' = Some x"
      show "x \<notin> set (indices w) \<and> x < m + 1 \<and> (\<forall>k''<length ls. ls[k := Some m] ! k'' = Some x \<longrightarrow> k'' = k')"
      proof (cases "k' = k")
        case True
        then have "x = m" using x k by simp
        moreover have "m \<notin> set (indices w)" using below by blast
        moreover have "k'' = k" if "k'' < length ls" "ls[k := Some m] ! k'' = Some m" for k''
          by (metis held less_irrefl nth_list_update_neq that)
        ultimately show ?thesis using True by simp
      next
        case False
        then have l: "ls ! k' = Some x" using x by simp
        then have "x < m" and "x \<notin> set (indices w)" using held k' by blast+
        moreover have "k'' = k'" if "k'' < length ls" "ls[k := Some m] ! k'' = Some x" for k''
          using that held k' l \<open>x < m\<close> k by (metis less_irrefl nth_list_update_eq nth_list_update_neq option.inject)
        ultimately show ?thesis by simp
      qed
    qed
    with below d claim(2-4) show ?thesis by (auto simp: index_custody_def)
  next
    case store
    then show ?thesis using c k by (auto simp: index_custody_def nth_list_update)
  qed
qed simp_all

abbreviation ifol :: "'a io \<Rightarrow> ('a \<Rightarrow> int option \<Rightarrow> bool) \<Rightarrow> int option \<Rightarrow> bool" where
  "ifol p Q l \<equiv> follows p (\<lambda>_ _. True) index_act Q (\<lambda>_ _. True) l"

lemma ifol_harmless: "index_relation.harmless p \<Longrightarrow> ifol p (\<lambda>_ l'. l' = l) l"
  using follows_steps [of p same_indices "\<lambda>_. True" "\<lambda>_ _. True" l index_act]
  by (auto simp: index_act_def elim: follows_mono)

lemma ifol_end: "index_relation.harmless p \<Longrightarrow> ifol p (\<lambda>_ _. True) l"
  by (rule follows_mono [OF ifol_harmless]) auto

lemma ifol_bind: "index_relation.harmless p \<Longrightarrow> (\<And>a. ifol (k a) Q l) \<Longrightarrow> ifol (bindP p k) Q l"
  by (rule follows_bindP, rule follows_mono [OF ifol_harmless]) auto

lemma ifol_claim:
  assumes "\<And>n. ifol (k n) Q (Some n)"
  shows "ifol (bindP (claimNextPayInIndex env) k) Q l"
proof (rule follows_bindP)
  show "follows (claimNextPayInIndex env) (\<lambda>_ _. True) index_act
      (\<lambda>n. follows (k n) (\<lambda>_ _. True) index_act Q (\<lambda>_ _. True)) (\<lambda>_ _. True) l"
    unfolding claimNextPayInIndex_def query_def
  proof (rule follows_await, goal_cases)
    case (1 w)
    have stay: "index_act l w l (bump w)" by (simp add: index_act_def same_indices_def indices_def)
    have claimed: "index_act l w (Some n) (bump (w\<lparr>w_counter := Some (n + 1)\<rparr>))" if "w_counter w = Some n" for n
      using that by (auto simp: index_act_def indices_def)
    show ?case
      using stay claimed assms by (cases "db_fault env (w_event w)"; cases "w_counter w") auto
  qed
qed

lemma ifol_insert:
  assumes "pi_derivationIndex r = -1 \<or> l = Some (pi_derivationIndex r)"
  shows "ifol (query env (payin_insert_stmt r)) (\<lambda>_ _. True) l"
  unfolding query_def
proof (rule follows_await, goal_cases)
  case (1 w)
  have stay: "index_act l w l (bump w)" by (simp add: index_act_def same_indices_def indices_def)
  have stored: "\<exists>l'. index_act l w l' (bump (w\<lparr>w_payins := rows\<rparr>))"
    if "sql_insert pi_id pi_clientId pi_externalId r (w_payins w) = Inr (rows, ret)" for rows ret
  proof -
    have "rows = w_payins w \<or> rows = w_payins w @ [r]"
      using that by (auto simp: sql_insert_def split: if_splits)
    then show ?thesis
      using assms by (auto simp: index_act_def same_indices_def indices_def)
  qed
  show ?case
    using stay stored
    by (cases "db_fault env (w_event w)"; cases "sql_insert pi_id pi_clientId pi_externalId r (w_payins w)")
       (auto simp: payin_insert_stmt_def split: prod.splits)
qed

lemma ifol_store:
  assumes "pi_derivationIndex r = -1 \<or> l = Some (pi_derivationIndex r)" and "\<And>a l. ifol (k a) Q l"
  shows "ifol (bindP (payin_createOrGetExisting env r) k) Q l"
  unfolding payin_createOrGetExisting_def bindP_assoc
  by (rule follows_bindP, rule follows_mono [OF ifol_insert [OF assms(1)]])
     (auto simp: bindP_assoc intro!: assms(2) ifol_bind harmless_payin_reads split: option.splits)

lemma new_payin_index:
  "pi_derivationIndex (new_payin env dto ctx ac n mode ra ri b t ex idx dep i net su) = idx"
  by (simp add: new_payin_def)

lemma ifol_create_new: "ifol (create_new_payin env dto ctx) (\<lambda>_ _. True) None"
proof -
  have rest: "index_relation.harmless (if existed then payin_toResponse env r True
      else bindP (if c then storeIdempotencyKey env a b (pi_id r) else Ret ()) (\<lambda>_.
           bindP (record_event env PAYIN_CREATED (pi_id r) x y) (\<lambda>_. payin_toResponse env r False)))"
    for existed r c a b x y
    unfolding storeIdempotencyKey_def
    by (auto intro!: harmless_payin_reads index_calls index_relation.harmless_query
        simp: same_indices_def indices_def)
  show ?thesis
    unfolding create_new_payin_def Let_def
    by (auto intro!: ifol_bind index_calls ifol_claim ifol_store ifol_end [OF rest]
        simp: new_payin_index split: option.splits)
qed

lemma ifol_createPayIn: "ifol (createPayIn env dto ctx) (\<lambda>_ _. True) None"
  unfolding createPayIn_def
  by (auto intro!: ifol_bind harmless_payin_reads ifol_create_new ifol_end [OF harmless_payin_reads(3)]
      split: option.splits)

text \<open>The requests and jobs that run the pay-in service.\<close>

datatype PayInRequest =
    PinCreate CreatePayInDto RequestContext
  | PinList PayInFilters RequestContext
  | PinGet string RequestContext
  | PinReconcile string RequestContext
  | PinSweep string SweepPayInDto RequestContext
  | PinAccept string "string option" RequestContext
  | PinTopUp string "string option" RequestContext
  | PinTopUpAndSweep string "string option" "string option" RequestContext
  | PinRetrySweeps nat RequestContext
  | PinBackground BackgroundTask

definition void :: "'a io \<Rightarrow> unit io" where
  "void p = bindP p (\<lambda>_. Ret ())"

fun handle_payin :: "Env \<Rightarrow> PayInRequest \<Rightarrow> unit io" where
  "handle_payin env (PinCreate dto ctx) = void (createPayIn env dto ctx)"
| "handle_payin env (PinList f ctx) = void (listPayIns env f ctx)"
| "handle_payin env (PinGet i ctx) = void (getPayIn env i ctx)"
| "handle_payin env (PinReconcile i ctx) = void (reconcilePayIn env i ctx)"
| "handle_payin env (PinSweep i dto ctx) = void (sweepPayIn env i dto ctx)"
| "handle_payin env (PinAccept i note ctx) = void (acceptPayIn env i note ctx)"
| "handle_payin env (PinTopUp i a ctx) = void (topUpPayIn env i a ctx)"
| "handle_payin env (PinTopUpAndSweep i a n ctx) = void (topUpAndSweep env i a n ctx)"
| "handle_payin env (PinRetrySweeps n ctx) = void (retryPendingSweeps env n ctx)"
| "handle_payin env (PinBackground task) = background_sweep env task"

lemma ifol_void: "ifol p (\<lambda>_ _. True) l \<Longrightarrow> ifol (void p) (\<lambda>_ _. True) l"
  unfolding void_def by (auto intro: follows_bindP)

lemma ifol_handle_payin: "ifol (handle_payin env req) (\<lambda>_ _. True) None"
  by (cases req)
     (auto intro!: ifol_void ifol_createPayIn harmless_listings [THEN ifol_end]
        harmless_reconcilePayIn [THEN ifol_end] harmless_sweepPayIn [THEN ifol_end]
        harmless_acceptPayIn [THEN ifol_end] harmless_topUps [THEN ifol_end] harmless_sweep_jobs [THEN ifol_end])

text \<open>The indices in use are distinct and below the counter.\<close>

definition indices_ok :: "World \<Rightarrow> bool" where
  "indices_ok w \<longleftrightarrow> distinct (indices w) \<and> (\<forall>x\<in>set (indices w). \<exists>n. w_counter w = Some n \<and> x < n)"

text \<open>
  C6: no two pay-ins share a derivation index.  Whatever pay-in requests, retries and background
  sweeps run at the same time, on any number of instances and with any failures of the database and
  the node, the pay-ins with a derived address keep pairwise distinct indices, all below the counter.
\<close>

theorem derivation_indices_distinct:
  assumes "indices_ok w"
    and "pool_run (map (\<lambda>(env, req). handle_payin env req) calls) w tr ps w'"
  shows "indices_ok w'"
proof -
  let ?ls = "replicate (length calls) (None :: int option)"
  have "index_protocol.disciplined (map (\<lambda>(env, req). handle_payin env req) calls) ?ls"
    by (auto simp: index_protocol.disciplined_def case_prod_beta ifol_handle_payin)
  moreover have "index_custody 0 ?ls w"
    using assms(1) by (simp add: index_custody_def indices_ok_def)
  ultimately show ?thesis
    using index_protocol.pool_keeps_protocol [OF assms(2), of ?ls 0] by (auto simp: index_custody_def indices_ok_def)
qed

definition sample_payin_dto :: "string \<Rightarrow> CreatePayInDto" where
  "sample_payin_dto e =
     \<lparr>cid_externalId = e, cid_amount = ''5'', cid_asset = USDC, cid_chainFlowRequestId = None,
      cid_collectionMode = None, cid_routerInvoiceId = None, cid_expiresInMinutes = None, cid_metadata = None\<rparr>"

theorem derivation_indices_distinct_witness:
  "\<exists>tr ps w'. pool_run (map (\<lambda>(env, req). handle_payin env req)
       [(sample_env, PinCreate (sample_payin_dto ''in-1'') sample_context),
        (sample_env, PinCreate (sample_payin_dto ''in-2'') sample_context)]) empty_world tr ps w' \<and>
     indices w' = [0, 1] \<and> indices_ok w'"
proof -
  let ?p = "handle_payin sample_env (PinCreate (sample_payin_dto ''in-1'') sample_context)"
  let ?q = "handle_payin sample_env (PinCreate (sample_payin_dto ''in-2'') sample_context)"
  let ?w = "snd (run ?p empty_world)"
  let ?d = "finished (fst (run ?p empty_world))"
  obtain tr where 1: "pool_run [?p, ?q] empty_world tr [?d, ?q] ?w"
    using run_in_pool [of 0 "[?p, ?q]" ?p empty_world] by (auto simp del: handle_payin.simps)
  obtain tr' where 2: "pool_run [?d, ?q] ?w tr' [?d, finished (fst (run ?q ?w))] (snd (run ?q ?w))"
    using run_in_pool [of 1 "[?d, ?q]" ?q ?w] by (auto simp del: handle_payin.simps)
  have run: "pool_run (map (\<lambda>(env, req). handle_payin env req)
       [(sample_env, PinCreate (sample_payin_dto ''in-1'') sample_context),
        (sample_env, PinCreate (sample_payin_dto ''in-2'') sample_context)]) empty_world (tr @ tr')
        [?d, finished (fst (run ?q ?w))] (snd (run ?q ?w))"
    using pool_run_trans [OF 1 2] by (simp del: handle_payin.simps)
  have "indices (snd (run ?q ?w)) = [0, 1]" by code_simp
  moreover have "indices_ok empty_world" by (simp add: indices_ok_def indices_def empty_world_def)
  ultimately show ?thesis using run derivation_indices_distinct [OF _ run] by blast
qed

end
