(* ===== verification/Settlements.thy ===== *)
theory Settlements
  imports Payouts
begin

text \<open>
  \<^verbatim>\<open>src/src/settlements\<close>: the repository of confidential settlements and every method of
  \<^verbatim>\<open>SettlementsService\<close>.  The response type has no nonce field.
\<close>

section \<open>Repository\<close>

definition settlement_insert_stmt ::
  "PrivateSettlementRecord \<Rightarrow> timestamp \<Rightarrow> World \<Rightarrow> (exn + PrivateSettlementRecord option) \<times> World" where
  "settlement_insert_stmt r t w =
     (case sql_insert ps_id ps_clientId ps_externalId (r\<lparr>ps_createdAt := t, ps_updatedAt := t\<rparr>) (w_settlements w) of
        Inl m \<Rightarrow> (Inl (JsError m), w)
      | Inr (rows, ret) \<Rightarrow> (Inr (find (\<lambda>_. True) ret), w\<lparr>w_settlements := rows\<rparr>))"

text \<open>The second query compares with \<^verbatim>\<open>=\<close>, which a null client id never satisfies.\<close>

definition settlement_createOrGetExisting ::
  "Env \<Rightarrow> PrivateSettlementRecord \<Rightarrow> (PrivateSettlementRecord \<times> bool) io" where
  "settlement_createOrGetExisting env r =
     bindP (query env (settlement_insert_stmt r)) (\<lambda>inserted.
     case inserted of
       Some row \<Rightarrow> Ret (row, False)
     | None \<Rightarrow>
         bindP (query env (\<lambda>t w. (Inr (find (\<lambda>x. ps_clientId r \<noteq> None \<and> ps_clientId x = ps_clientId r \<and>
                  ps_externalId x = ps_externalId r) (w_settlements w)), w))) (\<lambda>existing.
         case existing of
           None \<Rightarrow> Raise (JsError (''Cannot read properties of undefined (reading '' @ [CHR 39] @ ''id'' @ [CHR 39] @ '')''))
         | Some e \<Rightarrow> Ret (e, True)))"

definition settlement_findById :: "Env \<Rightarrow> string \<Rightarrow> string option \<Rightarrow> PrivateSettlementRecord option io" where
  "settlement_findById env i clientId =
     query env (\<lambda>t w. (Inr (find_scoped ps_id ps_clientId i clientId (w_settlements w)), w))"

definition settlement_list :: "Env \<Rightarrow> string option \<Rightarrow> nat \<Rightarrow> nat \<Rightarrow> PrivateSettlementRecord list io" where
  "settlement_list env clientId limit offset = query env (\<lambda>t w.
     (Inr (page_desc ps_createdAt limit offset
        (filter (\<lambda>r. truthy clientId \<longrightarrow> ps_clientId r = clientId) (w_settlements w))), w))"

record SettlementPatch =
  sp_status :: "PrivateSettlementStatus option"
  sp_transactionHash :: "string option option"
  sp_revealTransactionHash :: "string option option"

definition apply_settlement_patch ::
  "timestamp \<times> SettlementPatch \<Rightarrow> PrivateSettlementRecord \<Rightarrow> PrivateSettlementRecord" where
  "apply_settlement_patch p r = r\<lparr>
     ps_status := (case sp_status (snd p) of None \<Rightarrow> ps_status r | Some s \<Rightarrow> s),
     ps_transactionHash := (case sp_transactionHash (snd p) of None \<Rightarrow> ps_transactionHash r | Some h \<Rightarrow> h),
     ps_revealTransactionHash :=
       (case sp_revealTransactionHash (snd p) of None \<Rightarrow> ps_revealTransactionHash r | Some h \<Rightarrow> h),
     ps_updatedAt := fst p\<rparr>"

definition settlement_update :: "Env \<Rightarrow> string \<Rightarrow> SettlementPatch \<Rightarrow> PrivateSettlementRecord option io" where
  "settlement_update env i p = query env (\<lambda>t w.
     let (rows, ret) = sql_update (\<lambda>r. ps_id r = i) (apply_settlement_patch (t, p)) (w_settlements w)
     in (Inr (find (\<lambda>_. True) ret), w\<lparr>w_settlements := rows\<rparr>))"

definition settlement_delete :: "Env \<Rightarrow> string \<Rightarrow> unit io" where
  "settlement_delete env i = query env (\<lambda>t w.
     (Inr (), w\<lparr>w_settlements := filter (\<lambda>r. ps_id r \<noteq> i) (w_settlements w)\<rparr>))"

section \<open>Service\<close>

record CreateSettlementDto =
  csd_externalId :: string
  csd_asset :: SettlementAsset
  csd_amount :: string
  csd_counterparty :: string
  csd_metadata :: "jobject option"

record PrivateSettlementResponse =
  psr_id :: string
  psr_clientId :: "string option"
  psr_externalId :: string
  psr_settlementId :: string
  psr_settlementRef :: string
  psr_commitment :: string
  psr_asset :: SettlementAsset
  psr_tokenAddress :: string
  psr_amount :: string
  psr_amountAtomic :: string
  psr_counterparty :: string
  psr_status :: PrivateSettlementStatus
  psr_transactionHash :: "string option"
  psr_revealTransactionHash :: "string option"
  psr_metadata :: jobject
  psr_createdAt :: timestamp
  psr_updatedAt :: timestamp
  psr_idempotentReplay :: bool

definition settlement_toResponse :: "PrivateSettlementRecord \<Rightarrow> bool \<Rightarrow> PrivateSettlementResponse" where
  "settlement_toResponse r replay =
     \<lparr>psr_id = ps_id r, psr_clientId = ps_clientId r, psr_externalId = ps_externalId r,
      psr_settlementId = ps_settlementId r, psr_settlementRef = ps_settlementRef r,
      psr_commitment = ps_commitment r, psr_asset = ps_asset r, psr_tokenAddress = ps_tokenAddress r,
      psr_amount = ps_amount r, psr_amountAtomic = ps_amountAtomic r, psr_counterparty = ps_counterparty r,
      psr_status = ps_status r, psr_transactionHash = ps_transactionHash r,
      psr_revealTransactionHash = ps_revealTransactionHash r, psr_metadata = ps_metadata r,
      psr_createdAt = ps_createdAt r, psr_updatedAt = ps_updatedAt r, psr_idempotentReplay = replay\<rparr>"

definition requireRecord :: "Env \<Rightarrow> string \<Rightarrow> RequestContext \<Rightarrow> PrivateSettlementRecord io" where
  "requireRecord env i context =
     bindP (settlement_findById env i (rc_clientId context)) (\<lambda>r.
     case r of None \<Rightarrow> Raise (NotFound ''Settlement not found.'') | Some x \<Rightarrow> Ret x)"

definition new_settlement ::
  "Env \<Rightarrow> CreateSettlementDto \<Rightarrow> RequestContext \<Rightarrow> string \<Rightarrow> int \<Rightarrow> string \<Rightarrow> string \<Rightarrow> string \<Rightarrow> PrivateSettlementRecord" where
  "new_settlement env dto context token amountAtomic counterparty nonce i =
     \<lparr>ps_id = i, ps_clientId = rc_clientId context, ps_externalId = csd_externalId dto,
      ps_settlementId = computeSettlementId env (settlementRefFromExternalId env (csd_externalId dto)),
      ps_settlementRef = settlementRefFromExternalId env (csd_externalId dto),
      ps_commitment = computeSettlementCommitment env amountAtomic token counterparty nonce,
      ps_asset = csd_asset dto, ps_tokenAddress = token, ps_amount = csd_amount dto,
      ps_amountAtomic = show_int amountAtomic, ps_counterparty = counterparty, ps_nonce = nonce,
      ps_status = StRecorded, ps_transactionHash = None, ps_revealTransactionHash = None,
      ps_metadata = (case csd_metadata dto of None \<Rightarrow> [] | Some m \<Rightarrow> m),
      ps_createdAt = 0, ps_updatedAt = 0\<rparr>"

text \<open>The body of the \<^verbatim>\<open>try\<close> in \<^verbatim>\<open>record\<close>: the registry call and its booking.\<close>

definition commit_settlement ::
  "Env \<Rightarrow> RequestContext \<Rightarrow> PrivateSettlementRecord \<Rightarrow> PrivateSettlementRecord io" where
  "commit_settlement env context r =
     bindP (recordPrivateSettlement env (ps_settlementRef r) (ps_commitment r)) (\<lambda>exec.
     bindP (settlement_update env (ps_id r)
              \<lparr>sp_status = None, sp_transactionHash = Some (Some (te_hash exec)), sp_revealTransactionHash = None\<rparr>)
       (\<lambda>updated.
     bindP (record_event env PRIVATE_SETTLEMENT_RECORDED (ps_id r) (toAuditActor context None)
              [(''externalId'', JStr (ps_externalId r)), (''settlementId'', JStr (ps_settlementId r)),
               (''commitment'', JStr (ps_commitment r)), (''transactionHash'', JStr (te_hash exec))]) (\<lambda>_.
     Ret (case updated of None \<Rightarrow> r | Some u \<Rightarrow> u))))"

definition record_settlement ::
  "Env \<Rightarrow> CreateSettlementDto \<Rightarrow> RequestContext \<Rightarrow> PrivateSettlementResponse io" where
  "record_settlement env dto context =
     bindP (liftE (privateSettlementRegistryConfigured (cfg env))) (\<lambda>configured.
     if \<not> configured
     then Raise (ServiceUnavailable ''Confidential settlements require AVASETTLE_PRIVATE_SETTLEMENT_REGISTRY_ADDRESS.'')
     else
     bindP (liftE (getAssetConfig (cfg env) (csd_asset dto))) (\<lambda>ac.
     case ac_address ac of
       None \<Rightarrow> Raise (ServiceUnavailable (''Token address for '' @ asset_text (csd_asset dto) @ '' is not configured.''))
     | Some token \<Rightarrow>
     bindP (liftE (parseAmount env (csd_amount dto) ac)) (\<lambda>amountAtomic.
     bindP (liftE (lib_call (getAddress env (csd_counterparty dto)))) (\<lambda>counterparty.
     bindP (randomBytesHex env) (\<lambda>nonce.
     bindP (randomUUID env) (\<lambda>i.
     bindP (settlement_createOrGetExisting env (new_settlement env dto context token amountAtomic counterparty nonce i))
       (\<lambda>(r, existed).
     if existed then Ret (settlement_toResponse r True)
     else
       bindP (catchP (commit_settlement env context r)
                (\<lambda>e. bindP (settlement_delete env (ps_id r)) (\<lambda>_. Raise e))) (\<lambda>u.
       Ret (settlement_toResponse u False)))))))))"

definition list_settlements ::
  "Env \<Rightarrow> nat option \<Rightarrow> nat option \<Rightarrow> RequestContext \<Rightarrow> PrivateSettlementResponse list io" where
  "list_settlements env limit offset context =
     bindP (settlement_list env (rc_clientId context) (case limit of None \<Rightarrow> 100 | Some n \<Rightarrow> n)
              (case offset of None \<Rightarrow> 0 | Some n \<Rightarrow> n)) (\<lambda>rs.
     Ret (map (\<lambda>r. settlement_toResponse r False) rs))"

definition get_settlement :: "Env \<Rightarrow> string \<Rightarrow> RequestContext \<Rightarrow> PrivateSettlementResponse io" where
  "get_settlement env i context =
     bindP (requireRecord env i context) (\<lambda>r. Ret (settlement_toResponse r False))"

definition reveal_settlement :: "Env \<Rightarrow> string \<Rightarrow> RequestContext \<Rightarrow> PrivateSettlementResponse io" where
  "reveal_settlement env i context =
     bindP (requireRecord env i context) (\<lambda>r.
     if ps_status r = StRevealed then Ret (settlement_toResponse r True)
     else
     bindP (liftE (bigInt (ps_amountAtomic r))) (\<lambda>amountAtomic.
     bindP (revealPrivateSettlement env (ps_settlementId r) amountAtomic (ps_tokenAddress r)
              (ps_counterparty r) (ps_nonce r)) (\<lambda>exec.
     bindP (settlement_update env i
              \<lparr>sp_status = Some StRevealed, sp_transactionHash = None,
               sp_revealTransactionHash = Some (Some (te_hash exec))\<rparr>) (\<lambda>updated.
     bindP (record_event env PRIVATE_SETTLEMENT_REVEALED i (toAuditActor context None)
              [(''settlementId'', JStr (ps_settlementId r)), (''transactionHash'', JStr (te_hash exec))]) (\<lambda>_.
     Ret (settlement_toResponse (case updated of None \<Rightarrow> r | Some u \<Rightarrow> u) False))))))"

end
