(* ===== verification/Reconciliation.thy ===== *)
theory Reconciliation
  imports Payins
begin

text \<open>
  \<^verbatim>\<open>src/src/reconciliation\<close>: the reconciliation run over open payouts and pay-ins, and the timer
  callback of \<^verbatim>\<open>AutoReconcileService\<close>.
\<close>

definition RECONCILIATION_CONCURRENCY :: nat where
  "RECONCILIATION_CONCURRENCY = 10"

definition BATCH_LIMIT :: nat where
  "BATCH_LIMIT = 1000"

definition SWEEP_RETRY_BATCH :: nat where
  "SWEEP_RETRY_BATCH = 5"

definition SYSTEM_CONTEXT :: RequestContext where
  "SYSTEM_CONTEXT =
     \<lparr>rc_clientId = None, rc_clientName = None, rc_correlationId = None, rc_idempotencyKey = None,
      rc_actor = Some ''auto-reconcile'', rc_sourceIp = None\<rparr>"

record ReconciliationItemResult =
  ri_type :: string
  ri_id :: string
  ri_status :: string
  ri_ok :: bool
  ri_error :: "string option"

record ReconciliationRunResult =
  rr_startedAt :: timestamp
  rr_completedAt :: timestamp
  rr_payoutsChecked :: nat
  rr_payinsChecked :: nat
  rr_results :: "ReconciliationItemResult list"

text \<open>The loop \<^verbatim>\<open>for (i = 0; i < xs.length; i += n) xs.slice(i, i + n)\<close>.\<close>

fun batches :: "nat \<Rightarrow> 'x list \<Rightarrow> 'x list list" where
  "batches n xs = (if xs = [] \<or> n = 0 then [] else take n xs # batches n (drop n xs))"

declare batches.simps [simp del]

definition reconcile_payout_item :: "Env \<Rightarrow> RequestContext \<Rightarrow> PayoutResponse \<Rightarrow> ReconciliationItemResult io" where
  "reconcile_payout_item env context payout =
     (let r = por_record payout in
      catchP
        (bindP (reconcilePayout env (po_id r) context) (\<lambda>reconciled.
         Ret \<lparr>ri_type = ''payout'', ri_id = po_id r,
              ri_status = payout_status_text (po_status (por_record reconciled)), ri_ok = True, ri_error = None\<rparr>))
        (\<lambda>e. Ret \<lparr>ri_type = ''payout'', ri_id = po_id r, ri_status = payout_status_text (po_status r),
                  ri_ok = False, ri_error = Some (exn_message e)\<rparr>))"

definition reconcile_payin_item :: "Env \<Rightarrow> RequestContext \<Rightarrow> PayInResponse \<Rightarrow> ReconciliationItemResult io" where
  "reconcile_payin_item env context payin =
     (let r = pir_record payin in
      catchP
        (bindP (reconcilePayIn env (pi_id r) context) (\<lambda>reconciled.
         Ret \<lparr>ri_type = ''payin'', ri_id = pi_id r,
              ri_status = payin_status_text (pi_status (pir_record reconciled)), ri_ok = True, ri_error = None\<rparr>))
        (\<lambda>e. Ret \<lparr>ri_type = ''payin'', ri_id = pi_id r, ri_status = payin_status_text (pi_status r),
                  ri_ok = False, ri_error = Some (exn_message e)\<rparr>))"

fun fulfilled :: "('e + 'a) list \<Rightarrow> 'a list" where
  "fulfilled [] = []"
| "fulfilled (Inr a # rs) = a # fulfilled rs"
| "fulfilled (Inl e # rs) = fulfilled rs"

definition reconcile_in_batches ::
  "('x \<Rightarrow> ReconciliationItemResult io) \<Rightarrow> 'x list \<Rightarrow> ReconciliationItemResult list io" where
  "reconcile_in_batches item xs =
     bindP (forP (batches RECONCILIATION_CONCURRENCY xs) (\<lambda>batch. allSettled (map item batch))) (\<lambda>settled.
     Ret (concat (map fulfilled settled)))"

definition payin_query :: "PayInStatus \<Rightarrow> PayInFilters" where
  "payin_query s = \<lparr>pif_clientId = None, pif_status = Some s, pif_externalId = None,
                    pif_limit = Some BATCH_LIMIT, pif_offset = None\<rparr>"

text \<open>Which of the loaded pay-ins are reconciled: pending ones only while they have not expired.\<close>

definition payin_candidates ::
  "timestamp \<Rightarrow> PayInResponse list \<Rightarrow> PayInResponse list \<Rightarrow> PayInResponse list \<Rightarrow> PayInResponse list" where
  "payin_candidates t pending detected underpaid =
     filter (\<lambda>p. case pi_expiresAt (pir_record p) of None \<Rightarrow> True | Some e \<Rightarrow> e > t) pending @ detected @ underpaid"

definition run_reconciliation :: "Env \<Rightarrow> RequestContext \<Rightarrow> ReconciliationRunResult io" where
  "run_reconciliation env context =
     bindP (now env) (\<lambda>startedAt.
     bindP (listPayouts env \<lparr>pf_clientId = None, pf_status = Some Broadcasted, pf_externalId = None,
              pf_limit = Some BATCH_LIMIT, pf_offset = None\<rparr> context) (\<lambda>payoutCandidates.
     bindP (allP (map (\<lambda>s. listPayIns env (payin_query s) context) [PiPending, PiDetected, PiUnderpaid])) (\<lambda>lists.
     let payinCandidates = payin_candidates startedAt (lists ! 0) (lists ! 1) (lists ! 2) in
     bindP (reconcile_in_batches (reconcile_payout_item env context) payoutCandidates) (\<lambda>payoutResults.
     bindP (reconcile_in_batches (reconcile_payin_item env context) payinCandidates) (\<lambda>payinResults.
     bindP (now env) (\<lambda>completedAt.
     Ret \<lparr>rr_startedAt = startedAt, rr_completedAt = completedAt,
          rr_payoutsChecked = length payoutCandidates, rr_payinsChecked = length payinCandidates,
          rr_results = payoutResults @ payinResults\<rparr>))))))"

definition auto_reconcile_tick :: "Env \<Rightarrow> unit io" where
  "auto_reconcile_tick env =
     bindP (catchP (bindP (run_reconciliation env SYSTEM_CONTEXT) (\<lambda>_. Ret ())) (\<lambda>_. Ret ())) (\<lambda>_.
     if \<not> autoSweep (cfg env) then Ret ()
     else catchP (bindP (retryPendingSweeps env SWEEP_RETRY_BATCH SYSTEM_CONTEXT) (\<lambda>_. Ret ())) (\<lambda>_. Ret ()))"

section \<open>Lemmas\<close>

lemma batches_Nil [simp]: "batches n [] = []"
  by (simp add: batches.simps)

text \<open>Every element is in exactly one batch, in order, and no batch is longer than the limit.\<close>

lemma concat_batches: "0 < n \<Longrightarrow> concat (batches n xs) = xs"
proof (induction n xs rule: batches.induct)
  case (1 n xs)
  then show ?case by (subst batches.simps) auto
qed

lemma batches_length: "b \<in> set (batches n xs) \<Longrightarrow> length b \<le> n \<and> b \<noteq> []"
proof (induction n xs rule: batches.induct)
  case (1 n xs)
  then show ?case by (subst (asm) (2) batches.simps) (auto split: if_splits)
qed

end
