(* ===== verification/Checkout.thy ===== *)
theory Checkout
  imports Payins
begin

text \<open>
  \<^verbatim>\<open>src/src/checkout\<close>: the public checkout, which runs the pay-in methods without a tenant and
  shows a projection of the pay-in.
\<close>

record CheckoutConfig =
  cc_network :: SettlementNetwork
  cc_chainId :: int
  cc_networkName :: string
  cc_explorerBaseUrl :: string
  cc_demoEnabled :: bool
  cc_routerAddress :: "string option"
  cc_routerConfigured :: bool
  cc_tokenSymbol :: SettlementAsset
  cc_tokenAddress :: "string option"
  cc_tokenDecimals :: int

record CheckoutTransaction =
  ct_hash :: string
  ct_amount :: string
  ct_blockNumber :: string

record CheckoutSessionView =
  cv_id :: string
  cv_status :: PayInStatus
  cv_asset :: SettlementAsset
  cv_amount :: string
  cv_amountAtomic :: string
  cv_receivedAmount :: string
  cv_network :: SettlementNetwork
  cv_chainId :: int
  cv_tokenAddress :: "string option"
  cv_routerAddress :: "string option"
  cv_invoiceId :: "string option"
  cv_reference :: "string option"
  cv_explorerBaseUrl :: string
  cv_transactions :: "CheckoutTransaction list"
  cv_createdAt :: timestamp
  cv_expiresAt :: "timestamp option"
  cv_detectedAt :: "timestamp option"
  cv_confirmedAt :: "timestamp option"

record CreateCheckoutSessionDto =
  cs_amount :: string
  cs_asset :: "SettlementAsset option"
  cs_reference :: "string option"

definition getConfig :: "penv \<Rightarrow> exn + CheckoutConfig" where
  "getConfig pe =
     (case networkSummary pe of Inl e \<Rightarrow> Inl e | Inr network \<Rightarrow>
     (case getAssetConfig pe (hd (enabledAssets pe)) of Inl e \<Rightarrow> Inl e | Inr token \<Rightarrow>
     (case settlementNetwork pe of Inl e \<Rightarrow> Inl e | Inr net \<Rightarrow>
     (case paymentRouterAddress pe of Inl e \<Rightarrow> Inl e | Inr router \<Rightarrow>
     (case paymentRouterConfigured pe of Inl e \<Rightarrow> Inl e | Inr configured \<Rightarrow>
      Inr \<lparr>cc_network = net, cc_chainId = ns_chainId network, cc_networkName = ns_name network,
           cc_explorerBaseUrl = ns_explorerBaseUrl network, cc_demoEnabled = checkoutDemoEnabled pe,
           cc_routerAddress = router, cc_routerConfigured = configured,
           cc_tokenSymbol = ac_symbol token, cc_tokenAddress = ac_address token,
           cc_tokenDecimals = ac_decimals token\<rparr>)))))"

definition publicContext :: RequestContext where
  "publicContext =
     \<lparr>rc_clientId = None, rc_clientName = Some ''hosted-checkout'', rc_correlationId = None,
      rc_idempotencyKey = None, rc_actor = Some ''checkout'', rc_sourceIp = None\<rparr>"

definition checkout_reference :: "jobject \<Rightarrow> string option" where
  "checkout_reference metadata = (case map_of metadata ''reference'' of Some (JStr s) \<Rightarrow> Some s | _ \<Rightarrow> None)"

definition toView :: "Env \<Rightarrow> PayInRecord \<Rightarrow> exn + CheckoutSessionView" where
  "toView env r =
     (case networkSummary (cfg env) of Inl e \<Rightarrow> Inl e | Inr summary \<Rightarrow>
      Inr \<lparr>cv_id = pi_id r, cv_status = pi_status r, cv_asset = pi_asset r, cv_amount = pi_expectedAmount r,
           cv_amountAtomic = pi_expectedAmountAtomic r, cv_receivedAmount = pi_receivedAmount r,
           cv_network = pi_network r, cv_chainId = pi_chainId r, cv_tokenAddress = pi_tokenAddress r,
           cv_routerAddress = pi_routerAddress r, cv_invoiceId = pi_routerInvoiceId r,
           cv_reference = checkout_reference (pi_metadata r),
           cv_explorerBaseUrl = ns_explorerBaseUrl summary,
           cv_transactions = map (\<lambda>t. \<lparr>ct_hash = tr_hash t, ct_amount = tr_amount t,
                                        ct_blockNumber = tr_blockNumber t\<rparr>) (pi_transfers r),
           cv_createdAt = pi_createdAt r, cv_expiresAt = pi_expiresAt r,
           cv_detectedAt = pi_detectedAt r, cv_confirmedAt = pi_confirmedAt r\<rparr>)"

definition createSession :: "Env \<Rightarrow> CreateCheckoutSessionDto \<Rightarrow> CheckoutSessionView io" where
  "createSession env dto =
     (if \<not> checkoutDemoEnabled (cfg env) then Raise (Forbidden ''Hosted checkout is disabled.'')
      else
        bindP (randomUUID env) (\<lambda>u.
        bindP (createPayIn env
                 \<lparr>cid_externalId = ''checkout-'' @ u, cid_amount = cs_amount dto,
                  cid_asset = (case cs_asset dto of Some a \<Rightarrow> a | None \<Rightarrow> hd (enabledAssets (cfg env))),
                  cid_chainFlowRequestId = None, cid_collectionMode = Some PaymentRouter,
                  cid_routerInvoiceId = None, cid_expiresInMinutes = None,
                  cid_metadata = Some [(''source'', JStr ''hosted-checkout''), (''reference'', jopt (cs_reference dto))]\<rparr>
                 publicContext) (\<lambda>response.
        liftE (toView env (pir_record response)))))"

definition getSession :: "Env \<Rightarrow> string \<Rightarrow> CheckoutSessionView io" where
  "getSession env i =
     bindP (getPayIn env i publicContext) (\<lambda>response. liftE (toView env (pir_record response)))"

definition reconcileSession :: "Env \<Rightarrow> string \<Rightarrow> CheckoutSessionView io" where
  "reconcileSession env i =
     bindP (reconcilePayIn env i publicContext) (\<lambda>response. liftE (toView env (pir_record response)))"

end
