(* ===== verification/ChainFlow.thy ===== *)
theory ChainFlow
  imports Payouts
begin

text \<open>
  \<^verbatim>\<open>src/src/chain-flow\<close>: the adapter that maps the Chain Flow vocabulary to payouts.  Fields
  typed \<^verbatim>\<open>string | number\<close> that no validator checks are arbitrary JSON values; an integral number
  is rendered without exponent, as JavaScript does below \<open>10\<^sup>2\<^sup>1\<close>.
\<close>

section \<open>Requests and answers\<close>

record ChainFlowRetiroDto =
  cf_tcTransaccionExterna :: "string option"
  cf_tnMonto :: "json option"
  cf_tnMoneda :: "json option"
  cf_tcCuentaDestino :: "string option"
  cf_tnRetiroPago :: "json option"
  cf_tnTransferenciaBloque :: "json option"
  cf_tnProcesadorPagos :: "json option"
  cf_idRetiro :: "string option"
  cf_id_retiro :: "string option"
  cf_externalId :: "string option"
  cf_monto :: "string option"
  cf_amount :: "string option"
  cf_moneda :: "string option"
  cf_asset :: "string option"
  cf_wallet :: "string option"
  cf_direccionDestino :: "string option"
  cf_beneficiaryAddress :: "string option"
  cf_beneficiario :: "string option"
  cf_metadata :: "jobject option"

record ChainFlowEstadoRetiroDto =
  ce_tcTransaccionExterna :: "string option"
  ce_tnRetiroPago :: "json option"
  ce_tnTransferenciaBloque :: "json option"
  ce_idRetiro :: "string option"
  ce_id_retiro :: "string option"
  ce_externalId :: "string option"
  ce_payoutId :: "string option"

record ChainFlowResponse =
  cfr_codigo :: string
  cfr_mensaje :: string
  cfr_tcTransaccionExterna :: string
  cfr_tnRetiroPago :: json
  cfr_tnTransferenciaBloque :: json
  cfr_tnProcesadorPagos :: json
  cfr_tnMoneda :: json
  cfr_tcCuentaDestino :: string
  cfr_retiroId :: string
  cfr_payoutId :: string
  cfr_estado :: PayoutStatus
  cfr_estadoChainFlow :: string
  cfr_txHash :: "string option"
  cfr_red :: SettlementNetwork
  cfr_chainId :: int
  cfr_asset :: SettlementAsset
  cfr_monto :: string
  cfr_creadoEn :: timestamp
  cfr_actualizadoEn :: timestamp

section \<open>Values\<close>

definition normalizeIdentifier :: "json option \<Rightarrow> string option" where
  "normalizeIdentifier v =
     (case (case v of Some (JStr s) \<Rightarrow> Some (trim s) | Some (JInt n) \<Rightarrow> Some (show_int n)
            | Some (JFrac s) \<Rightarrow> Some (trim s) | _ \<Rightarrow> None) of
        None \<Rightarrow> None | Some s \<Rightarrow> if s = [] then None else Some s)"

text \<open>\<^verbatim>\<open>a ?? b\<close>: a null on the left counts as missing.\<close>

definition nullish :: "json option \<Rightarrow> json option \<Rightarrow> json option" where
  "nullish a b = (case a of None \<Rightarrow> b | Some JNull \<Rightarrow> b | Some v \<Rightarrow> Some v)"

definition asRecord :: "json option \<Rightarrow> jobject" where
  "asRecord v = (case v of Some (JObj fs) \<Rightarrow> fs | _ \<Rightarrow> [])"

definition compactRecord :: "(string \<times> json option) list \<Rightarrow> jobject" where
  "compactRecord fs = concat (map (\<lambda>(k, v). case v of None \<Rightarrow> [] | Some JNull \<Rightarrow> []
     | Some (JStr s) \<Rightarrow> if trim s = [] then [] else [(k, JStr s)] | Some x \<Rightarrow> [(k, x)]) fs)"

text \<open>\<^verbatim>\<open>{...a, ...b}\<close>\<close>

definition spread :: "jobject \<Rightarrow> jobject \<Rightarrow> jobject" where
  "spread a b = fold (\<lambda>(k, v). AList.update k v) b a"

definition resolveAsset :: "json option \<Rightarrow> exn + SettlementAsset" where
  "resolveAsset raw =
     (let normalized = toUpperCase (case normalizeIdentifier raw of None \<Rightarrow> ''USDC'' | Some a \<Rightarrow> a) in
      if normalized = ''1'' then Inr USDC
      else if normalized = ''2'' then Inr USDT
      else if normalized = ''USDC'' then Inr USDC
      else if normalized = ''USDT'' then Inr USDT
      else Inl (BadRequest ''tnMoneda/asset must be 1 (USDC), 2 (USDT), USDC or USDT.''))"

definition assetCode :: "SettlementAsset \<Rightarrow> int" where
  "assetCode a = (if a = USDC then 1 else 2)"

definition toChainFlowStatus :: "PayoutStatus \<Rightarrow> string" where
  "toChainFlowStatus s = (case s of Prepared \<Rightarrow> ''PREPARADO'' | Authorized \<Rightarrow> ''AUTORIZADO''
     | Broadcasted \<Rightarrow> ''ENVIADO_ONCHAIN'' | Confirmed \<Rightarrow> ''CONFIRMADO'' | Failed \<Rightarrow> ''FALLIDO'')"

definition chainFlowMetadata :: "PayoutRecord \<Rightarrow> jobject" where
  "chainFlowMetadata r = asRecord (map_of (po_metadata r) ''chainFlow'')"

section \<open>Translation\<close>

definition toCreatePayoutDto :: "ChainFlowRetiroDto \<Rightarrow> exn + CreatePayoutDto" where
  "toCreatePayoutDto dto =
     (let externalId = normalizeIdentifier (nullish (map_option JStr (cf_tcTransaccionExterna dto))
                         (map_option JStr (cf_externalId dto)));
          amount = normalizeIdentifier (nullish (cf_tnMonto dto) (map_option JStr (cf_amount dto)))
      in case resolveAsset (nullish (cf_tnMoneda dto) (map_option JStr (cf_asset dto))) of Inl e \<Rightarrow> Inl e
      | Inr asset \<Rightarrow>
        (let beneficiaryAddress = (case cf_tcCuentaDestino dto of Some a \<Rightarrow> Some a | None \<Rightarrow> cf_beneficiaryAddress dto);
             requestId = normalizeIdentifier (nullish (cf_tnRetiroPago dto) (cf_tnTransferenciaBloque dto));
             metadata = (case cf_metadata dto of None \<Rightarrow> [] | Some m \<Rightarrow> m);
             chainFlow = spread (asRecord (map_of metadata ''chainFlow'')) (compactRecord
               [(''tcTransaccionExterna'', map_option JStr (cf_tcTransaccionExterna dto)),
                (''tnRetiroPago'', cf_tnRetiroPago dto), (''tnTransferenciaBloque'', cf_tnTransferenciaBloque dto),
                (''tnProcesadorPagos'', cf_tnProcesadorPagos dto), (''tnMoneda'', cf_tnMoneda dto),
                (''tcCuentaDestino'', map_option JStr (cf_tcCuentaDestino dto))])
         in if externalId = None then Inl (BadRequest ''tcTransaccionExterna or externalId is required.'')
            else if amount = None then Inl (BadRequest ''tnMonto or amount is required.'')
            else if \<not> truthy beneficiaryAddress
              then Inl (BadRequest ''tcCuentaDestino or beneficiaryAddress is required.'')
            else Inr \<lparr>cpd_externalId = the externalId, cpd_amount = the amount, cpd_asset = asset,
                      cpd_beneficiaryAddress = the beneficiaryAddress, cpd_beneficiaryName = cf_beneficiario dto,
                      cpd_chainFlowRequestId = requestId, cpd_memo = None,
                      cpd_metadata = Some (spread metadata
                        [(''source'', JStr ''chain-flow-compat''), (''chainFlow'', JObj chainFlow)]),
                      cpd_executeImmediately = False\<rparr>))"

definition or_null :: "json option \<Rightarrow> json" where
  "or_null v = (case v of None \<Rightarrow> JNull | Some j \<Rightarrow> j)"

definition toChainFlowResponse :: "PayoutRecord \<Rightarrow> string \<Rightarrow> ChainFlowResponse" where
  "toChainFlowResponse r mensaje =
     (let chainFlow = chainFlowMetadata r in
      \<lparr>cfr_codigo = ''00'', cfr_mensaje = mensaje,
       cfr_tcTransaccionExterna = (case normalizeIdentifier (map_of chainFlow ''tcTransaccionExterna'') of
          Some s \<Rightarrow> s | None \<Rightarrow> po_externalId r),
       cfr_tnRetiroPago = or_null (map_of chainFlow ''tnRetiroPago''),
       cfr_tnTransferenciaBloque = or_null (map_of chainFlow ''tnTransferenciaBloque''),
       cfr_tnProcesadorPagos = or_null (map_of chainFlow ''tnProcesadorPagos''),
       cfr_tnMoneda = or_null (nullish (map_of chainFlow ''tnMoneda'') (Some (JInt (assetCode (po_asset r))))),
       cfr_tcCuentaDestino = po_beneficiaryAddress r, cfr_retiroId = po_externalId r, cfr_payoutId = po_id r,
       cfr_estado = po_status r, cfr_estadoChainFlow = toChainFlowStatus (po_status r),
       cfr_txHash = po_transactionHash r, cfr_red = po_network r, cfr_chainId = po_chainId r,
       cfr_asset = po_asset r, cfr_monto = po_amount r, cfr_creadoEn = po_createdAt r,
       cfr_actualizadoEn = po_updatedAt r\<rparr>)"

section \<open>Handlers\<close>

definition tryGetPayoutByExternalId :: "Env \<Rightarrow> string \<Rightarrow> RequestContext \<Rightarrow> PayoutResponse option io" where
  "tryGetPayoutByExternalId env externalId context =
     catchP (bindP (getPayoutByExternalId env externalId context) (\<lambda>p. Ret (Some p))) (\<lambda>_. Ret None)"

definition identifiers_of :: "json option list \<Rightarrow> string list" where
  "identifiers_of vs = List.map_filter normalizeIdentifier vs"

definition matchesChainFlowLookup :: "PayoutResponse \<Rightarrow> string list \<Rightarrow> bool" where
  "matchesChainFlowLookup p identifiers =
     (let r = por_record p; chainFlow = chainFlowMetadata r in
      list_ex (\<lambda>c. c \<in> set identifiers) (identifiers_of
        [Some (JStr (po_externalId r)), map_option JStr (po_chainFlowRequestId r),
         map_of chainFlow ''tcTransaccionExterna'', map_of chainFlow ''tnRetiroPago'',
         map_of chainFlow ''tnTransferenciaBloque'']))"

fun first_by_externalId :: "Env \<Rightarrow> RequestContext \<Rightarrow> string list \<Rightarrow> PayoutResponse option io" where
  "first_by_externalId env context [] = Ret None"
| "first_by_externalId env context (i # is) =
     bindP (tryGetPayoutByExternalId env i context) (\<lambda>p.
     case p of Some r \<Rightarrow> Ret (Some r) | None \<Rightarrow> first_by_externalId env context is)"

definition no_filters :: PayoutFilters where
  "no_filters = \<lparr>pf_clientId = None, pf_status = None, pf_externalId = None, pf_limit = None, pf_offset = None\<rparr>"

definition resolvePayout :: "Env \<Rightarrow> ChainFlowEstadoRetiroDto \<Rightarrow> RequestContext \<Rightarrow> PayoutResponse io" where
  "resolvePayout env dto context =
     (if truthy (ce_payoutId dto) then getPayout env (the (ce_payoutId dto)) context
      else
        let identifiers = identifiers_of
              [map_option JStr (ce_tcTransaccionExterna dto), map_option JStr (ce_externalId dto),
               ce_tnRetiroPago dto, ce_tnTransferenciaBloque dto] in
        if identifiers = []
        then Raise (BadRequest
          ''payoutId, tcTransaccionExterna, externalId, tnRetiroPago or tnTransferenciaBloque is required.'')
        else
          bindP (first_by_externalId env context identifiers) (\<lambda>found.
          case found of Some p \<Rightarrow> Ret p
          | None \<Rightarrow>
            bindP (listPayouts env no_filters context) (\<lambda>payouts.
            case find (\<lambda>p. matchesChainFlowLookup p identifiers) payouts of
              Some p \<Rightarrow> Ret p
            | None \<Rightarrow> getPayoutByExternalId env (hd identifiers) context)))"

definition prepararRetiro :: "Env \<Rightarrow> ChainFlowRetiroDto \<Rightarrow> RequestContext \<Rightarrow> ChainFlowResponse io" where
  "prepararRetiro env dto context =
     bindP (liftE (toCreatePayoutDto dto)) (\<lambda>createDto.
     bindP (createPayout env createDto context) (\<lambda>payout.
     Ret (toChainFlowResponse (por_record payout) ''Retiro preparado.'')))"

definition autorizarRetiro :: "Env \<Rightarrow> ChainFlowEstadoRetiroDto \<Rightarrow> RequestContext \<Rightarrow> ChainFlowResponse io" where
  "autorizarRetiro env dto context =
     bindP (resolvePayout env dto context) (\<lambda>payout.
     bindP (authorizePayout env (po_id (por_record payout))
              \<lparr>apd_approvedBy = Some ''chain-flow'',
               apd_riskDecisionId = Some (''chain-flow-'' @ po_externalId (por_record payout)), apd_notes = None\<rparr>
              context) (\<lambda>authorized.
     Ret (toChainFlowResponse (por_record authorized) ''Retiro autorizado.'')))"

definition consultarEstadoRetiro ::
  "Env \<Rightarrow> ChainFlowEstadoRetiroDto \<Rightarrow> RequestContext \<Rightarrow> ChainFlowResponse io" where
  "consultarEstadoRetiro env dto context =
     bindP (resolvePayout env dto context) (\<lambda>payout.
     Ret (toChainFlowResponse (por_record payout) ''Estado de retiro consultado.''))"

section \<open>Lemmas\<close>

text \<open>The code sent to Chain Flow for an asset is read back as that asset.\<close>

lemma resolveAsset_assetCode: "resolveAsset (Some (JInt (assetCode a))) = Inr a"
proof (cases a)
  case USDC
  then show ?thesis by (simp only:) code_simp
next
  case USDT
  then show ?thesis by (simp only:) code_simp
qed

end
