(* ===== verification/Service.thy ===== *)
theory Service
  imports PayoutOutcomes PayinSafety Settlements Reconciliation Checkout ChainFlow
begin

text \<open>
  The whole API: every request a client, an operator or the public checkout page can make, and
  every background job, as one handler.  The properties here hold for any number of them running
  interleaved, with any failures of the database and of the node.
\<close>

datatype ApiCall =
    PayoutCall PayoutRequest
  | PayInCall PayInRequest
  | SettlementRecord CreateSettlementDto RequestContext
  | SettlementList "nat option" "nat option" RequestContext
  | SettlementGet string RequestContext
  | SettlementReveal string RequestContext
  | ReconciliationRun RequestContext
  | AutoReconcileTick
  | CheckoutCreate CreateCheckoutSessionDto
  | CheckoutGet string
  | CheckoutReconcile string
  | RetiroPreparar ChainFlowRetiroDto RequestContext
  | RetiroAutorizar ChainFlowEstadoRetiroDto RequestContext
  | RetiroConsultar ChainFlowEstadoRetiroDto RequestContext
  | ClientCreate CreateClientDto
  | ClientList
  | ClientGet string
  | ClientUpdate string ClientPatch
  | ClientRotate string
  | Authenticate Request
  | WebhookDispatch nat
  | WebhookTick bool
  | WebhookDeliveries string nat bool

fun handle_api :: "Env \<Rightarrow> ApiCall \<Rightarrow> unit io" where
  "handle_api env (PayoutCall req) = void (handle_payout env req)"
| "handle_api env (PayInCall req) = handle_payin env req"
| "handle_api env (SettlementRecord dto ctx) = void (record_settlement env dto ctx)"
| "handle_api env (SettlementList n m ctx) = void (list_settlements env n m ctx)"
| "handle_api env (SettlementGet i ctx) = void (get_settlement env i ctx)"
| "handle_api env (SettlementReveal i ctx) = void (reveal_settlement env i ctx)"
| "handle_api env (ReconciliationRun ctx) = void (run_reconciliation env ctx)"
| "handle_api env AutoReconcileTick = auto_reconcile_tick env"
| "handle_api env (CheckoutCreate dto) = void (createSession env dto)"
| "handle_api env (CheckoutGet i) = void (getSession env i)"
| "handle_api env (CheckoutReconcile i) = void (reconcileSession env i)"
| "handle_api env (RetiroPreparar dto ctx) = void (prepararRetiro env dto ctx)"
| "handle_api env (RetiroAutorizar dto ctx) = void (autorizarRetiro env dto ctx)"
| "handle_api env (RetiroConsultar dto ctx) = void (consultarEstadoRetiro env dto ctx)"
| "handle_api env (ClientCreate dto) = void (createClient env dto)"
| "handle_api env ClientList = void (listClients env)"
| "handle_api env (ClientGet i) = void (getClient env i)"
| "handle_api env (ClientUpdate i p) = void (updateClient env i p)"
| "handle_api env (ClientRotate i) = void (rotateApiKey env i)"
| "handle_api env (Authenticate request) = void (client_canActivate env request)"
| "handle_api env (WebhookDispatch n) = void (dispatchDueEvents env n)"
| "handle_api env (WebhookTick running) = dispatcher_tick env running"
| "handle_api env (WebhookDeliveries c n failed) = void (listRecentDeliveries env c n failed)"

section \<open>The audit log only grows\<close>

abbreviation keeps_log :: "AuditEvent list \<Rightarrow> 'a io \<Rightarrow> bool" where
  "keeps_log es p \<equiv> preserves p (audit_extends es)"

named_theorems log_rules \<open>handlers that never drop or edit an audit entry\<close>

lemma audit_extends_other:
  "audit_extends es w \<Longrightarrow> w_audit w' = w_audit w \<Longrightarrow> audit_extends es w'"
  by (simp add: audit_extends_def)

lemma log_primitives [log_rules]:
  "keeps_log es (rpc call)" "keeps_log es (submit env tx)" "keeps_log es (randomUUID env)"
  "keeps_log es (randomBytesHex env)" "keeps_log es (listBySubject env i)"
  "keeps_log es (record_event env ty i a p)" "keeps_log es (modify_cache f)" "keeps_log es (start_background task)"
  unfolding modify_cache_def start_background_def
  by (intro preserves_rpc preserves_submit preserves_randomUUID preserves_randomBytesHex
      preserves_listBySubject record_event_extends audit_extends_event_free preserves_await;
      simp add: audit_extends_def)+

lemma log_query:
  "(\<And>t w. w_audit (snd (stmt t w)) = w_audit w) \<Longrightarrow> keeps_log es (query env stmt)"
  by (rule preserves_query) (auto intro: audit_extends_event_free elim: audit_extends_other)

lemma log_void [log_rules]: "keeps_log es p \<Longrightarrow> keeps_log es (void p)"
  unfolding void_def by auto

lemma log_statements [log_rules]:
  "keeps_log es (payout_update env i p g)" "keeps_log es (query env (payout_insert_stmt r))"
  "keeps_log es (payout_findById env i c)" "keeps_log es (payout_findByExternalId env c e)"
  "keeps_log es (payout_list env pf)"
  "keeps_log es (payin_update env i q h)" "keeps_log es (query env (payin_insert_stmt s))"
  "keeps_log es (payin_findById env i c)" "keeps_log es (payin_findByExternalId env c e)"
  "keeps_log es (payin_list env qf)" "keeps_log es (listSweepRetryCandidates env n k)"
  "keeps_log es (storeIdempotencyKey env c e i)" "keeps_log es (claimNextPayInIndex env)"
  "keeps_log es (query env (settlement_insert_stmt u))" "keeps_log es (settlement_findById env i c)"
  "keeps_log es (settlement_list env c n m)" "keeps_log es (settlement_update env i sp)"
  "keeps_log es (settlement_delete env i)"
  unfolding payout_update_def payout_findById_def payout_findByExternalId_def payout_list_def payin_update_def
    payin_findById_def payin_findByExternalId_def payin_list_def listSweepRetryCandidates_def
    storeIdempotencyKey_def claimNextPayInIndex_def settlement_findById_def settlement_list_def
    settlement_update_def settlement_delete_def
  by (auto intro!: log_query simp: payout_update_stmt_def payout_insert_stmt_def payin_update_stmt_def
      payin_insert_stmt_def settlement_insert_stmt_def split: option.splits sum.splits prod.splits)

text \<open>The gateway never touches the log.\<close>

lemma log_gateway [log_rules]:
  "keeps_log es (getLatestBlockNumber env)" "keeps_log es (getAssetBalance env a)"
  "keeps_log es (toTransferExecution env h)" "keeps_log es (waitForTransaction env h)"
  "keeps_log es (ensureVaultAllowance env v tk n)"
  unfolding getLatestBlockNumber_def getAssetBalance_def toTransferExecution_def waitForTransaction_def
    ensureVaultAllowance_def
  by (auto intro!: log_rules)

lemma log_transactions [log_rules]:
  "keeps_log es (sendErc20Transfer env a to n)" "keeps_log es (vaultPayout env a ref to n)"
  "keeps_log es (vaultPayoutBatch env a ref tos ns)" "keeps_log es (sendNativeTransfer env to n)"
  "keeps_log es (sweepDerivedPayIn env a k addr m)" "keeps_log es (recordPrivateSettlement env r c)"
  "keeps_log es (revealPrivateSettlement env r n t c x)" "keeps_log es (reconcileTransaction env h)"
  unfolding sendErc20Transfer_def vaultPayout_def vaultPayoutBatch_def sendNativeTransfer_def
    sweepDerivedPayIn_def recordPrivateSettlement_def revealPrivateSettlement_def reconcileTransaction_def Let_def
  by (auto intro!: log_rules split: option.splits)

lemma log_paginate: "(\<And>a b. keeps_log es (fetch a b)) \<Longrightarrow> keeps_log es (paginateLogs a b fetch)"
proof (induction a b fetch rule: paginateLogs.induct)
  case (1 a b fetch)
  then show ?case by (subst paginateLogs.simps) (auto simp: Let_def)
qed

lemma log_scans [log_rules]:
  "keeps_log es (findIncomingErc20Transfers env a to lo hi)"
  "keeps_log es (findPaymentRouterInvoicePayments env a r n lo hi)"
  unfolding findIncomingErc20Transfers_def findPaymentRouterInvoicePayments_def Let_def
  by (auto intro!: log_rules log_paginate split: option.splits)

lemma log_enqueue [log_rules]: "keeps_log es (enqueue env c ev p)"
  by (rule preserves_enqueue) (auto simp: outbox_free_def audit_extends_event_free, simp_all add: audit_extends_def)

lemma log_payout_parts [log_rules]:
  "keeps_log es (payout_toResponse env r b)" "keeps_log es (requirePayout env i ctx)"
  "keeps_log es (payout_createOrGetExisting env r)" "keeps_log es (execute_transfer env r)"
  "keeps_log es (check_treasury env r)" "keeps_log es (release_legs env patch cs)"
  unfolding payout_toResponse_def requirePayout_def payout_createOrGetExisting_def execute_transfer_def
    check_treasury_def release_legs_def
  by (auto intro!: log_rules split: option.splits)

lemma log_settle [log_rules]:
  "keeps_log es (settle_claimed env i actor t r)" "keeps_log es (authorize_lost env i ctx)"
  "keeps_log es (settle_batch env asset actor t cs)"
  unfolding settle_claimed_def broadcast_payout_def book_transfer_def broadcast_failed_def authorize_lost_def
    settle_batch_def broadcast_batch_def book_leg_def batch_failed_def
  by (auto intro!: log_rules)

lemma log_claim_legs [log_rules]: "keeps_log es (claim_legs env t cs ps)"
  by (induction ps arbitrary: cs) (auto intro!: log_rules split: option.splits)

lemma log_payouts [log_rules]:
  "keeps_log es (listPayouts env f ctx)" "keeps_log es (getPayout env i ctx)"
  "keeps_log es (getPayoutByExternalId env e ctx)" "keeps_log es (authorizePayout env i dto ctx)"
  "keeps_log es (authorizePayoutBatch env is dto ctx)" "keeps_log es (reconcilePayout env i ctx)"
  unfolding listPayouts_def getPayout_def getPayoutByExternalId_def authorizePayout_def
    authorizePayoutBatch_def reconcilePayout_def Let_def
  by (auto intro!: log_rules split: option.splits)

lemma log_createPayout [log_rules]: "keeps_log es (createPayout env dto ctx)"
  unfolding createPayout_def by (auto intro!: log_rules)

lemma log_handle_payout [log_rules]: "keeps_log es (handle_payout env req)"
  by (cases req) (auto simp: one_def intro!: log_rules)

lemma log_payin_parts [log_rules]:
  "keeps_log es (payin_toResponse env r b)" "keeps_log es (requirePayIn env i ctx)"
  "keeps_log es (payin_createOrGetExisting env r)" "keeps_log es (findPayInTransfers env r n)"
  "keeps_log es (findByIdempotencyKey env c k)" "keeps_log es (announce_reconciled env i ctx r u ts n st)"
  "keeps_log es (send_topup env i a ctx r)"
  unfolding payin_toResponse_def requirePayIn_def payin_createOrGetExisting_def findPayInTransfers_def
    findByIdempotencyKey_def announce_reconciled_def send_topup_def
  by (auto intro!: log_rules log_query split: option.splits)

lemma log_sweep [log_rules]:
  "keeps_log es (sweepPayIn env i dto ctx)" "keeps_log es (topUpPayIn env i a ctx)"
  unfolding sweepPayIn_def attempt_sweep_def sweep_failed_def topUpPayIn_def
  by (auto intro!: log_rules split: option.splits)

lemma log_payins [log_rules]:
  "keeps_log es (createPayIn env dto ctx)" "keeps_log es (listPayIns env f ctx)" "keeps_log es (getPayIn env i ctx)"
  "keeps_log es (reconcilePayIn env i ctx)" "keeps_log es (acceptPayIn env i note ctx)"
  "keeps_log es (topUpAndSweep env i a n ctx)"
  unfolding createPayIn_def create_new_payin_def listPayIns_def getPayIn_def reconcilePayIn_def acceptPayIn_def
    topUpAndSweep_def Let_def
  by (auto intro!: log_rules split: option.splits)

lemma log_sweep_jobs [log_rules]:
  "keeps_log es (retryPendingSweeps env n ctx)" "keeps_log es (background_sweep env task)"
  unfolding retryPendingSweeps_def background_sweep_def
  by (auto intro!: log_rules split: BackgroundTask.splits)

lemma log_handle_payin [log_rules]: "keeps_log es (handle_payin env req)"
  by (cases req) (auto intro!: log_rules)

lemma log_settlements [log_rules]:
  "keeps_log es (record_settlement env dto ctx)" "keeps_log es (list_settlements env a b ctx)"
  "keeps_log es (get_settlement env i ctx)" "keeps_log es (reveal_settlement env i ctx)"
  unfolding record_settlement_def settlement_createOrGetExisting_def commit_settlement_def list_settlements_def
    get_settlement_def reveal_settlement_def requireRecord_def
  by (auto intro!: log_rules log_query split: option.splits)

lemma log_reconciliation [log_rules]:
  "keeps_log es (run_reconciliation env ctx)" "keeps_log es (auto_reconcile_tick env)"
  unfolding run_reconciliation_def auto_reconcile_tick_def reconcile_in_batches_def allSettled_def
    reconcile_payout_item_def reconcile_payin_item_def Let_def
  by (auto intro!: log_rules)

lemma log_checkout [log_rules]:
  "keeps_log es (createSession env cdto)" "keeps_log es (getSession env i)" "keeps_log es (reconcileSession env i)"
  unfolding createSession_def getSession_def reconcileSession_def by (auto intro!: log_rules)

lemma log_first_by [log_rules]: "keeps_log es (first_by_externalId env ctx is)"
  by (induction "is") (auto simp: tryGetPayoutByExternalId_def intro!: log_rules split: option.splits)

lemma log_chain_flow [log_rules]:
  "keeps_log es (prepararRetiro env rdto ctx)" "keeps_log es (autorizarRetiro env edto ctx)"
  "keeps_log es (consultarEstadoRetiro env edto ctx)"
  unfolding prepararRetiro_def autorizarRetiro_def consultarEstadoRetiro_def resolvePayout_def Let_def
  by (auto intro!: log_rules split: option.splits)

lemma log_clients [log_rules]:
  "keeps_log es (createClient env dto)" "keeps_log es (listClients env)" "keeps_log es (getClient env i)"
  "keeps_log es (updateClient env i p)" "keeps_log es (rotateApiKey env i)"
  "keeps_log es (client_canActivate env request)"
  unfolding createClient_def generateApiKey_def listClients_def client_list_def getClient_def requireClient_def
    client_findById_def updateClient_def client_update_def rotateApiKey_def client_rotateApiKey_def
    client_canActivate_def resolveActiveClientByApiKey_def findActiveByApiKeyHash_def Let_def
  by (auto intro!: log_rules log_query simp: client_insert_def Let_def split: option.splits prod.splits)

lemma log_webhook_parts [log_rules]:
  "keeps_log es (setStatus env i st n m)" "keeps_log es (reschedule env row n m2)"
  "keeps_log es (recordDelivery env c row url b n m t)" "keeps_log es (client_findById env c)"
  "keeps_log es (listRecentDeliveries env c n b)"
  unfolding setStatus_def reschedule_def recordDelivery_def client_findById_def listRecentDeliveries_def
  by (auto intro!: log_query)

lemma log_webhooks [log_rules]:
  "keeps_log es (dispatchDueEvents env n)" "keeps_log es (dispatcher_tick env b)"
  unfolding dispatcher_tick_def dispatchDueEvents_def deliverOnce_def post_event_def Let_def
  by (auto intro!: log_rules log_query simp: claim_due_def split: option.splits sum.splits prod.splits)

lemma log_handle_api: "keeps_log es (handle_api env call)"
  by (cases call) (auto intro!: log_rules)

text \<open>
  C10: The audit log is append-only for the whole system.  Whatever API calls, background sweeps,
  reconciliation ticks and webhook dispatches run at the same time, on any number of server
  instances, and however their database and node calls interleave and fail, the log before is a
  prefix of the log after: no entry is ever dropped, edited or reordered.
\<close>

theorem audit_log_append_only:
  assumes "pool_run (map (\<lambda>(env, call). handle_api env call) calls) w tr ps w'"
  shows "\<exists>new. w_audit w' = w_audit w @ new"
proof -
  have "audit_extends (w_audit w) w" by (simp add: audit_extends_def)
  then have "audit_extends (w_audit w) w'"
    by (rule pool_preserves [OF assms, rotated]) (auto intro: log_handle_api)
  then show ?thesis by (simp add: audit_extends_def)
qed

theorem audit_log_append_only_witness:
  "\<exists>tr ps w'. pool_run (map (\<lambda>(env, call). handle_api env call)
       [(sample_env, PayoutCall (ReqAuthorize ''p1'' no_approval sample_context))]) sample_world tr ps w' \<and>
     length (w_audit w') = 2 \<and> (\<exists>new. w_audit w' = w_audit sample_world @ new)"
proof -
  let ?p = "handle_api sample_env (PayoutCall (ReqAuthorize ''p1'' no_approval sample_context))"
  let ?w = "snd (run ?p sample_world)"
  have "length (w_audit ?w) = 2" by code_simp
  moreover obtain tr ps where run: "pool_run (map (\<lambda>(env, call). handle_api env call)
       [(sample_env, PayoutCall (ReqAuthorize ''p1'' no_approval sample_context))]) sample_world tr ps ?w"
    using run_in_pool [of 0 "[?p]" ?p sample_world] by auto
  ultimately show ?thesis using audit_log_append_only [OF run] by blast
qed

end
