(* ===== verification/Floats.thy ===== *)
theory Floats
  imports Configuration Complex_Main "HOL-Library.Log_Nat"
begin

text \<open>
  The JavaScript \<^verbatim>\<open>number\<close> where fractions matter (the volumes of the reports).  A number is the
  rational it stands for; every conversion and every addition rounds to the nearest value with a
  53-bit significand, ties to even, as IEEE-754 has it.  Magnitudes between the smallest normal
  number and the overflow threshold are meant; the volumes stay far inside.
\<close>

section \<open>Rounding\<close>

text \<open>The exponent \<open>e\<close> with \<open>2 ^ e \<le> x < 2 ^ (e + 1)\<close> of a positive rational.\<close>

definition binary_exponent :: "rat \<Rightarrow> int" where
  "binary_exponent x =
     (let (n, d) = quotient_of x; k = int (floorlog 2 (nat n)) - int (floorlog 2 (nat d))
      in if 2 powi k \<le> x then k else k - 1)"

definition round_half_even :: "rat \<Rightarrow> int" where
  "round_half_even y =
     (let f = \<lfloor>y\<rfloor>; r = y - of_int f
      in if r < 1 / 2 then f else if 1 / 2 < r then f + 1 else if even f then f else f + 1)"

definition fl :: "rat \<Rightarrow> rat" where
  "fl x = (if x = 0 then 0
           else let u = 2 powi (binary_exponent \<bar>x\<bar> - 52) in of_int (round_half_even (x / u)) * u)"

text \<open>\<^verbatim>\<open>a + b\<close> on numbers.\<close>

definition fl_add :: "rat \<Rightarrow> rat \<Rightarrow> rat" where
  "fl_add a b = fl (a + b)"

text \<open>
  \<^verbatim>\<open>x.toFixed(2)\<close>: the integer closest to \<open>100 * x\<close>, the larger of two, with the point put in.
  From 10 ^ 21 on JavaScript switches to the exponent form, which no volume reaches.
\<close>

definition cents_text :: "nat \<Rightarrow> string" where
  "cents_text n = show_nat (n div 100) @ ''.'' @ (if n mod 100 < 10 then ''0'' else []) @ show_nat (n mod 100)"

definition toFixed2 :: "rat \<Rightarrow> string" where
  "toFixed2 x =
     (let s = (if x < 0 then ''-'' else []); y = \<bar>x\<bar>
      in s @ cents_text (nat \<lfloor>y * 100 + 1 / 2\<rfloor>))"

section \<open>Whole numbers below 2 ^ 53 are exact\<close>

lemma round_half_even_int [simp]: "round_half_even (of_int n) = n"
  by (simp add: round_half_even_def Let_def)

lemma binary_exponent_of_int:
  assumes "0 < n" and "n < 2 ^ 53"
  shows "binary_exponent (of_int n) \<le> 52"
proof -
  have "nat n < 2 ^ 53" using assms(2) nat_less_iff [of n "2 ^ 53"] assms(1) by simp
  then have "floorlog 2 (nat n) \<le> 53" by (intro floorlog_leI) simp_all
  moreover have "floorlog 2 (Suc 0) = 1" by (simp add: floorlog_def)
  ultimately show ?thesis by (simp add: binary_exponent_def Let_def)
qed

lemma powi_nat_inverse: "k \<le> 0 \<Longrightarrow> of_int n / (2 :: rat) powi k = of_int (n * 2 ^ nat (- k))"
  by (simp add: power_int_def power_one_over divide_simps)

lemma fl_of_int:
  assumes "\<bar>n\<bar> < 2 ^ 53"
  shows "fl (of_int n) = of_int n"
proof (cases "n = 0")
  case False
  let ?k = "binary_exponent \<bar>of_int n\<bar> - 52"
  have "?k \<le> 0"
    using binary_exponent_of_int [of "\<bar>n\<bar>"] False assms by simp
  have "round_half_even (of_int n / 2 powi ?k) = n * 2 ^ nat (- ?k)"
    unfolding powi_nat_inverse [OF \<open>?k \<le> 0\<close>] by (rule round_half_even_int)
  moreover have "of_int (n * 2 ^ nat (- ?k)) * (2 :: rat) powi ?k = of_int n"
    using \<open>?k \<le> 0\<close> by (simp add: power_int_def power_inverse field_simps)
  ultimately show ?thesis using False by (simp add: fl_def Let_def)
qed (simp add: fl_def)

lemma fl_add_of_int: "\<bar>m + n\<bar> < 2 ^ 53 \<Longrightarrow> fl_add (of_int m) (of_int n) = of_int (m + n)"
  unfolding fl_add_def by (metis fl_of_int of_int_add)

text \<open>A sum of whole numbers is exact when the total is small enough.\<close>

lemma fl_sum_of_nat:
  "a + sum_list ns < 2 ^ 53 \<Longrightarrow>
   foldl (\<lambda>s n. fl_add s (fl (of_int (int n)))) (of_int (int a)) ns = of_int (int (a + sum_list ns))"
proof (induction ns arbitrary: a)
  case (Cons n ns)
  have lt: "a + n < 2 ^ 53" using Cons.prems by simp
  have "fl_add (of_int (int a)) (fl (of_int (int n))) = of_int (int (a + n))"
    using lt fl_of_int [of "int n"] fl_add_of_int [of "int a" "int n"]
    by (simp add: of_nat_less_numeral_power_cancel_iff flip: of_nat_add)
  then show ?case using Cons.IH [of "a + n"] Cons.prems by (simp add: add.assoc)
qed simp

end
