(* ===== verification/Reports.thy ===== *)
theory Reports
  imports Floats Neutral Sample
begin

text \<open>
  \<^verbatim>\<open>src/src/reports\<close>: the four read-only reports.  The summary aggregates the ledgers with
  \<^verbatim>\<open>GROUP BY\<close> and folds the groups into the buckets of the response, counting exactly and adding
  the volumes as floating-point numbers; the sweep queue lists the confirmed pay-ins whose funds
  still lie on deposit addresses; the delivery and audit reports wrap the queries of their
  services.
\<close>

section \<open>Aggregation in the database\<close>

text \<open>The rows with their group key, one entry per key; SQL leaves the order of groups open.\<close>

definition group_by :: "('r \<Rightarrow> 'k) \<Rightarrow> 'r list \<Rightarrow> ('k \<times> 'r list) list" where
  "group_by key rows = map (\<lambda>k. (k, filter (\<lambda>r. key r = k) rows)) (remdups (map key rows))"

text \<open>\<^verbatim>\<open>text::numeric\<close>, exact; \<open>None\<close> is the error for a text that is no decimal number.\<close>

definition numeric_of :: "string \<Rightarrow> rat option" where
  "numeric_of s =
     (case parse_decimal (trim s) of
        Dec m e \<Rightarrow> Some (if 0 \<le> e then of_int (m * 10 ^ nat e) else of_int m / of_int (10 ^ nat (- e)))
      | _ \<Rightarrow> None)"

definition sum_numeric :: "string list \<Rightarrow> exn + rat option" where
  "sum_numeric texts =
     (if list_ex (\<lambda>s. numeric_of s = None) texts
      then Inl (JsError ''invalid input syntax for type numeric'')
      else Inr (if texts = [] then None else Some (sum_list (map (the \<circ> numeric_of) texts))))"

record PayoutGroup =
  pg_status :: string
  pg_asset :: string
  pg_count :: nat
  pg_volume :: "rat option"

record PayInGroup =
  ig_status :: string
  ig_collectionMode :: string
  ig_sweepStatus :: string
  ig_asset :: string
  ig_count :: nat
  ig_expectedVolume :: "rat option"
  ig_receivedVolume :: "rat option"
  ig_sweptVolume :: "rat option"

definition payout_group :: "(string \<times> string) \<times> PayoutRecord list \<Rightarrow> exn + PayoutGroup" where
  "payout_group g = (case g of ((status, asset), rows) \<Rightarrow>
     map_sum id (\<lambda>v. \<lparr>pg_status = status, pg_asset = asset, pg_count = length rows, pg_volume = v\<rparr>)
       (sum_numeric (map po_amount rows)))"

definition payout_key :: "PayoutRecord \<Rightarrow> string \<times> string" where
  "payout_key r = (payout_status_text (po_status r), asset_text (po_asset r))"

definition payout_groups_stmt :: "string \<Rightarrow> timestamp \<Rightarrow> World \<Rightarrow> (exn + PayoutGroup list) \<times> World" where
  "payout_groups_stmt clientId t w =
     (collect (map payout_group
        (group_by payout_key (filter (\<lambda>r. po_clientId r = Some clientId) (w_payouts w)))), w)"

definition payin_key :: "PayInRecord \<Rightarrow> string \<times> string \<times> string \<times> string" where
  "payin_key r = (payin_status_text (pi_status r), mode_text (pi_collectionMode r),
     sweep_status_text (pi_sweepStatus r), asset_text (pi_asset r))"

definition payin_group :: "(string \<times> string \<times> string \<times> string) \<times> PayInRecord list \<Rightarrow> exn + PayInGroup" where
  "payin_group g = (case g of ((status, mode, sweep, asset), rows) \<Rightarrow>
     (case sum_numeric (map pi_expectedAmount rows) of Inl e \<Rightarrow> Inl e
      | Inr expected \<Rightarrow> (case sum_numeric (map pi_receivedAmount rows) of Inl e \<Rightarrow> Inl e
      | Inr received \<Rightarrow> (case sum_numeric (map pi_sweptAmount rows) of Inl e \<Rightarrow> Inl e
      | Inr swept \<Rightarrow> Inr
          \<lparr>ig_status = status, ig_collectionMode = mode, ig_sweepStatus = sweep, ig_asset = asset,
           ig_count = length rows, ig_expectedVolume = expected, ig_receivedVolume = received,
           ig_sweptVolume = swept\<rparr>))))"

definition payin_groups_stmt :: "string \<Rightarrow> timestamp \<Rightarrow> World \<Rightarrow> (exn + PayInGroup list) \<times> World" where
  "payin_groups_stmt clientId t w =
     (collect (map payin_group
        (group_by payin_key (filter (\<lambda>r. pi_clientId r = Some clientId) (w_payins w)))), w)"

section \<open>The institutional summary\<close>

type_synonym ReportBucket = "(string \<times> nat) list"
type_synonym VolumeBucket = "(string \<times> rat) list"
type_synonym AssetVolume = "(string \<times> string) list"

text \<open>\<^verbatim>\<open>bucket[key] = (bucket[key] ?? 0) + value\<close>\<close>

definition add_to :: "('v \<Rightarrow> 'v \<Rightarrow> 'v) \<Rightarrow> 'v \<Rightarrow> (string \<times> 'v) list \<Rightarrow> string \<Rightarrow> 'v \<Rightarrow> (string \<times> 'v) list" where
  "add_to add zero bucket key value =
     AList.update key (add (case map_of bucket key of None \<Rightarrow> zero | Some v \<Rightarrow> v) value) bucket"

abbreviation count_in :: "ReportBucket \<Rightarrow> string \<Rightarrow> nat \<Rightarrow> ReportBucket" where
  "count_in \<equiv> add_to (+) 0"

abbreviation volume_in :: "VolumeBucket \<Rightarrow> string \<Rightarrow> rat \<Rightarrow> VolumeBucket" where
  "volume_in \<equiv> add_to fl_add 0"

text \<open>\<^verbatim>\<open>Number(row.volume ?? 0)\<close>\<close>

definition volume_number :: "rat option \<Rightarrow> rat" where
  "volume_number v = (case v of None \<Rightarrow> 0 | Some x \<Rightarrow> fl x)"

record PayoutTotals =
  pt_count :: nat
  pt_byStatus :: ReportBucket
  pt_volumeByAsset :: VolumeBucket

definition payout_totals_step :: "PayoutTotals \<Rightarrow> PayoutGroup \<Rightarrow> PayoutTotals" where
  "payout_totals_step a row =
     \<lparr>pt_count = pt_count a + pg_count row,
      pt_byStatus = count_in (pt_byStatus a) (pg_status row) (pg_count row),
      pt_volumeByAsset = volume_in (pt_volumeByAsset a) (pg_asset row) (volume_number (pg_volume row))\<rparr>"

definition payout_totals :: "PayoutGroup list \<Rightarrow> PayoutTotals" where
  "payout_totals = foldl payout_totals_step \<lparr>pt_count = 0, pt_byStatus = [], pt_volumeByAsset = []\<rparr>"

record PayInTotals =
  it_count :: nat
  it_byStatus :: ReportBucket
  it_byCollectionMode :: ReportBucket
  it_bySweepStatus :: ReportBucket
  it_expectedByAsset :: VolumeBucket
  it_receivedByAsset :: VolumeBucket
  it_sweptByAsset :: VolumeBucket

definition payin_totals_step :: "PayInTotals \<Rightarrow> PayInGroup \<Rightarrow> PayInTotals" where
  "payin_totals_step a row =
     \<lparr>it_count = it_count a + ig_count row,
      it_byStatus = count_in (it_byStatus a) (ig_status row) (ig_count row),
      it_byCollectionMode = count_in (it_byCollectionMode a) (ig_collectionMode row) (ig_count row),
      it_bySweepStatus = count_in (it_bySweepStatus a) (ig_sweepStatus row) (ig_count row),
      it_expectedByAsset = volume_in (it_expectedByAsset a) (ig_asset row) (volume_number (ig_expectedVolume row)),
      it_receivedByAsset = volume_in (it_receivedByAsset a) (ig_asset row) (volume_number (ig_receivedVolume row)),
      it_sweptByAsset = volume_in (it_sweptByAsset a) (ig_asset row) (volume_number (ig_sweptVolume row))\<rparr>"

definition payin_totals :: "PayInGroup list \<Rightarrow> PayInTotals" where
  "payin_totals = foldl payin_totals_step
     \<lparr>it_count = 0, it_byStatus = [], it_byCollectionMode = [], it_bySweepStatus = [],
      it_expectedByAsset = [], it_receivedByAsset = [], it_sweptByAsset = []\<rparr>"

definition toFixedVolumes :: "VolumeBucket \<Rightarrow> AssetVolume" where
  "toFixedVolumes volumes = map (\<lambda>(asset, volume). (asset, toFixed2 volume)) volumes"

record PayoutSummary =
  py_count :: nat
  py_byStatus :: ReportBucket
  py_volumeByAsset :: AssetVolume

record PayInSummary =
  pn_count :: nat
  pn_byStatus :: ReportBucket
  pn_byCollectionMode :: ReportBucket
  pn_bySweepStatus :: ReportBucket
  pn_expectedVolumeByAsset :: AssetVolume
  pn_receivedVolumeByAsset :: AssetVolume
  pn_sweptVolumeByAsset :: AssetVolume

record InstitutionalSummaryReport =
  ir_generatedAt :: timestamp
  ir_payouts :: PayoutSummary
  ir_payins :: PayInSummary

text \<open>Both queries are started together; the first rejection is thrown.\<close>

definition getInstitutionalSummary :: "Env \<Rightarrow> string \<Rightarrow> InstitutionalSummaryReport io" where
  "getInstitutionalSummary env clientId =
     bindP (attempt (query env (payout_groups_stmt clientId))) (\<lambda>payoutResult.
     bindP (attempt (query env (payin_groups_stmt clientId))) (\<lambda>payinResult.
     bindP (liftE payoutResult) (\<lambda>payoutRows.
     bindP (liftE payinResult) (\<lambda>payinRows.
     bindP (now env) (\<lambda>t.
     let outs = payout_totals payoutRows; ins = payin_totals payinRows in
     Ret \<lparr>ir_generatedAt = t,
          ir_payouts = \<lparr>py_count = pt_count outs, py_byStatus = pt_byStatus outs,
                        py_volumeByAsset = toFixedVolumes (pt_volumeByAsset outs)\<rparr>,
          ir_payins = \<lparr>pn_count = it_count ins, pn_byStatus = it_byStatus ins,
                       pn_byCollectionMode = it_byCollectionMode ins, pn_bySweepStatus = it_bySweepStatus ins,
                       pn_expectedVolumeByAsset = toFixedVolumes (it_expectedByAsset ins),
                       pn_receivedVolumeByAsset = toFixedVolumes (it_receivedByAsset ins),
                       pn_sweptVolumeByAsset = toFixedVolumes (it_sweptByAsset ins)\<rparr>\<rparr>)))))"

section \<open>The other reports\<close>

record SweepQueueItem =
  sq_id :: string
  sq_clientId :: "string option"
  sq_externalId :: string
  sq_depositAddress :: string
  sq_asset :: string
  sq_receivedAmount :: string
  sq_receivedAmountAtomic :: string
  sq_sweepStatus :: string
  sq_sweepFailureReason :: "string option"
  sq_confirmedAt :: "timestamp option"

record 'i Report =
  rp_generatedAt :: timestamp
  rp_count :: nat
  rp_items :: "'i list"

definition sweep_queue_item :: "PayInRecord \<Rightarrow> SweepQueueItem" where
  "sweep_queue_item r =
     \<lparr>sq_id = pi_id r, sq_clientId = pi_clientId r, sq_externalId = pi_externalId r,
      sq_depositAddress = pi_depositAddress r, sq_asset = asset_text (pi_asset r),
      sq_receivedAmount = pi_receivedAmount r, sq_receivedAmountAtomic = pi_receivedAmountAtomic r,
      sq_sweepStatus = sweep_status_text (pi_sweepStatus r),
      sq_sweepFailureReason = pi_sweepFailureReason r, sq_confirmedAt = pi_confirmedAt r\<rparr>"

text \<open>\<^verbatim>\<open>ORDER BY confirmed_at ASC NULLS LAST\<close>\<close>

definition by_confirmation :: "PayInRecord list \<Rightarrow> PayInRecord list" where
  "by_confirmation rows =
     sort_key (\<lambda>r. the (pi_confirmedAt r)) (filter (\<lambda>r. pi_confirmedAt r \<noteq> None) rows) @
     filter (\<lambda>r. pi_confirmedAt r = None) rows"

definition awaiting_sweep :: "PayInRecord \<Rightarrow> bool" where
  "awaiting_sweep r \<longleftrightarrow> pi_status r = PiConfirmed \<and> pi_sweepStatus r \<in> {SwPending, SwFailed}"

definition make_report :: "Env \<Rightarrow> 'i list \<Rightarrow> 'i Report io" where
  "make_report env items = bindP (now env) (\<lambda>t.
     Ret \<lparr>rp_generatedAt = t, rp_count = length items, rp_items = items\<rparr>)"

definition getSweepQueue :: "Env \<Rightarrow> SweepQueueItem Report io" where
  "getSweepQueue env =
     bindP (query env (\<lambda>t w. (Inr (by_confirmation (filter awaiting_sweep (w_payins w))), w))) (\<lambda>rows.
     make_report env (map sweep_queue_item rows))"

definition getWebhookDeliveries :: "Env \<Rightarrow> string \<Rightarrow> nat \<Rightarrow> bool \<Rightarrow> WebhookDelivery Report io" where
  "getWebhookDeliveries env clientId limit onlyFailed =
     bindP (listRecentDeliveries env clientId (min limit 500) onlyFailed) (make_report env)"

definition getAuditTrail ::
  "Env \<Rightarrow> string \<Rightarrow> timestamp option \<Rightarrow> timestamp option \<Rightarrow> string option \<Rightarrow> nat option \<Rightarrow> AuditEvent Report io" where
  "getAuditTrail env clientId from to subjectId limit =
     bindP (listForTrail env
        \<lparr>tf_clientId = Some clientId, tf_subjectId = subjectId, tf_from = from, tf_to = to,
         tf_limit = (case limit of None \<Rightarrow> 200 | Some n \<Rightarrow> n)\<rparr>) (make_report env)"

section \<open>Buckets and groups\<close>

lemma map_of_add_to:
  "map_of (add_to add zero b k v) key =
     (if key = k then Some (add (case map_of b k of None \<Rightarrow> zero | Some x \<Rightarrow> x) v) else map_of b key)"
  by (simp add: add_to_def update_conv')

text \<open>A bucket filled by a loop holds, for each key that occurs, the sum over its rows.\<close>

lemma lookup_tally:
  "map_of (foldl (\<lambda>b x. add_to add zero b (k x) (v x)) b xs) key =
     (if key \<in> k ` set xs
      then Some (foldl add (case map_of b key of None \<Rightarrow> zero | Some y \<Rightarrow> y) (map v (filter (\<lambda>x. k x = key) xs)))
      else map_of b key)"
proof (induction xs arbitrary: b)
  case (Cons x xs)
  have "key \<notin> k ` set xs \<Longrightarrow> filter (\<lambda>x. k x = key) xs = []" by (auto simp: filter_empty_conv)
  then show ?case using Cons.IH by (auto simp: map_of_add_to)
qed simp

lemma foldl_plus_nat: "foldl (+) a ns = a + sum_list (ns :: nat list)"
  by (induction ns arbitrary: a) auto

lemma sum_filter_split:
  "(\<And>r. A r \<Longrightarrow> \<not> B r) \<Longrightarrow> sum_list (map u (filter (\<lambda>r. A r \<or> B r) rows)) =
     sum_list (map u (filter A rows)) + (sum_list (map u (filter B rows)) :: nat)"
  by (induction rows) auto

lemma sum_over_keys:
  "distinct ks \<Longrightarrow> sum_list (map (\<lambda>k. sum_list (map u (filter (\<lambda>r. key r = k) rows))) ks) =
     (sum_list (map u (filter (\<lambda>r. key r \<in> set ks) rows)) :: nat)"
proof (induction ks)
  case (Cons k ks)
  then show ?case
    using sum_filter_split [of "\<lambda>r. key r = k" "\<lambda>r. key r \<in> set ks" u rows] by auto
qed simp

text \<open>Summing group by group is summing row by row.\<close>

lemma sum_groups:
  fixes u :: "'r \<Rightarrow> nat"
  shows "sum_list (map (\<lambda>g. sum_list (map u (snd g))) (filter (\<lambda>g. P (fst g)) (group_by key rows))) =
         sum_list (map u (filter (\<lambda>r. P (key r)) rows))"
proof -
  have "filter (\<lambda>g. P (fst g)) (group_by key rows) =
      map (\<lambda>k. (k, filter (\<lambda>r. key r = k) rows)) (filter P (remdups (map key rows)))"
    by (simp add: group_by_def filter_map comp_def)
  moreover have "filter (\<lambda>r. key r \<in> set (filter P (remdups (map key rows)))) rows = filter (\<lambda>r. P (key r)) rows"
    by (rule filter_cong) auto
  ultimately show ?thesis
    using sum_over_keys [of "filter P (remdups (map key rows))" u key rows] by (simp add: comp_def)
qed

lemma length_groups:
  "sum_list (map (\<lambda>g. length (snd g)) (filter (\<lambda>g. P (fst g)) (group_by key rows))) =
   length (filter (\<lambda>r. P (key r)) rows)"
  using sum_groups [of "\<lambda>_. 1" P key rows] by (simp add: sum_list_triv)

lemma group_labels: "(\<lambda>g. f (fst g)) ` set (group_by key rows) = (\<lambda>r. f (key r)) ` set rows"
  by (simp add: group_by_def image_image)

lemma group_members: "g \<in> set (group_by key rows) \<Longrightarrow> snd g \<noteq> [] \<and> set (snd g) \<subseteq> set rows"
  by (auto simp: group_by_def filter_empty_conv)

lemma collect_map_Inr: "(\<And>x. x \<in> set xs \<Longrightarrow> f x = Inr (g x)) \<Longrightarrow> collect (map f xs) = Inr (map g xs)"
  by (induction xs) auto

text \<open>What a bucket of counts must hold.\<close>

definition counts :: "('r \<Rightarrow> string) \<Rightarrow> 'r list \<Rightarrow> ReportBucket \<Rightarrow> bool" where
  "counts label rows bucket \<longleftrightarrow>
     (\<forall>s. map_of bucket s = (let n = length (filter (\<lambda>r. label r = s) rows) in if n = 0 then None else Some n))"

lemma counts_tally:
  assumes "\<And>r. label r = f (key r)"
  shows "counts label rows (foldl (\<lambda>b g. count_in b (f (fst g)) (length (snd g))) [] (group_by key rows))"
proof -
  have "(\<lambda>g. f (fst g)) ` set (group_by key rows) = label ` set rows"
    by (simp add: group_labels assms)
  moreover have "length (filter (\<lambda>r. label r = s) rows) =
      sum_list (map (\<lambda>g. length (snd g)) (filter (\<lambda>g. f (fst g) = s) (group_by key rows)))" for s
    by (simp add: length_groups [of "\<lambda>k. f k = s"] assms)
  moreover have "s \<in> label ` set rows \<longleftrightarrow> length (filter (\<lambda>r. label r = s) rows) \<noteq> 0" for s
    by (auto simp: filter_empty_conv)
  ultimately show ?thesis
    by (simp add: counts_def lookup_tally foldl_plus_nat Let_def)
qed

section \<open>What the reports show\<close>

text \<open>Every accumulator of the loops is a bucket of its own.\<close>

lemma payout_totals_parts:
  "pt_count (foldl payout_totals_step a rows) = pt_count a + sum_list (map pg_count rows)"
  "pt_byStatus (foldl payout_totals_step a rows) =
     foldl (\<lambda>b r. count_in b (pg_status r) (pg_count r)) (pt_byStatus a) rows"
  "pt_volumeByAsset (foldl payout_totals_step a rows) =
     foldl (\<lambda>b r. volume_in b (pg_asset r) (volume_number (pg_volume r))) (pt_volumeByAsset a) rows"
  by (induction rows arbitrary: a) (simp_all add: payout_totals_step_def)

lemma payin_totals_parts:
  "it_count (foldl payin_totals_step a rows) = it_count a + sum_list (map ig_count rows)"
  "it_byStatus (foldl payin_totals_step a rows) =
     foldl (\<lambda>b r. count_in b (ig_status r) (ig_count r)) (it_byStatus a) rows"
  "it_byCollectionMode (foldl payin_totals_step a rows) =
     foldl (\<lambda>b r. count_in b (ig_collectionMode r) (ig_count r)) (it_byCollectionMode a) rows"
  "it_bySweepStatus (foldl payin_totals_step a rows) =
     foldl (\<lambda>b r. count_in b (ig_sweepStatus r) (ig_count r)) (it_bySweepStatus a) rows"
  "it_expectedByAsset (foldl payin_totals_step a rows) =
     foldl (\<lambda>b r. volume_in b (ig_asset r) (volume_number (ig_expectedVolume r))) (it_expectedByAsset a) rows"
  "it_receivedByAsset (foldl payin_totals_step a rows) =
     foldl (\<lambda>b r. volume_in b (ig_asset r) (volume_number (ig_receivedVolume r))) (it_receivedByAsset a) rows"
  "it_sweptByAsset (foldl payin_totals_step a rows) =
     foldl (\<lambda>b r. volume_in b (ig_asset r) (volume_number (ig_sweptVolume r))) (it_sweptByAsset a) rows"
  by (induction rows arbitrary: a) (simp_all add: payin_totals_step_def)

text \<open>Amounts the database can read as numbers.\<close>

definition numeric_rows :: "('r \<Rightarrow> string) \<Rightarrow> 'r list \<Rightarrow> bool" where
  "numeric_rows amount rows \<longleftrightarrow> (\<forall>r\<in>set rows. numeric_of (amount r) \<noteq> None)"

definition total :: "('r \<Rightarrow> string) \<Rightarrow> 'r list \<Rightarrow> rat" where
  "total amount rows = sum_list (map (the \<circ> numeric_of \<circ> amount) rows)"

lemma sum_numeric_rows:
  "numeric_rows amount rows \<Longrightarrow> set rs \<subseteq> set rows \<Longrightarrow> rs \<noteq> [] \<Longrightarrow>
   sum_numeric (map amount rs) = Inr (Some (total amount rs))"
  by (auto simp: sum_numeric_def numeric_rows_def list_ex_iff total_def comp_assoc)

lemma payout_groups_ok:
  assumes "numeric_rows po_amount rows"
  shows "collect (map payout_group (group_by payout_key rows)) =
    Inr (map (\<lambda>g. \<lparr>pg_status = fst (fst g), pg_asset = snd (fst g), pg_count = length (snd g),
               pg_volume = Some (total po_amount (snd g))\<rparr>) (group_by payout_key rows))"
proof (rule collect_map_Inr)
  fix g assume "g \<in> set (group_by payout_key rows)"
  with sum_numeric_rows [OF assms] show "payout_group g = Inr \<lparr>pg_status = fst (fst g), pg_asset = snd (fst g),
      pg_count = length (snd g), pg_volume = Some (total po_amount (snd g))\<rparr>"
    by (cases g) (auto simp: payout_group_def dest!: group_members)
qed

lemma payin_groups_ok:
  assumes "numeric_rows pi_expectedAmount rows" "numeric_rows pi_receivedAmount rows"
    "numeric_rows pi_sweptAmount rows"
  shows "collect (map payin_group (group_by payin_key rows)) =
    Inr (map (\<lambda>g. \<lparr>ig_status = fst (fst g), ig_collectionMode = fst (snd (fst g)),
               ig_sweepStatus = fst (snd (snd (fst g))), ig_asset = snd (snd (snd (fst g))),
               ig_count = length (snd g), ig_expectedVolume = Some (total pi_expectedAmount (snd g)),
               ig_receivedVolume = Some (total pi_receivedAmount (snd g)),
               ig_sweptVolume = Some (total pi_sweptAmount (snd g))\<rparr>) (group_by payin_key rows))"
    (is "_ = Inr (map ?f _)")
proof (rule collect_map_Inr)
  fix g assume "g \<in> set (group_by payin_key rows)"
  with assms [THEN sum_numeric_rows] show "payin_group g = Inr (?f g)"
    by (cases g) (auto simp: payin_group_def dest!: group_members)
qed

text \<open>The volume of an asset, when its amounts are whole numbers that add up to less than 2 ^ 53.\<close>

definition whole_rows :: "('r \<Rightarrow> string) \<Rightarrow> ('r \<Rightarrow> nat) \<Rightarrow> 'r list \<Rightarrow> bool" where
  "whole_rows amount units rows \<longleftrightarrow>
     (\<forall>r\<in>set rows. numeric_of (amount r) = Some (of_int (int (units r)))) \<and> sum_list (map units rows) < 2 ^ 53"

lemma total_whole: "whole_rows amount units rows \<Longrightarrow> set rs \<subseteq> set rows \<Longrightarrow>
   total amount rs = of_int (int (sum_list (map units rs)))"
  by (induction rs) (auto simp: total_def whole_rows_def)

lemma volume_tally:
  assumes "whole_rows amount units (filter (\<lambda>r. label r = s) rows)" and "\<And>r. label r = f (key r)"
    and "filter (\<lambda>r. label r = s) rows \<noteq> []"
  shows "map_of (foldl (\<lambda>b g. volume_in b (f (fst g)) (volume_number (Some (total amount (snd g))))) []
           (group_by key rows)) s = Some (of_int (int (sum_list (map units (filter (\<lambda>r. label r = s) rows)))))"
proof -
  let ?own = "filter (\<lambda>r. label r = s) rows"
  let ?gs = "filter (\<lambda>g. f (fst g) = s) (group_by key rows)"
  have "total amount (snd g) = of_int (int (sum_list (map units (snd g))))" if "g \<in> set ?gs" for g
    using that by (intro total_whole [OF assms(1)]) (auto simp: group_by_def assms(2))
  then have vols: "map (\<lambda>g. volume_number (Some (total amount (snd g)))) ?gs =
      map (\<lambda>n. fl (of_int (int n))) (map (\<lambda>g. sum_list (map units (snd g))) ?gs)"
    by (simp add: volume_number_def)
  have "sum_list (map (\<lambda>g. sum_list (map units (snd g))) ?gs) = sum_list (map units ?own)"
    using sum_groups [of units "\<lambda>k. f k = s" key rows] assms(2) by simp
  moreover have "sum_list (map units ?own) < 2 ^ 53" using assms(1) by (simp add: whole_rows_def)
  ultimately have "foldl fl_add 0 (map (\<lambda>g. volume_number (Some (total amount (snd g)))) ?gs) =
      of_int (int (sum_list (map units ?own)))"
    unfolding vols foldl_map using fl_sum_of_nat [of 0 "map (\<lambda>g. sum_list (map units (snd g))) ?gs"]
    by (simp add: foldl_map)
  moreover have "s \<in> (\<lambda>g. f (fst g)) ` set (group_by key rows)"
    using assms(3) by (auto simp: group_labels filter_empty_conv assms(2))
  ultimately show ?thesis by (simp add: lookup_tally)
qed

lemma toFixed2_whole: "toFixed2 (of_int (int n)) = show_nat n @ ''.00''"
proof -
  have "\<lfloor>rat_of_nat n * 100 + 1 / 2\<rfloor> = int (n * 100)"
    by (rule floor_unique) simp_all
  moreover have "show_nat 0 = ''0''" by code_simp
  ultimately show ?thesis
    by (simp add: toFixed2_def cents_text_def Let_def nat_int_add del: of_nat_mult)
qed

lemma map_of_toFixedVolumes: "map_of (toFixedVolumes vs) s = map_option toFixed2 (map_of vs s)"
  by (induction vs) (auto simp: toFixedVolumes_def)

text \<open>The rows of a client that a summary covers, with amounts the database can read.\<close>

definition own_payouts :: "string \<Rightarrow> World \<Rightarrow> PayoutRecord list" where
  "own_payouts c w = filter (\<lambda>r. po_clientId r = Some c) (w_payouts w)"

definition own_payins :: "string \<Rightarrow> World \<Rightarrow> PayInRecord list" where
  "own_payins c w = filter (\<lambda>r. pi_clientId r = Some c) (w_payins w)"

definition readable_amounts :: "string \<Rightarrow> World \<Rightarrow> bool" where
  "readable_amounts c w \<longleftrightarrow> numeric_rows po_amount (own_payouts c w) \<and>
     numeric_rows pi_expectedAmount (own_payins c w) \<and> numeric_rows pi_receivedAmount (own_payins c w) \<and>
     numeric_rows pi_sweptAmount (own_payins c w)"

text \<open>What a volume bucket shows of an asset whose amounts are whole numbers.\<close>

definition shows_volume ::
  "('r \<Rightarrow> string) \<Rightarrow> ('r \<Rightarrow> SettlementAsset) \<Rightarrow> 'r list \<Rightarrow> AssetVolume \<Rightarrow> bool" where
  "shows_volume amount asset rows bucket \<longleftrightarrow>
     (\<forall>a units. let own = filter (\<lambda>r. asset_text (asset r) = asset_text a) rows in
        own \<noteq> [] \<and> whole_rows amount units own \<longrightarrow>
        map_of bucket (asset_text a) = Some (show_nat (sum_list (map units own)) @ ''.00''))"

lemma shows_volume_tally:
  assumes "\<And>r. asset_text (asset r) = f (key r)"
  shows "shows_volume amount asset rows (toFixedVolumes
     (foldl (\<lambda>b g. volume_in b (f (fst g)) (volume_number (Some (total amount (snd g))))) [] (group_by key rows)))"
  unfolding shows_volume_def Let_def map_of_toFixedVolumes
  using volume_tally [of amount _ "\<lambda>r. asset_text (asset r)" _ _ f key, OF _ assms]
  by (auto simp: toFixed2_whole simp del: of_int_of_nat_eq)

lemma payout_keys:
  "payout_status_text (po_status r) = fst (payout_key r)" "asset_text (po_asset r) = snd (payout_key r)"
  by (simp_all add: payout_key_def)

lemma payin_keys:
  "payin_status_text (pi_status r) = fst (payin_key r)"
  "mode_text (pi_collectionMode r) = fst (snd (payin_key r))"
  "sweep_status_text (pi_sweepStatus r) = fst (snd (snd (payin_key r)))"
  "asset_text (pi_asset r) = snd (snd (snd (payin_key r)))"
  by (simp_all add: payin_key_def)

lemma payout_totals_exact:
  assumes "collect (map payout_group (group_by payout_key rows)) = Inr gs" and "numeric_rows po_amount rows"
  shows "pt_count (payout_totals gs) = length rows"
    and "counts (\<lambda>r. payout_status_text (po_status r)) rows (pt_byStatus (payout_totals gs))"
    and "shows_volume po_amount po_asset rows (toFixedVolumes (pt_volumeByAsset (payout_totals gs)))"
proof -
  have gs: "gs = map (\<lambda>g. \<lparr>pg_status = fst (fst g), pg_asset = snd (fst g), pg_count = length (snd g),
               pg_volume = Some (total po_amount (snd g))\<rparr>) (group_by payout_key rows)"
    using assms payout_groups_ok by simp
  show "pt_count (payout_totals gs) = length rows"
    using length_groups [of "\<lambda>_. True" payout_key rows]
    unfolding payout_totals_def payout_totals_parts by (simp add: gs comp_def)
  show "counts (\<lambda>r. payout_status_text (po_status r)) rows (pt_byStatus (payout_totals gs))"
    using counts_tally [of "\<lambda>r. payout_status_text (po_status r)" fst payout_key rows, OF payout_keys(1)]
    unfolding payout_totals_def payout_totals_parts by (simp add: gs foldl_map)
  show "shows_volume po_amount po_asset rows (toFixedVolumes (pt_volumeByAsset (payout_totals gs)))"
    using shows_volume_tally [of po_asset snd payout_key po_amount rows, OF payout_keys(2)]
    unfolding payout_totals_def payout_totals_parts by (simp add: gs foldl_map)
qed

lemma payin_totals_exact:
  assumes "collect (map payin_group (group_by payin_key rows)) = Inr gs"
    and "numeric_rows pi_expectedAmount rows" "numeric_rows pi_receivedAmount rows" "numeric_rows pi_sweptAmount rows"
  shows "it_count (payin_totals gs) = length rows"
    and "counts (\<lambda>r. payin_status_text (pi_status r)) rows (it_byStatus (payin_totals gs))"
    and "counts (\<lambda>r. mode_text (pi_collectionMode r)) rows (it_byCollectionMode (payin_totals gs))"
    and "counts (\<lambda>r. sweep_status_text (pi_sweepStatus r)) rows (it_bySweepStatus (payin_totals gs))"
    and "shows_volume pi_expectedAmount pi_asset rows (toFixedVolumes (it_expectedByAsset (payin_totals gs)))"
    and "shows_volume pi_receivedAmount pi_asset rows (toFixedVolumes (it_receivedByAsset (payin_totals gs)))"
    and "shows_volume pi_sweptAmount pi_asset rows (toFixedVolumes (it_sweptByAsset (payin_totals gs)))"
proof -
  note gs = payin_groups_ok [OF assms(2-4), unfolded assms(1), simplified]
  note volumes = shows_volume_tally [of pi_asset "\<lambda>k. snd (snd (snd k))" payin_key, OF payin_keys(4)]
  show "it_count (payin_totals gs) = length rows"
    using length_groups [of "\<lambda>_. True" payin_key rows]
    unfolding payin_totals_def payin_totals_parts by (simp add: gs comp_def)
  show "counts (\<lambda>r. payin_status_text (pi_status r)) rows (it_byStatus (payin_totals gs))"
    using counts_tally [of "\<lambda>r. payin_status_text (pi_status r)" fst payin_key rows, OF payin_keys(1)]
    unfolding payin_totals_def payin_totals_parts by (simp add: gs foldl_map)
  show "counts (\<lambda>r. mode_text (pi_collectionMode r)) rows (it_byCollectionMode (payin_totals gs))"
    using counts_tally [of "\<lambda>r. mode_text (pi_collectionMode r)" "\<lambda>k. fst (snd k)" payin_key rows, OF payin_keys(2)]
    unfolding payin_totals_def payin_totals_parts by (simp add: gs foldl_map)
  show "counts (\<lambda>r. sweep_status_text (pi_sweepStatus r)) rows (it_bySweepStatus (payin_totals gs))"
    using counts_tally [of "\<lambda>r. sweep_status_text (pi_sweepStatus r)" "\<lambda>k. fst (snd (snd k))" payin_key rows,
        OF payin_keys(3)]
    unfolding payin_totals_def payin_totals_parts by (simp add: gs foldl_map)
  show "shows_volume pi_expectedAmount pi_asset rows (toFixedVolumes (it_expectedByAsset (payin_totals gs)))"
    "shows_volume pi_receivedAmount pi_asset rows (toFixedVolumes (it_receivedByAsset (payin_totals gs)))"
    "shows_volume pi_sweptAmount pi_asset rows (toFixedVolumes (it_sweptByAsset (payin_totals gs)))"
    using volumes [of pi_expectedAmount rows] volumes [of pi_receivedAmount rows] volumes [of pi_sweptAmount rows]
    unfolding payin_totals_def payin_totals_parts by (simp_all add: gs foldl_map)
qed



lemma sorted_wrt_all: "(\<And>x y. x \<in> set xs \<Longrightarrow> y \<in> set xs \<Longrightarrow> P x y) \<Longrightarrow> sorted_wrt P xs"
  by (induction xs) auto

lemma mset_by_confirmation [simp]: "mset (by_confirmation rows) = mset rows"
  unfolding by_confirmation_def mset_append mset_sort by (induction rows) auto

text \<open>
  C26: The sweep queue is exact.  With a database that answers it lists every confirmed pay-in whose
  sweep is pending or failed, whichever client it belongs to, each once and nothing else, in the
  order of confirmation with unconfirmed times last, and its count is the length of the list.
\<close>

theorem getSweepQueue_exact:
  assumes "healthy env"
  shows "ends (getSweepQueue env) w (\<lambda>rep w'. same_ledgers w w' \<and>
     (\<exists>rows. rp_items rep = map sweep_queue_item rows \<and> rp_count rep = length rows \<and>
        mset rows = mset (filter (\<lambda>r. pi_status r = PiConfirmed \<and> pi_sweepStatus r \<in> {SwPending, SwFailed}) (w_payins w)) \<and>
        sorted_wrt (\<lambda>r r'. case (pi_confirmedAt r, pi_confirmedAt r') of
            (Some t, Some t') \<Rightarrow> t \<le> t' | (None, Some _) \<Rightarrow> False | _ \<Rightarrow> True) rows)) (\<lambda>_ _. False)"
proof -
  let ?rows = "filter awaiting_sweep (w_payins w)"
  have "sorted_wrt (\<lambda>r r'. case (pi_confirmedAt r, pi_confirmedAt r') of
      (Some t, Some t') \<Rightarrow> t \<le> t' | (None, Some _) \<Rightarrow> False | _ \<Rightarrow> True) (by_confirmation ?rows)"
  proof -
    let ?s = "sort_key (\<lambda>r. the (pi_confirmedAt r)) (filter (\<lambda>r. pi_confirmedAt r \<noteq> None) ?rows)"
    have "sorted_wrt (\<lambda>r r'. the (pi_confirmedAt r) \<le> the (pi_confirmedAt r')) ?s"
      using sorted_sort_key [of "\<lambda>r. the (pi_confirmedAt r)"] by (simp add: sorted_map)
    then have "sorted_wrt (\<lambda>r r'. case (pi_confirmedAt r, pi_confirmedAt r') of
      (Some t, Some t') \<Rightarrow> t \<le> t' | (None, Some _) \<Rightarrow> False | _ \<Rightarrow> True) ?s"
      by (rule sorted_wrt_mono_rel [rotated]) (auto split: option.splits)
    then show ?thesis
      unfolding by_confirmation_def by (auto simp: sorted_wrt_append intro!: sorted_wrt_all split: option.splits)
  qed
  moreover have "awaiting_sweep = (\<lambda>r. pi_status r = PiConfirmed \<and> pi_sweepStatus r \<in> {SwPending, SwFailed})"
    by (simp add: awaiting_sweep_def fun_eq_iff)
  ultimately show ?thesis
    by (auto simp: getSweepQueue_def make_report_def ends_simps ends_query [OF assms]
        intro!: exI [of _ "by_confirmation ?rows"])
qed

theorem getSweepQueue_exact_witness:
  "\<exists>rep w'. run (getSweepQueue sample_env)
       (full_world\<lparr>w_payins := [sample_payin\<lparr>pi_status := PiConfirmed\<rparr>, sample_payin]\<rparr>) = (Inr rep, w') \<and>
     rp_count rep = 1"
proof -
  let ?w = "full_world\<lparr>w_payins := [sample_payin\<lparr>pi_status := PiConfirmed\<rparr>, sample_payin]\<rparr>"
  have "healthy sample_env" by (simp add: healthy_def sample_env_def)
  then obtain rep w' rows where "run (getSweepQueue sample_env) ?w = (Inr rep, w')" and "rp_count rep = length rows"
    and "mset rows = mset (filter (\<lambda>r. pi_status r = PiConfirmed \<and> pi_sweepStatus r \<in> {SwPending, SwFailed}) (w_payins ?w))"
    using ends_returns [OF getSweepQueue_exact] by blast
  moreover have "length (filter (\<lambda>r. pi_status r = PiConfirmed \<and> pi_sweepStatus r \<in> {SwPending, SwFailed}) (w_payins ?w)) = 1"
    by (simp add: sample_payin_def)
  ultimately show ?thesis by (metis size_mset)
qed



end
