(* ===== verification/Status.thy ===== *)
theory Status
  imports Clients Blockchain Neutral
begin

text \<open>
  \<^verbatim>\<open>src/src/treasury\<close>, \<^verbatim>\<open>src/src/health\<close>, \<^verbatim>\<open>src/src/startup\<close>, \<^verbatim>\<open>src/src/app.service.ts\<close> and the
  readiness probe of \<^verbatim>\<open>DatabaseService\<close>: what the service tells about itself.  The probes catch
  the failures of the database and of the node; what they may still throw is a setting that
  cannot be read.
\<close>

section \<open>Service metadata\<close>

record ServiceMetadata =
  sm_service :: string
  sm_product :: string
  sm_role :: string
  sm_version :: string
  sm_network :: NetworkSummary

definition getServiceMetadata :: "Env \<Rightarrow> exn + ServiceMetadata" where
  "getServiceMetadata env = map_sum id (\<lambda>net.
     \<lparr>sm_service = serviceName, sm_product = ''AvaSettle'', sm_role = ''avalanche-on-chain-provider'',
      sm_version = version, sm_network = net\<rparr>) (networkSummary (cfg env))"

section \<open>Treasury\<close>

record TreasuryStatus =
  ts_service :: string
  ts_network :: NetworkSummary
  ts_treasuryConfigured :: bool
  ts_treasuryAddress :: "string option"
  ts_mnemonicConfigured :: bool
  ts_derivationAccount :: int
  ts_lookbackBlocks :: string
  ts_paymentRouterConfigured :: bool
  ts_paymentRouterAddress :: "string option"
  ts_enabledAssets :: "AssetRuntimeConfig list"
  ts_minConfirmations :: int
  ts_waitForReceipt :: bool

definition getStatus :: "Env \<Rightarrow> exn + TreasuryStatus" where
  "getStatus env = (let pe = cfg env in
     case networkSummary pe of Inl e \<Rightarrow> Inl e | Inr net \<Rightarrow>
     (case payInDerivationAccount pe of Inl e \<Rightarrow> Inl e | Inr account \<Rightarrow>
     (case payInLookbackBlocks pe of Inl e \<Rightarrow> Inl e | Inr lookback \<Rightarrow>
     (case paymentRouterConfigured pe of Inl e \<Rightarrow> Inl e | Inr routerConfigured \<Rightarrow>
     (case paymentRouterAddress pe of Inl e \<Rightarrow> Inl e | Inr router \<Rightarrow>
     (case getConfiguredAssets pe of Inl e \<Rightarrow> Inl e | Inr assets \<Rightarrow>
     (case minConfirmations pe of Inl e \<Rightarrow> Inl e | Inr confirmations \<Rightarrow>
        Inr \<lparr>ts_service = serviceName, ts_network = net, ts_treasuryConfigured = treasuryConfigured pe,
             ts_treasuryAddress = treasuryAddress env, ts_mnemonicConfigured = (payInMnemonic pe \<noteq> None),
             ts_derivationAccount = account, ts_lookbackBlocks = show_int lookback,
             ts_paymentRouterConfigured = routerConfigured, ts_paymentRouterAddress = router,
             ts_enabledAssets = assets, ts_minConfirmations = confirmations,
             ts_waitForReceipt = waitForReceipt pe\<rparr>)))))))"

datatype AssetEntry = AssetOk TreasuryBalance | AssetUnavailable SettlementAsset string

datatype NativeEntry = NativeOk NativeTreasuryBalance | NativeUnavailable string

record TreasuryBalances =
  tbs_network :: NetworkSummary
  tbs_treasuryAddress :: "string option"
  tbs_native :: NativeEntry
  tbs_assets :: "AssetEntry list"

definition asset_entry :: "Env \<Rightarrow> SettlementAsset \<Rightarrow> AssetEntry io" where
  "asset_entry env asset =
     catchP (bindP (getAssetBalance env asset) (\<lambda>b. Ret (AssetOk b)))
       (\<lambda>e. Ret (AssetUnavailable asset (exn_message e)))"

definition getBalances :: "Env \<Rightarrow> TreasuryBalances io" where
  "getBalances env =
     bindP (allP (map (asset_entry env) (enabledAssets (cfg env)))) (\<lambda>assets.
     bindP (liftE (networkSummary (cfg env))) (\<lambda>net.
     bindP (catchP (bindP (getNativeBalance env) (\<lambda>b. Ret (NativeOk b)))
              (\<lambda>e. Ret (NativeUnavailable (exn_message e)))) (\<lambda>native.
     Ret \<lparr>tbs_network = net, tbs_treasuryAddress = treasuryAddress env, tbs_native = native,
          tbs_assets = assets\<rparr>)))"

section \<open>Health\<close>

record DatabaseReadiness =
  dr_configured :: bool
  dr_reachable :: bool
  dr_error :: "string option"

text \<open>There is a connection pool exactly when a database URL is configured.\<close>

definition database_getReadiness :: "Env \<Rightarrow> DatabaseReadiness io" where
  "database_getReadiness env =
     (if databaseUrl (cfg env) = None
      then Ret \<lparr>dr_configured = False, dr_reachable = False,
                dr_error = Some ''AVASETTLE_DATABASE_URL is not configured.''\<rparr>
      else catchP (bindP (query env (\<lambda>t w. (Inr (), w))) (\<lambda>_.
                     Ret \<lparr>dr_configured = True, dr_reachable = True, dr_error = None\<rparr>))
             (\<lambda>e. Ret \<lparr>dr_configured = True, dr_reachable = False, dr_error = Some (exn_message e)\<rparr>))"

record Liveness =
  lv_status :: string
  lv_service :: string
  lv_product :: string
  lv_timestamp :: timestamp

definition getLiveness :: "Env \<Rightarrow> Liveness io" where
  "getLiveness env = bindP (now env) (\<lambda>t.
     Ret \<lparr>lv_status = ''ok'', lv_service = serviceName, lv_product = ''AvaSettle'', lv_timestamp = t\<rparr>)"

record Checks =
  ck_adminApiKeyConfigured :: bool
  ck_treasuryConfigured :: bool
  ck_payInMnemonicConfigured :: bool
  ck_assetsConfigured :: bool
  ck_databaseReady :: bool
  ck_rpcReachable :: bool

definition all_checks :: "Checks \<Rightarrow> bool" where
  "all_checks c \<longleftrightarrow> ck_adminApiKeyConfigured c \<and> ck_treasuryConfigured c \<and> ck_payInMnemonicConfigured c \<and>
     ck_assetsConfigured c \<and> ck_databaseReady c \<and> ck_rpcReachable c"

record Readiness =
  rd_status :: string
  rd_network :: NetworkSummary
  rd_database :: DatabaseReadiness
  rd_registeredClients :: "nat option"
  rd_checks :: Checks
  rd_timestamp :: timestamp

definition count_clients :: "Env \<Rightarrow> DatabaseReadiness \<Rightarrow> nat option io" where
  "count_clients env database =
     (if dr_reachable database
      then catchP (bindP (client_count env) (\<lambda>n. Ret (Some n))) (\<lambda>_. Ret None)
      else Ret None)"

definition probe_rpc :: "Env \<Rightarrow> bool io" where
  "probe_rpc env =
     catchP (bindP (getChainId env) (\<lambda>chainId.
             bindP (liftE (networkSummary (cfg env))) (\<lambda>net.
             Ret (chainId = ns_chainId net))))
       (\<lambda>_. Ret False)"

definition getReadiness :: "Env \<Rightarrow> Readiness io" where
  "getReadiness env = (let pe = cfg env in
     bindP (database_getReadiness env) (\<lambda>database.
     bindP (liftE (getConfiguredAssets pe)) (\<lambda>assets.
     let checks = \<lparr>ck_adminApiKeyConfigured = adminApiKeyConfigured pe,
                   ck_treasuryConfigured = treasuryConfigured pe,
                   ck_payInMnemonicConfigured = (payInMnemonic pe \<noteq> None),
                   ck_assetsConfigured = list_all ac_configured assets,
                   ck_databaseReady = dr_reachable database, ck_rpcReachable = False\<rparr> in
     bindP (count_clients env database) (\<lambda>registeredClients.
     bindP (probe_rpc env) (\<lambda>reachable.
     let checks = checks\<lparr>ck_rpcReachable := reachable\<rparr> in
     bindP (liftE (networkSummary pe)) (\<lambda>net.
     bindP (now env) (\<lambda>t.
     Ret \<lparr>rd_status = (if all_checks checks then ''ready'' else ''degraded''), rd_network = net,
          rd_database = database, rd_registeredClients = registeredClients, rd_checks = checks,
          rd_timestamp = t\<rparr>)))))))"

section \<open>Startup\<close>

text \<open>
  The warnings that are logged and the final log line, or the error that stops the boot.  The em
  dash of the messages is written as a hyphen here.
\<close>

definition startup_warnings :: "penv \<Rightarrow> AssetRuntimeConfig list \<Rightarrow> string list" where
  "startup_warnings pe assets =
     (if adminApiKeyConfigured pe then []
      else [''AVASETTLE_ADMIN_API_KEY is not set - client management endpoints are unusable, so no client can be registered.'']) @
     (if treasuryConfigured pe then []
      else [''AVASETTLE_TREASURY_PRIVATE_KEY is not set - payouts and sweeps are disabled.'']) @
     (if payInMnemonic pe \<noteq> None then []
      else [''AVASETTLE_PAYIN_MNEMONIC is not set - derived-address pay-ins are disabled.'']) @
     (let unconfigured = filter (\<lambda>a. \<not> ac_configured a) assets in
      if unconfigured = [] then []
      else [''Token address not configured for: '' @
            join '', '' (map (\<lambda>a. ''AVASETTLE_'' @ asset_text (ac_symbol a) @ ''_ADDRESS'') unconfigured) @ ''.''])"

definition onApplicationBootstrap :: "penv \<Rightarrow> exn + string list \<times> string" where
  "onApplicationBootstrap pe =
     (if \<not> databaseConfigured pe
      then Inl (JsError ''AVASETTLE_DATABASE_URL (or DATABASE_URL) is required - AvaSettle persists all state in PostgreSQL.'')
      else case getConfiguredAssets pe of Inl e \<Rightarrow> Inl e
        | Inr assets \<Rightarrow> (case settlementNetwork pe of Inl e \<Rightarrow> Inl e
            | Inr net \<Rightarrow> Inr (startup_warnings pe assets,
                ''AvaSettle started - network: '' @ network_text net @ ''.'')))"

section \<open>What the probes tell\<close>

lemma ends_count_clients:
  "ends (count_clients env d) w Q E \<longleftrightarrow>
     (if dr_reachable d
      then Q (if db_fault env (w_event w) = None then Some (length (w_clients w)) else None) (bump w)
      else Q None w)"
  by (simp add: count_clients_def client_count_def ends_simps ends_read split: option.split)

lemma ends_database_getReadiness:
  assumes "databaseUrl (cfg env) \<noteq> None"
  shows "ends (database_getReadiness env) w Q E \<longleftrightarrow>
     Q \<lparr>dr_configured = True, dr_reachable = (db_fault env (w_event w) = None),
        dr_error = db_fault env (w_event w)\<rparr> (bump w)"
  using assms by (auto simp: database_getReadiness_def ends_simps ends_read exn_message_def split: option.split)

lemma ends_probe_rpc:
  "networkSummary (cfg env) = Inr net \<Longrightarrow>
   ends (probe_rpc env) w Q E \<longleftrightarrow> Q (rpc_getChainId env (w_event w) = Inr (ns_chainId net)) (bump w)"
  by (simp add: probe_rpc_def getChainId_def ends_simps split: sum.split)

lemma network_of_summary: "networkSummary pe = Inr net \<Longrightarrow> \<exists>n. settlementNetwork pe = Inr n"
  by (simp add: networkSummary_def split: sum.splits)

lemma bootstrap_clean:
  assumes "getConfiguredAssets pe = Inr assets" and "networkSummary pe = Inr net" and "databaseUrl pe \<noteq> None"
  shows "(\<exists>line. onApplicationBootstrap pe = Inr ([], line)) \<longleftrightarrow>
    adminApiKeyConfigured pe \<and> treasuryConfigured pe \<and> payInMnemonic pe \<noteq> None \<and> list_all ac_configured assets"
  using assms network_of_summary [OF assms(2)]
  by (auto simp: onApplicationBootstrap_def startup_warnings_def databaseConfigured_def Let_def
      filter_empty_conv list_all_iff split: if_splits)

lemma configured_usable:
  assumes "getConfiguredAssets (cfg env) = Inr assets" and "list_all ac_configured assets"
    and "a \<in> set (enabledAssets (cfg env))"
  shows "\<exists>ac token. requireAsset env a = Inr (ac, token)"
proof -
  have "Inr ` set assets = getAssetConfig (cfg env) ` set (enabledAssets (cfg env))"
    using collect_InrD [OF assms(1) [unfolded getConfiguredAssets_def]] by (metis list.set_map)
  then obtain ac where ac: "getAssetConfig (cfg env) a = Inr ac" "ac \<in> set assets"
    using assms(3) by (metis (no_types, lifting) imageE imageI)
  moreover have "ac_configured ac" using ac assms(2) by (simp add: list_all_iff)
  moreover have "ac_configured ac \<longleftrightarrow> ac_address ac \<noteq> None"
    using ac(1) by (auto simp: getAssetConfig_def Let_def split: sum.splits)
  ultimately show ?thesis by (auto simp: requireAsset_def)
qed

text \<open>
  C28: Readiness can be trusted.  When the settings can be read, the readiness probe answers whatever
  the database and the node do, changes no ledger, and says ready exactly when the service booted
  without a warning, the database answered, and the node reported the configured chain id.  A
  ready service has a treasury signer and a token contract for every enabled asset, so no call
  is refused for want of them.
\<close>

theorem getReadiness_exact:
  assumes "getConfiguredAssets (cfg env) = Inr assets" and "networkSummary (cfg env) = Inr net"
    and "databaseUrl (cfg env) \<noteq> None"
  shows "ends (getReadiness env) w (\<lambda>rep w'. same_ledgers w w' \<and>
     rd_status rep \<in> {''ready'', ''degraded''} \<and>
     (rd_status rep = ''ready'' \<longleftrightarrow>
        (\<exists>line. onApplicationBootstrap (cfg env) = Inr ([], line)) \<and> db_fault env (w_event w) = None \<and>
        rpc_getChainId env (Suc (Suc (w_event w))) = Inr (ns_chainId net)) \<and>
     (rd_status rep = ''ready'' \<longrightarrow> (\<exists>account. requireAccount env = Inr account) \<and>
        (\<forall>a\<in>set (enabledAssets (cfg env)). \<exists>ac token. requireAsset env a = Inr (ac, token))))
   (\<lambda>_ _. False)"
proof -
  have "treasuryConfigured (cfg env) \<Longrightarrow> \<exists>account. requireAccount env = Inr account"
    by (auto simp: treasuryConfigured_def requireAccount_def treasuryAddress_def)
  moreover have "list_all ac_configured assets \<Longrightarrow>
      \<forall>a\<in>set (enabledAssets (cfg env)). \<exists>ac token. requireAsset env a = Inr (ac, token)"
    using configured_usable [OF assms(1)] by blast
  ultimately show ?thesis
    using assms(1,2) bootstrap_clean [OF assms]
    by (auto simp: getReadiness_def Let_def ends_bindP ends_liftE ends_now ends_basic ends_count_clients
        ends_database_getReadiness [OF assms(3)] ends_probe_rpc [OF assms(2)] all_checks_def split: if_splits)
qed

theorem getReadiness_exact_witness:
  "\<exists>rep w'. run (getReadiness ready_env) full_world = (Inr rep, w') \<and> rd_status rep = ''ready''"
proof -
  let ?pe = "process_env ready_env"
  have "getConfiguredAssets ?pe = Inr (projr (getConfiguredAssets ?pe))" by code_simp
  moreover have "networkSummary ?pe = Inr (projr (networkSummary ?pe))" by code_simp
  moreover have "databaseUrl ?pe \<noteq> None" by code_simp
  ultimately obtain rep w' where "run (getReadiness ready_env) full_world = (Inr rep, w')"
    and "rd_status rep = ''ready'' \<longleftrightarrow>
        (\<exists>line. onApplicationBootstrap ?pe = Inr ([], line)) \<and> db_fault ready_env (w_event full_world) = None \<and>
        rpc_getChainId ready_env (Suc (Suc (w_event full_world))) = Inr (ns_chainId (projr (networkSummary ?pe)))"
    using ends_returns [OF getReadiness_exact] by blast
  moreover have "onApplicationBootstrap ?pe = Inr ([], snd (projr (onApplicationBootstrap ?pe)))" by code_simp
  moreover have "db_fault ready_env (w_event full_world) = None" by code_simp
  moreover have "rpc_getChainId ready_env (Suc (Suc (w_event full_world))) =
      Inr (ns_chainId (projr (networkSummary ?pe)))" by code_simp
  ultimately show ?thesis by blast
qed

text \<open>
  The balance endpoint answers one entry per enabled asset, in order, whatever the node does and
  whether or not the treasury or a token is configured: an entry is a balance read from the
  node or the reason there is none.  It throws only when the network name is invalid, and sends
  and stores nothing.
\<close>

theorem getBalances_total:
  "ends (getBalances env) w
     (\<lambda>rep w'. map (\<lambda>e. case e of AssetOk b \<Rightarrow> tb_asset b | AssetUnavailable a _ \<Rightarrow> a) (tbs_assets rep) =
          enabledAssets (cfg env) \<and>
        networkSummary (cfg env) = Inr (tbs_network rep) \<and> (same_ledgers w w' \<and> w_sent w' = w_sent w))
     (\<lambda>e w'. networkSummary (cfg env) = Inl e \<and> (same_ledgers w w' \<and> w_sent w' = w_sent w))"
proof -
  define label where "label = (\<lambda>e. case e of AssetOk b \<Rightarrow> tb_asset b | AssetUnavailable a _ \<Rightarrow> a)"
  define quiet where "quiet v \<longleftrightarrow> same_ledgers w v \<and> w_sent v = w_sent w" for v
  have quiet: "quiet w" "\<And>v. quiet (bump v) = quiet v"
    by (simp_all add: quiet_def)
  have entry: "ends (asset_entry env a) v (\<lambda>e v'. label e = a \<and> quiet v') (\<lambda>_ _. False)" if "quiet v" for a v
    using that by (auto simp: asset_entry_def getAssetBalance_def ends_simps quiet label_def split: sum.splits prod.splits)
  have settled: "ends (forP (map (asset_entry env) as) attempt) v
      (\<lambda>rs v'. (\<forall>r\<in>set rs. \<not> isl r) \<and> map (label \<circ> projr) rs = as \<and> quiet v') (\<lambda>_ _. False)" if "quiet v" for "as" v
    using that
  proof (induction "as" arbitrary: v)
    case (Cons a "as")
    show ?case
      unfolding list.map forP.simps attempt_def ends_simps
      by (rule ends_mono [OF entry [OF Cons.prems]])
        (auto simp: ends_simps attempt_def [symmetric] intro!: ends_mono [OF Cons.IH])
  qed (simp add: ends_simps)
  have collect: "\<forall>r\<in>set rs. \<not> isl r \<Longrightarrow> collect rs = Inr (map projr rs)" for rs :: "(exn + AssetEntry) list"
    by (induction rs rule: collect.induct) auto
  have "ends (allP (map (asset_entry env) (enabledAssets (cfg env)))) w
      (\<lambda>es v'. map label es = enabledAssets (cfg env) \<and> quiet v') (\<lambda>_ _. False)"
    unfolding allP_def allSettled_def
    by (rule ends_bind [OF settled [OF quiet(1)]]) (auto simp: ends_simps collect)
  moreover have "ends (bindP (liftE (networkSummary (cfg env))) (\<lambda>net.
      bindP (catchP (bindP (getNativeBalance env) (\<lambda>b. Ret (NativeOk b))) (\<lambda>e. Ret (NativeUnavailable (exn_message e))))
        (\<lambda>native. Ret \<lparr>tbs_network = net, tbs_treasuryAddress = treasuryAddress env, tbs_native = native,
          tbs_assets = es\<rparr>))) v
      (\<lambda>rep w'. map label (tbs_assets rep) = enabledAssets (cfg env) \<and> networkSummary (cfg env) = Inr (tbs_network rep) \<and> quiet w')
      (\<lambda>e w'. networkSummary (cfg env) = Inl e \<and> quiet w')"
    if "map label es = enabledAssets (cfg env) \<and> quiet v" for es v
    using that by (simp add: ends_simps getNativeBalance_def quiet split: sum.split)
  ultimately show ?thesis
    unfolding getBalances_def label_def [symmetric] quiet_def [symmetric] by (rule ends_bind) simp_all
qed

end
