(* ===== verification/Validation.thy ===== *)
theory Validation
  imports Payouts Payins Settlements Checkout ChainFlow Clients
begin

text \<open>
  The DTO classes (\<^verbatim>\<open>src/src/*/dto\<close> and the query classes of \<^verbatim>\<open>reports.controller.ts\<close>) under the
  global validation pipe of \<^verbatim>\<open>main.ts\<close>: unknown properties are refused, each property is checked
  by its decorators, and what passes becomes the record the service receives.  A body is a JSON
  object; query parameters are texts.  A refusal is a \<^verbatim>\<open>400\<close>; the wording of its message list is
  not modelled.  \<^verbatim>\<open>IsUrl\<close>, \<^verbatim>\<open>IsEthereumAddress\<close> and \<^verbatim>\<open>IsISO8601\<close> are arguments.
\<close>

section \<open>Decorators\<close>

record Formats =
  fm_isUrl :: "string \<Rightarrow> bool"
  fm_isEthereumAddress :: "string \<Rightarrow> bool"
  fm_parseISO :: "string \<Rightarrow> timestamp option"

type_synonym rule = "json \<Rightarrow> bool"

definition isString :: rule where
  "isString j = (case j of JStr _ \<Rightarrow> True | _ \<Rightarrow> False)"

definition onText :: "(string \<Rightarrow> bool) \<Rightarrow> rule" where
  "onText P j = (case j of JStr s \<Rightarrow> P s | _ \<Rightarrow> False)"

definition maxLength :: "nat \<Rightarrow> rule" where
  "maxLength n = onText (\<lambda>s. length s \<le> n)"

definition isIn :: "string list \<Rightarrow> rule" where
  "isIn vs = onText (\<lambda>s. s \<in> set vs)"

definition isNotEmpty :: rule where
  "isNotEmpty j = (j \<noteq> JStr [] \<and> j \<noteq> JNull)"

definition isBoolean :: rule where
  "isBoolean j = (case j of JBool _ \<Rightarrow> True | _ \<Rightarrow> False)"

definition isObject :: rule where
  "isObject j = (case j of JObj _ \<Rightarrow> True | _ \<Rightarrow> False)"

definition isIntBetween :: "int \<Rightarrow> int \<Rightarrow> rule" where
  "isIntBetween lo hi j = (case j of JInt n \<Rightarrow> lo \<le> n \<and> n \<le> hi | _ \<Rightarrow> False)"

definition isIntFrom :: "int \<Rightarrow> rule" where
  "isIntFrom lo j = (case j of JInt n \<Rightarrow> lo \<le> n | _ \<Rightarrow> False)"

definition anyValue :: rule where
  "anyValue j = True"

section \<open>The patterns\<close>

definition is_alnum :: "char \<Rightarrow> bool" where
  "is_alnum c = (let n = (of_char c :: nat) in
     (48 \<le> n \<and> n \<le> 57) \<or> (65 \<le> n \<and> n \<le> 90) \<or> (97 \<le> n \<and> n \<le> 122))"

text \<open>\<^verbatim>\<open>/^[A-Za-z0-9._:-]+$/\<close>\<close>

definition external_id_format :: "string \<Rightarrow> bool" where
  "external_id_format s = (s \<noteq> [] \<and> list_all (\<lambda>c. is_alnum c \<or> c \<in> set ''._:-'') s)"

text \<open>\<^verbatim>\<open>(\.\d{1,n})?$\<close> and \<^verbatim>\<open>(\.\d+)?$\<close>\<close>

definition fraction_format :: "nat option \<Rightarrow> string \<Rightarrow> bool" where
  "fraction_format bound s =
     (s = [] \<or> (hd s = CHR ''.'' \<and> tl s \<noteq> [] \<and> list_all is_digit (tl s) \<and>
        (case bound of None \<Rightarrow> True | Some n \<Rightarrow> length (tl s) \<le> n)))"

text \<open>\<^verbatim>\<open>/^(0|[1-9]\d*)(\.\d{1,18})?$/\<close>\<close>

definition amount_format :: "string \<Rightarrow> bool" where
  "amount_format s =
     (let ip = takeWhile is_digit s in
      ip \<noteq> [] \<and> (ip = ''0'' \<or> hd ip \<noteq> CHR ''0'') \<and> fraction_format (Some 18) (dropWhile is_digit s))"

text \<open>\<^verbatim>\<open>/^\d+(\.\d+)?$/\<close>\<close>

definition decimal_format :: "string \<Rightarrow> bool" where
  "decimal_format s = (takeWhile is_digit s \<noteq> [] \<and> fraction_format None (dropWhile is_digit s))"

text \<open>\<^verbatim>\<open>/^0x[a-fA-F0-9]{n}$/\<close>\<close>

definition hex_format :: "nat \<Rightarrow> string \<Rightarrow> bool" where
  "hex_format n s = (startsWith s ''0x'' \<and> length s = n + 2 \<and> list_all is_hex (drop 2 s))"

section \<open>The pipe\<close>

text \<open>A property: its name, whether it is \<^verbatim>\<open>@IsOptional\<close>, and the conjunction of its decorators.\<close>

type_synonym property = "string \<times> bool \<times> rule"

definition absent :: "string \<Rightarrow> jobject \<Rightarrow> bool" where
  "absent name fs = (map_of fs name = None \<or> map_of fs name = Some JNull)"

definition property_ok :: "jobject \<Rightarrow> property \<Rightarrow> bool" where
  "property_ok fs p = (case p of (name, optional, rule) \<Rightarrow>
     if absent name fs then optional else rule (the (map_of fs name)))"

text \<open>\<^verbatim>\<open>whitelist\<close> with \<^verbatim>\<open>forbidNonWhitelisted\<close>\<close>

definition whitelisted :: "property list \<Rightarrow> jobject \<Rightarrow> bool" where
  "whitelisted ps fs = (\<forall>k\<in>set (map fst fs). k \<in> set (map fst ps))"

definition validation_pipe :: "property list \<Rightarrow> jobject \<Rightarrow> exn + jobject" where
  "validation_pipe ps fs =
     (if whitelisted ps fs \<and> list_all (property_ok fs) ps then Inr fs else Inl (BadRequest ''Validation failed''))"

abbreviation req :: "string \<Rightarrow> rule \<Rightarrow> property" where
  "req name rule \<equiv> (name, False, rule)"

abbreviation opt :: "string \<Rightarrow> rule \<Rightarrow> property" where
  "opt name rule \<equiv> (name, True, rule)"

section \<open>Reading the validated object\<close>

definition text_at :: "jobject \<Rightarrow> string \<Rightarrow> string option" where
  "text_at fs k = (case map_of fs k of Some (JStr s) \<Rightarrow> Some s | _ \<Rightarrow> None)"

definition text_of :: "jobject \<Rightarrow> string \<Rightarrow> string" where
  "text_of fs k = (case text_at fs k of Some s \<Rightarrow> s | None \<Rightarrow> [])"

definition object_at :: "jobject \<Rightarrow> string \<Rightarrow> jobject option" where
  "object_at fs k = (case map_of fs k of Some (JObj o') \<Rightarrow> Some o' | _ \<Rightarrow> None)"

definition int_at :: "jobject \<Rightarrow> string \<Rightarrow> int option" where
  "int_at fs k = (case map_of fs k of Some (JInt n) \<Rightarrow> Some n | _ \<Rightarrow> None)"

definition asset_at :: "jobject \<Rightarrow> string \<Rightarrow> SettlementAsset option" where
  "asset_at fs k = (case text_at fs k of None \<Rightarrow> None | Some s \<Rightarrow> asset_of_text s)"

definition asset_in :: "jobject \<Rightarrow> string \<Rightarrow> SettlementAsset" where
  "asset_in fs k = (case asset_at fs k of Some a \<Rightarrow> a | None \<Rightarrow> USDC)"

abbreviation assets :: "string list" where
  "assets \<equiv> [''USDC'', ''USDT'']"

section \<open>Payouts\<close>

definition createPayout_props :: "Formats \<Rightarrow> property list" where
  "createPayout_props fm =
     [req ''externalId'' (\<lambda>j. isString j \<and> maxLength 120 j \<and> onText external_id_format j),
      req ''amount'' (\<lambda>j. isString j \<and> onText amount_format j),
      req ''asset'' (isIn assets),
      req ''beneficiaryAddress'' (onText (fm_isEthereumAddress fm)),
      opt ''beneficiaryName'' (maxLength 120), opt ''chainFlowRequestId'' (maxLength 120), opt ''memo'' (maxLength 500),
      opt ''metadata'' isObject, opt ''executeImmediately'' isBoolean]"

definition parse_CreatePayoutDto :: "Formats \<Rightarrow> jobject \<Rightarrow> exn + CreatePayoutDto" where
  "parse_CreatePayoutDto fm body = map_sum id (\<lambda>fs.
     \<lparr>cpd_externalId = text_of fs ''externalId'', cpd_amount = text_of fs ''amount'', cpd_asset = asset_in fs ''asset'',
      cpd_beneficiaryAddress = text_of fs ''beneficiaryAddress'', cpd_beneficiaryName = text_at fs ''beneficiaryName'',
      cpd_chainFlowRequestId = text_at fs ''chainFlowRequestId'', cpd_memo = text_at fs ''memo'',
      cpd_metadata = object_at fs ''metadata'',
      cpd_executeImmediately = (map_of fs ''executeImmediately'' = Some (JBool True))\<rparr>)
     (validation_pipe (createPayout_props fm) body)"

definition authorizePayout_props :: "property list" where
  "authorizePayout_props =
     [opt ''approvedBy'' (maxLength 120), opt ''riskDecisionId'' (maxLength 120), opt ''notes'' (maxLength 500)]"

definition authorize_of :: "jobject \<Rightarrow> AuthorizePayoutDto" where
  "authorize_of fs = \<lparr>apd_approvedBy = text_at fs ''approvedBy'', apd_riskDecisionId = text_at fs ''riskDecisionId'',
     apd_notes = text_at fs ''notes''\<rparr>"

definition parse_AuthorizePayoutDto :: "jobject \<Rightarrow> exn + AuthorizePayoutDto" where
  "parse_AuthorizePayoutDto body = map_sum id authorize_of (validation_pipe authorizePayout_props body)"

definition payoutIds_rule :: rule where
  "payoutIds_rule j = (case j of JArr vs \<Rightarrow> vs \<noteq> [] \<and> length vs \<le> 256 \<and> list_all isString vs | _ \<Rightarrow> False)"

definition texts_at :: "jobject \<Rightarrow> string \<Rightarrow> string list" where
  "texts_at fs k = (case map_of fs k of
     Some (JArr vs) \<Rightarrow> map (\<lambda>j. case j of JStr s \<Rightarrow> s | _ \<Rightarrow> []) vs | _ \<Rightarrow> [])"

definition parse_BatchAuthorizePayoutDto :: "jobject \<Rightarrow> exn + string list \<times> AuthorizePayoutDto" where
  "parse_BatchAuthorizePayoutDto body = map_sum id (\<lambda>fs. (texts_at fs ''payoutIds'', authorize_of fs))
     (validation_pipe (authorizePayout_props @ [req ''payoutIds'' payoutIds_rule]) body)"

section \<open>Query parameters\<close>

text \<open>
  \<^verbatim>\<open>@Type(() => Number)\<close> turns the text into a number before the checks, \<^verbatim>\<open>@Type(() => Boolean)\<close> into
  \<^verbatim>\<open>Boolean(text)\<close>, which is true for every text but the empty one.
\<close>

definition to_number :: "json \<Rightarrow> json" where
  "to_number j = (case j of JStr s \<Rightarrow> (case integer_of (jsNumber s) of Some n \<Rightarrow> JInt n | None \<Rightarrow> JFrac s) | _ \<Rightarrow> j)"

definition to_boolean :: "json \<Rightarrow> json" where
  "to_boolean j = (case j of JStr s \<Rightarrow> JBool (s \<noteq> []) | _ \<Rightarrow> j)"

definition convert :: "(string \<times> (json \<Rightarrow> json)) list \<Rightarrow> jobject \<Rightarrow> jobject" where
  "convert cs fs = map (\<lambda>(k, v). (k, case map_of cs k of Some f \<Rightarrow> f v | None \<Rightarrow> v)) fs"

definition paging :: "(string \<times> (json \<Rightarrow> json)) list" where
  "paging = [(''limit'', to_number), (''offset'', to_number)]"

definition nat_at :: "jobject \<Rightarrow> string \<Rightarrow> nat option" where
  "nat_at fs k = map_option nat (int_at fs k)"

definition or_default :: "nat \<Rightarrow> nat option \<Rightarrow> nat option" where
  "or_default d v = (case v of None \<Rightarrow> Some d | Some n \<Rightarrow> Some n)"

definition payout_statuses :: "(string \<times> PayoutStatus) list" where
  "payout_statuses = map (\<lambda>s. (payout_status_text s, s)) [Prepared, Authorized, Broadcasted, Confirmed, Failed]"

definition parse_ListPayoutsQueryDto :: "jobject \<Rightarrow> exn + PayoutFilters" where
  "parse_ListPayoutsQueryDto params = map_sum id (\<lambda>fs.
     \<lparr>pf_clientId = None, pf_status = map_of payout_statuses (text_of fs ''status''),
      pf_externalId = text_at fs ''externalId'', pf_limit = or_default 100 (nat_at fs ''limit''),
      pf_offset = or_default 0 (nat_at fs ''offset'')\<rparr>)
     (validation_pipe
        [opt ''status'' (isIn (map fst payout_statuses)), opt ''externalId'' (maxLength 120),
         opt ''limit'' (isIntBetween 1 1000), opt ''offset'' (isIntFrom 0)]
        (convert paging params))"

definition payin_statuses :: "(string \<times> PayInStatus) list" where
  "payin_statuses = map (\<lambda>s. (payin_status_text s, s))
     [PiPending, PiDetected, PiConfirmed, PiExpired, PiUnderpaid, PiOverpaid]"

definition parse_ListPayInsQueryDto :: "jobject \<Rightarrow> exn + PayInFilters" where
  "parse_ListPayInsQueryDto params = map_sum id (\<lambda>fs.
     \<lparr>pif_clientId = None, pif_status = map_of payin_statuses (text_of fs ''status''),
      pif_externalId = text_at fs ''externalId'', pif_limit = or_default 100 (nat_at fs ''limit''),
      pif_offset = or_default 0 (nat_at fs ''offset'')\<rparr>)
     (validation_pipe
        [opt ''status'' (isIn (map fst payin_statuses)), opt ''externalId'' (maxLength 120),
         opt ''limit'' (isIntBetween 1 1000), opt ''offset'' (isIntFrom 0)]
        (convert paging params))"

definition parse_ListSettlementsQueryDto :: "jobject \<Rightarrow> exn + nat option \<times> nat option" where
  "parse_ListSettlementsQueryDto params = map_sum id (\<lambda>fs. (nat_at fs ''limit'', nat_at fs ''offset''))
     (validation_pipe [opt ''limit'' (isIntBetween 1 1000), opt ''offset'' (isIntFrom 0)]
        (convert paging params))"

definition parse_WebhookDeliveriesQueryDto :: "jobject \<Rightarrow> exn + nat option \<times> bool option" where
  "parse_WebhookDeliveriesQueryDto params = map_sum id (\<lambda>fs.
     (nat_at fs ''limit'', case map_of fs ''failed'' of Some (JBool b) \<Rightarrow> Some b | _ \<Rightarrow> None))
     (validation_pipe [opt ''limit'' (isIntBetween 1 500), opt ''failed'' isBoolean]
        (convert [(''limit'', to_number), (''failed'', to_boolean)] params))"

record AuditTrailQuery =
  aq_from :: "timestamp option"
  aq_to :: "timestamp option"
  aq_subjectId :: "string option"
  aq_limit :: "nat option"

definition time_at :: "Formats \<Rightarrow> jobject \<Rightarrow> string \<Rightarrow> timestamp option" where
  "time_at fm fs k = (case text_at fs k of None \<Rightarrow> None | Some s \<Rightarrow> fm_parseISO fm s)"

definition parse_AuditTrailQueryDto :: "Formats \<Rightarrow> jobject \<Rightarrow> exn + AuditTrailQuery" where
  "parse_AuditTrailQueryDto fm params = map_sum id (\<lambda>fs.
     \<lparr>aq_from = time_at fm fs ''from'', aq_to = time_at fm fs ''to'', aq_subjectId = text_at fs ''subjectId'',
      aq_limit = nat_at fs ''limit''\<rparr>)
     (validation_pipe
        [opt ''from'' (onText (\<lambda>s. fm_parseISO fm s \<noteq> None)), opt ''to'' (onText (\<lambda>s. fm_parseISO fm s \<noteq> None)),
         opt ''subjectId'' isString, opt ''limit'' (isIntBetween 1 1000)]
        (convert [(''limit'', to_number)] params))"

section \<open>Pay-ins, settlements, checkout\<close>

definition createPayIn_props :: "property list" where
  "createPayIn_props =
     [req ''externalId'' (\<lambda>j. isString j \<and> maxLength 120 j \<and> onText external_id_format j),
      req ''amount'' (\<lambda>j. isString j \<and> onText amount_format j), req ''asset'' (isIn assets),
      opt ''chainFlowRequestId'' (maxLength 120),
      opt ''collectionMode'' (isIn [mode_text DerivedAddress, mode_text PaymentRouter]),
      opt ''routerInvoiceId'' (onText (hex_format 64)), opt ''expiresInMinutes'' (isIntBetween 1 10080),
      opt ''metadata'' isObject]"

definition parse_CreatePayInDto :: "jobject \<Rightarrow> exn + CreatePayInDto" where
  "parse_CreatePayInDto body = map_sum id (\<lambda>fs.
     \<lparr>cid_externalId = text_of fs ''externalId'', cid_amount = text_of fs ''amount'', cid_asset = asset_in fs ''asset'',
      cid_chainFlowRequestId = text_at fs ''chainFlowRequestId'',
      cid_collectionMode = (case text_at fs ''collectionMode'' of None \<Rightarrow> None
        | Some m \<Rightarrow> Some (if m = mode_text PaymentRouter then PaymentRouter else DerivedAddress)),
      cid_routerInvoiceId = text_at fs ''routerInvoiceId'', cid_expiresInMinutes = int_at fs ''expiresInMinutes'',
      cid_metadata = object_at fs ''metadata''\<rparr>)
     (validation_pipe createPayIn_props body)"

definition parse_SweepPayInDto :: "jobject \<Rightarrow> exn + SweepPayInDto" where
  "parse_SweepPayInDto body = map_sum id (\<lambda>fs. \<lparr>swd_amount = text_at fs ''amount'', swd_notes = text_at fs ''notes''\<rparr>)
     (validation_pipe [opt ''notes'' (maxLength 500), opt ''amount'' (onText amount_format)] body)"

definition parse_AcceptPayInDto :: "jobject \<Rightarrow> exn + string option" where
  "parse_AcceptPayInDto body = map_sum id (\<lambda>fs. text_at fs ''note'')
     (validation_pipe [opt ''note'' (maxLength 500)] body)"

definition parse_TopUpPayInDto :: "jobject \<Rightarrow> exn + string option" where
  "parse_TopUpPayInDto body = map_sum id (\<lambda>fs. text_at fs ''amountAvax'')
     (validation_pipe [opt ''amountAvax'' (onText decimal_format)] body)"

definition parse_TopUpAndSweepDto :: "jobject \<Rightarrow> exn + string option \<times> string option" where
  "parse_TopUpAndSweepDto body = map_sum id (\<lambda>fs. (text_at fs ''amountAvax'', text_at fs ''notes''))
     (validation_pipe [opt ''amountAvax'' (onText decimal_format), opt ''notes'' isString] body)"

definition createSettlement_props :: "property list" where
  "createSettlement_props =
     [req ''externalId'' (\<lambda>j. isString j \<and> maxLength 120 j \<and> onText external_id_format j),
      req ''asset'' (isIn assets), req ''amount'' (\<lambda>j. isString j \<and> onText amount_format j),
      req ''counterparty'' (\<lambda>j. isString j \<and> onText (hex_format 40) j), opt ''metadata'' isObject]"

definition parse_CreateSettlementDto :: "jobject \<Rightarrow> exn + CreateSettlementDto" where
  "parse_CreateSettlementDto body = map_sum id (\<lambda>fs.
     \<lparr>csd_externalId = text_of fs ''externalId'', csd_asset = asset_in fs ''asset'', csd_amount = text_of fs ''amount'',
      csd_counterparty = text_of fs ''counterparty'', csd_metadata = object_at fs ''metadata''\<rparr>)
     (validation_pipe createSettlement_props body)"

definition parse_CreateCheckoutSessionDto :: "jobject \<Rightarrow> exn + CreateCheckoutSessionDto" where
  "parse_CreateCheckoutSessionDto body = map_sum id (\<lambda>fs.
     \<lparr>cs_amount = text_of fs ''amount'', cs_asset = asset_at fs ''asset'', cs_reference = text_at fs ''reference''\<rparr>)
     (validation_pipe
        [req ''amount'' (\<lambda>j. isString j \<and> onText amount_format j), opt ''asset'' (isIn assets),
         opt ''reference'' (maxLength 140)] body)"

section \<open>Clients\<close>

definition parse_CreateClientDto :: "Formats \<Rightarrow> jobject \<Rightarrow> exn + CreateClientDto" where
  "parse_CreateClientDto fm body = map_sum id (\<lambda>fs.
     \<lparr>ccd_name = text_of fs ''name'', ccd_webhookUrl = text_at fs ''webhookUrl'',
      ccd_webhookSecret = text_at fs ''webhookSecret'', ccd_metadata = object_at fs ''metadata''\<rparr>)
     (validation_pipe
        [req ''name'' (\<lambda>j. isString j \<and> isNotEmpty j \<and> maxLength 200 j), opt ''webhookUrl'' (onText (fm_isUrl fm)),
         opt ''webhookSecret'' (maxLength 200), opt ''metadata'' isObject] body)"

text \<open>For the webhook fields an explicit null is a value: it clears the column.\<close>

definition clearable :: "jobject \<Rightarrow> string \<Rightarrow> string option option" where
  "clearable fs k = (case map_of fs k of None \<Rightarrow> None | Some (JStr s) \<Rightarrow> Some (Some s) | Some _ \<Rightarrow> Some None)"

definition parse_UpdateClientDto :: "Formats \<Rightarrow> jobject \<Rightarrow> exn + ClientPatch" where
  "parse_UpdateClientDto fm body = map_sum id (\<lambda>fs.
     \<lparr>cp_name = text_at fs ''name'',
      cp_status = (case text_at fs ''status'' of None \<Rightarrow> None
        | Some s \<Rightarrow> Some (if s = ''active'' then ClActive else ClDisabled)),
      cp_webhookUrl = clearable fs ''webhookUrl'', cp_webhookSecret = clearable fs ''webhookSecret'',
      cp_metadata = object_at fs ''metadata''\<rparr>)
     (validation_pipe
        [opt ''name'' (\<lambda>j. isString j \<and> isNotEmpty j \<and> maxLength 200 j), opt ''status'' (isIn [''active'', ''disabled'']),
         opt ''webhookUrl'' (onText (fm_isUrl fm)), opt ''webhookSecret'' (maxLength 200), opt ''metadata'' isObject] body)"

section \<open>Chain Flow\<close>

definition parse_ChainFlowRetiroDto :: "Formats \<Rightarrow> jobject \<Rightarrow> exn + ChainFlowRetiroDto" where
  "parse_ChainFlowRetiroDto fm body = map_sum id (\<lambda>fs.
     \<lparr>cf_tcTransaccionExterna = text_at fs ''tcTransaccionExterna'', cf_tnMonto = map_of fs ''tnMonto'',
      cf_tnMoneda = map_of fs ''tnMoneda'', cf_tcCuentaDestino = text_at fs ''tcCuentaDestino'',
      cf_tnRetiroPago = map_of fs ''tnRetiroPago'', cf_tnTransferenciaBloque = map_of fs ''tnTransferenciaBloque'',
      cf_tnProcesadorPagos = map_of fs ''tnProcesadorPagos'', cf_idRetiro = text_at fs ''idRetiro'',
      cf_id_retiro = text_at fs ''id_retiro'', cf_externalId = text_at fs ''externalId'', cf_monto = text_at fs ''monto'',
      cf_amount = text_at fs ''amount'', cf_moneda = text_at fs ''moneda'', cf_asset = text_at fs ''asset'',
      cf_wallet = text_at fs ''wallet'', cf_direccionDestino = text_at fs ''direccionDestino'',
      cf_beneficiaryAddress = text_at fs ''beneficiaryAddress'', cf_beneficiario = text_at fs ''beneficiario'',
      cf_metadata = object_at fs ''metadata''\<rparr>)
     (validation_pipe
        [opt ''tcTransaccionExterna'' isString, opt ''tnMonto'' anyValue, opt ''tnMoneda'' anyValue,
         opt ''tcCuentaDestino'' (onText (fm_isEthereumAddress fm)), opt ''tnRetiroPago'' anyValue,
         opt ''tnTransferenciaBloque'' anyValue, opt ''tnProcesadorPagos'' anyValue, opt ''idRetiro'' isString,
         opt ''id_retiro'' isString, opt ''externalId'' isString, opt ''monto'' isString, opt ''amount'' isString,
         opt ''moneda'' isString, opt ''asset'' isString, opt ''wallet'' (onText (fm_isEthereumAddress fm)),
         opt ''direccionDestino'' (onText (fm_isEthereumAddress fm)),
         opt ''beneficiaryAddress'' (onText (fm_isEthereumAddress fm)), opt ''beneficiario'' isString,
         opt ''metadata'' isObject] body)"

definition parse_ChainFlowEstadoRetiroDto :: "jobject \<Rightarrow> exn + ChainFlowEstadoRetiroDto" where
  "parse_ChainFlowEstadoRetiroDto body = map_sum id (\<lambda>fs.
     \<lparr>ce_tcTransaccionExterna = text_at fs ''tcTransaccionExterna'', ce_tnRetiroPago = map_of fs ''tnRetiroPago'',
      ce_tnTransferenciaBloque = map_of fs ''tnTransferenciaBloque'', ce_idRetiro = text_at fs ''idRetiro'',
      ce_id_retiro = text_at fs ''id_retiro'', ce_externalId = text_at fs ''externalId'',
      ce_payoutId = text_at fs ''payoutId''\<rparr>)
     (validation_pipe
        [opt ''tcTransaccionExterna'' isString, opt ''tnRetiroPago'' anyValue, opt ''tnTransferenciaBloque'' anyValue,
         opt ''idRetiro'' isString, opt ''id_retiro'' isString, opt ''externalId'' isString, opt ''payoutId'' isString]
        body)"

end
