(* ===== verification/Sanitizer.thy ===== *)
theory Sanitizer
  imports Types
begin

text \<open>
  \<^verbatim>\<open>src/src/observability/data-sanitizer.ts\<close>: the masking of log data.  \<^verbatim>\<open>toFixed(2)\<close> of a
  non-integral number and \<^verbatim>\<open>decodeURIComponent\<close> are arguments.  The regular expression of
  \<open>sanitizeQueryString\<close> is written out on the segments between \<^verbatim>\<open>&\<close>.
\<close>

definition DEFAULT_WIPED_KEYS :: "string list" where
  "DEFAULT_WIPED_KEYS =
     [''password'', ''accesstoken'', ''clave'', ''pass'', ''certificatepassword'', ''certificate'', ''secret'',
      ''newpassword'', ''connection-string'', ''access_token'', ''apikey'', ''authorization'', ''file'',
      ''databinario'', ''base64'', ''contract'', ''client_secret'']"

definition DEFAULT_PROTECTED_KEYS :: "string list" where
  "DEFAULT_PROTECTED_KEYS =
     [''td'', ''nrotarjeta'', ''track1'', ''track2'', ''cvc'', ''cvv2'', ''numero'', ''card_number'',
      ''security_code'', ''number'', ''numerotarjeta'']"

definition extraKeys :: "(string \<Rightarrow> string option) \<Rightarrow> string \<Rightarrow> string list" where
  "extraKeys pe envVar = filter (\<lambda>k. k \<noteq> []) (map (toLowerCase \<circ> trim)
     (split_on (CHR '','') (case pe envVar of None \<Rightarrow> [] | Some v \<Rightarrow> v)))"

definition wipedKeys :: "(string \<Rightarrow> string option) \<Rightarrow> string list" where
  "wipedKeys pe = DEFAULT_WIPED_KEYS @ extraKeys pe ''LOGGING_WIPED_KEYS'' @
     extraKeys pe ''MIDD_LOG_SENSITIVE_JSON_KEYS''"

definition protectedKeys :: "(string \<Rightarrow> string option) \<Rightarrow> string list" where
  "protectedKeys pe = DEFAULT_PROTECTED_KEYS @ extraKeys pe ''LOGGING_PROTECTED_KEYS''"

definition is_separator :: "char \<Rightarrow> bool" where
  "is_separator c = (c = CHR ''='' \<or> c = CHR ''^'' \<or> c = CHR ''D'')"

text \<open>
  \<^verbatim>\<open>value.search(...) > 0\<close>: a separator at the first position counts as none.  \<open>main_length\<close> is the
  length of the main block.
\<close>

definition main_length :: "string \<Rightarrow> nat" where
  "main_length v =
     (let i = length (takeWhile (\<lambda>c. \<not> is_separator c) v) in if 0 < i then i else length v)"

definition protect :: "string \<Rightarrow> string" where
  "protect v =
     (if length v \<le> 6 then v
      else let n = main_length v; mainBlock = take n v; suffix = drop n v in
        if n \<le> 10 then v
        else take 6 mainBlock @ replicate (n - 10) (CHR ''_'') @ drop (n - 4) mainBlock @ suffix)"

fun sanitizeJson :: "(string \<Rightarrow> string) \<Rightarrow> string list \<Rightarrow> string list \<Rightarrow> json \<Rightarrow> json" where
  "sanitizeJson toFixed wiped prot JNull = JNull"
| "sanitizeJson toFixed wiped prot (JBool b) = JBool b"
| "sanitizeJson toFixed wiped prot (JInt n) = JInt n"
| "sanitizeJson toFixed wiped prot (JFrac s) = JStr (toFixed s)"
| "sanitizeJson toFixed wiped prot (JStr s) = JStr s"
| "sanitizeJson toFixed wiped prot (JArr vs) = JArr (map (sanitizeJson toFixed wiped prot) vs)"
| "sanitizeJson toFixed wiped prot (JObj fs) = JObj (map (\<lambda>(k, v). (k,
     if toLowerCase k \<in> set wiped then JStr ''[WIPED]''
     else if toLowerCase k \<in> set prot then (case v of JStr s \<Rightarrow> JStr (protect s) | _ \<Rightarrow> v)
     else sanitizeJson toFixed wiped prot v)) fs)"

text \<open>One segment: leading equal signs are outside the match, then key and value.\<close>

definition sanitize_segment ::
  "(string \<Rightarrow> string + string) \<Rightarrow> string list \<Rightarrow> string list \<Rightarrow> string \<Rightarrow> string + string" where
  "sanitize_segment decode wiped prot s =
     (let lead = takeWhile (\<lambda>c. c = CHR ''='') s; rest = dropWhile (\<lambda>c. c = CHR ''='') s;
          key = takeWhile (\<lambda>c. c \<noteq> CHR ''='') rest; tail = dropWhile (\<lambda>c. c \<noteq> CHR ''='') rest in
      if tail = [] then Inr s
      else if toLowerCase key \<in> set wiped then Inr (lead @ key @ ''=[WIPED]'')
      else if toLowerCase key \<in> set prot then
        (case decode (tl tail) of Inl m \<Rightarrow> Inl m | Inr v \<Rightarrow> Inr (lead @ key @ ''='' @ protect v))
      else Inr s)"

definition sanitizeQueryString ::
  "(string \<Rightarrow> string + string) \<Rightarrow> string list \<Rightarrow> string list \<Rightarrow> string \<Rightarrow> string + string" where
  "sanitizeQueryString decode wiped prot input =
     map_sum id (join ''&'') (collect (map (sanitize_segment decode wiped prot) (split_on (CHR ''&'') input)))"

section \<open>Lemmas\<close>

lemma main_length_le: "main_length v \<le> length v"
  using length_takeWhile_le by (auto simp: main_length_def Let_def)

lemma length_protect: "length (protect v) = length v"
  using main_length_le [of v] by (auto simp: protect_def Let_def)

text \<open>Position by position: what is masked and what stays.\<close>

lemma nth_protect:
  assumes "k < length v"
  shows "protect v ! k =
    (if 6 < length v \<and> 10 < main_length v \<and> 6 \<le> k \<and> k < main_length v - 4 then CHR ''_'' else v ! k)"
proof (cases "6 < length v \<and> 10 < main_length v")
  case False
  then show ?thesis by (auto simp: protect_def Let_def)
next
  case True
  let ?n = "main_length v"
  have p: "protect v = take 6 v @ replicate (?n - 10) (CHR ''_'') @ drop (?n - 4) (take ?n v) @ drop ?n v"
    using True by (simp add: protect_def Let_def min_def)
  have n: "?n \<le> length v" by (rule main_length_le)
  consider "k < 6" | "6 \<le> k" "k < ?n - 4" | "?n - 4 \<le> k" "k < ?n" | "?n \<le> k" by linarith
  then show ?thesis
  proof cases
    case 1
    then show ?thesis using True by (simp add: p nth_append)
  next
    case 2
    then have "k - 6 < ?n - 10" using True by linarith
    then show ?thesis using 2 True n by (simp add: p nth_append)
  next
    case 3
    then have "\<not> k - 6 < ?n - 10" and "k + 4 - ?n < 4" and "\<not> k < 6" using True by linarith+
    then show ?thesis using 3 True n by (simp add: p nth_append min_def)
  next
    case 4
    then have "\<not> k - 6 < ?n - 10" and "\<not> k + 4 - ?n < 4" and "\<not> k < 6" and "\<not> k < ?n - 4"
      using True by linarith+
    then show ?thesis using 4 True n assms by (simp add: p nth_append min_def)
  qed
qed

lemma main_length_protect: "main_length (protect v) = main_length v"
proof (cases "6 < length v \<and> 10 < main_length v")
  case True
  let ?n = "main_length v" and ?S = "\<lambda>c. \<not> is_separator c"
  have us: "\<not> is_separator (CHR ''_'')" by (simp add: is_separator_def)
  show ?thesis
  proof (cases "takeWhile ?S v = []")
    case none: True
    then have n: "?n = length v" by (simp add: main_length_def)
    have "v \<noteq> []" using True by auto
    then have "protect v ! 0 = v ! 0" and "protect v \<noteq> []"
      using nth_protect [of 0 v] length_protect [of v] by auto
    with none \<open>v \<noteq> []\<close> have "takeWhile ?S (protect v) = []"
      by (cases v; cases "protect v") (auto split: if_splits)
    then show ?thesis using n length_protect [of v] by (simp add: main_length_def)
  next
    case False
    then have n: "?n = length (takeWhile ?S v)" by (simp add: main_length_def Let_def)
    have le: "?n \<le> length v" by (rule main_length_le)
    have "\<not> is_separator (protect v ! k)" if "k < ?n" for k
      using that n le us nth_protect [of k v] set_takeWhileD [of "v ! k" ?S v] takeWhile_nth [of k ?S v]
        nth_mem [of k "takeWhile ?S v"] by auto
    moreover have "is_separator (protect v ! ?n)" if "?n < length v"
    proof -
      have "protect v ! ?n = v ! ?n" using nth_protect [OF that] by auto
      then show ?thesis using that n nth_length_takeWhile [of ?S v] by simp
    qed
    ultimately have "takeWhile ?S (protect v) = take ?n (protect v)"
      by (intro takeWhile_eq_take_P_nth) (simp_all add: length_protect)
    then have "length (takeWhile ?S (protect v)) = ?n" using le by (simp add: length_protect min_def)
    then show ?thesis using True n False by (simp add: main_length_def Let_def)
  qed
next
  case False
  then show ?thesis by (auto simp: protect_def Let_def)
qed

text \<open>Masking twice is masking once.\<close>

lemma protect_idem: "protect (protect v) = protect v"
proof (rule nth_equalityI)
  fix k
  assume "k < length (protect (protect v))"
  then have "k < length v" by (simp add: length_protect)
  then show "protect (protect v) ! k = protect v ! k"
    using nth_protect [of k "protect v"] nth_protect [of k v] by (auto simp: length_protect main_length_protect)
qed (simp add: length_protect)

text \<open>
  No value of a wiped key survives, at any depth that is not below a protected key: \<open>wiped_clean\<close>
  holds of the sanitized value.
\<close>

fun wiped_clean :: "string list \<Rightarrow> string list \<Rightarrow> json \<Rightarrow> bool" where
  "wiped_clean wiped prot (JArr vs) = (\<forall>v\<in>set vs. wiped_clean wiped prot v)"
| "wiped_clean wiped prot (JObj fs) = (\<forall>(k, v)\<in>set fs.
     if toLowerCase k \<in> set wiped then v = JStr ''[WIPED]''
     else toLowerCase k \<in> set prot \<or> wiped_clean wiped prot v)"
| "wiped_clean wiped prot _ = True"

lemma sanitizeJson_clean: "wiped_clean wiped prot (sanitizeJson toFixed wiped prot j)"
  by (induction toFixed wiped prot j rule: sanitizeJson.induct) (auto split: prod.splits)

lemma sanitizeJson_twice:
  "sanitizeJson toFixed wiped prot (sanitizeJson toFixed wiped prot j) = sanitizeJson toFixed wiped prot j"
proof (induction toFixed wiped prot j rule: sanitizeJson.induct)
  case (7 toFixed wiped prot fs)
  then show ?case by (auto simp: protect_idem split: json.splits)
qed auto

text \<open>
  C24: Masking a card number hides exactly the middle of its main block.  The masked text has the
  length of the original; position by position it shows an underscore from the seventh character to
  the fifth from the end of the main block (when the block is longer than ten) and the original
  everywhere else; and masking again changes nothing.
\<close>

theorem protect_masks_middle:
  "length (protect v) = length v \<and> protect (protect v) = protect v \<and>
   map (\<lambda>k. protect v ! k) [0..<length v] =
     map (\<lambda>k. if 6 < length v \<and> 10 < main_length v \<and> 6 \<le> k \<and> k < main_length v - 4 then CHR ''_'' else v ! k)
       [0..<length v]"
  using nth_protect [of _ v] by (simp add: length_protect protect_idem)

text \<open>
  C23: No secret reaches the log: in the sanitized value every field whose key is on the wipe list
  holds the text "[WIPED]", at every depth of objects and arrays that is not inside a field on the
  protect list; and sanitizing a value that was sanitized before changes nothing.
\<close>

theorem sanitizeJson_wipes:
  "wiped_clean wiped prot (sanitizeJson toFixed wiped prot j) \<and>
   sanitizeJson toFixed wiped prot (sanitizeJson toFixed wiped prot j) = sanitizeJson toFixed wiped prot j"
  using sanitizeJson_clean sanitizeJson_twice by blast

end
