(* ===== verification/Mapper.thy ===== *)
theory Mapper
  imports Payins "HOL-Library.Monad_Syntax"
begin

text \<open>
  \<^verbatim>\<open>src/src/database/postgres-mapper.ts\<close> and \<^verbatim>\<open>sql-patch.ts\<close>, with the column lists of the two
  ledgers.  A row maps column names to values; what an \<^verbatim>\<open>INSERT\<close> stores for a record is the zip of
  its column list with its value list.  Reading gives \<open>None\<close> where a column is missing or does not
  hold a value of the type the code casts it to.
\<close>

section \<open>Rows\<close>

datatype sql_value = SqlNull | SqlText string | SqlInt int | SqlTime timestamp | SqlJson json

type_synonym row = "(string \<times> sql_value) list"

definition text_or_null :: "string option \<Rightarrow> sql_value" where
  "text_or_null v = (case v of None \<Rightarrow> SqlNull | Some s \<Rightarrow> SqlText s)"

definition time_or_null :: "timestamp option \<Rightarrow> sql_value" where
  "time_or_null v = (case v of None \<Rightarrow> SqlNull | Some t \<Rightarrow> SqlTime t)"

fun as_text :: "sql_value \<Rightarrow> string option" where
  "as_text (SqlText s) = Some s"
| "as_text _ = None"

fun as_text_null :: "sql_value \<Rightarrow> string option option" where
  "as_text_null (SqlText s) = Some (Some s)"
| "as_text_null SqlNull = Some None"
| "as_text_null _ = None"

fun as_int :: "sql_value \<Rightarrow> int option" where
  "as_int (SqlInt n) = Some n"
| "as_int _ = None"

fun as_time :: "sql_value \<Rightarrow> timestamp option" where
  "as_time (SqlTime t) = Some t"
| "as_time _ = None"

text \<open>\<^verbatim>\<open>toIso\<close>\<close>

fun as_time_null :: "sql_value \<Rightarrow> timestamp option option" where
  "as_time_null (SqlTime t) = Some (Some t)"
| "as_time_null SqlNull = Some None"
| "as_time_null _ = None"

fun as_object :: "sql_value \<Rightarrow> jobject option" where
  "as_object (SqlJson (JObj fs)) = Some fs"
| "as_object SqlNull = Some []"
| "as_object _ = None"

lemma as_text_or_null [simp]: "as_text_null (text_or_null v) = Some v"
  by (cases v) (simp_all add: text_or_null_def)

lemma as_time_or_null [simp]: "as_time_null (time_or_null v) = Some v"
  by (cases v) (simp_all add: time_or_null_def)

definition col :: "row \<Rightarrow> string \<Rightarrow> (sql_value \<Rightarrow> 'v option) \<Rightarrow> 'v option" where
  "col r c cast = (case map_of r c of None \<Rightarrow> None | Some v \<Rightarrow> cast v)"

section \<open>Enumerations as text\<close>

fun of_text :: "('v \<Rightarrow> string) \<Rightarrow> 'v list \<Rightarrow> string \<Rightarrow> 'v option" where
  "of_text f [] s = None"
| "of_text f (v # vs) s = (if f v = s then Some v else of_text f vs s)"

definition payout_statuses :: "PayoutStatus list" where
  "payout_statuses = [Prepared, Authorized, Broadcasted, Confirmed, Failed]"

definition payin_statuses :: "PayInStatus list" where
  "payin_statuses = [PiPending, PiDetected, PiConfirmed, PiExpired, PiUnderpaid, PiOverpaid]"

definition sweep_statuses :: "PayInSweepStatus list" where
  "sweep_statuses = [SwNotRequired, SwPending, SwBroadcasted, SwConfirmed, SwFailed]"

lemma of_text_payout [simp]: "of_text payout_status_text payout_statuses (payout_status_text s) = Some s"
  by (cases s) (simp_all add: payout_statuses_def payout_status_text_def)

lemma of_text_payin [simp]: "of_text payin_status_text payin_statuses (payin_status_text s) = Some s"
  by (cases s) (simp_all add: payin_statuses_def payin_status_text_def)

lemma of_text_sweep [simp]: "of_text sweep_status_text sweep_statuses (sweep_status_text s) = Some s"
  by (cases s) (simp_all add: sweep_statuses_def sweep_status_text_def)

lemma of_text_network [simp]:
  "of_text network_text [AvalancheFuji, AvalancheMainnet] (network_text n) = Some n"
  by (cases n) (simp_all add: network_text_def)

lemma of_text_asset [simp]: "of_text asset_text [USDC, USDT] (asset_text a) = Some a"
  by (cases a) (simp_all add: asset_text_def)

lemma of_text_mode [simp]: "of_text mode_text [DerivedAddress, PaymentRouter] (mode_text m) = Some m"
  by (cases m) (simp_all add: mode_text_def)

section \<open>Payouts\<close>

definition PAYOUT_COLUMNS :: "string list" where
  "PAYOUT_COLUMNS =
     [''id'', ''client_id'', ''external_id'', ''chain_flow_request_id'', ''status'', ''network'', ''chain_id'',
      ''asset'', ''token_address'', ''amount'', ''amount_atomic'', ''beneficiary_address'',
      ''beneficiary_name'', ''treasury_address'', ''transaction_hash'', ''failure_reason'', ''memo'',
      ''metadata'', ''authorized_at'', ''broadcasted_at'', ''confirmed_at'', ''created_at'', ''updated_at'']"

definition payoutToValues :: "PayoutRecord \<Rightarrow> sql_value list" where
  "payoutToValues p =
     [SqlText (po_id p), text_or_null (po_clientId p), SqlText (po_externalId p),
      text_or_null (po_chainFlowRequestId p), SqlText (payout_status_text (po_status p)),
      SqlText (network_text (po_network p)), SqlInt (po_chainId p), SqlText (asset_text (po_asset p)),
      text_or_null (po_tokenAddress p), SqlText (po_amount p), SqlText (po_amountAtomic p),
      SqlText (po_beneficiaryAddress p), text_or_null (po_beneficiaryName p),
      text_or_null (po_treasuryAddress p), text_or_null (po_transactionHash p),
      text_or_null (po_failureReason p), text_or_null (po_memo p), SqlJson (JObj (po_metadata p)),
      time_or_null (po_authorizedAt p), time_or_null (po_broadcastedAt p), time_or_null (po_confirmedAt p),
      SqlTime (po_createdAt p), SqlTime (po_updatedAt p)]"

definition rowToPayout :: "row \<Rightarrow> PayoutRecord option" where
  "rowToPayout r =
     do {
       i \<leftarrow> col r ''id'' as_text;
       clientId \<leftarrow> col r ''client_id'' as_text_null;
       externalId \<leftarrow> col r ''external_id'' as_text;
       requestId \<leftarrow> col r ''chain_flow_request_id'' as_text_null;
       status \<leftarrow> Option.bind (col r ''status'' as_text) (of_text payout_status_text payout_statuses);
       net \<leftarrow> Option.bind (col r ''network'' as_text) (of_text network_text [AvalancheFuji, AvalancheMainnet]);
       chainId \<leftarrow> col r ''chain_id'' as_int;
       asset \<leftarrow> Option.bind (col r ''asset'' as_text) (of_text asset_text [USDC, USDT]);
       token \<leftarrow> col r ''token_address'' as_text_null;
       amount \<leftarrow> col r ''amount'' as_text;
       amountAtomic \<leftarrow> col r ''amount_atomic'' as_text;
       beneficiary \<leftarrow> col r ''beneficiary_address'' as_text;
       beneficiaryName \<leftarrow> col r ''beneficiary_name'' as_text_null;
       treasury \<leftarrow> col r ''treasury_address'' as_text_null;
       hash \<leftarrow> col r ''transaction_hash'' as_text_null;
       reason \<leftarrow> col r ''failure_reason'' as_text_null;
       memo \<leftarrow> col r ''memo'' as_text_null;
       metadata \<leftarrow> col r ''metadata'' as_object;
       authorizedAt \<leftarrow> col r ''authorized_at'' as_time_null;
       broadcastedAt \<leftarrow> col r ''broadcasted_at'' as_time_null;
       confirmedAt \<leftarrow> col r ''confirmed_at'' as_time_null;
       createdAt \<leftarrow> col r ''created_at'' as_time;
       updatedAt \<leftarrow> col r ''updated_at'' as_time;
       Some \<lparr>po_id = i, po_clientId = clientId, po_externalId = externalId,
             po_chainFlowRequestId = requestId, po_status = status, po_network = net, po_chainId = chainId,
             po_asset = asset, po_tokenAddress = token, po_amount = amount, po_amountAtomic = amountAtomic,
             po_beneficiaryAddress = beneficiary, po_beneficiaryName = beneficiaryName,
             po_treasuryAddress = treasury, po_transactionHash = hash, po_failureReason = reason,
             po_memo = memo, po_metadata = metadata, po_createdAt = createdAt, po_updatedAt = updatedAt,
             po_authorizedAt = authorizedAt, po_broadcastedAt = broadcastedAt, po_confirmedAt = confirmedAt\<rparr>
     }"

section \<open>Pay-ins\<close>

definition PAYIN_COLUMNS :: "string list" where
  "PAYIN_COLUMNS =
     [''id'', ''client_id'', ''external_id'', ''chain_flow_request_id'', ''status'', ''network'', ''chain_id'',
      ''asset'', ''token_address'', ''collection_mode'', ''deposit_address'', ''derivation_index'',
      ''router_address'', ''router_invoice_id'', ''expected_amount'', ''expected_amount_atomic'',
      ''received_amount'', ''received_amount_atomic'', ''sweep_status'', ''sweep_tx_hash'', ''swept_amount'',
      ''swept_amount_atomic'', ''swept_at'', ''sweep_failure_reason'', ''start_block'', ''last_scanned_block'',
      ''expires_at'', ''accepted_at'', ''acceptance_note'', ''metadata'', ''transfers'', ''detected_at'',
      ''confirmed_at'', ''created_at'', ''updated_at'']"

definition transfer_json :: "PayInTransferRecord \<Rightarrow> json" where
  "transfer_json t = JObj
     [(''hash'', JStr (tr_hash t)), (''logIndex'', jopt (tr_logIndex t)), (''from'', JStr (tr_from t)),
      (''to'', JStr (tr_to t)), (''amount'', JStr (tr_amount t)), (''amountAtomic'', JStr (tr_amountAtomic t)),
      (''blockNumber'', JStr (tr_blockNumber t))]"

definition json_text :: "jobject \<Rightarrow> string \<Rightarrow> string option" where
  "json_text fs k = (case map_of fs k of Some (JStr s) \<Rightarrow> Some s | _ \<Rightarrow> None)"

definition json_transfer :: "json \<Rightarrow> PayInTransferRecord option" where
  "json_transfer j =
     (case j of JObj fs \<Rightarrow>
        do {
          hash \<leftarrow> json_text fs ''hash'';
          from' \<leftarrow> json_text fs ''from'';
          to \<leftarrow> json_text fs ''to'';
          amount \<leftarrow> json_text fs ''amount'';
          amountAtomic \<leftarrow> json_text fs ''amountAtomic'';
          block \<leftarrow> json_text fs ''blockNumber'';
          Some \<lparr>tr_hash = hash, tr_logIndex = json_text fs ''logIndex'', tr_from = from', tr_to = to,
                tr_amount = amount, tr_amountAtomic = amountAtomic, tr_blockNumber = block\<rparr>
        }
      | _ \<Rightarrow> None)"

lemma json_transfer_json [simp]: "json_transfer (transfer_json t) = Some t"
  by (cases t; cases "tr_logIndex t") (simp_all add: json_transfer_def json_text_def transfer_json_def jopt_def)

fun all_some :: "'v option list \<Rightarrow> 'v list option" where
  "all_some [] = Some []"
| "all_some (v # vs) = (case v of None \<Rightarrow> None | Some x \<Rightarrow> map_option ((#) x) (all_some vs))"

lemma all_some_map [simp]: "all_some (map Some xs) = Some xs"
  by (induction xs) auto

fun as_transfers :: "sql_value \<Rightarrow> PayInTransferRecord list option" where
  "as_transfers (SqlJson (JArr vs)) = all_some (map json_transfer vs)"
| "as_transfers SqlNull = Some []"
| "as_transfers _ = None"

lemma as_transfers_json [simp]: "as_transfers (SqlJson (JArr (map transfer_json ts))) = Some ts"
  by (simp add: comp_def)

definition payInToValues :: "PayInRecord \<Rightarrow> sql_value list" where
  "payInToValues p =
     [SqlText (pi_id p), text_or_null (pi_clientId p), SqlText (pi_externalId p),
      text_or_null (pi_chainFlowRequestId p), SqlText (payin_status_text (pi_status p)),
      SqlText (network_text (pi_network p)), SqlInt (pi_chainId p), SqlText (asset_text (pi_asset p)),
      text_or_null (pi_tokenAddress p), SqlText (mode_text (pi_collectionMode p)),
      SqlText (pi_depositAddress p), SqlInt (pi_derivationIndex p), text_or_null (pi_routerAddress p),
      text_or_null (pi_routerInvoiceId p), SqlText (pi_expectedAmount p), SqlText (pi_expectedAmountAtomic p),
      SqlText (pi_receivedAmount p), SqlText (pi_receivedAmountAtomic p),
      SqlText (sweep_status_text (pi_sweepStatus p)), text_or_null (pi_sweepTransactionHash p),
      SqlText (pi_sweptAmount p), SqlText (pi_sweptAmountAtomic p), time_or_null (pi_sweptAt p),
      text_or_null (pi_sweepFailureReason p), SqlText (pi_startBlock p), text_or_null (pi_lastScannedBlock p),
      time_or_null (pi_expiresAt p), time_or_null (pi_acceptedAt p), text_or_null (pi_acceptanceNote p),
      SqlJson (JObj (pi_metadata p)), SqlJson (JArr (map transfer_json (pi_transfers p))),
      time_or_null (pi_detectedAt p), time_or_null (pi_confirmedAt p),
      SqlTime (pi_createdAt p), SqlTime (pi_updatedAt p)]"

definition rowToPayIn :: "row \<Rightarrow> PayInRecord option" where
  "rowToPayIn r =
     do {
       i \<leftarrow> col r ''id'' as_text;
       clientId \<leftarrow> col r ''client_id'' as_text_null;
       externalId \<leftarrow> col r ''external_id'' as_text;
       requestId \<leftarrow> col r ''chain_flow_request_id'' as_text_null;
       status \<leftarrow> Option.bind (col r ''status'' as_text) (of_text payin_status_text payin_statuses);
       net \<leftarrow> Option.bind (col r ''network'' as_text) (of_text network_text [AvalancheFuji, AvalancheMainnet]);
       chainId \<leftarrow> col r ''chain_id'' as_int;
       asset \<leftarrow> Option.bind (col r ''asset'' as_text) (of_text asset_text [USDC, USDT]);
       token \<leftarrow> col r ''token_address'' as_text_null;
       mode \<leftarrow> Option.bind (col r ''collection_mode'' as_text) (of_text mode_text [DerivedAddress, PaymentRouter]);
       deposit \<leftarrow> col r ''deposit_address'' as_text;
       index \<leftarrow> col r ''derivation_index'' as_int;
       router \<leftarrow> col r ''router_address'' as_text_null;
       invoice \<leftarrow> col r ''router_invoice_id'' as_text_null;
       expected \<leftarrow> col r ''expected_amount'' as_text;
       expectedAtomic \<leftarrow> col r ''expected_amount_atomic'' as_text;
       received \<leftarrow> col r ''received_amount'' as_text;
       receivedAtomic \<leftarrow> col r ''received_amount_atomic'' as_text;
       sweep \<leftarrow> Option.bind (col r ''sweep_status'' as_text) (of_text sweep_status_text sweep_statuses);
       sweepHash \<leftarrow> col r ''sweep_tx_hash'' as_text_null;
       swept \<leftarrow> col r ''swept_amount'' as_text;
       sweptAtomic \<leftarrow> col r ''swept_amount_atomic'' as_text;
       sweptAt \<leftarrow> col r ''swept_at'' as_time_null;
       sweepReason \<leftarrow> col r ''sweep_failure_reason'' as_text_null;
       startBlock \<leftarrow> col r ''start_block'' as_text;
       lastBlock \<leftarrow> col r ''last_scanned_block'' as_text_null;
       expiresAt \<leftarrow> col r ''expires_at'' as_time_null;
       acceptedAt \<leftarrow> col r ''accepted_at'' as_time_null;
       note' \<leftarrow> col r ''acceptance_note'' as_text_null;
       metadata \<leftarrow> col r ''metadata'' as_object;
       transfers \<leftarrow> col r ''transfers'' as_transfers;
       detectedAt \<leftarrow> col r ''detected_at'' as_time_null;
       confirmedAt \<leftarrow> col r ''confirmed_at'' as_time_null;
       createdAt \<leftarrow> col r ''created_at'' as_time;
       updatedAt \<leftarrow> col r ''updated_at'' as_time;
       Some \<lparr>pi_id = i, pi_clientId = clientId, pi_externalId = externalId, pi_chainFlowRequestId = requestId,
             pi_status = status, pi_network = net, pi_chainId = chainId, pi_asset = asset,
             pi_tokenAddress = token, pi_expectedAmount = expected, pi_expectedAmountAtomic = expectedAtomic,
             pi_receivedAmount = received, pi_receivedAmountAtomic = receivedAtomic,
             pi_depositAddress = deposit, pi_derivationIndex = index, pi_collectionMode = mode,
             pi_routerAddress = router, pi_routerInvoiceId = invoice, pi_startBlock = startBlock,
             pi_lastScannedBlock = lastBlock, pi_expiresAt = expiresAt, pi_metadata = metadata,
             pi_transfers = transfers, pi_sweepStatus = sweep, pi_sweepTransactionHash = sweepHash,
             pi_sweptAmount = swept, pi_sweptAmountAtomic = sweptAtomic, pi_sweptAt = sweptAt,
             pi_sweepFailureReason = sweepReason, pi_createdAt = createdAt, pi_updatedAt = updatedAt,
             pi_detectedAt = detectedAt, pi_confirmedAt = confirmedAt, pi_acceptedAt = acceptedAt,
             pi_acceptanceNote = note'\<rparr>
     }"

section \<open>Partial updates\<close>

record PatchColumn =
  pc_column :: string
  pc_json :: bool

text \<open>
  The loop of \<^verbatim>\<open>buildPatchSet\<close>: the fragments and the parameter values so far.  An entry whose
  value is \<open>None\<close> is \<^verbatim>\<open>undefined\<close> and skipped; a key outside the whitelist throws.
\<close>

fun build_sets ::
  "(string \<times> sql_value option) list \<Rightarrow> (string \<times> PatchColumn) list \<Rightarrow> string list \<times> sql_value list \<Rightarrow>
   exn + string list \<times> sql_value list" where
  "build_sets [] columns acc = Inr acc"
| "build_sets ((key, v) # patch) columns (sets, vals) =
     (case v of None \<Rightarrow> build_sets patch columns (sets, vals)
      | Some val \<Rightarrow> (case map_of columns key of
          None \<Rightarrow> Inl (JsError (''Unsupported patch field \"'' @ key @ ''\".''))
        | Some mapping \<Rightarrow> build_sets patch columns
            (sets @ [pc_column mapping @ '' = $'' @ show_nat (Suc (length vals)) @
                     (if pc_json mapping then ''::jsonb'' else [])],
             vals @ [val])))"

definition buildPatchSet ::
  "(string \<times> sql_value option) list \<Rightarrow> (string \<times> PatchColumn) list \<Rightarrow> sql_value list \<Rightarrow>
   exn + string \<times> sql_value list" where
  "buildPatchSet patch columns vals =
     map_sum id (\<lambda>(sets, vs). (join '', '' (sets @ [''updated_at = now()'']), vs))
       (build_sets patch columns ([], vals))"

section \<open>Lemmas\<close>

text \<open>The entries of a patch that are defined, and the fragment each gives.\<close>

definition defined_entries :: "(string \<times> sql_value option) list \<Rightarrow> (string \<times> sql_value) list" where
  "defined_entries patch = List.map_filter (\<lambda>(k, v). map_option (Pair k) v) patch"

definition fragment :: "(string \<times> PatchColumn) list \<Rightarrow> nat \<Rightarrow> string \<Rightarrow> string" where
  "fragment columns n key = pc_column (the (map_of columns key)) @ '' = $'' @ show_nat n @
     (if pc_json (the (map_of columns key)) then ''::jsonb'' else [])"

lemma defined_entries_simps [simp]:
  "defined_entries [] = []"
  "defined_entries ((k, None) # patch) = defined_entries patch"
  "defined_entries ((k, Some v) # patch) = (k, v) # defined_entries patch"
  by (simp_all add: defined_entries_def map_filter_simps)

lemma build_sets_spec:
  "build_sets patch columns (sets, vals) =
     (case find (\<lambda>(k, v). map_of columns k = None) (defined_entries patch) of
        Some (k, v) \<Rightarrow> Inl (JsError (''Unsupported patch field \"'' @ k @ ''\".''))
      | None \<Rightarrow> Inr (sets @ map (\<lambda>(j, k, v). fragment columns (Suc (length vals + j)) k)
                            (enumerate 0 (defined_entries patch)),
                     vals @ map snd (defined_entries patch)))"
proof (induction patch columns "(sets, vals)" arbitrary: sets vals rule: build_sets.induct)
  case (2 key v patch columns sets vals)
  show ?case
  proof (cases v)
    case None
    then show ?thesis using "2.hyps"(1) by (simp split: option.splits)
  next
    case (Some val)
    show ?thesis
    proof (cases "map_of columns key")
      case None
      then show ?thesis using Some by simp
    next
      case (Some mapping)
      have shift: "map (\<lambda>(j, k, v). fragment columns (Suc (length vals + j)) k) (enumerate (Suc 0) es) =
          map (\<lambda>(j, k, v). fragment columns (Suc (Suc (length vals) + j)) k) (enumerate 0 es)"
        for es :: "(string \<times> sql_value) list"
        by (rule nth_equalityI) (auto simp: nth_enumerate_eq split: prod.splits)
      show ?thesis
        using "2.hyps"(2) [OF \<open>v = Some val\<close> Some] \<open>v = Some val\<close> Some
        by (simp add: shift fragment_def [of columns "Suc (length vals)"] split: option.splits)
    qed
  qed
qed simp

lemma payout_row: "rowToPayout (zip PAYOUT_COLUMNS (payoutToValues p)) = Some p"
  by (cases p) (simp add: rowToPayout_def PAYOUT_COLUMNS_def payoutToValues_def col_def del: of_text.simps)

lemma payin_row: "rowToPayIn (zip PAYIN_COLUMNS (payInToValues q)) = Some q"
  by (cases q) (simp add: rowToPayIn_def PAYIN_COLUMNS_def payInToValues_def col_def del: as_transfers.simps of_text.simps)

text \<open>
  C21: Storing a record and reading the row back gives the same record.  For a payout the column list
  of the ledger, the value list of the insert and the reader agree on all 23 columns, and for a
  pay-in on all 35, the JSON list of transfers included.
\<close>

theorem ledger_rows_roundtrip:
  "rowToPayout (zip PAYOUT_COLUMNS (payoutToValues p)) = Some p \<and>
   rowToPayIn (zip PAYIN_COLUMNS (payInToValues q)) = Some q"
  by (simp add: payout_row payin_row)


end
