(* ===== verification/Wire.thy ===== *)
theory Wire
  imports Mapper Service Reports Status
begin

text \<open>
  The bodies of the answers: what \<^verbatim>\<open>JSON.stringify\<close> makes of the objects the controllers return
  (the response types of the \<^verbatim>\<open>*.types.ts\<close> files and the object literals of the services).  An
  undefined property is left out, a null one is sent as null, a date is its ISO text.
\<close>

definition json_if :: "string \<Rightarrow> json option \<Rightarrow> jobject" where
  "json_if name v = (case v of None \<Rightarrow> [] | Some j \<Rightarrow> [(name, j)])"

abbreviation text_if :: "string \<Rightarrow> string option \<Rightarrow> jobject" where
  "text_if name v \<equiv> json_if name (map_option JStr v)"

definition audit_type_text :: "AuditEventType \<Rightarrow> string" where
  "audit_type_text t =
     (case t of PAYOUT_PREPARED \<Rightarrow> ''PAYOUT_PREPARED'' | PAYOUT_IDEMPOTENT_REPLAY \<Rightarrow> ''PAYOUT_IDEMPOTENT_REPLAY''
      | PAYOUT_AUTHORIZED \<Rightarrow> ''PAYOUT_AUTHORIZED'' | PAYOUT_BROADCASTED \<Rightarrow> ''PAYOUT_BROADCASTED''
      | PAYOUT_CONFIRMED \<Rightarrow> ''PAYOUT_CONFIRMED'' | PAYOUT_FAILED \<Rightarrow> ''PAYOUT_FAILED''
      | PAYOUT_RECONCILED \<Rightarrow> ''PAYOUT_RECONCILED'' | PAYIN_CREATED \<Rightarrow> ''PAYIN_CREATED''
      | PAYIN_RECONCILED \<Rightarrow> ''PAYIN_RECONCILED'' | PAYIN_SWEPT \<Rightarrow> ''PAYIN_SWEPT''
      | PAYIN_SWEEP_FAILED \<Rightarrow> ''PAYIN_SWEEP_FAILED'' | PAYIN_ACCEPTED \<Rightarrow> ''PAYIN_ACCEPTED''
      | PAYIN_TOPUP \<Rightarrow> ''PAYIN_TOPUP'' | PRIVATE_SETTLEMENT_RECORDED \<Rightarrow> ''PRIVATE_SETTLEMENT_RECORDED''
      | PRIVATE_SETTLEMENT_REVEALED \<Rightarrow> ''PRIVATE_SETTLEMENT_REVEALED'')"

section \<open>Payouts and pay-ins\<close>

text \<open>\<^verbatim>\<open>idempotentReplay || undefined\<close> and the audit trail, the same for both.\<close>

definition response_tail :: "bool \<Rightarrow> TrailItem list \<Rightarrow> jobject" where
  "response_tail replay trail =
     json_if ''idempotentReplay'' (if replay then Some (JBool True) else None) @
     [(''auditTrail'', JArr (map (\<lambda>i. JObj [(''type'', JStr (audit_type_text (ti_type i))),
         (''createdAt'', jdate (ti_createdAt i)), (''correlationId'', jopt (ti_correlationId i))]) trail))]"

definition payout_fields :: "PayoutRecord \<Rightarrow> jobject" where
  "payout_fields r =
     [(''id'', JStr (po_id r)), (''clientId'', jopt (po_clientId r)), (''externalId'', JStr (po_externalId r)),
      (''chainFlowRequestId'', jopt (po_chainFlowRequestId r)),
      (''status'', JStr (payout_status_text (po_status r))), (''network'', JStr (network_text (po_network r))),
      (''chainId'', JInt (po_chainId r)), (''asset'', JStr (asset_text (po_asset r))),
      (''tokenAddress'', jopt (po_tokenAddress r)), (''amount'', JStr (po_amount r)),
      (''amountAtomic'', JStr (po_amountAtomic r)), (''beneficiaryAddress'', JStr (po_beneficiaryAddress r)),
      (''beneficiaryName'', jopt (po_beneficiaryName r)), (''treasuryAddress'', jopt (po_treasuryAddress r)),
      (''transactionHash'', jopt (po_transactionHash r)), (''failureReason'', jopt (po_failureReason r)),
      (''memo'', jopt (po_memo r)), (''metadata'', JObj (po_metadata r)), (''createdAt'', jdate (po_createdAt r)),
      (''updatedAt'', jdate (po_updatedAt r)), (''authorizedAt'', jtime (po_authorizedAt r)),
      (''broadcastedAt'', jtime (po_broadcastedAt r)), (''confirmedAt'', jtime (po_confirmedAt r))]"

definition payout_json :: "PayoutResponse \<Rightarrow> json" where
  "payout_json p = JObj (payout_fields (por_record p) @ response_tail (por_idempotentReplay p) (por_auditTrail p))"

definition payin_fields :: "PayInRecord \<Rightarrow> jobject" where
  "payin_fields r =
     [(''id'', JStr (pi_id r)), (''clientId'', jopt (pi_clientId r)), (''externalId'', JStr (pi_externalId r)),
      (''chainFlowRequestId'', jopt (pi_chainFlowRequestId r)),
      (''status'', JStr (payin_status_text (pi_status r))), (''network'', JStr (network_text (pi_network r))),
      (''chainId'', JInt (pi_chainId r)), (''asset'', JStr (asset_text (pi_asset r))),
      (''tokenAddress'', jopt (pi_tokenAddress r)), (''expectedAmount'', JStr (pi_expectedAmount r)),
      (''expectedAmountAtomic'', JStr (pi_expectedAmountAtomic r)), (''receivedAmount'', JStr (pi_receivedAmount r)),
      (''receivedAmountAtomic'', JStr (pi_receivedAmountAtomic r)),
      (''depositAddress'', JStr (pi_depositAddress r)), (''derivationIndex'', JInt (pi_derivationIndex r)),
      (''collectionMode'', JStr (mode_text (pi_collectionMode r))),
      (''routerAddress'', jopt (pi_routerAddress r)), (''routerInvoiceId'', jopt (pi_routerInvoiceId r)),
      (''startBlock'', JStr (pi_startBlock r)), (''lastScannedBlock'', jopt (pi_lastScannedBlock r)),
      (''expiresAt'', jtime (pi_expiresAt r)), (''metadata'', JObj (pi_metadata r)),
      (''transfers'', JArr (map transfer_json (pi_transfers r))),
      (''sweepStatus'', JStr (sweep_status_text (pi_sweepStatus r))),
      (''sweepTransactionHash'', jopt (pi_sweepTransactionHash r)), (''sweptAmount'', JStr (pi_sweptAmount r)),
      (''sweptAmountAtomic'', JStr (pi_sweptAmountAtomic r)), (''sweptAt'', jtime (pi_sweptAt r)),
      (''sweepFailureReason'', jopt (pi_sweepFailureReason r)), (''createdAt'', jdate (pi_createdAt r)),
      (''updatedAt'', jdate (pi_updatedAt r)), (''detectedAt'', jtime (pi_detectedAt r)),
      (''confirmedAt'', jtime (pi_confirmedAt r)), (''acceptedAt'', jtime (pi_acceptedAt r)),
      (''acceptanceNote'', jopt (pi_acceptanceNote r))]"

definition payin_json :: "PayInResponse \<Rightarrow> json" where
  "payin_json p = JObj (payin_fields (pir_record p) @ response_tail (pir_idempotentReplay p) (pir_auditTrail p))"

section \<open>Settlements and clients\<close>

definition settlement_status_text :: "PrivateSettlementStatus \<Rightarrow> string" where
  "settlement_status_text s = (case s of StRecorded \<Rightarrow> ''recorded'' | StRevealed \<Rightarrow> ''revealed'')"

definition settlement_json :: "PrivateSettlementResponse \<Rightarrow> json" where
  "settlement_json r = JObj
     ([(''id'', JStr (psr_id r)), (''clientId'', jopt (psr_clientId r)), (''externalId'', JStr (psr_externalId r)),
       (''settlementId'', JStr (psr_settlementId r)), (''settlementRef'', JStr (psr_settlementRef r)),
       (''commitment'', JStr (psr_commitment r)), (''asset'', JStr (asset_text (psr_asset r))),
       (''tokenAddress'', JStr (psr_tokenAddress r)), (''amount'', JStr (psr_amount r)),
       (''amountAtomic'', JStr (psr_amountAtomic r)), (''counterparty'', JStr (psr_counterparty r)),
       (''status'', JStr (settlement_status_text (psr_status r))),
       (''transactionHash'', jopt (psr_transactionHash r)),
       (''revealTransactionHash'', jopt (psr_revealTransactionHash r)), (''metadata'', JObj (psr_metadata r)),
       (''createdAt'', jdate (psr_createdAt r)), (''updatedAt'', jdate (psr_updatedAt r))] @
      json_if ''idempotentReplay'' (if psr_idempotentReplay r then Some (JBool True) else None))"

definition client_status_text :: "ClientStatus \<Rightarrow> string" where
  "client_status_text s = (case s of ClActive \<Rightarrow> ''active'' | ClDisabled \<Rightarrow> ''disabled'')"

definition client_fields :: "ClientResponse \<Rightarrow> jobject" where
  "client_fields c =
     [(''id'', JStr (clr_id c)), (''name'', JStr (clr_name c)), (''status'', JStr (client_status_text (clr_status c))),
      (''apiKeyPrefix'', JStr (clr_apiKeyPrefix c)), (''webhookUrl'', jopt (clr_webhookUrl c)),
      (''metadata'', JObj (clr_metadata c)), (''createdAt'', jdate (clr_createdAt c)),
      (''updatedAt'', jdate (clr_updatedAt c)), (''webhookSecretConfigured'', JBool (clr_webhookSecretConfigured c))]"

definition client_json :: "ClientResponse \<Rightarrow> json" where
  "client_json c = JObj (client_fields c)"

text \<open>\<^verbatim>\<open>{ ...this.toResponse(client), apiKey }\<close>\<close>

definition client_key_json :: "ClientResponse \<times> string \<Rightarrow> json" where
  "client_key_json r = JObj (client_fields (fst r) @ [(''apiKey'', JStr (snd r))])"

section \<open>Checkout\<close>

definition checkout_config_json :: "CheckoutConfig \<Rightarrow> json" where
  "checkout_config_json c = JObj
     [(''network'', JStr (network_text (cc_network c))), (''chainId'', JInt (cc_chainId c)),
      (''networkName'', JStr (cc_networkName c)), (''explorerBaseUrl'', JStr (cc_explorerBaseUrl c)),
      (''demoEnabled'', JBool (cc_demoEnabled c)),
      (''router'', JObj [(''address'', jopt (cc_routerAddress c)), (''configured'', JBool (cc_routerConfigured c))]),
      (''token'', JObj [(''symbol'', JStr (asset_text (cc_tokenSymbol c))), (''address'', jopt (cc_tokenAddress c)),
                        (''decimals'', JInt (cc_tokenDecimals c))])]"

definition session_json :: "CheckoutSessionView \<Rightarrow> json" where
  "session_json v = JObj
     [(''id'', JStr (cv_id v)), (''status'', JStr (payin_status_text (cv_status v))),
      (''asset'', JStr (asset_text (cv_asset v))), (''amount'', JStr (cv_amount v)),
      (''amountAtomic'', JStr (cv_amountAtomic v)), (''receivedAmount'', JStr (cv_receivedAmount v)),
      (''network'', JStr (network_text (cv_network v))), (''chainId'', JInt (cv_chainId v)),
      (''tokenAddress'', jopt (cv_tokenAddress v)), (''routerAddress'', jopt (cv_routerAddress v)),
      (''invoiceId'', jopt (cv_invoiceId v)), (''reference'', jopt (cv_reference v)),
      (''explorerBaseUrl'', JStr (cv_explorerBaseUrl v)),
      (''transactions'', JArr (map (\<lambda>t. JObj [(''hash'', JStr (ct_hash t)), (''amount'', JStr (ct_amount t)),
         (''blockNumber'', JStr (ct_blockNumber t))]) (cv_transactions v))),
      (''createdAt'', jdate (cv_createdAt v)), (''expiresAt'', jtime (cv_expiresAt v)),
      (''detectedAt'', jtime (cv_detectedAt v)), (''confirmedAt'', jtime (cv_confirmedAt v))]"

section \<open>Chain Flow\<close>

definition chain_flow_json :: "ChainFlowResponse \<Rightarrow> json" where
  "chain_flow_json r = JObj
     [(''codigo'', JStr (cfr_codigo r)), (''mensaje'', JStr (cfr_mensaje r)),
      (''tcTransaccionExterna'', JStr (cfr_tcTransaccionExterna r)), (''tnRetiroPago'', cfr_tnRetiroPago r),
      (''tnTransferenciaBloque'', cfr_tnTransferenciaBloque r), (''tnProcesadorPagos'', cfr_tnProcesadorPagos r),
      (''tnMoneda'', cfr_tnMoneda r), (''tcCuentaDestino'', JStr (cfr_tcCuentaDestino r)),
      (''retiroId'', JStr (cfr_retiroId r)), (''payoutId'', JStr (cfr_payoutId r)),
      (''estado'', JStr (payout_status_text (cfr_estado r))), (''estadoChainFlow'', JStr (cfr_estadoChainFlow r)),
      (''txHash'', jopt (cfr_txHash r)), (''red'', JStr (network_text (cfr_red r))),
      (''chainId'', JInt (cfr_chainId r)), (''asset'', JStr (asset_text (cfr_asset r))),
      (''monto'', JStr (cfr_monto r)), (''creadoEn'', jdate (cfr_creadoEn r)),
      (''actualizadoEn'', jdate (cfr_actualizadoEn r))]"

section \<open>Service, treasury and health\<close>

definition network_json :: "NetworkSummary \<Rightarrow> json" where
  "network_json n = JObj
     [(''key'', JStr (network_text (ns_key n))), (''chainId'', JInt (ns_chainId n)), (''name'', JStr (ns_name n)),
      (''nativeTokenSymbol'', JStr (ns_nativeTokenSymbol n)), (''explorerBaseUrl'', JStr (ns_explorerBaseUrl n)),
      (''rpcUrl'', JStr (ns_rpcUrl n))]"

definition metadata_json :: "ServiceMetadata \<Rightarrow> json" where
  "metadata_json m = JObj
     [(''service'', JStr (sm_service m)), (''product'', JStr (sm_product m)), (''role'', JStr (sm_role m)),
      (''version'', JStr (sm_version m)), (''network'', network_json (sm_network m))]"

definition asset_config_json :: "AssetRuntimeConfig \<Rightarrow> json" where
  "asset_config_json a = JObj
     [(''symbol'', JStr (asset_text (ac_symbol a))), (''address'', jopt (ac_address a)),
      (''decimals'', JInt (ac_decimals a)), (''maxPayoutAmount'', jopt (ac_maxPayoutAmount a)),
      (''configured'', JBool (ac_configured a))]"

definition treasury_status_json :: "TreasuryStatus \<Rightarrow> json" where
  "treasury_status_json s = JObj
     [(''service'', JStr (ts_service s)), (''network'', network_json (ts_network s)),
      (''treasury'', JObj [(''configured'', JBool (ts_treasuryConfigured s)), (''address'', jopt (ts_treasuryAddress s))]),
      (''payins'', JObj [(''mnemonicConfigured'', JBool (ts_mnemonicConfigured s)),
         (''derivationAccount'', JInt (ts_derivationAccount s)), (''lookbackBlocks'', JStr (ts_lookbackBlocks s)),
         (''paymentRouterConfigured'', JBool (ts_paymentRouterConfigured s)),
         (''paymentRouterAddress'', jopt (ts_paymentRouterAddress s))]),
      (''settlement'', JObj [(''enabledAssets'', JArr (map asset_config_json (ts_enabledAssets s))),
         (''minConfirmations'', JInt (ts_minConfirmations s)), (''waitForReceipt'', JBool (ts_waitForReceipt s))])]"

definition asset_entry_json :: "AssetEntry \<Rightarrow> json" where
  "asset_entry_json e =
     (case e of
        AssetOk b \<Rightarrow> JObj [(''configured'', JBool True), (''asset'', JStr (asset_text (tb_asset b))),
          (''tokenAddress'', JStr (tb_tokenAddress b)), (''decimals'', JInt (tb_decimals b)),
          (''balanceAtomic'', JStr (tb_balanceAtomic b)), (''balance'', JStr (tb_balance b))]
      | AssetUnavailable a m \<Rightarrow> JObj [(''asset'', JStr (asset_text a)), (''configured'', JBool False), (''error'', JStr m)])"

definition native_entry_json :: "NativeEntry \<Rightarrow> json" where
  "native_entry_json e =
     (case e of
        NativeOk b \<Rightarrow> JObj [(''asset'', JStr ''AVAX''), (''balanceAtomic'', JStr (nb_balanceAtomic b)),
          (''balance'', JStr (nb_balance b))]
      | NativeUnavailable m \<Rightarrow> JObj [(''asset'', JStr ''AVAX''), (''error'', JStr m)])"

definition treasury_balances_json :: "TreasuryBalances \<Rightarrow> json" where
  "treasury_balances_json b = JObj
     [(''network'', network_json (tbs_network b)), (''treasuryAddress'', jopt (tbs_treasuryAddress b)),
      (''native'', native_entry_json (tbs_native b)), (''assets'', JArr (map asset_entry_json (tbs_assets b)))]"

definition liveness_json :: "Liveness \<Rightarrow> json" where
  "liveness_json l = JObj
     [(''status'', JStr (lv_status l)), (''service'', JStr (lv_service l)), (''product'', JStr (lv_product l)),
      (''timestamp'', jdate (lv_timestamp l))]"

definition checks_json :: "Checks \<Rightarrow> json" where
  "checks_json c = JObj
     [(''adminApiKeyConfigured'', JBool (ck_adminApiKeyConfigured c)),
      (''treasuryConfigured'', JBool (ck_treasuryConfigured c)),
      (''payInMnemonicConfigured'', JBool (ck_payInMnemonicConfigured c)),
      (''assetsConfigured'', JBool (ck_assetsConfigured c)), (''databaseReady'', JBool (ck_databaseReady c)),
      (''rpcReachable'', JBool (ck_rpcReachable c))]"

definition readiness_json :: "Readiness \<Rightarrow> json" where
  "readiness_json r = JObj
     [(''status'', JStr (rd_status r)), (''network'', network_json (rd_network r)),
      (''database'', JObj ([(''configured'', JBool (dr_configured (rd_database r))),
         (''reachable'', JBool (dr_reachable (rd_database r)))] @ text_if ''error'' (dr_error (rd_database r)))),
      (''registeredClients'', case rd_registeredClients r of None \<Rightarrow> JNull | Some n \<Rightarrow> JInt (int n)),
      (''checks'', checks_json (rd_checks r)), (''timestamp'', jdate (rd_timestamp r))]"

section \<open>Reports and reconciliation\<close>

definition bucket_json :: "ReportBucket \<Rightarrow> json" where
  "bucket_json b = JObj (map (\<lambda>(k, n). (k, JInt (int n))) b)"

definition volume_json :: "AssetVolume \<Rightarrow> json" where
  "volume_json v = JObj (map (\<lambda>(k, s). (k, JStr s)) v)"

definition summary_json :: "InstitutionalSummaryReport \<Rightarrow> json" where
  "summary_json r = (let outs = ir_payouts r; ins = ir_payins r in JObj
     [(''generatedAt'', jdate (ir_generatedAt r)),
      (''payouts'', JObj [(''count'', JInt (int (py_count outs))), (''byStatus'', bucket_json (py_byStatus outs)),
         (''volumeByAsset'', volume_json (py_volumeByAsset outs))]),
      (''payins'', JObj [(''count'', JInt (int (pn_count ins))), (''byStatus'', bucket_json (pn_byStatus ins)),
         (''byCollectionMode'', bucket_json (pn_byCollectionMode ins)),
         (''bySweepStatus'', bucket_json (pn_bySweepStatus ins)),
         (''expectedVolumeByAsset'', volume_json (pn_expectedVolumeByAsset ins)),
         (''receivedVolumeByAsset'', volume_json (pn_receivedVolumeByAsset ins)),
         (''sweptVolumeByAsset'', volume_json (pn_sweptVolumeByAsset ins))])])"

text \<open>The three listings differ in the name of the list and in its items.\<close>

definition report_json :: "string \<Rightarrow> ('i \<Rightarrow> json) \<Rightarrow> 'i Report \<Rightarrow> json" where
  "report_json name item r = JObj
     [(''generatedAt'', jdate (rp_generatedAt r)), (''count'', JInt (int (rp_count r))),
      (name, JArr (map item (rp_items r)))]"

definition sweep_item_json :: "SweepQueueItem \<Rightarrow> json" where
  "sweep_item_json i = JObj
     [(''id'', JStr (sq_id i)), (''clientId'', jopt (sq_clientId i)), (''externalId'', JStr (sq_externalId i)),
      (''depositAddress'', JStr (sq_depositAddress i)), (''asset'', JStr (sq_asset i)),
      (''receivedAmount'', JStr (sq_receivedAmount i)), (''receivedAmountAtomic'', JStr (sq_receivedAmountAtomic i)),
      (''sweepStatus'', JStr (sq_sweepStatus i)), (''sweepFailureReason'', jopt (sq_sweepFailureReason i)),
      (''confirmedAt'', jtime (sq_confirmedAt i))]"

definition delivery_json :: "WebhookDelivery \<Rightarrow> json" where
  "delivery_json d = JObj
     [(''id'', JStr (wd_id d)), (''event'', JStr (wd_event d)), (''url'', JStr (wd_url d)),
      (''payload'', JObj (wd_payload d)), (''success'', JBool (wd_success d)), (''attempts'', JInt (int (wd_attempts d))),
      (''lastError'', jopt (wd_lastError d)), (''deliveredAt'', jtime (wd_deliveredAt d)),
      (''createdAt'', jdate (wd_createdAt d))]"

definition actor_json :: "AuditActor \<Rightarrow> json" where
  "actor_json a = JObj
     [(''clientId'', jopt (aa_clientId a)), (''actor'', jopt (aa_actor a)),
      (''correlationId'', jopt (aa_correlationId a)), (''sourceIp'', jopt (aa_sourceIp a))]"

definition audit_event_json :: "AuditEvent \<Rightarrow> json" where
  "audit_event_json e = JObj
     [(''id'', JStr (ae_id e)), (''clientId'', jopt (ae_clientId e)), (''type'', JStr (audit_type_text (ae_type e))),
      (''subjectId'', JStr (ae_subjectId e)), (''actor'', actor_json (ae_actor e)), (''payload'', JObj (ae_payload e)),
      (''createdAt'', jdate (ae_createdAt e))]"

definition reconciliation_item_json :: "ReconciliationItemResult \<Rightarrow> json" where
  "reconciliation_item_json i = JObj
     ([(''type'', JStr (ri_type i)), (''id'', JStr (ri_id i)), (''status'', JStr (ri_status i)), (''ok'', JBool (ri_ok i))] @
      text_if ''error'' (ri_error i))"

definition reconciliation_run_json :: "ReconciliationRunResult \<Rightarrow> json" where
  "reconciliation_run_json r = JObj
     [(''startedAt'', jdate (rr_startedAt r)), (''completedAt'', jdate (rr_completedAt r)),
      (''payoutsChecked'', JInt (int (rr_payoutsChecked r))), (''payinsChecked'', JInt (int (rr_payinsChecked r))),
      (''results'', JArr (map reconciliation_item_json (rr_results r)))]"

end
