(* ===== verification/Observability.thy ===== *)
theory Observability
  imports Sanitizer Wire
begin

text \<open>
  \<^verbatim>\<open>src/src/observability\<close>: the trace context of a request, the exception filter that turns an
  exception into a response, the request log and the outbound HTTP log.  Random values,
  \<^verbatim>\<open>toFixed(2)\<close>, \<^verbatim>\<open>JSON.parse\<close>, \<^verbatim>\<open>decodeURIComponent\<close> and the stack trace of an error are arguments.
\<close>

section \<open>Trace context\<close>

record TraceContext =
  tc_traceId :: string
  tc_spanId :: string
  tc_requestID :: string
  tc_requestIDInternal :: string
  tc_outboundCallCounter :: nat

text \<open>The random values a call may draw.\<close>

record Fresh =
  fr_traceId :: string
  fr_spanId :: string
  fr_requestID :: string
  fr_internal :: string

text \<open>\<^verbatim>\<open>traceStore.getStore()\<close> is \<open>None\<close> outside a request.\<close>

definition currentTrace :: "Fresh \<Rightarrow> TraceContext option \<Rightarrow> TraceContext" where
  "currentTrace fresh store =
     (case store of Some c \<Rightarrow> c
      | None \<Rightarrow> \<lparr>tc_traceId = fr_traceId fresh, tc_spanId = fr_spanId fresh, tc_requestID = fr_requestID fresh,
                tc_requestIDInternal = fr_internal fresh, tc_outboundCallCounter = 0\<rparr>)"

definition parseTraceparent :: "string \<Rightarrow> (string \<times> string) option" where
  "parseTraceparent header =
     (let parts = split_on (CHR ''-'') header in
      if length parts < 3 \<or> parts ! 0 \<noteq> ''00'' then None else Some (parts ! 1, parts ! 2))"

text \<open>The context the rest of the request runs in, and the \<^verbatim>\<open>x-request-id\<close> of the response.\<close>

definition traceMiddleware :: "Fresh \<Rightarrow> string option \<Rightarrow> string option \<Rightarrow> TraceContext \<times> string" where
  "traceMiddleware fresh xRequestId traceparent =
     (let incoming = map_option trim xRequestId;
          requestID = (if truthy incoming then the incoming else fr_requestID fresh);
          parsed = (if truthy traceparent then parseTraceparent (the traceparent) else None)
      in (\<lparr>tc_traceId = (case parsed of Some (t, _) \<Rightarrow> t | None \<Rightarrow> fr_traceId fresh),
           tc_spanId = (case parsed of Some (_, s) \<Rightarrow> s | None \<Rightarrow> fr_spanId fresh),
           tc_requestID = requestID, tc_requestIDInternal = fr_internal fresh, tc_outboundCallCounter = 0\<rparr>,
          requestID))"

section \<open>The exception filter\<close>

datatype LogLevel = LogError | LogWarn | LogInfo

text \<open>\<^verbatim>\<open>exception.getStatus()\<close>; \<open>None\<close> for an error that is no HTTP exception.\<close>

definition http_status :: "exn \<Rightarrow> int option" where
  "http_status e =
     (case e of BadRequest _ \<Rightarrow> Some 400 | Unauthorized _ \<Rightarrow> Some 401 | Forbidden _ \<Rightarrow> Some 403
      | NotFound _ \<Rightarrow> Some 404 | Conflict _ \<Rightarrow> Some 409 | ServiceUnavailable _ \<Rightarrow> Some 503
      | BadGatewayPayout _ _ \<Rightarrow> Some 502 | BadGatewayBatch _ _ \<Rightarrow> Some 502 | JsError _ \<Rightarrow> None)"

definition status_name :: "exn \<Rightarrow> string" where
  "status_name e =
     (case e of BadRequest _ \<Rightarrow> ''Bad Request'' | Unauthorized _ \<Rightarrow> ''Unauthorized'' | Forbidden _ \<Rightarrow> ''Forbidden''
      | NotFound _ \<Rightarrow> ''Not Found'' | Conflict _ \<Rightarrow> ''Conflict'' | ServiceUnavailable _ \<Rightarrow> ''Service Unavailable''
      | BadGatewayPayout _ _ \<Rightarrow> ''Bad Gateway'' | BadGatewayBatch _ _ \<Rightarrow> ''Bad Gateway'' | JsError _ \<Rightarrow> ''Error'')"

text \<open>
  \<^verbatim>\<open>exception.getResponse()\<close>: the object the exception was built with, or the standard body for one
  built with a text.
\<close>

definition exception_body :: "exn \<Rightarrow> json" where
  "exception_body e =
     (case e of
        BadGatewayPayout m p \<Rightarrow> JObj [(''message'', JStr m), (''payout'', payout_json p)]
      | BadGatewayBatch m reason \<Rightarrow> JObj [(''message'', JStr m), (''failureReason'', JStr reason)]
      | _ \<Rightarrow> JObj [(''message'', JStr (exn_message e)), (''error'', JStr (status_name e)),
                  (''statusCode'', JInt (case http_status e of Some s \<Rightarrow> s | None \<Rightarrow> 500))])"

text \<open>The log lines with their level, and the response unless one was already started.\<close>

definition catch_exception ::
  "(exn \<Rightarrow> string) \<Rightarrow> TraceContext \<Rightarrow> timestamp \<Rightarrow> string \<Rightarrow> string \<Rightarrow> bool \<Rightarrow> exn \<Rightarrow>
   (LogLevel \<times> string) list \<times> (int \<times> json) option" where
  "catch_exception stack trace t method path headersSent e =
     (let status = (case http_status e of Some s \<Rightarrow> s | None \<Rightarrow> 500);
          exceptionValue = (case http_status e of Some _ \<Rightarrow> stringify (exception_body e) | None \<Rightarrow> exn_message e);
          entry = stringify (JObj
            [(''traceId'', JStr (tc_traceId trace)), (''spanId'', JStr (tc_spanId trace)),
             (''requestIDInternal'', JStr (tc_requestIDInternal trace)), (''requestID'', JStr (tc_requestID trace)),
             (''outDate'', jdate t), (''method'', JStr method), (''source'', JStr (method @ '' '' @ path)),
             (''exceptionValue'', JStr exceptionValue)])
      in (if status \<ge> 500
          then (LogError, entry) # (if stack e = [] then [] else [(LogError, stack e)])
          else [(LogWarn, entry)],
          if headersSent then None
          else Some (status, case http_status e of Some _ \<Rightarrow> exception_body e
                       | None \<Rightarrow> JObj [(''statusCode'', JInt status), (''message'', JStr ''Internal server error'')])))"

section \<open>The request log\<close>

datatype BodyValue = NoBody | ObjectBody json | TextBody string

record IncomingRequest =
  in_method :: string
  in_path :: string
  in_ip :: "string option"
  in_socketAddress :: "string option"
  in_headers :: "(string \<times> HeaderValue) list"
  in_query :: jobject
  in_body :: BodyValue
  in_userId :: "string option"
  in_userSub :: "string option"

text \<open>What is masked, and the two library functions the masking calls.\<close>

record Masking =
  mk_toFixed :: "string \<Rightarrow> string"
  mk_decode :: "string \<Rightarrow> string + string"
  mk_wiped :: "string list"
  mk_protected :: "string list"

definition masked :: "Masking \<Rightarrow> json \<Rightarrow> string" where
  "masked mk j = stringify (sanitizeJson (mk_toFixed mk) (mk_wiped mk) (mk_protected mk) j)"

definition header_text :: "string \<times> HeaderValue \<Rightarrow> string" where
  "header_text h = (case h of (k, v) \<Rightarrow>
     ''['' @ k @ '':'' @ (case v of HeaderOne s \<Rightarrow> s | HeaderMany vs \<Rightarrow> join '','' vs) @ '']'')"

text \<open>\<^verbatim>\<open>Object.keys(body).length\<close>\<close>

definition has_keys :: "json \<Rightarrow> bool" where
  "has_keys j = (case j of JObj fs \<Rightarrow> fs \<noteq> [] | JArr vs \<Rightarrow> vs \<noteq> [] | _ \<Rightarrow> False)"

definition request_text :: "Masking \<Rightarrow> BodyValue \<Rightarrow> string + string option" where
  "request_text mk body =
     (case body of
        ObjectBody j \<Rightarrow> Inr (if has_keys j then Some (masked mk j) else None)
      | TextBody s \<Rightarrow> if s = [] then Inr None
          else map_sum id Some (sanitizeQueryString (mk_decode mk) (mk_wiped mk) (mk_protected mk) s)
      | NoBody \<Rightarrow> Inr None)"

definition strip_mapped :: "string \<Rightarrow> string" where
  "strip_mapped a = (if startsWith a ''::ffff:'' then drop (length ''::ffff:'') a else a)"

definition field_if :: "string \<Rightarrow> string option \<Rightarrow> jobject" where
  "field_if name v = (case v of None \<Rightarrow> [] | Some s \<Rightarrow> [(name, JStr s)])"

text \<open>
  \<open>Inl\<close> is the \<^verbatim>\<open>URIError\<close> thrown before the request is passed on.  \<open>body\<close> is what the handler
  hands to \<^verbatim>\<open>res.json\<close>, if it does.
\<close>

definition apiRequestLog ::
  "Masking \<Rightarrow> TraceContext \<Rightarrow> timestamp \<Rightarrow> timestamp \<Rightarrow> IncomingRequest \<Rightarrow> int \<Rightarrow> json option \<Rightarrow>
   string + LogLevel \<times> jobject" where
  "apiRequestLog mk trace inDate outDate req statusCode body =
     (case request_text mk (in_body req) of Inl m \<Rightarrow> Inl m
      | Inr requestBody \<Rightarrow>
        let responseBody = (case body of None \<Rightarrow> None | Some JNull \<Rightarrow> None | Some j \<Rightarrow> Some (masked mk j));
            user = (case in_userId req of Some u \<Rightarrow> Some u | None \<Rightarrow> in_userSub req);
            remoteAddress = strip_mapped (case in_ip req of Some a \<Rightarrow> a
              | None \<Rightarrow> (case in_socketAddress req of Some a \<Rightarrow> a | None \<Rightarrow> []))
        in Inr (if statusCode \<ge> 500 then LogError else if statusCode \<ge> 400 then LogWarn else LogInfo,
            [(''traceId'', JStr (tc_traceId trace)), (''spanId'', JStr (tc_spanId trace)),
             (''requestIDInternal'', JStr (tc_requestIDInternal trace)), (''requestID'', JStr (tc_requestID trace)),
             (''method'', JStr (in_method req)), (''path'', JStr (in_path req)), (''status'', JInt statusCode),
             (''inDate'', jdate inDate), (''outDate'', jdate outDate)] @
            field_if ''user'' user @
            [(''headers'', JStr (concat (map header_text (in_headers req))))] @
            (if in_query req = [] then [] else [(''queryParameters'', JStr (stringify (JObj (in_query req))))]) @
            field_if ''request'' requestBody @ field_if ''response'' responseBody @
            [(''remoteAddress'', JStr remoteAddress)]))"

section \<open>Outbound calls\<close>

text \<open>\<^verbatim>\<open>Headers\<close>: names in lower case, repeated ones joined, iterated in the order of the names.\<close>

definition header_append :: "(string \<times> string) list \<Rightarrow> string \<times> string \<Rightarrow> (string \<times> string) list" where
  "header_append hs h = (case h of (k, v) \<Rightarrow>
     AList.update (toLowerCase k) (case map_of hs (toLowerCase k) of None \<Rightarrow> v | Some v0 \<Rightarrow> v0 @ '', '' @ v) hs)"

definition make_headers :: "(string \<times> string) list \<Rightarrow> (string \<times> string) list" where
  "make_headers = foldl header_append []"

definition headers_json :: "(string \<times> string) list \<Rightarrow> json" where
  "headers_json hs = JObj (map (\<lambda>(k, v). (k, JStr v)) (sort_key fst hs))"

datatype OutBody = NoOutBody | TextOutBody string | BinaryOutBody

record RequestInit =
  ri_method :: "string option"
  ri_headers :: "(string \<times> string) list"
  ri_body :: OutBody

text \<open>A response; \<open>hr_text\<close> is \<open>None\<close> when its body cannot be read.\<close>

record HttpResponse =
  hr_status :: int
  hr_statusText :: string
  hr_headers :: "(string \<times> string) list"
  hr_text :: "string option"

definition outbound_payload :: "Masking \<Rightarrow> (string \<Rightarrow> json option) \<Rightarrow> OutBody \<Rightarrow> string + string option" where
  "outbound_payload mk parse body =
     (case body of
        NoOutBody \<Rightarrow> Inr None
      | BinaryOutBody \<Rightarrow> Inr (Some ''[binary]'')
      | TextOutBody s \<Rightarrow> if s = [] then Inr None
          else (case parse s of Some j \<Rightarrow> Inr (Some (masked mk j))
                | None \<Rightarrow> map_sum id Some (sanitizeQueryString (mk_decode mk) (mk_wiped mk) (mk_protected mk) s)))"

definition inbound_payload :: "Masking \<Rightarrow> (string \<Rightarrow> json option) \<Rightarrow> string option \<Rightarrow> string option" where
  "inbound_payload mk parse text =
     (case text of None \<Rightarrow> None
      | Some s \<Rightarrow> if s = [] then None
          else (case parse s of Some j \<Rightarrow> Some (masked mk j) | None \<Rightarrow> Some (take 2000 s)))"

definition trace_fields :: "TraceContext \<Rightarrow> jobject" where
  "trace_fields trace =
     [(''traceId'', JStr (tc_traceId trace)), (''spanId'', JStr (tc_spanId trace)),
      (''requestIDInternal'', JStr (tc_requestIDInternal trace)), (''requestID'', JStr (tc_requestID trace))]"

text \<open>
  One call: the context with its counter advanced, the log entries, and the result.  \<open>send\<close> is
  the network: it gets the method, the headers and the body.
\<close>

definition outbound_fetch ::
  "Masking \<Rightarrow> (string \<Rightarrow> json option) \<Rightarrow> Fresh \<Rightarrow> TraceContext option \<Rightarrow> string \<Rightarrow> RequestInit \<Rightarrow>
   (string \<Rightarrow> (string \<times> string) list \<Rightarrow> OutBody \<Rightarrow> string + HttpResponse) \<Rightarrow>
   TraceContext option \<times> jobject list \<times> (string + HttpResponse)" where
  "outbound_fetch mk parse fresh store url init send =
     (let trace = currentTrace fresh store;
          store' = map_option (\<lambda>c. c\<lparr>tc_outboundCallCounter := Suc (tc_outboundCallCounter c)\<rparr>) store;
          i = (case store' of Some c \<Rightarrow> show_nat (tc_outboundCallCounter c) | None \<Rightarrow> ''1'');
          headers = AList.update ''x-request-id'' (tc_requestID trace) (make_headers (ri_headers init));
          method = toUpperCase (case ri_method init of Some m \<Rightarrow> m | None \<Rightarrow> ''GET'')
      in case outbound_payload mk parse (ri_body init) of Inl m \<Rightarrow> (store', [], Inl m)
         | Inr payload \<Rightarrow>
           let common = [(''id'', JStr i), (''address'', JStr url), (''method'', JStr method)];
               outLog = trace_fields trace @ [(''type'', JStr ''Outbound Message'')] @ common @
                 [(''headers'', JStr (stringify (headers_json headers)))] @ field_if ''payload'' payload
           in (case send method headers (ri_body init) of
                 Inl m \<Rightarrow> (store', [outLog], Inl m)
               | Inr response \<Rightarrow> (store',
                   [outLog,
                    trace_fields trace @ [(''type'', JStr ''Inbound Message'')] @ common @
                    [(''responseCode'', JStr (show_int (hr_status response) @ '' '' @ hr_statusText response))] @
                    (if hr_statusText response = [] then [] else [(''responseText'', JStr (hr_statusText response))]) @
                    [(''headers'', JStr (stringify (headers_json (make_headers (hr_headers response)))))] @
                    field_if ''payload'' (inbound_payload mk parse (hr_text response))],
                   Inr response)))"

end
