(* ===== verification/Throttle.thy ===== *)
theory Throttle
  imports Clients
begin

text \<open>
  \<^verbatim>\<open>src/src/common/throttle.middleware.ts\<close>: a fixed window of one second per bucket.  The map
  of windows is an association list; \<open>throttle_use\<close> is the method \<^verbatim>\<open>use\<close>.
\<close>

record WindowEntry =
  we_count :: nat
  we_resetAt :: timestamp

datatype ThrottleDecision = Next | TooManyRequests int

definition windowMs :: int where
  "windowMs = 1000"

definition bucketKey :: "(string \<Rightarrow> string) \<Rightarrow> Request \<Rightarrow> string" where
  "bucketKey sha req =
     (case extractApiKey req of
        Some k \<Rightarrow> ''key:'' @ take 16 (sha k)
      | None \<Rightarrow> let ip = (case rq_ip req of None \<Rightarrow> ''unknown'' | Some a \<Rightarrow> a)
                in ''ip:'' @ (if startsWith ip ''::ffff:'' then drop (length ''::ffff:'') ip else ip))"

definition throttle_use ::
  "int \<Rightarrow> string \<Rightarrow> timestamp \<Rightarrow> (string \<times> WindowEntry) list \<Rightarrow>
   ThrottleDecision \<times> (string \<times> WindowEntry) list" where
  "throttle_use limit key t windows =
     (if limit \<le> 0 then (Next, windows)
      else case map_of windows key of
        None \<Rightarrow> (Next, AList.update key \<lparr>we_count = 1, we_resetAt = t + windowMs\<rparr> windows)
      | Some e \<Rightarrow>
          if t \<ge> we_resetAt e
          then (Next, AList.update key \<lparr>we_count = 1, we_resetAt = t + windowMs\<rparr> windows)
          else if int (we_count e) \<ge> limit then (TooManyRequests (we_resetAt e - t), windows)
          else (Next, AList.update key (e\<lparr>we_count := Suc (we_count e)\<rparr>) windows))"

definition throttle_prune :: "timestamp \<Rightarrow> (string \<times> WindowEntry) list \<Rightarrow> (string \<times> WindowEntry) list" where
  "throttle_prune t windows = filter (\<lambda>(k, e). \<not> (t \<ge> we_resetAt e)) windows"

text \<open>A sequence of requests of any buckets, each with its time.\<close>

fun throttle_run ::
  "int \<Rightarrow> (string \<times> timestamp) list \<Rightarrow> (string \<times> WindowEntry) list \<Rightarrow>
   ThrottleDecision list \<times> (string \<times> WindowEntry) list" where
  "throttle_run limit [] windows = ([], windows)"
| "throttle_run limit ((key, t) # rs) windows =
     (let (d, windows') = throttle_use limit key t windows;
          (ds, final) = throttle_run limit rs windows'
      in (d # ds, final))"

text \<open>How many requests of bucket \<open>k\<close> were let through.\<close>

definition admitted :: "string \<Rightarrow> (string \<times> timestamp) list \<Rightarrow> ThrottleDecision list \<Rightarrow> nat" where
  "admitted k rs ds = length (filter (\<lambda>((key, t), d). key = k \<and> d = Next) (zip rs ds))"

section \<open>Lemmas\<close>

lemma map_of_update [simp]:
  "map_of (AList.update k v xs) = (map_of xs)(k \<mapsto> v)"
  by (rule update_conv')

text \<open>Other buckets do not matter.\<close>

lemma throttle_use_other:
  "key \<noteq> k \<Longrightarrow> throttle_use limit key t ws = (d, ws') \<Longrightarrow> map_of ws' k = map_of ws k"
  by (auto simp: throttle_use_def split: if_splits option.splits)

text \<open>
  Inside an open window that has let \<open>c\<close> requests through, exactly the next \<open>limit - c\<close> requests of
  the bucket pass, whatever other buckets do.
\<close>

lemma throttle_window:
  assumes "0 < limit" and "map_of ws k = Some e" and "int (we_count e) \<le> limit"
    and "\<forall>(key, t)\<in>set rs. key = k \<longrightarrow> t < we_resetAt e"
    and "throttle_run limit rs ws = (ds, ws')"
  shows "admitted k rs ds = min (nat limit - we_count e) (length (filter (\<lambda>(key, t). key = k) rs))"
  using assms
proof (induction rs arbitrary: ws e ds ws')
  case Nil
  then show ?case by (simp add: admitted_def)
next
  case (Cons r rs)
  obtain key t where r: "r = (key, t)" by fastforce
  obtain d ws1 where use: "throttle_use limit key t ws = (d, ws1)" by fastforce
  obtain ds1 ws2 where rest: "throttle_run limit rs ws1 = (ds1, ws2)" by fastforce
  have ds: "ds = d # ds1" using Cons.prems(5) r use rest by simp
  show ?case
  proof (cases "key = k")
    case False
    then have "map_of ws1 k = Some e" using throttle_use_other [OF _ use] Cons.prems(2) by simp
    from Cons.IH [OF Cons.prems(1) this Cons.prems(3) _ rest] show ?thesis
      using False Cons.prems(4) r ds by (simp add: admitted_def)
  next
    case True
    have open_window: "\<not> we_resetAt e \<le> t" using Cons.prems(4) r True by auto
    show ?thesis
    proof (cases "limit \<le> int (we_count e)")
      case full: True
      then have "d = TooManyRequests (we_resetAt e - t)" "ws1 = ws"
        using use True Cons.prems(1,2) open_window by (auto simp: throttle_use_def)
      with Cons.IH [OF Cons.prems(1,2,3) _, of ds1] rest show ?thesis
        using True Cons.prems(3,4) full r ds by (simp add: admitted_def)
    next
      case False
      then have d: "d = Next" and ws1: "map_of ws1 k = Some (e\<lparr>we_count := Suc (we_count e)\<rparr>)"
        using use True Cons.prems(1,2) open_window by (auto simp: throttle_use_def)
      have "admitted k rs ds1 = min (nat limit - Suc (we_count e)) (length (filter (\<lambda>(key, t). key = k) rs))"
        using Cons.IH [OF Cons.prems(1) ws1 _ _ rest] False Cons.prems(4) r True by auto
      then show ?thesis using False d ds r True by (simp add: admitted_def)
    qed
  qed
qed

text \<open>A first request, or one after the window closed, opens a window of one second and passes.\<close>

lemma throttle_opens:
  assumes "0 < limit" and "\<forall>e. map_of ws k = Some e \<longrightarrow> we_resetAt e \<le> t"
  shows "\<exists>ws'. throttle_use limit k t ws = (Next, ws') \<and>
    map_of ws' k = Some \<lparr>we_count = 1, we_resetAt = t + windowMs\<rparr>"
  using assms by (auto simp: throttle_use_def split: option.splits)

text \<open>
  The limit is exact, from any state of the map and for requests in any order: from the request that
  opens a window on, of all requests of the same caller that arrive before the window closes exactly
  the first (as many as the limit) are let through, the opening one included.
\<close>

theorem throttle_exact:
  assumes "0 < limit" and "\<forall>e. map_of ws k = Some e \<longrightarrow> we_resetAt e \<le> t"
    and "\<forall>(key, t')\<in>set rs. key = k \<longrightarrow> t' < t + windowMs"
  shows "admitted k ((k, t) # rs) (fst (throttle_run limit ((k, t) # rs) ws)) =
    min (nat limit) (Suc (length (filter (\<lambda>(key, t'). key = k) rs)))"
proof -
  obtain ws1 where ws1: "throttle_use limit k t ws = (Next, ws1)"
    "map_of ws1 k = Some \<lparr>we_count = 1, we_resetAt = t + windowMs\<rparr>"
    using throttle_opens [OF assms(1,2)] by blast
  obtain ds ws2 where run: "throttle_run limit rs ws1 = (ds, ws2)" by fastforce
  have "admitted k rs ds = min (nat limit - 1) (length (filter (\<lambda>(key, t'). key = k) rs))"
    using throttle_window [OF assms(1) ws1(2) _ _ run] assms by simp
  moreover have "admitted k ((k, t) # rs) (Next # ds) = Suc (admitted k rs ds)" by (simp add: admitted_def)
  moreover have "0 < nat limit" using assms(1) by simp
  ultimately show ?thesis using ws1(1) run by simp linarith
qed

theorem throttle_exact_witness:
  "admitted ''a'' ((''a'', 0) # [(''b'', 1), (''a'', 2), (''a'', 3)])
     (fst (throttle_run 2 ((''a'', 0) # [(''b'', 1), (''a'', 2), (''a'', 3)]) [])) = 2"
  by (subst throttle_exact) (simp_all add: windowMs_def)

section \<open>One map with pruning or a counter per caller\<close>

text \<open>What happens to the map of windows: requests, and the timer that prunes it.\<close>

datatype ThrottleEvent = Arrival string timestamp | PruneTick timestamp

fun event_time :: "ThrottleEvent \<Rightarrow> timestamp" where
  "event_time (Arrival key t) = t"
| "event_time (PruneTick t) = t"

fun throttle_events ::
  "int \<Rightarrow> ThrottleEvent list \<Rightarrow> (string \<times> WindowEntry) list \<Rightarrow> (string \<times> ThrottleDecision) list" where
  "throttle_events limit [] windows = []"
| "throttle_events limit (Arrival key t # es) windows =
     (let (d, windows') = throttle_use limit key t windows in (key, d) # throttle_events limit es windows')"
| "throttle_events limit (PruneTick t # es) windows = throttle_events limit es (throttle_prune t windows)"

fun arrivals :: "string \<Rightarrow> ThrottleEvent list \<Rightarrow> timestamp list" where
  "arrivals k [] = []"
| "arrivals k (Arrival key t # es) = (if key = k then t # arrivals k es else arrivals k es)"
| "arrivals k (PruneTick t # es) = arrivals k es"

definition decisions_of :: "string \<Rightarrow> (string \<times> ThrottleDecision) list \<Rightarrow> ThrottleDecision list" where
  "decisions_of k ds = map snd (filter (\<lambda>(key, d). key = k) ds)"

lemma decisions_of_simps [simp]:
  "decisions_of k [] = []"
  "decisions_of k ((key, d) # ds) = (if key = k then d # decisions_of k ds else decisions_of k ds)"
  by (simp_all add: decisions_of_def)

text \<open>
  The reference: the arrivals of one caller alone, cut into windows of one second, each opened by
  the first arrival after the one before; the first arrivals of a window pass, as many as the limit,
  and the others are told how long the window stays open.
\<close>

function fixed_windows :: "int \<Rightarrow> timestamp list \<Rightarrow> ThrottleDecision list" where
  "fixed_windows limit [] = []"
| "fixed_windows limit (t # ts) =
     map (\<lambda>(i, u). if int i < limit then Next else TooManyRequests (t + windowMs - u))
       (enumerate 0 (t # takeWhile (\<lambda>u. u < t + windowMs) ts)) @
     fixed_windows limit (dropWhile (\<lambda>u. u < t + windowMs) ts)"
  by pat_completeness auto
termination by (relation "measure (\<lambda>(limit, ts). length ts)") (auto simp: le_imp_less_Suc length_dropWhile_le)

definition per_caller :: "int \<Rightarrow> timestamp list \<Rightarrow> ThrottleDecision list" where
  "per_caller limit ts = (if limit \<le> 0 then map (\<lambda>_. Next) ts else fixed_windows limit ts)"

text \<open>In between: the one window a caller has.\<close>

fun one_window :: "int \<Rightarrow> WindowEntry option \<Rightarrow> timestamp list \<Rightarrow> ThrottleDecision list" where
  "one_window limit e [] = []"
| "one_window limit None (t # ts) = Next # one_window limit (Some \<lparr>we_count = 1, we_resetAt = t + windowMs\<rparr>) ts"
| "one_window limit (Some e) (t # ts) =
     (if we_resetAt e \<le> t then Next # one_window limit (Some \<lparr>we_count = 1, we_resetAt = t + windowMs\<rparr>) ts
      else if limit \<le> int (we_count e) then TooManyRequests (we_resetAt e - t) # one_window limit (Some e) ts
      else Next # one_window limit (Some (e\<lparr>we_count := Suc (we_count e)\<rparr>)) ts)"

lemma one_window_closes:
  assumes "int c < limit \<and> i = c \<or> limit \<le> int c \<and> limit \<le> int i"
  shows "one_window limit (Some \<lparr>we_count = c, we_resetAt = r\<rparr>) ts =
    map (\<lambda>(i, u). if int i < limit then Next else TooManyRequests (r - u)) (enumerate i (takeWhile (\<lambda>u. u < r) ts)) @
    one_window limit None (dropWhile (\<lambda>u. u < r) ts)"
  using assms
proof (induction ts arbitrary: c i)
  case (Cons t ts)
  show ?case
  proof (cases "limit \<le> int c")
    case True
    then show ?thesis using Cons.prems Cons.IH [of c "Suc i"] by simp
  next
    case False
    then have "int (Suc c) < limit \<and> Suc i = Suc c \<or> limit \<le> int (Suc c) \<and> limit \<le> int (Suc i)"
      using Cons.prems by auto
    from Cons.IH [OF this] show ?thesis using Cons.prems False by auto
  qed
qed simp

lemma fixed_windows_one: "0 < limit \<Longrightarrow> fixed_windows limit ts = one_window limit None ts"
proof (induction limit ts rule: fixed_windows.induct)
  case (2 limit t ts)
  have "one_window limit (Some \<lparr>we_count = 1, we_resetAt = t + windowMs\<rparr>) ts =
      map (\<lambda>(i, u). if int i < limit then Next else TooManyRequests (t + windowMs - u))
        (enumerate 1 (takeWhile (\<lambda>u. u < t + windowMs) ts)) @
      one_window limit None (dropWhile (\<lambda>u. u < t + windowMs) ts)"
    by (rule one_window_closes) auto
  then show ?case using 2 by simp
qed simp

lemma distinct_use: "distinct (map fst ws) \<Longrightarrow> distinct (map fst (snd (throttle_use limit key t ws)))"
  by (simp add: throttle_use_def distinct_update split: option.split)

lemma map_of_prune:
  "distinct (map fst ws) \<Longrightarrow> map_of (throttle_prune t ws) k =
     (case map_of ws k of None \<Rightarrow> None | Some e \<Rightarrow> if we_resetAt e \<le> t then None else Some e)"
proof (induction ws)
  case (Cons p ws)
  then show ?case
    by (cases p; cases "map_of ws k") (auto simp: throttle_prune_def map_of_eq_None_iff [symmetric])
qed (simp add: throttle_prune_def)

lemma distinct_prune: "distinct (map fst ws) \<Longrightarrow> distinct (map fst (throttle_prune t ws))"
  by (simp add: throttle_prune_def distinct_map_filter)

text \<open>The map agrees with the window of a caller, unless it was pruned after it had closed for good.\<close>

definition agrees :: "WindowEntry option \<Rightarrow> WindowEntry option \<Rightarrow> timestamp \<Rightarrow> bool" where
  "agrees stored own t \<longleftrightarrow> stored = own \<or> stored = None \<and> (\<exists>e. own = Some e \<and> we_resetAt e \<le> t)"

lemma agrees_later: "agrees stored own t \<Longrightarrow> t \<le> t' \<Longrightarrow> agrees stored own t'"
  by (auto simp: agrees_def)

lemma agreeing_use:
  assumes "0 < limit" and "agrees (map_of ws k) own t" and "throttle_use limit k t ws = (d, ws')"
  shows "one_window limit own (t # ts) = d # one_window limit (map_of ws' k) ts"
  using assms by (cases own) (auto simp: agrees_def throttle_use_def split: if_splits)

lemma throttle_events_one:
  assumes "0 < limit" and "distinct (map fst ws)" and "agrees (map_of ws k) own t0"
    and "sorted (t0 # map event_time es)"
  shows "decisions_of k (throttle_events limit es ws) = one_window limit own (arrivals k es)"
  using assms(2-)
proof (induction es arbitrary: ws own t0)
  case (Cons ev es)
  show ?case
  proof (cases ev)
    case (Arrival key t)
    obtain d ws' where use: "throttle_use limit key t ws = (d, ws')" by fastforce
    have ws': "distinct (map fst ws')" using distinct_use [OF Cons.prems(1), of limit key t] use by simp
    have agree: "agrees (map_of ws k) own t" and order: "sorted (t # map event_time es)"
      using Cons.prems(2,3) Arrival by (auto intro: agrees_later)
    show ?thesis
    proof (cases "key = k")
      case True
      have "agrees (map_of ws' k) (map_of ws' k) t" by (simp add: agrees_def)
      from Cons.IH [OF ws' this order] show ?thesis
        using agreeing_use [OF assms(1) agree] use Arrival True by simp
    next
      case False
      from Cons.IH [OF ws' _ order] agree show ?thesis
        using throttle_use_other [OF False use] use Arrival False by simp
    qed
  next
    case (PruneTick t)
    have "agrees (map_of (throttle_prune t ws) k) own t" and "sorted (t # map event_time es)"
      using Cons.prems PruneTick by (auto simp: map_of_prune agrees_def split: option.split)
    from Cons.IH [OF distinct_prune [OF Cons.prems(1)] this] show ?thesis using PruneTick by simp
  qed
qed simp

lemma unlimited: "limit \<le> 0 \<Longrightarrow> decisions_of k (throttle_events limit es ws) = map (\<lambda>_. Next) (arrivals k es)"
  by (induction limit es ws rule: throttle_events.induct) (auto simp: throttle_use_def)

text \<open>
  C20: The shared, pruned map is a separate rate limiter for every caller.  However the requests of
  all callers and the ticks of the pruning timer interleave, what the middleware decides for one caller
  is what the reference decides from the arrival times of that caller alone: windows of one second,
  each opened by the first arrival after the one before, of which the first arrivals pass, as many as
  the limit, and the others are told how long to wait.  No caller can spend the budget of another, and
  pruning never forgives a request.  Assumed: the clock does not run backwards.
\<close>

theorem throttle_per_caller:
  assumes "sorted (map event_time es)"
  shows "decisions_of k (throttle_events limit es []) = per_caller limit (arrivals k es)"
proof (cases "limit \<le> 0")
  case False
  have "sorted (Min (set (0 # map event_time es)) # map event_time es)" using assms by simp
  from throttle_events_one [OF _ _ _ this, of limit "[]" k None] show ?thesis
    using False by (simp add: agrees_def fixed_windows_one per_caller_def)
qed (simp add: unlimited per_caller_def)

theorem throttle_per_caller_witness:
  "decisions_of ''a'' (throttle_events 1 [Arrival ''a'' 0, Arrival ''b'' 1, PruneTick 5, Arrival ''a'' 10, PruneTick 1000,
     Arrival ''a'' 1000] []) = [Next, TooManyRequests 990, Next]"
proof -
  let ?es = "[Arrival ''a'' 0, Arrival ''b'' 1, PruneTick 5, Arrival ''a'' 10, PruneTick 1000, Arrival ''a'' 1000]"
  have "decisions_of ''a'' (throttle_events 1 ?es []) = per_caller 1 (arrivals ''a'' ?es)"
    by (rule throttle_per_caller) simp
  also have "\<dots> = [Next, TooManyRequests 990, Next]" by (simp add: per_caller_def windowMs_def)
  finally show ?thesis .
qed

end
