(* ===== verification/Uri.thy ===== *)
theory Uri
  imports Prelude
begin

text \<open>
  \<^verbatim>\<open>encodeURIComponent\<close> and \<^verbatim>\<open>decodeURIComponent\<close> on the 8-bit characters of the model, and the
  split of a request path into segments.  A character above 127 is two UTF-8 bytes; \<open>None\<close> is
  the \<^verbatim>\<open>URIError\<close>, and also what the model answers for a code point above 255.
\<close>

section \<open>Percent encoding\<close>

definition unreserved :: "char \<Rightarrow> bool" where
  "unreserved c = (let n = (of_char c :: nat) in
     (48 \<le> n \<and> n \<le> 57) \<or> (65 \<le> n \<and> n \<le> 90) \<or> (97 \<le> n \<and> n \<le> 122) \<or>
     n \<in> {33, 39, 40, 41, 42, 45, 46, 95, 126})"

definition hex_upper :: "nat \<Rightarrow> char" where
  "hex_upper n = (if n < 10 then char_of (48 + n) else char_of (55 + n))"

definition hex_value :: "char \<Rightarrow> nat option" where
  "hex_value c = (let n = (of_char c :: nat) in
     if 48 \<le> n \<and> n \<le> 57 then Some (n - 48) else if 65 \<le> n \<and> n \<le> 70 then Some (n - 55)
     else if 97 \<le> n \<and> n \<le> 102 then Some (n - 87) else None)"

definition percent :: "nat \<Rightarrow> string" where
  "percent n = [CHR ''%'', hex_upper (n div 16), hex_upper (n mod 16)]"

definition encode_char :: "char \<Rightarrow> string" where
  "encode_char c = (let n = of_char c in
     if unreserved c then [c] else if n < 128 then percent n
     else percent (192 + n div 64) @ percent (128 + n mod 64))"

definition encodeURIComponent :: "string \<Rightarrow> string" where
  "encodeURIComponent s = concat (map encode_char s)"

text \<open>The bytes a percent-encoded text stands for.\<close>

fun percent_bytes :: "string \<Rightarrow> nat list option" where
  "percent_bytes [] = Some []"
| "percent_bytes (c # s) =
     (if c = CHR ''%'' then
        (case s of a # b # r \<Rightarrow>
           (case (hex_value a, hex_value b, percent_bytes r) of
              (Some x, Some y, Some bs) \<Rightarrow> Some ((16 * x + y) # bs) | _ \<Rightarrow> None)
         | _ \<Rightarrow> None)
      else map_option ((#) (of_char c)) (percent_bytes s))"

fun utf8_chars :: "nat list \<Rightarrow> string option" where
  "utf8_chars [] = Some []"
| "utf8_chars (b # bs) =
     (if b < 128 then map_option ((#) (char_of b)) (utf8_chars bs)
      else if b = 194 \<or> b = 195 then
        (case bs of b' # r \<Rightarrow>
           if 128 \<le> b' \<and> b' < 192 then map_option ((#) (char_of (64 * (b - 192) + (b' - 128)))) (utf8_chars r)
           else None
         | [] \<Rightarrow> None)
      else None)"

text \<open>
  A raw character above 127 cannot occur in a request line; the decoder takes the text as the
  bytes of the line.
\<close>

definition decodeURIComponent :: "string \<Rightarrow> string option" where
  "decodeURIComponent s = (case percent_bytes s of None \<Rightarrow> None | Some bs \<Rightarrow> utf8_chars bs)"

section \<open>Decoding undoes encoding\<close>

lemma hex_value_upper: "n < 16 \<Longrightarrow> hex_value (hex_upper n) = Some n"
  by (auto simp: hex_value_def hex_upper_def Let_def)

lemma percent_bytes_percent:
  "n < 256 \<Longrightarrow> percent_bytes (percent n @ s) = map_option ((#) n) (percent_bytes s)"
  by (auto simp: percent_def hex_value_upper div_less_dividend less_mult_imp_div_less split: option.split)

lemma unreserved_ascii: "unreserved c \<Longrightarrow> (of_char c :: nat) < 128 \<and> c \<noteq> CHR ''%'' \<and> c \<noteq> CHR ''/''"
  by (auto simp: unreserved_def Let_def)

lemma of_char_less: "(of_char c :: nat) < 256"
  by (metis nat_of_char_less_256)

lemma decode_char:
  "percent_bytes (encode_char c @ s) = map_option (\<lambda>bs. (if (of_char c :: nat) < 128 then [of_char c]
      else [192 + of_char c div 64, 128 + of_char c mod 64]) @ bs) (percent_bytes s)"
proof (cases "unreserved c")
  case True
  then show ?thesis using unreserved_ascii [OF True] by (simp add: encode_char_def Let_def)
next
  case False
  have "(of_char c :: nat) div 64 < 4" using of_char_less [of c] by linarith
  moreover have "(of_char c :: nat) mod 64 < 64" by simp
  ultimately have "192 + (of_char c :: nat) div 64 < 256" "128 + (of_char c :: nat) mod 64 < 256" by linarith+
  then show ?thesis using False
    by (simp add: encode_char_def Let_def percent_bytes_percent option.map_comp comp_def)
qed

theorem decode_encode [simp]: "decodeURIComponent (encodeURIComponent s) = Some s"
proof -
  have "\<exists>bs. percent_bytes (encodeURIComponent s) = Some bs \<and> utf8_chars bs = Some s"
  proof (induction s)
    case (Cons c s)
    then obtain bs where bs: "percent_bytes (encodeURIComponent s) = Some bs" "utf8_chars bs = Some s" by blast
    let ?n = "of_char c :: nat"
    let ?code = "if ?n < 128 then [?n] else [192 + ?n div 64, 128 + ?n mod 64]"
    have enc: "percent_bytes (encodeURIComponent (c # s)) = Some (?code @ bs)"
      by (simp add: encodeURIComponent_def decode_char bs(1) [unfolded encodeURIComponent_def])
    have "utf8_chars (?code @ bs) = Some (c # s)"
    proof (cases "?n < 128")
      case False
      then have "?n div 64 = 2 \<or> ?n div 64 = 3" using of_char_less [of c] by linarith
      moreover have "64 * (?n div 64) + ?n mod 64 = ?n" by simp
      moreover have "128 + ?n mod 64 < 192" using mod_less_divisor [of 64 ?n] by linarith
      ultimately show ?thesis using False bs(2) by auto
    qed (use bs(2) in simp)
    with enc show ?case by blast
  qed (simp add: encodeURIComponent_def)
  then show ?thesis by (auto simp: decodeURIComponent_def)
qed

section \<open>Paths\<close>

text \<open>The segments of a path; one trailing slash is ignored, as the router does.\<close>

definition path_segments :: "string \<Rightarrow> string list" where
  "path_segments raw =
     (let parts = split_on (CHR ''/'') raw; segs = (if hd parts = [] then tl parts else parts)
      in if segs \<noteq> [] \<and> last segs = [] then butlast segs else segs)"

lemma encoded_no_slash: "CHR ''/'' \<notin> set (encodeURIComponent s)"
proof -
  have "hex_upper n \<noteq> CHR ''/''" if "n < 16" for n
  proof -
    have "48 \<le> (of_char (hex_upper n) :: nat)" using that by (simp add: hex_upper_def)
    moreover have "(of_char (CHR ''/'') :: nat) = 47" by simp
    ultimately show ?thesis by auto
  qed
  then have "CHR ''/'' \<notin> set (percent n)" if "n < 256" for n
    using that by (auto simp: percent_def less_mult_imp_div_less dest: sym)
  moreover have "192 + (of_char c :: nat) div 64 < 256" "128 + (of_char c :: nat) mod 64 < 256" for c
    using of_char_less [of c] mod_less_divisor [of 64 "of_char c :: nat"] by linarith+
  moreover have "unreserved c \<Longrightarrow> c \<noteq> CHR ''/''" for c using unreserved_ascii by blast
  ultimately have "CHR ''/'' \<notin> set (encode_char c)" for c
    by (auto simp: encode_char_def Let_def)
  then show ?thesis by (auto simp: encodeURIComponent_def)
qed

lemma encoded_not_Nil: "s \<noteq> [] \<Longrightarrow> encodeURIComponent s \<noteq> []"
  by (cases s) (auto simp: encodeURIComponent_def encode_char_def percent_def Let_def)

end
