(* ===== verification/Http.thy ===== *)
theory Http
  imports Service Reports Status Validation Observability Throttle Uri
begin

text \<open>
  The HTTP surface: the route table of the controllers, their guards, one definition per handler
  method, and the way of a request through trace, throttle, routing, guard, validation, handler
  and exception filter (\<^verbatim>\<open>src/src/*/*.controller.ts\<close>, \<^verbatim>\<open>app.module.ts\<close>, \<^verbatim>\<open>main.ts\<close>).  A handler
  returns the JSON of the record its service method returns (theory \<^verbatim>\<open>Wire\<close>).
\<close>

section \<open>Requests\<close>

record HttpRequest =
  ht_method :: string
  ht_path :: string
  ht_query :: jobject
  ht_body :: jobject
  ht_request :: Request

datatype Guard = Unguarded | ClientApiKeyGuard | AdminApiKeyGuard

datatype Endpoint =
    E_getServiceMetadata | E_getLiveness | E_getReadiness
  | E_treasuryStatus | E_treasuryBalances
  | E_createPayout | E_listPayouts | E_getPayout | E_authorizePayoutBatch | E_authorizePayout | E_reconcilePayout
  | E_createPayIn | E_listPayIns | E_getPayIn | E_reconcilePayIn | E_sweepPayIn | E_acceptPayIn | E_topUpPayIn
  | E_topUpAndSweep
  | E_recordSettlement | E_listSettlements | E_getSettlement | E_revealSettlement
  | E_createClient | E_listClients | E_getClient | E_updateClient | E_rotateApiKey
  | E_checkoutConfig | E_createSession | E_getSession | E_reconcileSession
  | E_prepararRetiro | E_autorizarRetiro | E_consultarEstadoRetiroGet | E_consultarEstadoRetiroPost
  | E_runReconciliation
  | E_getSummary | E_getSweepQueue | E_getWebhookDeliveries | E_getAuditTrail

datatype Segment = Lit string | Param

text \<open>What every handler is given besides the path parameters.\<close>

record Call =
  ca_env :: Env
  ca_formats :: Formats
  ca_isUUID :: "string \<Rightarrow> bool"
  ca_http :: HttpRequest
  ca_client :: "ClientRecord option"

definition context_of :: "Call \<Rightarrow> string option \<Rightarrow> RequestContext" where
  "context_of c actor = extractRequestContext (ca_client c) (ht_request (ca_http c)) actor"

text \<open>\<^verbatim>\<open>request.avasettleClient!.id\<close>\<close>

definition client_id :: "Call \<Rightarrow> exn + string" where
  "client_id c = map_sum id cl_id (nonnull ''id'' (ca_client c))"

text \<open>What a handler returns becomes the body; a handler whose body or query is validated first.\<close>

definition reply :: "('a \<Rightarrow> json) \<Rightarrow> 'a io \<Rightarrow> json io" where
  "reply encode p = bindP p (\<lambda>a. Ret (encode a))"

definition list_json :: "('a \<Rightarrow> json) \<Rightarrow> 'a list \<Rightarrow> json" where
  "list_json encode as = JArr (map encode as)"

definition validated :: "('a \<Rightarrow> json) \<Rightarrow> exn + 'd \<Rightarrow> ('d \<Rightarrow> 'a io) \<Rightarrow> json io" where
  "validated encode dto handler = bindP (liftE dto) (\<lambda>d. reply encode (handler d))"

section \<open>Payouts controller\<close>

definition payouts_createPayout :: "Call \<Rightarrow> json io" where
  "payouts_createPayout c = validated payout_json (parse_CreatePayoutDto (ca_formats c) (ht_body (ca_http c)))
     (\<lambda>dto. createPayout (ca_env c) dto (context_of c None))"

definition payouts_listPayouts :: "Call \<Rightarrow> json io" where
  "payouts_listPayouts c = validated (list_json payout_json) (parse_ListPayoutsQueryDto (ht_query (ca_http c)))
     (\<lambda>f. listPayouts (ca_env c) f (context_of c None))"

definition payouts_getPayout :: "Call \<Rightarrow> string \<Rightarrow> json io" where
  "payouts_getPayout c i = reply payout_json (getPayout (ca_env c) i (context_of c None))"

definition payouts_authorizePayoutBatch :: "Call \<Rightarrow> json io" where
  "payouts_authorizePayoutBatch c = validated (list_json payout_json) (parse_BatchAuthorizePayoutDto (ht_body (ca_http c)))
     (\<lambda>(ids, dto). authorizePayoutBatch (ca_env c) ids dto (context_of c None))"

definition payouts_authorizePayout :: "Call \<Rightarrow> string \<Rightarrow> json io" where
  "payouts_authorizePayout c i = validated payout_json (parse_AuthorizePayoutDto (ht_body (ca_http c)))
     (\<lambda>dto. authorizePayout (ca_env c) i dto (context_of c None))"

definition payouts_reconcilePayout :: "Call \<Rightarrow> string \<Rightarrow> json io" where
  "payouts_reconcilePayout c i = reply payout_json (reconcilePayout (ca_env c) i (context_of c None))"

section \<open>Pay-ins controller\<close>

definition payins_createPayIn :: "Call \<Rightarrow> json io" where
  "payins_createPayIn c = validated payin_json (parse_CreatePayInDto (ht_body (ca_http c)))
     (\<lambda>dto. createPayIn (ca_env c) dto (context_of c None))"

definition payins_listPayIns :: "Call \<Rightarrow> json io" where
  "payins_listPayIns c = validated (list_json payin_json) (parse_ListPayInsQueryDto (ht_query (ca_http c)))
     (\<lambda>f. listPayIns (ca_env c) f (context_of c None))"

definition payins_getPayIn :: "Call \<Rightarrow> string \<Rightarrow> json io" where
  "payins_getPayIn c i = reply payin_json (getPayIn (ca_env c) i (context_of c None))"

definition payins_reconcilePayIn :: "Call \<Rightarrow> string \<Rightarrow> json io" where
  "payins_reconcilePayIn c i = reply payin_json (reconcilePayIn (ca_env c) i (context_of c None))"

definition payins_sweepPayIn :: "Call \<Rightarrow> string \<Rightarrow> json io" where
  "payins_sweepPayIn c i = validated payin_json (parse_SweepPayInDto (ht_body (ca_http c)))
     (\<lambda>dto. sweepPayIn (ca_env c) i dto (context_of c None))"

definition payins_acceptPayIn :: "Call \<Rightarrow> string \<Rightarrow> json io" where
  "payins_acceptPayIn c i = validated payin_json (parse_AcceptPayInDto (ht_body (ca_http c)))
     (\<lambda>note. acceptPayIn (ca_env c) i note (context_of c None))"

definition payins_topUpPayIn :: "Call \<Rightarrow> string \<Rightarrow> json io" where
  "payins_topUpPayIn c i = validated payin_json (parse_TopUpPayInDto (ht_body (ca_http c)))
     (\<lambda>amount. topUpPayIn (ca_env c) i amount (context_of c None))"

definition payins_topUpAndSweep :: "Call \<Rightarrow> string \<Rightarrow> json io" where
  "payins_topUpAndSweep c i = validated payin_json (parse_TopUpAndSweepDto (ht_body (ca_http c)))
     (\<lambda>(amount, notes). topUpAndSweep (ca_env c) i amount notes (context_of c None))"

section \<open>Settlements controller\<close>

definition settlements_record :: "Call \<Rightarrow> json io" where
  "settlements_record c = validated settlement_json (parse_CreateSettlementDto (ht_body (ca_http c)))
     (\<lambda>dto. record_settlement (ca_env c) dto (context_of c None))"

definition settlements_list :: "Call \<Rightarrow> json io" where
  "settlements_list c = validated (list_json settlement_json) (parse_ListSettlementsQueryDto (ht_query (ca_http c)))
     (\<lambda>(limit, offset). list_settlements (ca_env c) limit offset (context_of c None))"

definition settlements_get :: "Call \<Rightarrow> string \<Rightarrow> json io" where
  "settlements_get c i = reply settlement_json (get_settlement (ca_env c) i (context_of c None))"

definition settlements_reveal :: "Call \<Rightarrow> string \<Rightarrow> json io" where
  "settlements_reveal c i = reply settlement_json (reveal_settlement (ca_env c) i (context_of c None))"

section \<open>Clients controller\<close>

text \<open>\<^verbatim>\<open>ParseUUIDPipe\<close> on the path parameter.\<close>

definition parseUUID :: "Call \<Rightarrow> string \<Rightarrow> exn + string" where
  "parseUUID c i = (if ca_isUUID c i then Inr i else Inl (BadRequest ''Validation failed (uuid is expected)''))"

definition clients_createClient :: "Call \<Rightarrow> json io" where
  "clients_createClient c = validated client_key_json (parse_CreateClientDto (ca_formats c) (ht_body (ca_http c)))
     (createClient (ca_env c))"

definition clients_listClients :: "Call \<Rightarrow> json io" where
  "clients_listClients c = reply (list_json client_json) (listClients (ca_env c))"

definition clients_getClient :: "Call \<Rightarrow> string \<Rightarrow> json io" where
  "clients_getClient c i = validated client_json (parseUUID c i) (getClient (ca_env c))"

definition clients_updateClient :: "Call \<Rightarrow> string \<Rightarrow> json io" where
  "clients_updateClient c i = bindP (liftE (parseUUID c i)) (\<lambda>j.
     validated client_json (parse_UpdateClientDto (ca_formats c) (ht_body (ca_http c))) (updateClient (ca_env c) j))"

definition clients_rotateApiKey :: "Call \<Rightarrow> string \<Rightarrow> json io" where
  "clients_rotateApiKey c i = validated client_key_json (parseUUID c i) (rotateApiKey (ca_env c))"

section \<open>Checkout controller\<close>

definition checkout_getConfig :: "Call \<Rightarrow> json io" where
  "checkout_getConfig c = reply checkout_config_json (liftE (getConfig (process_env (ca_env c))))"

definition checkout_createSession :: "Call \<Rightarrow> json io" where
  "checkout_createSession c = validated session_json (parse_CreateCheckoutSessionDto (ht_body (ca_http c)))
     (createSession (ca_env c))"

definition checkout_getSession :: "Call \<Rightarrow> string \<Rightarrow> json io" where
  "checkout_getSession c i = reply session_json (getSession (ca_env c) i)"

definition checkout_reconcileSession :: "Call \<Rightarrow> string \<Rightarrow> json io" where
  "checkout_reconcileSession c i = reply session_json (reconcileSession (ca_env c) i)"

section \<open>Chain Flow controller\<close>

definition chainFlow_prepararRetiro :: "Call \<Rightarrow> json io" where
  "chainFlow_prepararRetiro c = validated chain_flow_json (parse_ChainFlowRetiroDto (ca_formats c) (ht_body (ca_http c)))
     (\<lambda>dto. prepararRetiro (ca_env c) dto (context_of c (Some ''chain-flow'')))"

definition chainFlow_autorizarRetiro :: "Call \<Rightarrow> json io" where
  "chainFlow_autorizarRetiro c = validated chain_flow_json (parse_ChainFlowEstadoRetiroDto (ht_body (ca_http c)))
     (\<lambda>dto. autorizarRetiro (ca_env c) dto (context_of c (Some ''chain-flow'')))"

definition chainFlow_consultarEstadoRetiroGet :: "Call \<Rightarrow> json io" where
  "chainFlow_consultarEstadoRetiroGet c = validated chain_flow_json (parse_ChainFlowEstadoRetiroDto (ht_query (ca_http c)))
     (\<lambda>dto. consultarEstadoRetiro (ca_env c) dto (context_of c (Some ''chain-flow'')))"

definition chainFlow_consultarEstadoRetiroPost :: "Call \<Rightarrow> json io" where
  "chainFlow_consultarEstadoRetiroPost c = validated chain_flow_json (parse_ChainFlowEstadoRetiroDto (ht_body (ca_http c)))
     (\<lambda>dto. consultarEstadoRetiro (ca_env c) dto (context_of c (Some ''chain-flow'')))"

section \<open>The other controllers\<close>

definition admin_context :: "Request \<Rightarrow> RequestContext" where
  "admin_context r =
     \<lparr>rc_clientId = None, rc_clientName = None, rc_correlationId = firstHeader (rq_correlationId r),
      rc_idempotencyKey = None, rc_actor = Some ''admin'', rc_sourceIp = rq_ip r\<rparr>"

definition reconciliation_run :: "Call \<Rightarrow> json io" where
  "reconciliation_run c = reply reconciliation_run_json (run_reconciliation (ca_env c) (admin_context (ht_request (ca_http c))))"

definition reports_getSummary :: "Call \<Rightarrow> json io" where
  "reports_getSummary c = validated summary_json (client_id c) (getInstitutionalSummary (ca_env c))"

definition reports_getSweepQueue :: "Call \<Rightarrow> json io" where
  "reports_getSweepQueue c = reply (report_json ''items'' sweep_item_json) (getSweepQueue (ca_env c))"

definition reports_getWebhookDeliveries :: "Call \<Rightarrow> json io" where
  "reports_getWebhookDeliveries c = validated (report_json ''items'' delivery_json) (parse_WebhookDeliveriesQueryDto (ht_query (ca_http c)))
     (\<lambda>(limit, failed). bindP (liftE (client_id c)) (\<lambda>i.
        getWebhookDeliveries (ca_env c) i (case limit of None \<Rightarrow> 50 | Some n \<Rightarrow> n) (failed = Some True)))"

definition reports_getAuditTrail :: "Call \<Rightarrow> json io" where
  "reports_getAuditTrail c = validated (report_json ''events'' audit_event_json) (parse_AuditTrailQueryDto (ca_formats c) (ht_query (ca_http c)))
     (\<lambda>q. bindP (liftE (client_id c)) (\<lambda>i.
        getAuditTrail (ca_env c) i (aq_from q) (aq_to q) (aq_subjectId q) (aq_limit q)))"

definition treasury_getStatus :: "Call \<Rightarrow> json io" where
  "treasury_getStatus c = reply treasury_status_json (liftE (getStatus (ca_env c)))"

definition treasury_getBalances :: "Call \<Rightarrow> json io" where
  "treasury_getBalances c = reply treasury_balances_json (getBalances (ca_env c))"

definition health_getLiveness :: "Call \<Rightarrow> json io" where
  "health_getLiveness c = reply liveness_json (getLiveness (ca_env c))"

definition health_getReadiness :: "Call \<Rightarrow> json io" where
  "health_getReadiness c = reply readiness_json (getReadiness (ca_env c))"

definition app_getServiceMetadata :: "Call \<Rightarrow> json io" where
  "app_getServiceMetadata c = reply metadata_json (liftE (getServiceMetadata (ca_env c)))"

section \<open>The route table\<close>

record Route =
  ro_method :: string
  ro_pattern :: "Segment list"
  ro_guard :: Guard
  ro_endpoint :: Endpoint

definition route :: "string \<Rightarrow> Segment list \<Rightarrow> Guard \<Rightarrow> Endpoint \<Rightarrow> Route" where
  "route m p g e = \<lparr>ro_method = m, ro_pattern = p, ro_guard = g, ro_endpoint = e\<rparr>"

definition payouts_routes :: "Route list" where
  "payouts_routes = (let base = [Lit ''v1'', Lit ''payouts''] in
     [route ''POST'' base ClientApiKeyGuard E_createPayout,
      route ''GET'' base ClientApiKeyGuard E_listPayouts,
      route ''GET'' (base @ [Param]) ClientApiKeyGuard E_getPayout,
      route ''POST'' (base @ [Lit ''batch-authorize'']) ClientApiKeyGuard E_authorizePayoutBatch,
      route ''POST'' (base @ [Param, Lit ''authorize'']) ClientApiKeyGuard E_authorizePayout,
      route ''POST'' (base @ [Param, Lit ''reconcile'']) ClientApiKeyGuard E_reconcilePayout])"

definition payins_routes :: "Route list" where
  "payins_routes = (let base = [Lit ''v1'', Lit ''payins''] in
     [route ''POST'' base ClientApiKeyGuard E_createPayIn,
      route ''GET'' base ClientApiKeyGuard E_listPayIns,
      route ''GET'' (base @ [Param]) ClientApiKeyGuard E_getPayIn,
      route ''POST'' (base @ [Param, Lit ''reconcile'']) ClientApiKeyGuard E_reconcilePayIn,
      route ''POST'' (base @ [Param, Lit ''sweep'']) ClientApiKeyGuard E_sweepPayIn,
      route ''POST'' (base @ [Param, Lit ''accept'']) ClientApiKeyGuard E_acceptPayIn,
      route ''POST'' (base @ [Param, Lit ''topup'']) ClientApiKeyGuard E_topUpPayIn,
      route ''POST'' (base @ [Param, Lit ''topup-and-sweep'']) ClientApiKeyGuard E_topUpAndSweep])"

definition settlements_routes :: "Route list" where
  "settlements_routes = (let base = [Lit ''v1'', Lit ''settlements''] in
     [route ''POST'' base ClientApiKeyGuard E_recordSettlement,
      route ''GET'' base ClientApiKeyGuard E_listSettlements,
      route ''GET'' (base @ [Param]) ClientApiKeyGuard E_getSettlement,
      route ''POST'' (base @ [Param, Lit ''reveal'']) ClientApiKeyGuard E_revealSettlement])"

definition clients_routes :: "Route list" where
  "clients_routes = (let base = [Lit ''v1'', Lit ''admin'', Lit ''clients''] in
     [route ''POST'' base AdminApiKeyGuard E_createClient,
      route ''GET'' base AdminApiKeyGuard E_listClients,
      route ''GET'' (base @ [Param]) AdminApiKeyGuard E_getClient,
      route ''PATCH'' (base @ [Param]) AdminApiKeyGuard E_updateClient,
      route ''POST'' (base @ [Param, Lit ''rotate-key'']) AdminApiKeyGuard E_rotateApiKey])"

definition checkout_routes :: "Route list" where
  "checkout_routes =
     [route ''GET'' [Lit ''checkout'', Lit ''config''] Unguarded E_checkoutConfig,
      route ''POST'' [Lit ''checkout'', Lit ''sessions''] Unguarded E_createSession,
      route ''GET'' [Lit ''checkout'', Lit ''sessions'', Param] Unguarded E_getSession,
      route ''POST'' [Lit ''checkout'', Lit ''sessions'', Param, Lit ''reconcile''] Unguarded E_reconcileSession]"

definition chainFlow_routes :: "Route list" where
  "chainFlow_routes =
     [route ''POST'' [Lit ''api'', Lit ''prepararretiro''] ClientApiKeyGuard E_prepararRetiro,
      route ''POST'' [Lit ''api'', Lit ''autorizarretiro''] ClientApiKeyGuard E_autorizarRetiro,
      route ''GET'' [Lit ''api'', Lit ''consultarestadoretiro''] ClientApiKeyGuard E_consultarEstadoRetiroGet,
      route ''POST'' [Lit ''api'', Lit ''consultarestadoretiro''] ClientApiKeyGuard E_consultarEstadoRetiroPost]"

definition reports_routes :: "Route list" where
  "reports_routes = (let base = [Lit ''v1'', Lit ''reports''] in
     [route ''GET'' (base @ [Lit ''summary'']) ClientApiKeyGuard E_getSummary,
      route ''GET'' (base @ [Lit ''sweep-queue'']) AdminApiKeyGuard E_getSweepQueue,
      route ''GET'' (base @ [Lit ''webhook-deliveries'']) ClientApiKeyGuard E_getWebhookDeliveries,
      route ''GET'' (base @ [Lit ''audit'']) ClientApiKeyGuard E_getAuditTrail])"

definition reconciliation_routes :: "Route list" where
  "reconciliation_routes =
     [route ''POST'' [Lit ''v1'', Lit ''reconciliation'', Lit ''run''] AdminApiKeyGuard E_runReconciliation]"

definition status_routes :: "Route list" where
  "status_routes =
     [route ''GET'' [] Unguarded E_getServiceMetadata,
      route ''GET'' [Lit ''health''] Unguarded E_getLiveness,
      route ''GET'' [Lit ''health'', Lit ''readiness''] Unguarded E_getReadiness,
      route ''GET'' [Lit ''v1'', Lit ''treasury'', Lit ''status''] ClientApiKeyGuard E_treasuryStatus,
      route ''GET'' [Lit ''v1'', Lit ''treasury'', Lit ''balances''] ClientApiKeyGuard E_treasuryBalances]"

definition routes :: "Route list" where
  "routes = status_routes @ clients_routes @ payouts_routes @ chainFlow_routes @ payins_routes @
     checkout_routes @ reconciliation_routes @ reports_routes @ settlements_routes"

text \<open>
  A literal matches without regard to case and a parameter matches one non-empty segment, which
  is handed on decoded; a segment that cannot be decoded is a \<^verbatim>\<open>400\<close>.
\<close>

fun match_pattern :: "Segment list \<Rightarrow> string list \<Rightarrow> string list option" where
  "match_pattern [] [] = Some []"
| "match_pattern (Lit l # ps) (s # segs) =
     (if toLowerCase l = toLowerCase s then match_pattern ps segs else None)"
| "match_pattern (Param # ps) (s # segs) =
     (if s = [] then None else map_option ((#) s) (match_pattern ps segs))"
| "match_pattern _ _ = None"

fun find_route :: "Route list \<Rightarrow> string \<Rightarrow> string list \<Rightarrow> (Route \<times> string list) option" where
  "find_route [] m segs = None"
| "find_route (r # rs) m segs =
     (if ro_method r = m
      then (case match_pattern (ro_pattern r) segs of Some ps \<Rightarrow> Some (r, ps) | None \<Rightarrow> find_route rs m segs)
      else find_route rs m segs)"

definition decode_params :: "string list \<Rightarrow> exn + string list" where
  "decode_params ps = collect (map (\<lambda>p. case decodeURIComponent p of
     Some s \<Rightarrow> Inr s | None \<Rightarrow> Inl (BadRequest ''Failed to decode param'')) ps)"

section \<open>Dispatch\<close>

text \<open>The first path parameter, for the handlers that have one.\<close>

definition handler :: "Endpoint \<Rightarrow> Call \<Rightarrow> string \<Rightarrow> json io" where
  "handler e c i =
     (case e of
        E_getServiceMetadata \<Rightarrow> app_getServiceMetadata c | E_getLiveness \<Rightarrow> health_getLiveness c
      | E_getReadiness \<Rightarrow> health_getReadiness c | E_treasuryStatus \<Rightarrow> treasury_getStatus c
      | E_treasuryBalances \<Rightarrow> treasury_getBalances c
      | E_createPayout \<Rightarrow> payouts_createPayout c | E_listPayouts \<Rightarrow> payouts_listPayouts c
      | E_getPayout \<Rightarrow> payouts_getPayout c i | E_authorizePayoutBatch \<Rightarrow> payouts_authorizePayoutBatch c
      | E_authorizePayout \<Rightarrow> payouts_authorizePayout c i | E_reconcilePayout \<Rightarrow> payouts_reconcilePayout c i
      | E_createPayIn \<Rightarrow> payins_createPayIn c | E_listPayIns \<Rightarrow> payins_listPayIns c
      | E_getPayIn \<Rightarrow> payins_getPayIn c i | E_reconcilePayIn \<Rightarrow> payins_reconcilePayIn c i
      | E_sweepPayIn \<Rightarrow> payins_sweepPayIn c i | E_acceptPayIn \<Rightarrow> payins_acceptPayIn c i
      | E_topUpPayIn \<Rightarrow> payins_topUpPayIn c i | E_topUpAndSweep \<Rightarrow> payins_topUpAndSweep c i
      | E_recordSettlement \<Rightarrow> settlements_record c | E_listSettlements \<Rightarrow> settlements_list c
      | E_getSettlement \<Rightarrow> settlements_get c i | E_revealSettlement \<Rightarrow> settlements_reveal c i
      | E_createClient \<Rightarrow> clients_createClient c | E_listClients \<Rightarrow> clients_listClients c
      | E_getClient \<Rightarrow> clients_getClient c i | E_updateClient \<Rightarrow> clients_updateClient c i
      | E_rotateApiKey \<Rightarrow> clients_rotateApiKey c i
      | E_checkoutConfig \<Rightarrow> checkout_getConfig c | E_createSession \<Rightarrow> checkout_createSession c
      | E_getSession \<Rightarrow> checkout_getSession c i | E_reconcileSession \<Rightarrow> checkout_reconcileSession c i
      | E_prepararRetiro \<Rightarrow> chainFlow_prepararRetiro c | E_autorizarRetiro \<Rightarrow> chainFlow_autorizarRetiro c
      | E_consultarEstadoRetiroGet \<Rightarrow> chainFlow_consultarEstadoRetiroGet c
      | E_consultarEstadoRetiroPost \<Rightarrow> chainFlow_consultarEstadoRetiroPost c
      | E_runReconciliation \<Rightarrow> reconciliation_run c
      | E_getSummary \<Rightarrow> reports_getSummary c | E_getSweepQueue \<Rightarrow> reports_getSweepQueue c
      | E_getWebhookDeliveries \<Rightarrow> reports_getWebhookDeliveries c | E_getAuditTrail \<Rightarrow> reports_getAuditTrail c)"

text \<open>The guard of the route; the client guard attaches the client to the request.\<close>

definition run_guard :: "Env \<Rightarrow> Guard \<Rightarrow> Request \<Rightarrow> ClientRecord option io" where
  "run_guard env g r =
     (case g of
        Unguarded \<Rightarrow> Ret None
      | AdminApiKeyGuard \<Rightarrow> bindP (liftE (admin_canActivate env r)) (\<lambda>_. Ret None)
      | ClientApiKeyGuard \<Rightarrow> bindP (client_canActivate env r) (\<lambda>c. Ret (Some c)))"

text \<open>
  What the process brings to a request: its settings and libraries, the pattern checks, the
  log masking, and the fresh random values of the trace.
\<close>

record ServerSetup =
  sr_env :: Env
  sr_formats :: Formats
  sr_isUUID :: "string \<Rightarrow> bool"

definition route_request :: "ServerSetup \<Rightarrow> HttpRequest \<Rightarrow> json io" where
  "route_request sv r =
     (case find_route routes (ht_method r) (path_segments (ht_path r)) of
        None \<Rightarrow> Raise (NotFound (''Cannot '' @ ht_method r @ '' '' @ ht_path r))
      | Some (rt, raw) \<Rightarrow>
          bindP (liftE (decode_params raw)) (\<lambda>ps.
          bindP (run_guard (sr_env sv) (ro_guard rt) (ht_request r)) (\<lambda>client.
          handler (ro_endpoint rt)
            \<lparr>ca_env = sr_env sv, ca_formats = sr_formats sv, ca_isUUID = sr_isUUID sv, ca_http = r, ca_client = client\<rparr>
            (case ps of [] \<Rightarrow> [] | p # _ \<Rightarrow> p))))"

text \<open>An answer: the body of a success, or the status and the body of an error.\<close>

datatype Answer = Success json | ErrorAnswer int json

definition error_answer :: "exn \<Rightarrow> Answer" where
  "error_answer e =
     (case http_status e of
        Some s \<Rightarrow> ErrorAnswer s (exception_body e)
      | None \<Rightarrow> ErrorAnswer 500 (JObj [(''statusCode'', JInt 500), (''message'', JStr ''Internal server error'')]))"

definition answer_request :: "ServerSetup \<Rightarrow> HttpRequest \<Rightarrow> Answer io" where
  "answer_request sv r =
     catchP (bindP (route_request sv r) (\<lambda>body. Ret (Success body))) (\<lambda>e. Ret (error_answer e))"

text \<open>
  The middleware in front: a throttled request is answered with \<^verbatim>\<open>429\<close> and never routed.  The
  windows of the throttle are the second component.
\<close>

definition throttled_answer :: "int \<Rightarrow> Answer" where
  "throttled_answer retryAfterMs = ErrorAnswer 429 (JObj [(''statusCode'', JInt 429),
     (''message'', JStr ''Too many requests. Slow down.''), (''retryAfterMs'', JInt retryAfterMs)])"

definition serve ::
  "ServerSetup \<Rightarrow> (string \<times> WindowEntry) list \<Rightarrow> timestamp \<Rightarrow> HttpRequest \<Rightarrow>
   (exn + Answer io) \<times> (string \<times> WindowEntry) list" where
  "serve sv windows t r =
     (case throttleRps (process_env (sr_env sv)) of Inl e \<Rightarrow> (Inl e, windows)
      | Inr limit \<Rightarrow>
        (case throttle_use limit (bucketKey (sha256 (sr_env sv)) (ht_request r)) t windows of
           (Next, windows') \<Rightarrow> (Inr (answer_request sv r), windows')
         | (TooManyRequests ms, windows') \<Rightarrow> (Inr (Ret (throttled_answer ms)), windows')))"

end
