(* ===== verification/Access.thy ===== *)
theory Access
  imports Http Sample
begin

text \<open>
  Who gets past the guards: every endpoint but the public ones refuses a request whose key
  authenticates nobody, before its handler runs.
\<close>

definition public_endpoints :: "Endpoint list" where
  "public_endpoints =
     [E_getServiceMetadata, E_getLiveness, E_getReadiness, E_checkoutConfig, E_createSession, E_getSession,
      E_reconcileSession]"

text \<open>The key is an active client's, or a cached answer for it has not expired.\<close>

definition knows_client :: "Env \<Rightarrow> Request \<Rightarrow> World \<Rightarrow> bool" where
  "knows_client env r w \<longleftrightarrow> (\<exists>key. extractApiKey r = Some key \<and>
     ((\<exists>e. map_of (w_apiKeyCache w) (sha256 env key) = Some e \<and> ce_expiresAt e > time env w) \<or>
      (\<exists>c\<in>set (w_clients w). cr_apiKeyHash c = sha256 env key \<and> cl_status (cr_client c) = ClActive)))"

definition knows_admin :: "Env \<Rightarrow> Request \<Rightarrow> bool" where
  "knows_admin env r \<longleftrightarrow> adminApiKey (process_env env) \<noteq> [] \<and>
     (\<exists>key. extractApiKey r = Some key \<and> sha256 env key = sha256 env (adminApiKey (process_env env)))"

definition admitted :: "Env \<Rightarrow> Guard \<Rightarrow> Request \<Rightarrow> World \<Rightarrow> bool" where
  "admitted env g r w =
     (case g of Unguarded \<Rightarrow> True | ClientApiKeyGuard \<Rightarrow> knows_client env r w | AdminApiKeyGuard \<Rightarrow> knows_admin env r)"

text \<open>Nothing but the key cache and the clock of events moved.\<close>

definition untouched :: "World \<Rightarrow> World \<Rightarrow> bool" where
  "untouched w w' \<longleftrightarrow> w' = w\<lparr>w_event := w_event w', w_apiKeyCache := w_apiKeyCache w'\<rparr>"

lemma untouched_simps [simp]:
  "untouched w w" "untouched w (bump w)" "untouched w (w\<lparr>w_apiKeyCache := c\<rparr>)" "untouched w ((bump w)\<lparr>w_apiKeyCache := c\<rparr>)"
  by (simp_all add: untouched_def bump_def)

lemma find_route_in: "find_route rs m segs = Some (rt, raw) \<Longrightarrow> rt \<in> set rs"
  by (induction rs) (auto split: if_splits option.splits)

lemma guarded_endpoints:
  assumes "rt \<in> set routes" and "ro_endpoint rt \<notin> set public_endpoints"
  shows "ro_guard rt \<noteq> Unguarded"
proof -
  have "\<forall>rt\<in>set rs. ro_endpoint rt \<notin> set public_endpoints \<longrightarrow> ro_guard rt \<noteq> Unguarded"
    if "rs \<in> {status_routes, clients_routes, payouts_routes, chainFlow_routes, payins_routes, checkout_routes,
      reconciliation_routes, reports_routes, settlements_routes}" for rs
    using that unfolding public_endpoints_def status_routes_def clients_routes_def payouts_routes_def
      chainFlow_routes_def payins_routes_def checkout_routes_def reconciliation_routes_def reports_routes_def
      settlements_routes_def Let_def route_def
    by (elim insertE emptyE) simp_all
  then show ?thesis using assms unfolding routes_def by auto
qed

definition refusal :: "Env \<Rightarrow> World \<Rightarrow> exn \<Rightarrow> World \<Rightarrow> bool" where
  "refusal env w e w' \<longleftrightarrow> untouched w w' \<and>
     ((\<exists>m. e = Unauthorized m) \<or> (\<exists>m. db_fault env (w_event w) = Some m \<and> e = JsError m))"

lemma ends_guard_refuses:
  assumes "\<not> admitted env g r w"
  shows "ends (run_guard env g r) w (\<lambda>_ _. False) (refusal env w)"
proof (cases g)
  case ClientApiKeyGuard
  show ?thesis
  proof (cases "extractApiKey r")
    case None
    then show ?thesis using ClientApiKeyGuard
      by (simp add: run_guard_def client_canActivate_def ends_simps refusal_def)
  next
    case (Some key)
    have "find (\<lambda>c. cr_apiKeyHash c = sha256 env key \<and> cl_status (cr_client c) = ClActive) (w_clients w) = None"
      using assms ClientApiKeyGuard Some by (auto simp: admitted_def knows_client_def find_None_iff)
    moreover have "\<not> (case map_of (w_apiKeyCache w) (sha256 env key) of Some e \<Rightarrow> ce_expiresAt e > time env w | None \<Rightarrow> False)"
      using assms ClientApiKeyGuard Some by (auto simp: admitted_def knows_client_def split: option.splits)
    ultimately show ?thesis using ClientApiKeyGuard Some
      by (simp add: run_guard_def client_canActivate_def resolveActiveClientByApiKey_def hashApiKey_def Let_def
          ends_simps findActiveByApiKeyHash_def query_def modify_cache_def refusal_def split: option.split)
  qed
next
  case AdminApiKeyGuard
  then show ?thesis using assms
    by (auto simp: run_guard_def admin_canActivate_def adminApiKeyConfigured_def validateAdminApiKey_def Let_def
        ends_simps refusal_def admitted_def knows_admin_def split: option.splits)
qed (use assms in \<open>simp add: admitted_def\<close>)


text \<open>A request for the payouts without a key.\<close>

definition anonymous_request :: HttpRequest where
  "anonymous_request =
     \<lparr>ht_method = ''GET'', ht_path = ''/v1/payouts'', ht_query = [], ht_body = [],
      ht_request = \<lparr>rq_apiKey = None, rq_authorization = None, rq_correlationId = None, rq_idempotencyKey = None,
        rq_ip = Some ''10.0.0.1''\<rparr>\<rparr>"

definition small_setup :: ServerSetup where
  "small_setup =
     \<lparr>sr_env = sample_env,
      sr_formats = \<lparr>fm_isUrl = (\<lambda>_. True), fm_isEthereumAddress = (\<lambda>_. True), fm_parseISO = (\<lambda>_. None)\<rparr>,
      sr_isUUID = (\<lambda>_. True)\<rparr>"


end
