(* ===== verification/Sdk.thy ===== *)
theory Sdk
  imports Http
begin

text \<open>
  The client library (\<^verbatim>\<open>sdk/src/index.ts\<close>, \<^verbatim>\<open>sdk/src/types.ts\<close>): the input types, one request per
  method, and the common \<^verbatim>\<open>request\<close> that builds the URL, sends, and turns a refusal into an
  \<^verbatim>\<open>AvaSettleApiError\<close>.  The network is an argument.  A base URL is taken as
  \<^verbatim>\<open>scheme://authority/path\<close> without query or fragment; the query stays a list of texts.
\<close>

section \<open>Input types\<close>

text \<open>An optional property that is \<open>None\<close> is undefined, so \<^verbatim>\<open>JSON.stringify\<close> leaves it out (\<open>json_if\<close>).\<close>

record CreatePayInInput =
  pii_externalId :: string
  pii_amount :: string
  pii_asset :: SettlementAsset
  pii_collectionMode :: "PayInCollectionMode option"
  pii_routerInvoiceId :: "string option"
  pii_chainFlowRequestId :: "string option"
  pii_expiresInMinutes :: "int option"
  pii_metadata :: "jobject option"

definition payin_input :: "CreatePayInInput \<Rightarrow> jobject" where
  "payin_input i =
     [(''externalId'', JStr (pii_externalId i)), (''amount'', JStr (pii_amount i)),
      (''asset'', JStr (asset_text (pii_asset i)))] @
     json_if ''collectionMode'' (map_option (JStr \<circ> mode_text) (pii_collectionMode i)) @
     text_if ''routerInvoiceId'' (pii_routerInvoiceId i) @
     text_if ''chainFlowRequestId'' (pii_chainFlowRequestId i) @
     json_if ''expiresInMinutes'' (map_option JInt (pii_expiresInMinutes i)) @
     json_if ''metadata'' (map_option JObj (pii_metadata i))"

record CreatePayoutInput =
  poi_externalId :: string
  poi_amount :: string
  poi_asset :: SettlementAsset
  poi_beneficiaryAddress :: string
  poi_beneficiaryName :: "string option"
  poi_memo :: "string option"
  poi_metadata :: "jobject option"
  poi_executeImmediately :: "bool option"

definition payout_input :: "CreatePayoutInput \<Rightarrow> jobject" where
  "payout_input i =
     [(''externalId'', JStr (poi_externalId i)), (''amount'', JStr (poi_amount i)),
      (''asset'', JStr (asset_text (poi_asset i))), (''beneficiaryAddress'', JStr (poi_beneficiaryAddress i))] @
     text_if ''beneficiaryName'' (poi_beneficiaryName i) @ text_if ''memo'' (poi_memo i) @
     json_if ''metadata'' (map_option JObj (poi_metadata i)) @
     json_if ''executeImmediately'' (map_option JBool (poi_executeImmediately i))"

record AuthorizePayoutInput =
  aui_approvedBy :: "string option"
  aui_riskDecisionId :: "string option"
  aui_notes :: "string option"

definition authorize_input :: "AuthorizePayoutInput \<Rightarrow> jobject" where
  "authorize_input i = text_if ''approvedBy'' (aui_approvedBy i) @
     text_if ''riskDecisionId'' (aui_riskDecisionId i) @ text_if ''notes'' (aui_notes i)"

record BatchAuthorizePayoutInput = AuthorizePayoutInput +
  bai_payoutIds :: "string list"

definition batch_input :: "BatchAuthorizePayoutInput \<Rightarrow> jobject" where
  "batch_input i = authorize_input (AuthorizePayoutInput.truncate i) @
     [(''payoutIds'', JArr (map JStr (bai_payoutIds i)))]"

record CreateClientInput =
  cli_name :: string
  cli_webhookUrl :: "string option"
  cli_webhookSecret :: "string option"
  cli_metadata :: "jobject option"

definition client_input :: "CreateClientInput \<Rightarrow> jobject" where
  "client_input i = [(''name'', JStr (cli_name i))] @ text_if ''webhookUrl'' (cli_webhookUrl i) @
     text_if ''webhookSecret'' (cli_webhookSecret i) @ json_if ''metadata'' (map_option JObj (cli_metadata i))"

record UpdateClientInput =
  upi_name :: "string option"
  upi_status :: "ClientStatus option"
  upi_webhookUrl :: "string option"
  upi_webhookSecret :: "string option"
  upi_metadata :: "jobject option"

definition client_update_input :: "UpdateClientInput \<Rightarrow> jobject" where
  "client_update_input i = text_if ''name'' (upi_name i) @
     json_if ''status'' (map_option (\<lambda>s. JStr (case s of ClActive \<Rightarrow> ''active'' | ClDisabled \<Rightarrow> ''disabled'')) (upi_status i)) @
     text_if ''webhookUrl'' (upi_webhookUrl i) @ text_if ''webhookSecret'' (upi_webhookSecret i) @
     json_if ''metadata'' (map_option JObj (upi_metadata i))"

record CreateCheckoutSessionInput =
  csi_amount :: string
  csi_asset :: "SettlementAsset option"
  csi_reference :: "string option"

definition checkout_input :: "CreateCheckoutSessionInput \<Rightarrow> jobject" where
  "checkout_input i = [(''amount'', JStr (csi_amount i))] @
     json_if ''asset'' (map_option (JStr \<circ> asset_text) (csi_asset i)) @ text_if ''reference'' (csi_reference i)"

record CreateSettlementInput =
  sti_externalId :: string
  sti_asset :: SettlementAsset
  sti_amount :: string
  sti_counterparty :: string
  sti_metadata :: "jobject option"

definition settlement_input :: "CreateSettlementInput \<Rightarrow> jobject" where
  "settlement_input i =
     [(''externalId'', JStr (sti_externalId i)), (''asset'', JStr (asset_text (sti_asset i))),
      (''amount'', JStr (sti_amount i)), (''counterparty'', JStr (sti_counterparty i))] @
     json_if ''metadata'' (map_option JObj (sti_metadata i))"

text \<open>Queries: every value that is not undefined, as \<^verbatim>\<open>String(value)\<close>.\<close>

definition param_if :: "string \<Rightarrow> string option \<Rightarrow> (string \<times> string) list" where
  "param_if name v = (case v of None \<Rightarrow> [] | Some s \<Rightarrow> [(name, s)])"

abbreviation int_if :: "string \<Rightarrow> int option \<Rightarrow> (string \<times> string) list" where
  "int_if name v \<equiv> param_if name (map_option show_int v)"

record ListPayInsQuery =
  lpi_status :: "PayInStatus option"
  lpi_externalId :: "string option"
  lpi_limit :: "int option"
  lpi_offset :: "int option"

definition payins_query :: "ListPayInsQuery \<Rightarrow> (string \<times> string) list" where
  "payins_query q = param_if ''status'' (map_option payin_status_text (lpi_status q)) @
     param_if ''externalId'' (lpi_externalId q) @ int_if ''limit'' (lpi_limit q) @ int_if ''offset'' (lpi_offset q)"

record ListPayoutsQuery =
  lpo_status :: "PayoutStatus option"
  lpo_externalId :: "string option"
  lpo_limit :: "int option"
  lpo_offset :: "int option"

definition payouts_query :: "ListPayoutsQuery \<Rightarrow> (string \<times> string) list" where
  "payouts_query q = param_if ''status'' (map_option payout_status_text (lpo_status q)) @
     param_if ''externalId'' (lpo_externalId q) @ int_if ''limit'' (lpo_limit q) @ int_if ''offset'' (lpo_offset q)"

section \<open>Methods\<close>

datatype SdkCall =
    Health_metadata | Health_live | Health_ready
  | Payins_create CreatePayInInput | Payins_list "ListPayInsQuery option" | Payins_get string
  | Payins_reconcile string | Payins_sweep string "string option" "string option"
  | Payins_accept string "string option" | Payins_topUp string "string option"
  | Payins_topUpAndSweep string "string option" "string option"
  | Payouts_create CreatePayoutInput | Payouts_list "ListPayoutsQuery option" | Payouts_get string
  | Payouts_authorize string AuthorizePayoutInput | Payouts_authorizeBatch BatchAuthorizePayoutInput
  | Payouts_reconcile string
  | Clients_create CreateClientInput | Clients_list | Clients_get string
  | Clients_update string UpdateClientInput | Clients_rotateKey string
  | Treasury_status | Treasury_balances
  | Reports_summary | Reports_sweepQueue | Reports_webhookDeliveries "bool option" "int option"
  | Reports_audit "string option" "string option" "string option" "int option"
  | Checkout_config | Checkout_createSession CreateCheckoutSessionInput | Checkout_getSession string
  | Checkout_reconcileSession string
  | Settlements_record CreateSettlementInput | Settlements_list "int option" "int option"
  | Settlements_get string | Settlements_reveal string

record SdkInit =
  si_method :: string
  si_path :: string
  si_body :: "json option"
  si_query :: "(string \<times> string) list"
  si_auth :: bool

definition enc :: "string \<Rightarrow> string" where
  "enc segment = encodeURIComponent segment"

definition sdk_get :: "string \<Rightarrow> SdkInit" where
  "sdk_get path = \<lparr>si_method = ''GET'', si_path = path, si_body = None, si_query = [], si_auth = True\<rparr>"

definition sdk_query :: "string \<Rightarrow> (string \<times> string) list \<Rightarrow> SdkInit" where
  "sdk_query path q = (sdk_get path)\<lparr>si_query := q\<rparr>"

definition sdk_post :: "string \<Rightarrow> SdkInit" where
  "sdk_post path = (sdk_get path)\<lparr>si_method := ''POST''\<rparr>"

definition sdk_send :: "string \<Rightarrow> string \<Rightarrow> jobject \<Rightarrow> SdkInit" where
  "sdk_send method path body = (sdk_get path)\<lparr>si_method := method, si_body := Some (JObj body)\<rparr>"

definition sdk_public :: "SdkInit \<Rightarrow> SdkInit" where
  "sdk_public i = i\<lparr>si_auth := False\<rparr>"

definition query_or :: "('q \<Rightarrow> (string \<times> string) list) \<Rightarrow> 'q option \<Rightarrow> (string \<times> string) list" where
  "query_or f q = (case q of None \<Rightarrow> [] | Some x \<Rightarrow> f x)"

definition health_init :: "SdkCall \<Rightarrow> SdkInit option" where
  "health_init c =
     (case c of
        Health_metadata \<Rightarrow> Some (sdk_public (sdk_get ''/''))
      | Health_live \<Rightarrow> Some (sdk_public (sdk_get ''/health''))
      | Health_ready \<Rightarrow> Some (sdk_public (sdk_get ''/health/readiness''))
      | _ \<Rightarrow> None)"

definition payins_init :: "SdkCall \<Rightarrow> SdkInit option" where
  "payins_init c =
     (case c of
        Payins_create i \<Rightarrow> Some (sdk_send ''POST'' ''/v1/payins'' (payin_input i))
      | Payins_list q \<Rightarrow> Some (sdk_query ''/v1/payins'' (query_or payins_query q))
      | Payins_get i \<Rightarrow> Some (sdk_get (''/v1/payins/'' @ enc i))
      | Payins_reconcile i \<Rightarrow> Some (sdk_post (''/v1/payins/'' @ enc i @ ''/reconcile''))
      | Payins_sweep i amount notes \<Rightarrow> Some (sdk_send ''POST'' (''/v1/payins/'' @ enc i @ ''/sweep'')
          (text_if ''amount'' amount @ text_if ''notes'' notes))
      | Payins_accept i nt \<Rightarrow> Some (sdk_send ''POST'' (''/v1/payins/'' @ enc i @ ''/accept'') (text_if ''note'' nt))
      | Payins_topUp i amount \<Rightarrow> Some (sdk_send ''POST'' (''/v1/payins/'' @ enc i @ ''/topup'')
          (text_if ''amountAvax'' amount))
      | Payins_topUpAndSweep i amount notes \<Rightarrow> Some (sdk_send ''POST'' (''/v1/payins/'' @ enc i @ ''/topup-and-sweep'')
          (text_if ''amountAvax'' amount @ text_if ''notes'' notes))
      | _ \<Rightarrow> None)"

definition payouts_init :: "SdkCall \<Rightarrow> SdkInit option" where
  "payouts_init c =
     (case c of
        Payouts_create i \<Rightarrow> Some (sdk_send ''POST'' ''/v1/payouts'' (payout_input i))
      | Payouts_list q \<Rightarrow> Some (sdk_query ''/v1/payouts'' (query_or payouts_query q))
      | Payouts_get i \<Rightarrow> Some (sdk_get (''/v1/payouts/'' @ enc i))
      | Payouts_authorize i dto \<Rightarrow> Some (sdk_send ''POST'' (''/v1/payouts/'' @ enc i @ ''/authorize'') (authorize_input dto))
      | Payouts_authorizeBatch dto \<Rightarrow> Some (sdk_send ''POST'' ''/v1/payouts/batch-authorize'' (batch_input dto))
      | Payouts_reconcile i \<Rightarrow> Some (sdk_post (''/v1/payouts/'' @ enc i @ ''/reconcile''))
      | _ \<Rightarrow> None)"

definition clients_init :: "SdkCall \<Rightarrow> SdkInit option" where
  "clients_init c =
     (case c of
        Clients_create i \<Rightarrow> Some (sdk_send ''POST'' ''/v1/admin/clients'' (client_input i))
      | Clients_list \<Rightarrow> Some (sdk_get ''/v1/admin/clients'')
      | Clients_get i \<Rightarrow> Some (sdk_get (''/v1/admin/clients/'' @ enc i))
      | Clients_update i dto \<Rightarrow> Some (sdk_send ''PATCH'' (''/v1/admin/clients/'' @ enc i) (client_update_input dto))
      | Clients_rotateKey i \<Rightarrow> Some (sdk_post (''/v1/admin/clients/'' @ enc i @ ''/rotate-key''))
      | _ \<Rightarrow> None)"

definition reports_init :: "SdkCall \<Rightarrow> SdkInit option" where
  "reports_init c =
     (case c of
        Treasury_status \<Rightarrow> Some (sdk_get ''/v1/treasury/status'')
      | Treasury_balances \<Rightarrow> Some (sdk_get ''/v1/treasury/balances'')
      | Reports_summary \<Rightarrow> Some (sdk_get ''/v1/reports/summary'')
      | Reports_sweepQueue \<Rightarrow> Some (sdk_get ''/v1/reports/sweep-queue'')
      | Reports_webhookDeliveries failed limit \<Rightarrow> Some (sdk_query ''/v1/reports/webhook-deliveries''
          (param_if ''failed'' (map_option (\<lambda>b. if b then ''true'' else ''false'') failed) @ int_if ''limit'' limit))
      | Reports_audit subjectId from' to' limit \<Rightarrow> Some (sdk_query ''/v1/reports/audit''
          (param_if ''subjectId'' subjectId @ param_if ''from'' from' @ param_if ''to'' to' @ int_if ''limit'' limit))
      | _ \<Rightarrow> None)"

definition checkout_init :: "SdkCall \<Rightarrow> SdkInit option" where
  "checkout_init c =
     (case c of
        Checkout_config \<Rightarrow> Some (sdk_public (sdk_get ''/checkout/config''))
      | Checkout_createSession i \<Rightarrow> Some (sdk_public (sdk_send ''POST'' ''/checkout/sessions'' (checkout_input i)))
      | Checkout_getSession i \<Rightarrow> Some (sdk_public (sdk_get (''/checkout/sessions/'' @ enc i)))
      | Checkout_reconcileSession i \<Rightarrow> Some (sdk_public (sdk_post (''/checkout/sessions/'' @ enc i @ ''/reconcile'')))
      | _ \<Rightarrow> None)"

definition settlements_init :: "SdkCall \<Rightarrow> SdkInit option" where
  "settlements_init c =
     (case c of
        Settlements_record i \<Rightarrow> Some (sdk_send ''POST'' ''/v1/settlements'' (settlement_input i))
      | Settlements_list limit offset \<Rightarrow> Some (sdk_query ''/v1/settlements'' (int_if ''limit'' limit @ int_if ''offset'' offset))
      | Settlements_get i \<Rightarrow> Some (sdk_get (''/v1/settlements/'' @ enc i))
      | Settlements_reveal i \<Rightarrow> Some (sdk_post (''/v1/settlements/'' @ enc i @ ''/reveal''))
      | _ \<Rightarrow> None)"

text \<open>Each call belongs to one of the groups above.\<close>

definition sdk_init :: "SdkCall \<Rightarrow> SdkInit" where
  "sdk_init c = hd (List.map_filter (\<lambda>f. f c)
     [health_init, payins_init, payouts_init, clients_init, reports_init, checkout_init, settlements_init])"

section \<open>The request\<close>

text \<open>\<^verbatim>\<open>new URL(text)\<close>: origin and path, dot segments resolved; \<open>None\<close> is its \<^verbatim>\<open>TypeError\<close>.\<close>

definition single_dot :: "string \<Rightarrow> bool" where
  "single_dot s = (toLowerCase s \<in> {''.'', ''%2e''})"

definition double_dot :: "string \<Rightarrow> bool" where
  "double_dot s = (toLowerCase s \<in> {''..'', ''.%2e'', ''%2e.'', ''%2e%2e''})"

text \<open>The segments read so far, last first; a dot segment at the end leaves an empty one.\<close>

fun resolve_dots :: "string list \<Rightarrow> string list \<Rightarrow> string list" where
  "resolve_dots acc [] = rev acc"
| "resolve_dots acc (s # ss) =
     (let close = (\<lambda>a. if ss = [] then [] # a else a) in
      if double_dot s then resolve_dots (close (tl acc)) ss
      else if single_dot s then resolve_dots (close acc) ss
      else resolve_dots (s # acc) ss)"

definition normal_path :: "string \<Rightarrow> string" where
  "normal_path path = CHR ''/'' # join ''/'' (resolve_dots [] (tl (split_on (CHR ''/'') path)))"

definition scheme_of :: "string \<Rightarrow> string option" where
  "scheme_of s = (if startsWith s ''https://'' then Some ''https://''
     else if startsWith s ''http://'' then Some ''http://'' else None)"

definition new_URL :: "string \<Rightarrow> (string \<times> string) option" where
  "new_URL s =
     (case scheme_of s of None \<Rightarrow> None
      | Some scheme \<Rightarrow>
        let rest = drop (length scheme) s; host = takeWhile (\<lambda>c. c \<noteq> CHR ''/'') rest in
        if host = [] then None
        else Some (scheme @ host, normal_path (dropWhile (\<lambda>c. c \<noteq> CHR ''/'') rest)))"

record SdkClient =
  sc_baseUrl :: string
  sc_apiKey :: string

record SdkHttp =
  sh_origin :: string
  sh_path :: string
  sh_query :: "(string \<times> string) list"
  sh_method :: string
  sh_headers :: "(string \<times> string) list"
  sh_body :: "string option"

type_synonym sdk_fetch = "SdkHttp \<Rightarrow> string + HttpResponse"

definition strip_slash :: "string \<Rightarrow> string" where
  "strip_slash s = (if s \<noteq> [] \<and> last s = CHR ''/'' then butlast s else s)"

text \<open>The constructor: the given \<^verbatim>\<open>fetch\<close>, or the global one.\<close>

definition new_AvaSettleClient ::
  "string \<Rightarrow> string \<Rightarrow> sdk_fetch option \<Rightarrow> sdk_fetch option \<Rightarrow> string + SdkClient \<times> sdk_fetch" where
  "new_AvaSettleClient baseUrl apiKey fetch globalFetch =
     (case (case fetch of Some f \<Rightarrow> Some f | None \<Rightarrow> globalFetch) of
        None \<Rightarrow> Inl ''No fetch implementation available; pass options.fetch (e.g. node-fetch).''
      | Some f \<Rightarrow> Inr (\<lparr>sc_baseUrl = strip_slash baseUrl, sc_apiKey = apiKey\<rparr>, f))"

datatype SdkError =
    InvalidUrl | FetchFailed string | BodyUnreadable | SyntaxError
  | AvaSettleApiError int string "json option"

text \<open>\<^verbatim>\<open>Array.prototype.join\<close> on JSON values.\<close>

fun joined_text :: "json \<Rightarrow> string" where
  "joined_text JNull = []"
| "joined_text (JBool b) = (if b then ''true'' else ''false'')"
| "joined_text (JInt n) = show_int n"
| "joined_text (JFrac s) = s"
| "joined_text (JStr s) = s"
| "joined_text (JArr vs) = join '','' (map joined_text vs)"
| "joined_text (JObj fs) = ''[object Object]''"

definition extractMessage :: "json option \<Rightarrow> string option" where
  "extractMessage data =
     (case data of Some (JObj fs) \<Rightarrow>
        (case map_of fs ''message'' of
           Some (JArr vs) \<Rightarrow> Some (join '', '' (map joined_text vs))
         | Some (JStr s) \<Rightarrow> Some s
         | _ \<Rightarrow> None)
      | _ \<Rightarrow> None)"

definition sdk_http :: "SdkClient \<Rightarrow> SdkInit \<Rightarrow> SdkHttp option" where
  "sdk_http cl i = map_option (\<lambda>(origin, path).
     \<lparr>sh_origin = origin, sh_path = path, sh_query = si_query i, sh_method = si_method i,
      sh_headers = [(''accept'', ''application/json'')] @
        (if si_auth i then [(''x-avasettle-api-key'', sc_apiKey cl)] else []) @
        (if si_body i = None then [] else [(''content-type'', ''application/json'')]),
      sh_body = map_option stringify (si_body i)\<rparr>)
     (new_URL (sc_baseUrl cl @ si_path i))"

definition sdk_answer :: "(string \<Rightarrow> json option) \<Rightarrow> HttpResponse \<Rightarrow> SdkError + json option" where
  "sdk_answer parse response =
     (case hr_text response of None \<Rightarrow> Inl BodyUnreadable
      | Some s \<Rightarrow>
        case (if s = [] then Some None else map_option Some (parse s)) of None \<Rightarrow> Inl SyntaxError
        | Some data \<Rightarrow>
          if 200 \<le> hr_status response \<and> hr_status response < 300 then Inr data
          else Inl (AvaSettleApiError (hr_status response)
            (case extractMessage data of Some m \<Rightarrow> m | None \<Rightarrow> hr_statusText response) data))"

definition sdk_request ::
  "(string \<Rightarrow> json option) \<Rightarrow> sdk_fetch \<Rightarrow> SdkClient \<Rightarrow> SdkInit \<Rightarrow> SdkError + json option" where
  "sdk_request parse fetch cl i =
     (case sdk_http cl i of None \<Rightarrow> Inl InvalidUrl
      | Some h \<Rightarrow> (case fetch h of Inl m \<Rightarrow> Inl (FetchFailed m) | Inr response \<Rightarrow> sdk_answer parse response))"

end
