(* ===== verification/Migrations.thy ===== *)
theory Migrations
  imports Types
begin

text \<open>
  \<^verbatim>\<open>src/src/database/migration-runner.ts\<close> and the transaction helper of
  \<^verbatim>\<open>src/src/database/database.service.ts\<close>.  The server holds the committed database and, per
  connection, the transaction open on it; \<^verbatim>\<open>pool.query\<close> runs a statement on the connection the
  pool picks.  What the SQL of a migration file does, which connection the pool hands out, what
  SHA-256 gives and which statements fail are parameters.
\<close>

section \<open>A database server behind a connection pool\<close>

record MigrationRow =
  mr_version :: string
  mr_fileName :: string
  mr_checksum :: string

text \<open>The schema the migrations build, and the migrations table once it exists.\<close>

record 'd MigDb =
  md_schema :: 'd
  md_applied :: "MigrationRow list option"

text \<open>\<open>LostTx\<close>: the connection broke, and the server dropped its transaction.\<close>

datatype 'd TxState = NoTx | OpenTx "'d MigDb" | AbortedTx | LostTx

record 'd Server =
  sv_committed :: "'d MigDb"
  sv_tx :: "nat \<Rightarrow> 'd TxState"
  sv_event :: nat

record 'd MigEnv =
  mg_pick :: "nat \<Rightarrow> nat"
  mg_bound :: bool
  mg_fault :: "nat \<Rightarrow> string option"
  mg_exec :: "string \<Rightarrow> 'd \<Rightarrow> string + 'd"
  mg_sha256 :: "string \<Rightarrow> string"
  mg_dir :: "(string \<times> string) list option"

type_synonym ('d, 'a) mig = "('d Server, exn, 'a) prog"

text \<open>
  The pool replaces a broken connection by a new one; a client taken out of the pool
  (\<open>mg_bound\<close>) stays broken.
\<close>

definition conn :: "'d MigEnv \<Rightarrow> 'd Server \<Rightarrow> nat \<Rightarrow> 'd TxState" where
  "conn env s c = (if sv_tx s c = LostTx \<and> \<not> mg_bound env then NoTx else sv_tx s c)"

definition set_tx :: "nat \<Rightarrow> 'd TxState \<Rightarrow> 'd Server \<Rightarrow> 'd Server" where
  "set_tx c x s = s\<lparr>sv_tx := (sv_tx s)(c := x), sv_event := Suc (sv_event s)\<rparr>"

text \<open>
  A statement fails with its own error, with a lost connection, or because the transaction it
  runs in has already failed.
\<close>

definition pool_query :: "'d MigEnv \<Rightarrow> ('d MigDb \<Rightarrow> string + 'a \<times> 'd MigDb) \<Rightarrow> ('d, 'a) mig" where
  "pool_query env stmt = await (\<lambda>s.
     let c = mg_pick env (sv_event s) in
     case mg_fault env (sv_event s) of
       Some m \<Rightarrow> (Inl (JsError m), set_tx c LostTx s)
     | None \<Rightarrow> (case conn env s c of
         NoTx \<Rightarrow> (case stmt (sv_committed s) of
             Inl m \<Rightarrow> (Inl (JsError m), set_tx c NoTx s)
           | Inr (a, d) \<Rightarrow> (Inr a, set_tx c NoTx (s\<lparr>sv_committed := d\<rparr>)))
       | OpenTx d0 \<Rightarrow> (case stmt d0 of
             Inl m \<Rightarrow> (Inl (JsError m), set_tx c AbortedTx s)
           | Inr (a, d) \<Rightarrow> (Inr a, set_tx c (OpenTx d) s))
       | AbortedTx \<Rightarrow> (Inl (JsError ''current transaction is aborted''), set_tx c AbortedTx s)
       | LostTx \<Rightarrow> (Inl (JsError ''Client has encountered a connection error and is not queryable''), set_tx c LostTx s)))"

datatype TxCommand = BEGIN | COMMIT | ROLLBACK

text \<open>
  \<^verbatim>\<open>BEGIN\<close> inside a transaction and \<^verbatim>\<open>COMMIT\<close> or \<^verbatim>\<open>ROLLBACK\<close> outside one only warn; \<^verbatim>\<open>COMMIT\<close> of a
  failed transaction rolls it back.
\<close>

definition pool_tx :: "'d MigEnv \<Rightarrow> TxCommand \<Rightarrow> ('d, unit) mig" where
  "pool_tx env cmd = await (\<lambda>s.
     let c = mg_pick env (sv_event s) in
     case mg_fault env (sv_event s) of
       Some m \<Rightarrow> (Inl (JsError m), set_tx c LostTx s)
     | None \<Rightarrow> (case conn env s c of
         LostTx \<Rightarrow> (Inl (JsError ''Client has encountered a connection error and is not queryable''), set_tx c LostTx s)
       | x \<Rightarrow> (Inr (), (case cmd of
           BEGIN \<Rightarrow> set_tx c (if x = NoTx then OpenTx (sv_committed s) else x) s
         | COMMIT \<Rightarrow> (case x of OpenTx d \<Rightarrow> set_tx c NoTx (s\<lparr>sv_committed := d\<rparr>) | _ \<Rightarrow> set_tx c NoTx s)
         | ROLLBACK \<Rightarrow> set_tx c NoTx s))))"

section \<open>The runner\<close>

datatype MigrationStatus = Applied | Skipped

type_synonym MigrationResult = "string \<times> MigrationStatus"

definition endsWith :: "string \<Rightarrow> string \<Rightarrow> bool" where
  "endsWith s p = (length p \<le> length s \<and> drop (length s - length p) s = p)"

text \<open>\<^verbatim>\<open>fileName.replace(/\.sql$/, '')\<close>\<close>

definition version_of :: "string \<Rightarrow> string" where
  "version_of fileName = (if endsWith fileName ''.sql'' then take (length fileName - 4) fileName else fileName)"

definition migration_files :: "(string \<times> string) list \<Rightarrow> string list" where
  "migration_files dir = sort (filter (\<lambda>f. endsWith f ''.sql'') (map fst dir))"

definition create_table :: "'d MigDb \<Rightarrow> string + unit \<times> 'd MigDb" where
  "create_table d = Inr ((), if md_applied d = None then d\<lparr>md_applied := Some []\<rparr> else d)"

definition no_table :: string where
  "no_table = ''relation avasettle_schema_migrations does not exist''"

definition select_checksum :: "string \<Rightarrow> 'd MigDb \<Rightarrow> string + string list \<times> 'd MigDb" where
  "select_checksum version d =
     (case md_applied d of None \<Rightarrow> Inl no_table
      | Some rows \<Rightarrow> Inr (map mr_checksum (filter (\<lambda>r. mr_version r = version) rows), d))"

definition insert_migration :: "MigrationRow \<Rightarrow> 'd MigDb \<Rightarrow> string + unit \<times> 'd MigDb" where
  "insert_migration row d =
     (case md_applied d of None \<Rightarrow> Inl no_table
      | Some rows \<Rightarrow> if list_ex (\<lambda>r. mr_version r = mr_version row) rows
          then Inl ''duplicate key value violates unique constraint''
          else Inr ((), d\<lparr>md_applied := Some (rows @ [row])\<rparr>))"

definition exec_sql :: "'d MigEnv \<Rightarrow> string \<Rightarrow> 'd MigDb \<Rightarrow> string + unit \<times> 'd MigDb" where
  "exec_sql env sql d =
     (case mg_exec env sql (md_schema d) of Inl m \<Rightarrow> Inl m | Inr x \<Rightarrow> Inr ((), d\<lparr>md_schema := x\<rparr>))"

definition apply_migration :: "'d MigEnv \<Rightarrow> MigrationRow \<Rightarrow> string \<Rightarrow> ('d, MigrationResult) mig" where
  "apply_migration env row sql =
     bindP (pool_tx env BEGIN) (\<lambda>_.
     catchP
       (bindP (pool_query env (exec_sql env sql)) (\<lambda>_.
        bindP (pool_query env (insert_migration row)) (\<lambda>_.
        bindP (pool_tx env COMMIT) (\<lambda>_.
        Ret (mr_fileName row, Applied)))))
       (\<lambda>e. bindP (pool_tx env ROLLBACK) (\<lambda>_. Raise e)))"

definition migrate_file :: "'d MigEnv \<Rightarrow> string \<Rightarrow> string \<Rightarrow> ('d, MigrationResult) mig" where
  "migrate_file env fileName sql =
     (let version = version_of fileName; checksum = mg_sha256 env sql in
      bindP (pool_query env (select_checksum version)) (\<lambda>existing.
      case existing of
        c # _ \<Rightarrow> if c \<noteq> checksum
          then Raise (JsError (''Migration '' @ fileName @ '' was already applied with a different checksum.''))
          else Ret (fileName, Skipped)
      | [] \<Rightarrow> apply_migration env
          \<lparr>mr_version = version, mr_fileName = fileName, mr_checksum = checksum\<rparr> sql))"

definition runSqlMigrations :: "'d MigEnv \<Rightarrow> ('d, MigrationResult list) mig" where
  "runSqlMigrations env =
     (case mg_dir env of
        None \<Rightarrow> Raise (JsError ''Migrations directory not found'')
      | Some dir \<Rightarrow>
          bindP (pool_query env create_table) (\<lambda>_.
          forP (migration_files dir) (\<lambda>f. migrate_file env f (the (map_of dir f)))))"

section \<open>Transactions\<close>

text \<open>
  \<^verbatim>\<open>withTransaction\<close>: one connection is taken from the pool for the whole call; \<open>work\<close> runs its
  statements on it.
\<close>

definition pool_connect :: "'d MigEnv \<Rightarrow> ('d, nat) mig" where
  "pool_connect env = await (\<lambda>s.
     let c = mg_pick env (sv_event s) in
     case mg_fault env (sv_event s) of
       Some m \<Rightarrow> (Inl (JsError m), set_tx c LostTx s)
     | None \<Rightarrow> (Inr c, set_tx c (conn env s c) s))"

definition withTransaction :: "'d MigEnv \<Rightarrow> ('d MigEnv \<Rightarrow> ('d, 'a) mig) \<Rightarrow> ('d, 'a) mig" where
  "withTransaction env work =
     bindP (pool_connect env) (\<lambda>c.
     let client = env\<lparr>mg_pick := \<lambda>_. c, mg_bound := True\<rparr> in
     catchP
       (bindP (pool_tx client BEGIN) (\<lambda>_.
        bindP (work client) (\<lambda>result.
        bindP (pool_tx client COMMIT) (\<lambda>_.
        Ret result))))
       (\<lambda>e. bindP (pool_tx client ROLLBACK) (\<lambda>_. Raise e)))"

section \<open>Lemmas\<close>

lemma set_tx_simps [simp]:
  "sv_committed (set_tx c x s) = sv_committed s" "sv_tx (set_tx c x s) = (sv_tx s)(c := x)"
  by (simp_all add: set_tx_def)

text \<open>
  The pool of the runner hands out one connection, with no transaction open on it at the
  beginning.
\<close>

definition idle :: "nat \<Rightarrow> 'd Server \<Rightarrow> bool" where
  "idle c s \<longleftrightarrow> sv_tx s c \<in> {NoTx, LostTx}"

definition one_connection :: "nat \<Rightarrow> 'd MigEnv \<Rightarrow> bool" where
  "one_connection c env \<longleftrightarrow> (\<forall>n. mg_pick env n = c) \<and> \<not> mg_bound env"

lemma conn_idle: "one_connection c env \<Longrightarrow> idle c s \<Longrightarrow> conn env s c = NoTx"
  by (auto simp: one_connection_def idle_def conn_def)

lemma ends_pool_query_idle:
  assumes "one_connection c env" and "idle c s"
  shows "ends (pool_query env stmt) s Q E =
    (case mg_fault env (sv_event s) of
       Some m \<Rightarrow> E (JsError m) (set_tx c LostTx s)
     | None \<Rightarrow> (case stmt (sv_committed s) of
           Inl m \<Rightarrow> E (JsError m) (set_tx c NoTx s)
         | Inr (a, d) \<Rightarrow> Q a (set_tx c NoTx (s\<lparr>sv_committed := d\<rparr>))))"
  using assms conn_idle [OF assms]
  by (auto simp: pool_query_def ends_await one_connection_def Let_def split: option.splits sum.splits)

lemma ends_begin:
  assumes "one_connection c env" and "idle c s"
  shows "ends (pool_tx env BEGIN) s Q E =
    (case mg_fault env (sv_event s) of
       Some m \<Rightarrow> E (JsError m) (set_tx c LostTx s)
     | None \<Rightarrow> Q () (set_tx c (OpenTx (sv_committed s)) s))"
  using assms conn_idle [OF assms]
  by (auto simp: pool_tx_def ends_await one_connection_def Let_def split: option.splits)

lemma ends_pool_query_open:
  assumes "one_connection c env" and "sv_tx s c = OpenTx d0"
  shows "ends (pool_query env stmt) s Q E =
    (case mg_fault env (sv_event s) of
       Some m \<Rightarrow> E (JsError m) (set_tx c LostTx s)
     | None \<Rightarrow> (case stmt d0 of
           Inl m \<Rightarrow> E (JsError m) (set_tx c AbortedTx s)
         | Inr (a, d) \<Rightarrow> Q a (set_tx c (OpenTx d) s)))"
  using assms
  by (auto simp: pool_query_def ends_await one_connection_def Let_def conn_def split: option.splits sum.splits)

lemma ends_commit_open:
  assumes "one_connection c env" and "sv_tx s c = OpenTx d"
  shows "ends (pool_tx env COMMIT) s Q E =
    (case mg_fault env (sv_event s) of
       Some m \<Rightarrow> E (JsError m) (set_tx c LostTx s)
     | None \<Rightarrow> Q () (set_tx c NoTx (s\<lparr>sv_committed := d\<rparr>)))"
  using assms
  by (auto simp: pool_tx_def ends_await one_connection_def Let_def conn_def split: option.splits)

lemma ends_rollback:
  assumes "one_connection c env"
  shows "ends (pool_tx env ROLLBACK) s Q E =
    (case mg_fault env (sv_event s) of
       Some m \<Rightarrow> E (JsError m) (set_tx c LostTx s)
     | None \<Rightarrow> Q () (set_tx c NoTx s))"
  using assms
  by (auto simp: pool_tx_def ends_await one_connection_def Let_def conn_def split: option.splits TxState.splits)

text \<open>
  The heart of the runner: a migration is applied and recorded in one transaction, or the
  committed database is what it was.
\<close>

lemma apply_migration_atomic:
  assumes one: "one_connection c env" and "idle c s"
  shows "ends (apply_migration env row sql) s
    (\<lambda>res s'. idle c s' \<and> res = (mr_fileName row, Applied) \<and>
       (\<exists>x. exec_sql env sql (sv_committed s) = Inr ((), x) \<and> insert_migration row x = Inr ((), sv_committed s')))
    (\<lambda>e s'. idle c s' \<and> sv_committed s' = sv_committed s)"
proof -
  let ?Q = "\<lambda>res s'. idle c s' \<and> res = (mr_fileName row, Applied) \<and>
       (\<exists>x. exec_sql env sql (sv_committed s) = Inr ((), x) \<and> insert_migration row x = Inr ((), sv_committed s'))"
  let ?E = "\<lambda>e s'. idle c s' \<and> sv_committed s' = sv_committed s"
  have roll: "ends (pool_tx env ROLLBACK) s' (\<lambda>_. ?E e) ?E" if "sv_committed s' = sv_committed s" for e s'
    using that by (simp add: ends_rollback [OF one] idle_def split: option.split)
  have "ends (catchP (bindP (pool_query env (exec_sql env sql)) (\<lambda>_. bindP (pool_query env (insert_migration row)) (\<lambda>_.
        bindP (pool_tx env COMMIT) (\<lambda>_. Ret (mr_fileName row, Applied)))))
       (\<lambda>e. bindP (pool_tx env ROLLBACK) (\<lambda>_. Raise e))) s' ?Q ?E"
    if "sv_tx s' c = OpenTx (sv_committed s)" "sv_committed s' = sv_committed s" for s'
  proof -
    have "ends (pool_query env (exec_sql env sql)) s' (\<lambda>_ s'. ends (pool_query env (insert_migration row)) s'
      (\<lambda>_ s'. ends (pool_tx env COMMIT) s' (\<lambda>_. ?Q (mr_fileName row, Applied)) (\<lambda>e s'. sv_committed s' = sv_committed s))
      (\<lambda>e s'. sv_committed s' = sv_committed s)) (\<lambda>e s'. sv_committed s' = sv_committed s)"
      using that by (auto simp: ends_pool_query_open [OF one] ends_commit_open [OF one] idle_def split: option.split sum.split)
    then have "ends (bindP (pool_query env (exec_sql env sql)) (\<lambda>_. bindP (pool_query env (insert_migration row)) (\<lambda>_.
        bindP (pool_tx env COMMIT) (\<lambda>_. Ret (mr_fileName row, Applied))))) s' ?Q (\<lambda>e s'. sv_committed s' = sv_committed s)"
      unfolding ends_bindP ends_basic .
    then show ?thesis
      unfolding ends_catchP by (rule ends_mono) (auto simp: ends_bindP ends_basic intro: roll)
  qed
  then show ?thesis
    using assms(2) by (auto simp: apply_migration_def ends_bindP ends_begin [OF assms] idle_def split: option.split)
qed

section \<open>What the migrations table says of the schema\<close>

definition applied_rows :: "'d MigDb \<Rightarrow> MigrationRow list" where
  "applied_rows d = (case md_applied d of None \<Rightarrow> [] | Some rows \<Rightarrow> rows)"

primrec replay :: "(string \<Rightarrow> 'd \<Rightarrow> string + 'd) \<Rightarrow> string list \<Rightarrow> 'd \<Rightarrow> string + 'd" where
  "replay exec [] x = Inr x"
| "replay exec (q # qs) x = (case exec q x of Inl m \<Rightarrow> Inl m | Inr y \<Rightarrow> replay exec qs y)"

lemma replay_snoc: "replay exec qs x = Inr y \<Longrightarrow> exec q y = Inr z \<Longrightarrow> replay exec (qs @ [q]) x = Inr z"
  by (induction qs arbitrary: x) (auto split: sum.splits)

text \<open>
  The schema is the result of running, on the empty one, the files the table records, in the
  order of the table and each once.
\<close>

definition consistent :: "'d MigEnv \<Rightarrow> 'd \<Rightarrow> 'd MigDb \<Rightarrow> bool" where
  "consistent env blank d \<longleftrightarrow> distinct (map mr_version (applied_rows d)) \<and>
     (\<exists>sqls. map mr_checksum (applied_rows d) = map (mg_sha256 env) sqls \<and>
             replay (mg_exec env) sqls blank = Inr (md_schema d))"

definition recorded :: "'d MigEnv \<Rightarrow> string \<Rightarrow> string \<Rightarrow> 'd MigDb \<Rightarrow> bool" where
  "recorded env f sql d \<longleftrightarrow>
     (\<exists>r\<in>set (applied_rows d). mr_version r = version_of f \<and> mr_checksum r = mg_sha256 env sql)"

definition grows :: "'d MigDb \<Rightarrow> 'd MigDb \<Rightarrow> bool" where
  "grows d d' \<longleftrightarrow> md_applied d' \<noteq> None \<and> (\<exists>new. applied_rows d' = applied_rows d @ new)"

lemma grows_trans: "grows a b \<Longrightarrow> grows b d \<Longrightarrow> grows a d"
  by (auto simp: grows_def)

lemma recorded_grows: "recorded env f sql d \<Longrightarrow> grows d d' \<Longrightarrow> recorded env f sql d'"
  by (auto simp: recorded_def grows_def)

lemma applied_step:
  assumes "consistent env blank d" and "exec_sql env sql d = Inr ((), x)" and "insert_migration row x = Inr ((), d')"
    and "mr_checksum row = mg_sha256 env sql" and "mr_version row = version_of f"
  shows "consistent env blank d' \<and> grows d d' \<and> recorded env f sql d'"
proof -
  obtain y where y: "mg_exec env sql (md_schema d) = Inr y" and x: "x = d\<lparr>md_schema := y\<rparr>"
    using assms(2) by (auto simp: exec_sql_def split: sum.splits)
  obtain rows where rows: "md_applied d = Some rows" and d': "d' = x\<lparr>md_applied := Some (rows @ [row])\<rparr>"
    and fresh: "\<forall>r\<in>set rows. mr_version r \<noteq> mr_version row"
    using assms(3) by (auto simp: insert_migration_def x list_ex_iff split: option.splits if_splits)
  obtain sqls where sqls: "map mr_checksum rows = map (mg_sha256 env) sqls"
    and rp: "replay (mg_exec env) sqls blank = Inr (md_schema d)"
    using assms(1) by (auto simp: consistent_def applied_rows_def rows)
  show ?thesis
    using assms(1,4,5) fresh rows sqls replay_snoc [of "mg_exec env", OF rp y]
    by (auto simp: consistent_def grows_def recorded_def applied_rows_def d' x intro!: exI [of _ "sqls @ [sql]"])
qed

lemma migrate_file_outcome:
  assumes "one_connection c env" and "idle c s" and "consistent env blank (sv_committed s)"
    and table: "md_applied (sv_committed s) \<noteq> None"
  shows "ends (migrate_file env f sql) s
    (\<lambda>res s'. idle c s' \<and> consistent env blank (sv_committed s') \<and> grows (sv_committed s) (sv_committed s') \<and>
       fst res = f \<and> recorded env f sql (sv_committed s'))
    (\<lambda>e s'. idle c s' \<and> consistent env blank (sv_committed s') \<and> grows (sv_committed s) (sv_committed s'))"
proof -
  let ?row = "\<lparr>mr_version = version_of f, mr_fileName = f, mr_checksum = mg_sha256 env sql\<rparr>"
  have refl: "grows (sv_committed s) (sv_committed s)" using table by (simp add: grows_def)
  have applied: "ends (apply_migration env ?row sql) (set_tx c NoTx s)
    (\<lambda>res s'. idle c s' \<and> consistent env blank (sv_committed s') \<and> grows (sv_committed s) (sv_committed s') \<and>
       fst res = f \<and> recorded env f sql (sv_committed s'))
    (\<lambda>e s'. idle c s' \<and> consistent env blank (sv_committed s') \<and> grows (sv_committed s) (sv_committed s'))"
    by (rule ends_mono [OF apply_migration_atomic [OF assms(1)]])
      (use assms(3) refl in \<open>auto simp: idle_def dest!: applied_step [OF assms(3), where f = f]\<close>)
  obtain rows where rows: "md_applied (sv_committed s) = Some rows" using table by blast
  define cs where "cs = map mr_checksum (filter (\<lambda>r. mr_version r = version_of f) rows)"
  have sel: "select_checksum (version_of f) (sv_committed s) = Inr (cs, sv_committed s)"
    by (simp add: select_checksum_def rows cs_def)
  have "recorded env f sql (sv_committed s)" if "mg_sha256 env sql \<in> set cs"
    using that by (auto simp: recorded_def applied_rows_def rows cs_def)
  then show ?thesis
    using assms(3) refl applied
    by (cases cs) (auto simp: migrate_file_def Let_def ends_bindP ends_basic ends_pool_query_idle [OF assms(1,2)] sel
        idle_def split: option.split)
qed

lemma migrate_files_outcome:
  assumes "one_connection c env" and "idle c s" and "consistent env blank (sv_committed s)"
    and "md_applied (sv_committed s) \<noteq> None"
  shows "ends (forP fs (\<lambda>f. migrate_file env f (sql f))) s
    (\<lambda>res s'. idle c s' \<and> consistent env blank (sv_committed s') \<and> grows (sv_committed s) (sv_committed s') \<and>
       map fst res = fs \<and> (\<forall>f\<in>set fs. recorded env f (sql f) (sv_committed s')))
    (\<lambda>e s'. idle c s' \<and> consistent env blank (sv_committed s') \<and> grows (sv_committed s) (sv_committed s'))"
  using assms(2-)
proof (induction fs arbitrary: s)
  case (Cons f fs)
  note step = migrate_file_outcome [OF assms(1) Cons.prems]
  show ?case
    unfolding forP.simps
  proof (rule ends_bind [OF step])
    fix res :: MigrationResult and s' assume s': "idle c s' \<and> consistent env blank (sv_committed s') \<and> grows (sv_committed s) (sv_committed s') \<and>
       fst res = f \<and> recorded env f (sql f) (sv_committed s')"
    then have "md_applied (sv_committed s') \<noteq> None" by (simp add: grows_def)
    with s' have "ends (forP fs (\<lambda>f. migrate_file env f (sql f))) s'
      (\<lambda>res s''. idle c s'' \<and> consistent env blank (sv_committed s'') \<and> grows (sv_committed s') (sv_committed s'') \<and>
         map fst res = fs \<and> (\<forall>f\<in>set fs. recorded env f (sql f) (sv_committed s'')))
      (\<lambda>e s''. idle c s'' \<and> consistent env blank (sv_committed s'') \<and> grows (sv_committed s') (sv_committed s''))"
      by (intro Cons.IH) simp_all
    then show "ends (bindP (forP fs (\<lambda>f. migrate_file env f (sql f))) (\<lambda>as. Ret (res # as))) s'
      (\<lambda>res s'. idle c s' \<and> consistent env blank (sv_committed s') \<and> grows (sv_committed s) (sv_committed s') \<and>
         map fst res = f # fs \<and> (\<forall>f\<in>set (f # fs). recorded env f (sql f) (sv_committed s')))
      (\<lambda>e s'. idle c s' \<and> consistent env blank (sv_committed s') \<and> grows (sv_committed s) (sv_committed s'))"
      by (rule ends_bind) (use s' in \<open>auto simp: ends_basic intro: grows_trans recorded_grows\<close>)
  qed simp
qed (simp add: ends_basic grows_def)

lemma migrations_outcome:
  assumes "one_connection c env" and "idle c s" and "consistent env blank (sv_committed s)"
    and "mg_dir env = Some dir"
  shows "ends (runSqlMigrations env) s
    (\<lambda>res s'. idle c s' \<and> consistent env blank (sv_committed s') \<and> grows (sv_committed s) (sv_committed s') \<and>
       map fst res = migration_files dir \<and>
       (\<forall>f\<in>set (migration_files dir). recorded env f (the (map_of dir f)) (sv_committed s')))
    (\<lambda>e s'. idle c s' \<and> consistent env blank (sv_committed s') \<and>
       (sv_committed s' = sv_committed s \<or> grows (sv_committed s) (sv_committed s')))"
proof -
  define s1 where "s1 = set_tx c NoTx (s\<lparr>sv_committed := snd (projr (create_table (sv_committed s)))\<rparr>)"
  have s1: "idle c s1" "consistent env blank (sv_committed s1)" "md_applied (sv_committed s1) \<noteq> None"
    "applied_rows (sv_committed s1) = applied_rows (sv_committed s)"
    using assms(3) by (auto simp: s1_def idle_def create_table_def consistent_def applied_rows_def)
  have "ends (forP (migration_files dir) (\<lambda>f. migrate_file env f (the (map_of dir f)))) s1
    (\<lambda>res s'. idle c s' \<and> consistent env blank (sv_committed s') \<and> grows (sv_committed s) (sv_committed s') \<and>
       map fst res = migration_files dir \<and>
       (\<forall>f\<in>set (migration_files dir). recorded env f (the (map_of dir f)) (sv_committed s')))
    (\<lambda>e s'. idle c s' \<and> consistent env blank (sv_committed s') \<and>
       (sv_committed s' = sv_committed s \<or> grows (sv_committed s) (sv_committed s')))"
    by (rule ends_mono [OF migrate_files_outcome [OF assms(1) s1(1-3)]]) (auto simp: grows_def s1(4))
  then show ?thesis
    using assms(2,3)
    by (auto simp: runSqlMigrations_def assms(4) ends_bindP ends_pool_query_idle [OF assms(1,2)] create_table_def
        s1_def idle_def split: option.split)
qed


text \<open>A directory with one file and a server that keeps the list of the files it ran.\<close>

definition sample_mig_env :: "string list MigEnv" where
  "sample_mig_env = \<lparr>mg_pick = (\<lambda>_. 0), mg_bound = False, mg_fault = (\<lambda>_. None), mg_exec = (\<lambda>q x. Inr (x @ [q])),
     mg_sha256 = (\<lambda>s. s), mg_dir = Some [(''002.sql'', ''B''), (''notes.txt'', ''N''), (''001.sql'', ''A'')]\<rparr>"

definition sample_server :: "string list Server" where
  "sample_server = \<lparr>sv_committed = \<lparr>md_schema = [], md_applied = None\<rparr>, sv_tx = (\<lambda>_. NoTx), sv_event = 0\<rparr>"

lemma sample_mig_ok:
  "one_connection 0 sample_mig_env" "idle 0 sample_server" "consistent sample_mig_env [] (sv_committed sample_server)"
  "mg_dir sample_mig_env = Some [(''002.sql'', ''B''), (''notes.txt'', ''N''), (''001.sql'', ''A'')]"
  by (simp_all add: one_connection_def idle_def consistent_def applied_rows_def sample_mig_env_def sample_server_def)


text \<open>A recorded file is skipped, and changes nothing.\<close>

lemma migrate_file_skips:
  assumes "one_connection c env" and "idle c s" and "mg_fault env = (\<lambda>_. None)"
    and "consistent env' blank (sv_committed s)" and "recorded env f sql (sv_committed s)"
  shows "ends (migrate_file env f sql) s
    (\<lambda>res s'. res = (f, Skipped) \<and> idle c s' \<and> sv_committed s' = sv_committed s) (\<lambda>_ _. False)"
proof -
  obtain r where r: "r \<in> set (applied_rows (sv_committed s))" "mr_version r = version_of f"
    "mr_checksum r = mg_sha256 env sql"
    using assms(5) by (auto simp: recorded_def)
  then obtain rows where rows: "md_applied (sv_committed s) = Some rows" "r \<in> set rows"
    by (cases "md_applied (sv_committed s)") (auto simp: applied_rows_def)
  have "distinct (map mr_version rows)"
    using assms(4) rows by (simp add: consistent_def applied_rows_def)
  then have "filter (\<lambda>x. mr_version x = version_of f) rows = [r]"
    using rows(2) unfolding r(2) [symmetric] by (induction rows) (auto simp: filter_empty_conv image_iff)
  then have "select_checksum (version_of f) (sv_committed s) = Inr ([mg_sha256 env sql], sv_committed s)"
    by (simp add: select_checksum_def rows r(3))
  then show ?thesis
    by (simp add: migrate_file_def Let_def ends_bindP ends_basic ends_pool_query_idle [OF assms(1,2)] assms(3) idle_def)
qed

lemma migrate_files_skip:
  assumes "one_connection c env" and "idle c s" and "mg_fault env = (\<lambda>_. None)"
    and "consistent env' blank (sv_committed s)" and "\<forall>f\<in>set fs. recorded env f (sql f) (sv_committed s)"
  shows "ends (forP fs (\<lambda>f. migrate_file env f (sql f))) s
    (\<lambda>res s'. res = map (\<lambda>f. (f, Skipped)) fs \<and> idle c s' \<and> sv_committed s' = sv_committed s) (\<lambda>_ _. False)"
  using assms(2,4,5)
proof (induction fs arbitrary: s)
  case (Cons f fs)
  then have "ends (migrate_file env f (sql f)) s
    (\<lambda>res s'. res = (f, Skipped) \<and> idle c s' \<and> sv_committed s' = sv_committed s) (\<lambda>_ _. False)"
    by (intro migrate_file_skips [OF assms(1) _ assms(3)]) auto
  then show ?case
    unfolding forP.simps
    by (rule ends_bind) (use Cons.prems in \<open>auto simp: ends_bindP ends_basic intro!: ends_mono [OF Cons.IH]\<close>)
qed (simp add: ends_basic)

lemma create_table_idem: "md_applied d \<noteq> None \<Longrightarrow> create_table d = Inr ((), d)"
  by (simp add: create_table_def)





section \<open>All or nothing\<close>

text \<open>
  A step of a client bound to connection \<open>c\<close>: while a transaction is open on it, or has failed,
  or the connection is lost, nothing is committed and it stays so.
\<close>

definition tx_local :: "nat \<Rightarrow> 'd Server \<Rightarrow> 'd Server \<Rightarrow> bool" where
  "tx_local c s s' \<longleftrightarrow> (sv_tx s c \<noteq> NoTx \<longrightarrow> sv_committed s' = sv_committed s \<and> sv_tx s' c \<noteq> NoTx)"

lemma tx_local_refl: "tx_local c s s"
  by (simp add: tx_local_def)

lemma tx_local_trans: "tx_local c s s' \<Longrightarrow> tx_local c s' s'' \<Longrightarrow> tx_local c s s''"
  by (auto simp: tx_local_def)

definition bound_client :: "'d MigEnv \<Rightarrow> nat \<Rightarrow> 'd MigEnv" where
  "bound_client env c = env\<lparr>mg_pick := \<lambda>_. c, mg_bound := True\<rparr>"

lemma bound_query_local: "steps (pool_query (bound_client env c) stmt) (tx_local c) (\<lambda>_. True)"
  unfolding pool_query_def
  by (rule steps_await)
    (auto simp: tx_local_def bound_client_def Let_def conn_def split: option.split TxState.split sum.split)

lemma ends_bound_begin:
  "sv_tx s c = NoTx \<Longrightarrow> ends (pool_tx (bound_client env c) BEGIN) s Q E =
     (case mg_fault env (sv_event s) of
        Some m \<Rightarrow> E (JsError m) (set_tx c LostTx s)
      | None \<Rightarrow> Q () (set_tx c (OpenTx (sv_committed s)) s))"
  by (simp add: pool_tx_def bound_client_def ends_await Let_def conn_def split: option.split)

lemma ends_bound_rollback:
  "ends (pool_tx (bound_client env c) ROLLBACK) s (\<lambda>_ s'. sv_committed s' = sv_committed s)
     (\<lambda>_ s'. sv_committed s' = sv_committed s)"
  by (simp add: pool_tx_def bound_client_def ends_await Let_def conn_def split: option.split TxState.split)

lemma ends_bound_commit:
  "ends (pool_tx (bound_client env c) COMMIT) s
     (\<lambda>_ s'. sv_committed s' = (case sv_tx s c of OpenTx d \<Rightarrow> d | _ \<Rightarrow> sv_committed s))
     (\<lambda>_ s'. sv_committed s' = sv_committed s)"
  by (simp add: pool_tx_def bound_client_def ends_await Let_def conn_def split: option.split TxState.split)

text \<open>What a transaction that returned leaves committed: what the work left in it.\<close>

definition tx_outcome :: "'d MigEnv \<Rightarrow> ('d MigEnv \<Rightarrow> ('d, 'a) mig) \<Rightarrow> 'd Server \<Rightarrow> 'a \<Rightarrow> 'd Server \<Rightarrow> bool" where
  "tx_outcome env work s a s' \<longleftrightarrow> (\<exists>s0 s1 c. run (work (bound_client env c)) s0 = (Inr a, s1) \<and>
     sv_tx s0 c = OpenTx (sv_committed s) \<and> sv_committed s0 = sv_committed s \<and>
     sv_committed s' = (case sv_tx s1 c of OpenTx d \<Rightarrow> d | _ \<Rightarrow> sv_committed s))"

lemma ends_work_commit:
  assumes work: "\<And>c. steps (work (bound_client env c)) (tx_local c) (\<lambda>_. True)"
    and s0: "sv_tx s0 c = OpenTx (sv_committed s)" "sv_committed s0 = sv_committed s"
  shows "ends (bindP (work (bound_client env c)) (\<lambda>r. bindP (pool_tx (bound_client env c) COMMIT) (\<lambda>_. Ret r))) s0
     (tx_outcome env work s) (\<lambda>e s'. sv_committed s' = sv_committed s)"
proof -
  let ?b = "bound_client env c"
  have "ends (work ?b) s0 (\<lambda>_. tx_local c s0) (\<lambda>e s'. tx_local c s0 s' \<and> True)"
    by (rule steps_ends [OF work]) (auto intro: tx_local_refl tx_local_trans)
  then have "ends (work ?b) s0 (\<lambda>a s1. run (work ?b) s0 = (Inr a, s1) \<and> sv_committed s1 = sv_committed s)
      (\<lambda>e s'. sv_committed s' = sv_committed s)"
    using s0 by (cases "run (work ?b) s0") (auto simp: ends_def tx_local_def split: sum.splits)
  then show ?thesis
  proof (rule ends_bind)
    fix a s1 assume s1: "run (work ?b) s0 = (Inr a, s1) \<and> sv_committed s1 = sv_committed s"
    have fin: "tx_outcome env work s a s'"
      if "sv_committed s' = (case sv_tx s1 c of OpenTx d \<Rightarrow> d | _ \<Rightarrow> sv_committed s1)" for s'
      using s0 s1 that unfolding tx_outcome_def by metis
    show "ends (bindP (pool_tx ?b COMMIT) (\<lambda>_. Ret a)) s1 (tx_outcome env work s) (\<lambda>e s'. sv_committed s' = sv_committed s)"
      unfolding ends_bindP ends_basic
      by (rule ends_mono [OF ends_bound_commit]) (rule fin, assumption, use s1 in simp)
  qed simp
qed



text \<open>
  The runner itself uses \<^verbatim>\<open>pool.query\<close>, not a client of its own.  If the pool hands out a second
  connection between \<^verbatim>\<open>BEGIN\<close> and the file, a failing insert leaves the file applied and not
  recorded: the one-connection hypothesis of the theorems about the runner is needed.
\<close>

lemma migrations_need_one_connection:
  "\<exists>env :: string list MigEnv. \<exists>s'. run (runSqlMigrations env) sample_server = (Inl (JsError ''lost''), s') \<and>
     md_schema (sv_committed s') = [''A''] \<and> applied_rows (sv_committed s') = []"
proof -
  let ?env = "sample_mig_env\<lparr>mg_pick := \<lambda>n. if n = 3 then 1 else 0, mg_fault := \<lambda>n. if n = 4 then Some ''lost'' else None\<rparr>"
  have "fst (run (runSqlMigrations ?env) sample_server) = Inl (JsError ''lost'')" by code_simp
  moreover have "md_schema (sv_committed (snd (run (runSqlMigrations ?env) sample_server))) = [''A'']" by code_simp
  moreover have "applied_rows (sv_committed (snd (run (runSqlMigrations ?env) sample_server))) = []" by code_simp
  ultimately show ?thesis by (metis prod.collapse)
qed

end
