(* ===== verification/DatabasePool.thy ===== *)
theory DatabasePool
  imports Migrations Configuration
begin

text \<open>
  The pool the service opens (\<^verbatim>\<open>database.service.ts\<close>) and the two command-line programs beside it
  (\<^verbatim>\<open>migrate.ts\<close>, \<^verbatim>\<open>check.ts\<close>), which build their own.
\<close>

section \<open>The pool of the service\<close>

text \<open>\<open>po_ssl\<close>: no TLS, or TLS with or without a check of the server's certificate.\<close>

record PoolOptions =
  po_connectionString :: string
  po_max :: jsnum
  po_ssl :: "bool option"

definition service_pool :: "penv \<Rightarrow> exn + PoolOptions option" where
  "service_pool pe =
     (case databaseUrl pe of None \<Rightarrow> Inr None
      | Some url \<Rightarrow> map_sum id (\<lambda>n. Some
          \<lparr>po_connectionString = url, po_max = Dec n 0,
           po_ssl = (if databaseSsl pe then Some (databaseSslRejectUnauthorized pe) else None)\<rparr>)
          (databaseMaxConnections pe))"

definition getPool :: "PoolOptions option \<Rightarrow> exn + PoolOptions" where
  "getPool pool = (case pool of
     None \<Rightarrow> Inl (JsError ''PostgreSQL is not configured. Set AVASETTLE_DATABASE_URL.'') | Some p \<Rightarrow> Inr p)"

definition applied_files :: "MigrationResult list \<Rightarrow> string list" where
  "applied_files rs = map fst (filter (\<lambda>r. snd r = Applied) rs)"

text \<open>The result is the log line, if there is one.\<close>

definition onModuleInit :: "penv \<Rightarrow> PoolOptions option \<Rightarrow> 'd MigEnv \<Rightarrow> ('d, string option) mig" where
  "onModuleInit pe pool env =
     (if pool = None \<or> \<not> databaseAutoMigrate pe then Ret None
      else bindP (runSqlMigrations env) (\<lambda>results.
        Ret (if applied_files results = [] then None
             else Some (''Applied database migrations: '' @ join '', '' (applied_files results)))))"

section \<open>The command-line programs\<close>

record CliResult =
  cli_stdout :: "string list"
  cli_stderr :: "string option"
  cli_exitCode :: nat

definition cli_failed :: "exn \<Rightarrow> CliResult" where
  "cli_failed e = \<lparr>cli_stdout = [], cli_stderr = Some (exn_message e), cli_exitCode = 1\<rparr>"

definition cli_database_url :: "penv \<Rightarrow> exn + string" where
  "cli_database_url pe =
     (let url = (case pe ''AVASETTLE_DATABASE_URL'' of Some v \<Rightarrow> Some v | None \<Rightarrow> pe ''DATABASE_URL'')
      in if truthy url then Inr (the url) else Inl (JsError ''Set AVASETTLE_DATABASE_URL or DATABASE_URL.''))"

definition cli_ssl :: "penv \<Rightarrow> bool option" where
  "cli_ssl pe = (if toLowerCase (case pe ''AVASETTLE_DATABASE_SSL'' of Some v \<Rightarrow> v | None \<Rightarrow> [])
     \<in> set [''1'', ''true'', ''yes'', ''on''] then Some False else None)"

definition migrate_pool :: "penv \<Rightarrow> exn + PoolOptions" where
  "migrate_pool pe = map_sum id (\<lambda>url.
     \<lparr>po_connectionString = url,
      po_max = (case pe ''AVASETTLE_DATABASE_MAX_CONNECTIONS'' of Some v \<Rightarrow> jsNumber v | None \<Rightarrow> Dec 5 0),
      po_ssl = cli_ssl pe\<rparr>) (cli_database_url pe)"

definition status_line :: "MigrationResult \<Rightarrow> string" where
  "status_line r = (case snd r of Applied \<Rightarrow> ''applied'' | Skipped \<Rightarrow> ''skipped'') @ '': '' @ fst r"

definition migrate_main :: "penv \<Rightarrow> 'd MigEnv \<Rightarrow> ('d, CliResult) mig" where
  "migrate_main pe env =
     catchP
       (bindP (liftE (migrate_pool pe)) (\<lambda>_.
        bindP (runSqlMigrations env) (\<lambda>results.
        Ret \<lparr>cli_stdout = map status_line results, cli_stderr = None, cli_exitCode = 0\<rparr>)))
       (\<lambda>e. Ret (cli_failed e))"

definition check_pool :: "penv \<Rightarrow> exn + PoolOptions" where
  "check_pool pe = map_sum id (\<lambda>url. \<lparr>po_connectionString = url, po_max = Dec 1 0, po_ssl = cli_ssl pe\<rparr>)
     (cli_database_url pe)"

text \<open>\<open>now\<close> is the server's time as ISO text.\<close>

definition check_main :: "penv \<Rightarrow> string \<Rightarrow> 'd MigEnv \<Rightarrow> ('d, CliResult) mig" where
  "check_main pe now env =
     catchP
       (bindP (liftE (check_pool pe)) (\<lambda>_.
        bindP (pool_query env (\<lambda>d. Inr (now, d))) (\<lambda>t.
        Ret \<lparr>cli_stdout = [''postgres: ok '' @ t], cli_stderr = None, cli_exitCode = 0\<rparr>)))
       (\<lambda>e. Ret (cli_failed e))"

section \<open>Lemmas\<close>

text \<open>The exit code tells whether every migration went through.\<close>

lemma migrate_main_exit:
  assumes "migrate_pool pe = Inr opts"
  shows "ends (migrate_main pe env) s
    (\<lambda>res s'. cli_exitCode res = (case fst (run (runSqlMigrations env) s) of Inl _ \<Rightarrow> 1 | Inr _ \<Rightarrow> 0) \<and>
       s' = snd (run (runSqlMigrations env) s))
    (\<lambda>_ _. False)"
  by (cases "run (runSqlMigrations env) s")
    (simp add: migrate_main_def assms ends_def run_catchP run_bindP run_liftE cli_failed_def split: sum.split)

text \<open>With TLS on, the programs never check the certificate, whatever the setting the service obeys says.\<close>

lemma cli_ssl_unchecked: "cli_ssl pe \<noteq> Some True"
  by (simp add: cli_ssl_def)

lemma cli_skips_certificate_check:
  "migrate_pool pe = Inr opts \<Longrightarrow> po_ssl opts \<noteq> Some True"
  "check_pool pe = Inr opts \<Longrightarrow> po_ssl opts \<noteq> Some True"
  using cli_ssl_unchecked [of pe] by (auto simp: migrate_pool_def check_pool_def map_sum_def split: sum.splits)

end
