(* ===== verification/Bootstrap.thy ===== *)
theory Bootstrap
  imports Sdk DatabasePool Status
begin

text \<open>
  \<^verbatim>\<open>src/src/main.ts\<close>: how the process gets its settings and what it tells the HTTP server, and the
  two timers the process starts (\<^verbatim>\<open>webhook-dispatcher.service.ts\<close>, \<^verbatim>\<open>auto-reconcile.service.ts\<close>).
  \<^verbatim>\<open>dotenv\<close> parses a file to the variables it sets; a missing file sets none.
\<close>

section \<open>Settings\<close>

text \<open>\<^verbatim>\<open>loadEnv({ path, override })\<close>: without \<^verbatim>\<open>override\<close> a variable that is set stays.\<close>

definition loadEnv :: "(string \<times> string) list option \<Rightarrow> bool \<Rightarrow> penv \<Rightarrow> penv" where
  "loadEnv file override pe =
     (case file of None \<Rightarrow> pe
      | Some vars \<Rightarrow> if override then pe ++ map_of vars else map_of vars ++ pe)"

definition load_settings ::
  "(string \<times> string) list option \<Rightarrow> (string \<times> string) list option \<Rightarrow> ConfigFile option \<Rightarrow> penv \<Rightarrow> penv" where
  "load_settings dot_env dot_env_local config pe =
     loadConfigFile config (loadEnv dot_env_local True (loadEnv dot_env False pe))"

section \<open>The HTTP server\<close>

record ServerOptions =
  so_trustProxy :: "TrustProxy option"
  so_corsOrigin :: CorsOrigins
  so_corsMethods :: "string list"
  so_allowedHeaders :: "string list"
  so_exposedHeaders :: "string list"
  so_port :: int

definition server_options :: "penv \<Rightarrow> int \<Rightarrow> ServerOptions" where
  "server_options pe p =
     \<lparr>so_trustProxy = (if trustProxy pe = TpBool False then None else Some (trustProxy pe)), so_corsOrigin = corsOrigins pe,
      so_corsMethods = [''GET'', ''POST'', ''PATCH'', ''OPTIONS''],
      so_allowedHeaders = [''authorization'', ''content-type'', ''idempotency-key'', ''x-avasettle-api-key'',
        ''x-correlation-id'', ''x-request-id'', ''traceparent'', ''tracestate''],
      so_exposedHeaders = [''x-request-id''], so_port = p\<rparr>"

section \<open>Timers\<close>

text \<open>The interval in milliseconds, if the timer is started.\<close>

definition dispatcher_onApplicationBootstrap :: "penv \<Rightarrow> exn + int option" where
  "dispatcher_onApplicationBootstrap pe =
     (case webhookDispatchIntervalSeconds pe of Inl e \<Rightarrow> Inl e
      | Inr intervalSeconds \<Rightarrow>
          if intervalSeconds = 0 \<or> \<not> databaseConfigured pe then Inr None else Inr (Some (intervalSeconds * 1000)))"

definition autoReconcile_onApplicationBootstrap :: "penv \<Rightarrow> exn + int option" where
  "autoReconcile_onApplicationBootstrap pe =
     (case autoReconcileIntervalSeconds pe of Inl e \<Rightarrow> Inl e
      | Inr None \<Rightarrow> Inr None
      | Inr (Some intervalSeconds) \<Rightarrow> if intervalSeconds = 0 then Inr None else Inr (Some (intervalSeconds * 1000)))"

text \<open>
  The whole start: the services are constructed, the server is set up, \<^verbatim>\<open>listen\<close> runs the start-up hooks.
  \<open>migrated\<close> is how \<^verbatim>\<open>onModuleInit\<close> of the database ended.  The result is the options, the two
  intervals and the lines of the start-up check.
\<close>

definition bootstrap :: "penv \<Rightarrow> exn + unit \<Rightarrow> exn + ServerOptions \<times> int option \<times> int option \<times> string list" where
  "bootstrap pe migrated =
     (case networkSummary pe of Inl e \<Rightarrow> Inl e | Inr _ \<Rightarrow>
      case service_pool pe of Inl e \<Rightarrow> Inl e | Inr _ \<Rightarrow>
      case port pe of Inl e \<Rightarrow> Inl e | Inr p \<Rightarrow>
      case migrated of Inl e \<Rightarrow> Inl e | Inr _ \<Rightarrow>
      case dispatcher_onApplicationBootstrap pe of Inl e \<Rightarrow> Inl e | Inr dispatch \<Rightarrow>
      case autoReconcile_onApplicationBootstrap pe of Inl e \<Rightarrow> Inl e | Inr reconcile \<Rightarrow>
      case onApplicationBootstrap pe of Inl e \<Rightarrow> Inl e | Inr (warnings, line) \<Rightarrow>
      Inr (server_options pe p, dispatch, reconcile, warnings @ [line]))"

text \<open>\<^verbatim>\<open>bootstrap().catch(...)\<close>: the exit code of a process that failed to start.\<close>

definition main_exit :: "exn + 'a \<Rightarrow> nat option" where
  "main_exit r = (case r of Inl e \<Rightarrow> Some 1 | Inr _ \<Rightarrow> None)"

text \<open>A ticker: its interval while the timer is set, the \<^verbatim>\<open>running\<close> flag, and how many ticks are under way.\<close>

record Ticker =
  tk_timer :: "int option"
  tk_running :: bool
  tk_active :: nat

datatype TimerEvent = TimerFires | TickEnds | Shutdown

definition onApplicationShutdown :: "Ticker \<Rightarrow> Ticker" where
  "onApplicationShutdown t = t\<lparr>tk_timer := None\<rparr>"

fun dispatcher_event :: "TimerEvent \<Rightarrow> Ticker \<Rightarrow> Ticker" where
  "dispatcher_event TimerFires t =
     (if tk_timer t = None \<or> tk_running t then t else t\<lparr>tk_running := True, tk_active := Suc (tk_active t)\<rparr>)"
| "dispatcher_event TickEnds t =
     (if tk_active t = 0 then t else t\<lparr>tk_running := False, tk_active := tk_active t - 1\<rparr>)"
| "dispatcher_event Shutdown t = onApplicationShutdown t"

text \<open>The ticks of the reconciliation have no flag.\<close>

fun autoReconcile_event :: "TimerEvent \<Rightarrow> Ticker \<Rightarrow> Ticker" where
  "autoReconcile_event TimerFires t = (if tk_timer t = None then t else t\<lparr>tk_active := Suc (tk_active t)\<rparr>)"
| "autoReconcile_event TickEnds t = t\<lparr>tk_active := tk_active t - 1\<rparr>"
| "autoReconcile_event Shutdown t = onApplicationShutdown t"

definition fresh_ticker :: "int option \<Rightarrow> Ticker" where
  "fresh_ticker interval = \<lparr>tk_timer = interval, tk_running = False, tk_active = 0\<rparr>"

section \<open>Lemmas\<close>

text \<open>
  Precedence of settings: \<^verbatim>\<open>.env.local\<close>, then the process environment, then \<^verbatim>\<open>.env\<close>, then the
  configuration file.
\<close>

lemma settings_precedence:
  "load_settings dot_env dot_env_local config pe k =
     (case Option.bind dot_env_local (\<lambda>vars. map_of vars k) of Some v \<Rightarrow> Some v
      | None \<Rightarrow> (case pe k of Some v \<Rightarrow> Some v
      | None \<Rightarrow> (case Option.bind dot_env (\<lambda>vars. map_of vars k) of Some v \<Rightarrow> Some v
      | None \<Rightarrow> Option.bind config (\<lambda>c. map_of (mapToEnvVars c) k))))"
  by (auto simp: load_settings_def loadEnv_def loadConfigFile_def apply_vars_env map_add_def
      split: option.splits Option.bind_splits)

text \<open>The process starts exactly when every setting it reads at the start is valid and there is a database.\<close>

lemma boots_iff:
  "main_exit (bootstrap pe migrated) = None \<longleftrightarrow>
     (\<exists>net. settlementNetwork pe = Inr net) \<and> (\<exists>n. databaseMaxConnections pe = Inr n) \<and> (\<exists>p. port pe = Inr p) \<and>
     migrated = Inr () \<and> (\<exists>i. webhookDispatchIntervalSeconds pe = Inr i) \<and>
     (\<exists>i. autoReconcileIntervalSeconds pe = Inr i) \<and> databaseConfigured pe \<and> (\<exists>as. getConfiguredAssets pe = Inr as)"
proof -
  have "main_exit (bootstrap pe migrated) = None \<longleftrightarrow>
      (\<exists>s. networkSummary pe = Inr s) \<and> (\<exists>o'. service_pool pe = Inr o') \<and> (\<exists>p. port pe = Inr p) \<and> migrated = Inr () \<and>
      (\<exists>d. dispatcher_onApplicationBootstrap pe = Inr d) \<and> (\<exists>r. autoReconcile_onApplicationBootstrap pe = Inr r) \<and>
      (\<exists>l. onApplicationBootstrap pe = Inr l)"
    by (simp add: main_exit_def bootstrap_def split: sum.split)
  moreover have "(\<exists>s. networkSummary pe = Inr s) \<longleftrightarrow> (\<exists>net. settlementNetwork pe = Inr net)"
    by (auto simp: networkSummary_def split: sum.splits SettlementNetwork.splits)
  moreover have "(\<exists>d. dispatcher_onApplicationBootstrap pe = Inr d) \<longleftrightarrow> (\<exists>i. webhookDispatchIntervalSeconds pe = Inr i)"
    by (simp add: dispatcher_onApplicationBootstrap_def split: sum.split)
  moreover have "(\<exists>r. autoReconcile_onApplicationBootstrap pe = Inr r) \<longleftrightarrow> (\<exists>i. autoReconcileIntervalSeconds pe = Inr i)"
    by (simp add: autoReconcile_onApplicationBootstrap_def split: sum.split option.split)
  moreover have "(\<exists>l. onApplicationBootstrap pe = Inr l) \<longleftrightarrow>
      databaseConfigured pe \<and> (\<exists>as. getConfiguredAssets pe = Inr as) \<and> (\<exists>net. settlementNetwork pe = Inr net)"
    by (simp add: onApplicationBootstrap_def split: sum.split)
  moreover have "databaseConfigured pe \<Longrightarrow> (\<exists>o'. service_pool pe = Inr o') \<longleftrightarrow> (\<exists>n. databaseMaxConnections pe = Inr n)"
    by (cases "databaseMaxConnections pe") (auto simp: databaseConfigured_def service_pool_def split: option.split)
  ultimately show ?thesis by (cases "databaseConfigured pe") (simp_all add: conj_ac)
qed

text \<open>A browser may send every request of the client library but for the safelisted \<^verbatim>\<open>accept\<close>.\<close>

lemma sdk_headers_allowed:
  assumes "sdk_http cl i = Some h"
  shows "set (map fst (sh_headers h)) \<subseteq> insert ''accept'' (set (so_allowedHeaders (server_options pe p)))"
  using assms by (auto simp: server_options_def sdk_http_def split: if_splits)

text \<open>Dispatcher ticks never overlap, whatever the order of events; and none starts after the shutdown.\<close>

lemma dispatcher_never_overlaps:
  "tk_active (fold dispatcher_event evs (fresh_ticker interval)) \<le> 1"
proof -
  have "tk_active (fold dispatcher_event evs t) = of_bool (tk_running (fold dispatcher_event evs t))"
    if "tk_active t = of_bool (tk_running t)" for t
    using that
  proof (induction evs arbitrary: t)
    case (Cons e evs)
    then show ?case by (cases e) (auto simp: onApplicationShutdown_def)
  qed simp
  then show ?thesis by (simp add: fresh_ticker_def)
qed

lemma no_tick_after_shutdown:
  "tk_timer t = None \<Longrightarrow> tk_timer (fold dispatcher_event evs t) = None \<and>
     tk_active (fold dispatcher_event evs t) \<le> tk_active t"
proof (induction evs arbitrary: t)
  case (Cons e evs)
  from Cons.prems have "tk_timer (dispatcher_event e t) = None \<and> tk_active (dispatcher_event e t) \<le> tk_active t"
    by (cases e) (auto simp: onApplicationShutdown_def)
  then show ?case using Cons.IH [of "dispatcher_event e t"] by simp
qed simp

text \<open>The ticks of the reconciliation do overlap when one takes longer than the interval.\<close>

lemma autoReconcile_overlaps:
  "tk_active (fold autoReconcile_event [TimerFires, TimerFires] (fresh_ticker (Some 10000))) = 2"
  by (simp add: fresh_ticker_def)

end
