(* ===== verification/CheckoutPage.thy ===== *)
theory CheckoutPage
  imports Sdk
begin

text \<open>
  The hosted checkout page (\<^verbatim>\<open>avasettle-landing/src/scripts/checkout.ts\<close>): what it shows, its calls of
  the API, the wallet flow and the polling loop.  The browser is a record of the element properties
  the script sets; the API, the wallet and the chain client answer each request from an oracle.
  Accents and the ellipsis of the messages are written in ASCII.
\<close>

section \<open>Types\<close>

record PageConfig =
  pc_network :: SettlementNetwork
  pc_chainId :: int
  pc_networkName :: string
  pc_explorerBaseUrl :: string
  pc_demoEnabled :: bool
  pc_routerAddress :: "string option"
  pc_routerConfigured :: bool
  pc_tokenSymbol :: string
  pc_tokenAddress :: "string option"
  pc_tokenDecimals :: int

record PageTransaction =
  pt_hash :: string
  pt_amount :: string
  pt_blockNumber :: string

record SessionView =
  pv_id :: string
  pv_status :: PayInStatus
  pv_asset :: string
  pv_amount :: string
  pv_amountAtomic :: string
  pv_receivedAmount :: string
  pv_chainId :: int
  pv_tokenAddress :: string
  pv_routerAddress :: "string option"
  pv_invoiceId :: "string option"
  pv_reference :: "string option"
  pv_explorerBaseUrl :: string
  pv_transactions :: "PageTransaction list"

text \<open>What a thrown value carries.\<close>

record PageError =
  pr_code :: "int option"
  pr_shortMessage :: "string option"
  pr_message :: "string option"

definition js_error :: "string \<Rightarrow> PageError" where
  "js_error m = \<lparr>pr_code = None, pr_shortMessage = None, pr_message = Some m\<rparr>"

record ChainParams =
  cpa_chainId :: string
  cpa_chainName :: string
  cpa_currency :: "string \<times> string \<times> int"
  cpa_rpcUrls :: "string list"
  cpa_blockExplorerUrls :: "string list"

definition ADD_CHAIN_PARAMS :: "int \<Rightarrow> ChainParams option" where
  "ADD_CHAIN_PARAMS chainId =
     (if chainId = 43113 then Some
        \<lparr>cpa_chainId = ''0xa869'', cpa_chainName = ''Avalanche Fuji C-Chain'', cpa_currency = (''Avalanche'', ''AVAX'', 18),
         cpa_rpcUrls = [''https://api.avax-test.network/ext/bc/C/rpc''],
         cpa_blockExplorerUrls = [''https://testnet.snowtrace.io'']\<rparr>
      else if chainId = 43114 then Some
        \<lparr>cpa_chainId = ''0xa86a'', cpa_chainName = ''Avalanche C-Chain'', cpa_currency = (''Avalanche'', ''AVAX'', 18),
         cpa_rpcUrls = [''https://api.avax.network/ext/bc/C/rpc''],
         cpa_blockExplorerUrls = [''https://snowtrace.io'']\<rparr>
      else None)"

text \<open>The requests of the wallet, the permit it signs and the transactions it sends.\<close>

datatype WalletRequest = EthChainId | SwitchChain string | AddChain ChainParams

record PermitData =
  pd_name :: string
  pd_version :: string
  pd_chainId :: int
  pd_verifyingContract :: string
  pd_owner :: "string option"
  pd_spender :: string
  pd_value :: int
  pd_nonce :: int
  pd_deadline :: int

record Permit =
  pm_deadline :: int
  pm_v :: int
  pm_r :: string
  pm_s :: string

text \<open>Each with the contract it goes to first.\<close>

datatype WalletTx =
    ApproveTx string string int
      \<comment> \<open>token, spender, amount\<close>
  | PayInvoiceTx string string string int
      \<comment> \<open>router, invoiceRef, token, amount\<close>
  | PayInvoiceWithPermitTx string string string int Permit

section \<open>The page\<close>

datatype NoteKind = NoteInfo | NoteError

datatype PageStep = StepCreated | StepPaid | StepDetected | StepConfirmed

record Dom =
  dm_hidden :: "string \<Rightarrow> bool"
  dm_text :: "string \<Rightarrow> string"
  dm_disabled :: "string \<Rightarrow> bool"
  dm_noteKind :: NoteKind
  dm_stepOn :: "PageStep \<Rightarrow> bool"
  dm_pillStatus :: string
  dm_txLink :: string
  dm_payOnClick :: bool
  dm_createOnSubmit :: bool

record Page =
  pg_config :: "PageConfig option"
  pg_session :: "SessionView option"
  pg_paidLocally :: bool
  pg_polling :: bool
  pg_dom :: Dom
  pg_sent :: "WalletTx list"
  pg_location :: "string option"
  pg_event :: nat

text \<open>\<^verbatim>\<open>fetch\<close>: no response, an error response with its JSON body if it has one, or the JSON value.\<close>

datatype 'a Fetched = NoResponse string | NotOk int string "json option" | OkJson 'a | OkNotJson string

record PageEnv =
  pe_element :: "string \<Rightarrow> bool"
  pe_stepElement :: "PageStep \<Rightarrow> bool"
  pe_apiUrl :: "string option"
  pe_sessionParam :: "string option"
  pe_input :: "string \<Rightarrow> string"
  pe_clock :: "nat \<Rightarrow> int"
  pe_getConfig :: "nat \<Rightarrow> string \<Rightarrow> PageConfig Fetched"
  pe_getSession :: "nat \<Rightarrow> string \<Rightarrow> SessionView Fetched"
  pe_postSession :: "nat \<Rightarrow> string \<Rightarrow> string option \<Rightarrow> SessionView Fetched"
  pe_ethereum :: bool
  pe_wallet :: "nat \<Rightarrow> WalletRequest \<Rightarrow> PageError + string"
  pe_requestAddresses :: "nat \<Rightarrow> PageError + string list"
  pe_eip712Domain :: "nat \<Rightarrow> string \<Rightarrow> PageError + string \<times> string \<times> string"
  pe_nonces :: "nat \<Rightarrow> string \<Rightarrow> string option \<Rightarrow> PageError + int"
  pe_signTypedData :: "nat \<Rightarrow> PermitData \<Rightarrow> PageError + string"
  pe_parseSignature :: "string \<Rightarrow> PageError + string \<times> string \<times> int option"
  pe_allowance :: "nat \<Rightarrow> string \<Rightarrow> string option \<Rightarrow> string \<Rightarrow> PageError + int"
  pe_writeContract :: "nat \<Rightarrow> string option \<Rightarrow> WalletTx \<Rightarrow> PageError + string"
  pe_waitReceipt :: "nat \<Rightarrow> string \<Rightarrow> PageError + bool"
  pe_getAddress :: "string \<Rightarrow> PageError + string"

type_synonym 'a page = "(Page, PageError, 'a) prog"

text \<open>One awaited answer, a change of the page, and a transaction handed to the wallet.\<close>

definition ask :: "(nat \<Rightarrow> PageError + 'a) \<Rightarrow> 'a page" where
  "ask f = await (\<lambda>s. (f (pg_event s), s\<lparr>pg_event := Suc (pg_event s)\<rparr>))"

definition onPage :: "(Page \<Rightarrow> Page) \<Rightarrow> unit page" where
  "onPage f = await (\<lambda>s. (Inr (), f s))"

definition onDom :: "(Dom \<Rightarrow> Dom) \<Rightarrow> unit page" where
  "onDom f = onPage (\<lambda>s. s\<lparr>pg_dom := f (pg_dom s)\<rparr>)"

definition writeContract :: "PageEnv \<Rightarrow> string option \<Rightarrow> WalletTx \<Rightarrow> string page" where
  "writeContract pe account tx = await (\<lambda>s.
     (pe_writeContract pe (pg_event s) account tx,
      s\<lparr>pg_event := Suc (pg_event s),
        pg_sent := pg_sent s @ (case pe_writeContract pe (pg_event s) account tx of Inl _ \<Rightarrow> [] | Inr _ \<Rightarrow> [tx])\<rparr>))"

text \<open>A global that is still undefined: reading a property of it throws.\<close>

definition loaded :: "(Page \<Rightarrow> 'a option) \<Rightarrow> 'a page" where
  "loaded f = bindP (peek f) (\<lambda>v. case v of
     None \<Rightarrow> Raise (js_error ''Cannot read properties of undefined'') | Some x \<Rightarrow> Ret x)"

section \<open>DOM helpers\<close>

definition show_element :: "PageEnv \<Rightarrow> string \<Rightarrow> bool \<Rightarrow> Dom \<Rightarrow> Dom" where
  "show_element pe i visible d = (if pe_element pe i then d\<lparr>dm_hidden := (dm_hidden d)(i := \<not> visible)\<rparr> else d)"

definition setText :: "PageEnv \<Rightarrow> string \<Rightarrow> string \<Rightarrow> Dom \<Rightarrow> Dom" where
  "setText pe i text d = (if pe_element pe i then d\<lparr>dm_text := (dm_text d)(i := text)\<rparr> else d)"

definition disable :: "PageEnv \<Rightarrow> string \<Rightarrow> bool \<Rightarrow> Dom \<Rightarrow> Dom" where
  "disable pe i b d = (if pe_element pe i then d\<lparr>dm_disabled := (dm_disabled d)(i := b)\<rparr> else d)"

definition truncateMiddle :: "string \<Rightarrow> nat \<Rightarrow> nat \<Rightarrow> string" where
  "truncateMiddle value lead tail =
     (if length value \<le> lead + tail + 1 then value
      else take lead value @ ''...'' @ drop (length value - tail) value)"

definition note_text :: "PageEnv \<Rightarrow> NoteKind \<Rightarrow> string \<Rightarrow> Dom \<Rightarrow> Dom" where
  "note_text pe kind message d =
     (if pe_element pe ''action-note''
      then d\<lparr>dm_text := (dm_text d)(''action-note'' := message), dm_noteKind := kind\<rparr> else d)"

definition note_info :: "PageEnv \<Rightarrow> string \<Rightarrow> unit page" where
  "note_info pe m = onDom (note_text pe NoteInfo m)"

section \<open>API calls\<close>

definition API_BASE :: "PageEnv \<Rightarrow> string" where
  "API_BASE pe = strip_slash (case pe_apiUrl pe of Some u \<Rightarrow> u | None \<Rightarrow> ''http://localhost:3001'')"

definition safeBody :: "string \<Rightarrow> json option \<Rightarrow> string" where
  "safeBody statusText body =
     (case body of
        Some (JObj fs) \<Rightarrow>
          (case map_of fs ''message'' of
             Some (JArr vs) \<Rightarrow> join '', '' (map joined_text vs)
           | None \<Rightarrow> statusText | Some JNull \<Rightarrow> statusText
           | Some j \<Rightarrow> joined_text j)
      | _ \<Rightarrow> statusText)"

definition api_result :: "'a Fetched \<Rightarrow> PageError + 'a" where
  "api_result r =
     (case r of NoResponse m \<Rightarrow> Inl (js_error m)
      | NotOk status statusText body \<Rightarrow> Inl (js_error (show_int status @ '' '' @ safeBody statusText body))
      | OkNotJson m \<Rightarrow> Inl (js_error m)
      | OkJson v \<Rightarrow> Inr v)"

definition apiGet :: "(nat \<Rightarrow> string \<Rightarrow> 'a Fetched) \<Rightarrow> PageEnv \<Rightarrow> string \<Rightarrow> 'a page" where
  "apiGet fetch pe path = ask (\<lambda>n. api_result (fetch n (API_BASE pe @ path)))"

definition apiPost :: "PageEnv \<Rightarrow> string \<Rightarrow> json option \<Rightarrow> SessionView page" where
  "apiPost pe path body = ask (\<lambda>n. api_result (pe_postSession pe n (API_BASE pe @ path) (map_option stringify body)))"

section \<open>Status rendering\<close>

definition step_index :: "PageStep \<Rightarrow> nat" where
  "step_index s = (case s of StepCreated \<Rightarrow> 0 | StepPaid \<Rightarrow> 1 | StepDetected \<Rightarrow> 2 | StepConfirmed \<Rightarrow> 3)"

text \<open>The steps in the order of \<^verbatim>\<open>STEP_ORDER\<close>.\<close>

instantiation PageStep :: linorder
begin

definition less_eq_PageStep :: "PageStep \<Rightarrow> PageStep \<Rightarrow> bool" where
  "less_eq_PageStep s t \<longleftrightarrow> step_index s \<le> step_index t"

definition less_PageStep :: "PageStep \<Rightarrow> PageStep \<Rightarrow> bool" where
  "less_PageStep s t \<longleftrightarrow> step_index s < step_index t"

instance
  by standard
    (auto simp: less_eq_PageStep_def less_PageStep_def step_index_def split: PageStep.splits)

end

lemma confirmed_is_last [simp]: "(s :: PageStep) \<le> StepConfirmed"
  by (cases s) (simp_all add: less_eq_PageStep_def step_index_def)

definition reached_step :: "SessionView \<Rightarrow> bool \<Rightarrow> PageStep" where
  "reached_step session paidLocally =
     (if pv_status session = PiConfirmed then StepConfirmed
      else if pv_status session = PiDetected \<or> pv_transactions session \<noteq> [] then StepDetected
      else if paidLocally then StepPaid else StepCreated)"

definition status_label :: "bool \<Rightarrow> PayInStatus \<Rightarrow> string" where
  "status_label paidLocally st =
     (case st of PiPending \<Rightarrow> if paidLocally then ''Pago enviado'' else ''Esperando pago''
      | PiDetected \<Rightarrow> ''Detectado on-chain'' | PiConfirmed \<Rightarrow> ''Confirmado'' | PiExpired \<Rightarrow> ''Expirado''
      | PiUnderpaid \<Rightarrow> ''Monto insuficiente'' | PiOverpaid \<Rightarrow> ''Monto excedido'')"

definition render_pill :: "PageEnv \<Rightarrow> SessionView \<Rightarrow> bool \<Rightarrow> Dom \<Rightarrow> Dom" where
  "render_pill pe session paidLocally d =
     (if pe_element pe ''status-pill''
      then d\<lparr>dm_text := (dm_text d)(''status-pill'' := status_label paidLocally (pv_status session)),
             dm_pillStatus := payin_status_text (pv_status session)\<rparr> else d)"

definition render_tx :: "PageEnv \<Rightarrow> SessionView \<Rightarrow> Dom \<Rightarrow> Dom" where
  "render_tx pe session d =
     (case pv_transactions session of [] \<Rightarrow> d
      | t # _ \<Rightarrow> if pe_element pe ''tx-link''
          then show_element pe ''tx-row'' True
                 (setText pe ''tx-link'' (truncateMiddle (pt_hash t) 12 10)
                    (d\<lparr>dm_txLink := pv_explorerBaseUrl session @ ''/tx/'' @ pt_hash t\<rparr>))
          else d)"

definition renderStatus :: "PageEnv \<Rightarrow> SessionView \<Rightarrow> bool \<Rightarrow> Dom \<Rightarrow> Dom" where
  "renderStatus pe session paidLocally d =
     render_tx pe session (render_pill pe session paidLocally
       (d\<lparr>dm_stepOn := (\<lambda>s. if pe_stepElement pe s
            then s \<le> reached_step session paidLocally else dm_stepOn d s)\<rparr>))"

text \<open>\<^verbatim>\<open>renderStatus(session, paidLocally)\<close> on the globals.\<close>

definition render_now :: "PageEnv \<Rightarrow> unit page" where
  "render_now pe = await (\<lambda>s. case pg_session s of
     None \<Rightarrow> (Inl (js_error ''Cannot read properties of undefined''), s)
   | Some session \<Rightarrow> (Inr (), s\<lparr>pg_dom := renderStatus pe session (pg_paidLocally s) (pg_dom s)\<rparr>))"

section \<open>Wallet flow\<close>

definition hex_digit :: "nat \<Rightarrow> char" where
  "hex_digit n = (if n < 10 then char_of (48 + n) else char_of (87 + n))"

text \<open>\<^verbatim>\<open>n.toString(16)\<close> and \<^verbatim>\<open>parseInt(s, 16)\<close>; \<open>None\<close> is \<^verbatim>\<open>NaN\<close>.\<close>

fun show_hex :: "nat \<Rightarrow> string" where
  "show_hex n = (if n < 16 then [hex_digit n] else show_hex (n div 16) @ [hex_digit (n mod 16)])"

declare show_hex.simps [simp del]

definition parseInt16 :: "string \<Rightarrow> int option" where
  "parseInt16 s =
     (let body = (if startsWith (toLowerCase (trim s)) ''0x'' then drop 2 (trim s) else trim s);
          digits = takeWhile (\<lambda>c. hex_value c \<noteq> None) body
      in if digits = [] then None
         else Some (foldl (\<lambda>n c. 16 * n + int (the (hex_value c))) 0 digits))"

definition wallet :: "PageEnv \<Rightarrow> WalletRequest \<Rightarrow> string page" where
  "wallet pe r = ask (\<lambda>n. pe_wallet pe n r)"

definition ensureChain :: "PageEnv \<Rightarrow> int \<Rightarrow> unit page" where
  "ensureChain pe chainId =
     bindP (wallet pe EthChainId) (\<lambda>current.
     if parseInt16 current = Some chainId then Ret ()
     else catchP (bindP (wallet pe (SwitchChain (''0x'' @ show_hex (nat chainId)))) (\<lambda>_. Ret ()))
       (\<lambda>e. case (if pr_code e = Some 4902 then ADD_CHAIN_PARAMS chainId else None) of
          Some params \<Rightarrow> bindP (wallet pe (AddChain params)) (\<lambda>_. Ret ())
        | None \<Rightarrow> Raise e))"

definition sign_permit ::
  "PageEnv \<Rightarrow> string option \<Rightarrow> string \<Rightarrow> string \<Rightarrow> int \<Rightarrow> Permit option page" where
  "sign_permit pe account token spender amount =
     bindP (ask (\<lambda>n. pe_eip712Domain pe n token)) (\<lambda>(name, version, verifyingContract).
     bindP (ask (\<lambda>n. pe_nonces pe n token account)) (\<lambda>nonce.
     bindP (peek (\<lambda>s. pe_clock pe (pg_event s) div 1000 + 3600)) (\<lambda>deadline.
     bindP (loaded pg_config) (\<lambda>config.
     bindP (ask (\<lambda>n. pe_signTypedData pe n
       \<lparr>pd_name = name, pd_version = version, pd_chainId = pc_chainId config, pd_verifyingContract = verifyingContract,
        pd_owner = account, pd_spender = spender, pd_value = amount, pd_nonce = nonce, pd_deadline = deadline\<rparr>)) (\<lambda>signature.
     bindP (liftE (pe_parseSignature pe signature)) (\<lambda>(r, s, v).
     Ret (case v of None \<Rightarrow> None | Some v \<Rightarrow> Some \<lparr>pm_deadline = deadline, pm_v = v, pm_r = r, pm_s = s\<rparr>)))))))"

definition tryPermitSignature ::
  "PageEnv \<Rightarrow> string option \<Rightarrow> string \<Rightarrow> string \<Rightarrow> int \<Rightarrow> Permit option page" where
  "tryPermitSignature pe account token spender amount =
     catchP (sign_permit pe account token spender amount) (\<lambda>_. Ret None)"

text \<open>\<^verbatim>\<open>`${session.amount} ${session.asset}`\<close>\<close>

definition price :: "SessionView \<Rightarrow> string" where
  "price session = pv_amount session @ '' '' @ pv_asset session"

definition note_price :: "PageEnv \<Rightarrow> string \<Rightarrow> unit page" where
  "note_price pe what = bindP (loaded pg_session) (\<lambda>session.
     note_info pe (what @ price session @ '' en tu wallet...''))"

text \<open>The approval, when the allowance is too small, and the payment itself.\<close>

definition approve_first :: "PageEnv \<Rightarrow> string option \<Rightarrow> string \<Rightarrow> string \<Rightarrow> int \<Rightarrow> unit page" where
  "approve_first pe account token router amount =
     bindP (ask (\<lambda>n. pe_allowance pe n token account router)) (\<lambda>allowance.
     if allowance < amount then
       bindP (note_price pe ''Aprueba '') (\<lambda>_.
       bindP (writeContract pe account (ApproveTx token router amount)) (\<lambda>approveHash.
       bindP (note_info pe ''Esperando la aprobacion on-chain...'') (\<lambda>_.
       bindP (ask (\<lambda>n. pe_waitReceipt pe n approveHash)) (\<lambda>_. Ret ()))))
     else Ret ())"

definition send_payment ::
  "PageEnv \<Rightarrow> string option \<Rightarrow> string \<Rightarrow> string \<Rightarrow> string \<Rightarrow> int \<Rightarrow> string page" where
  "send_payment pe account router invoiceRef token amount =
     bindP (tryPermitSignature pe account token router amount) (\<lambda>permit.
     case permit of
       Some p \<Rightarrow> bindP (note_price pe ''Confirma el pago de '') (\<lambda>_.
         writeContract pe account (PayInvoiceWithPermitTx router invoiceRef token amount p))
     | None \<Rightarrow> bindP (approve_first pe account token router amount) (\<lambda>_.
         bindP (note_price pe ''Confirma el pago de '') (\<lambda>_.
         writeContract pe account (PayInvoiceTx router invoiceRef token amount))))"

text \<open>
  \<^verbatim>\<open>BigInt(session.amountAtomic)\<close>, and \<^verbatim>\<open>getAddress\<close> of an address that may have become null while the
  wallet answered.
\<close>

definition page_bigint :: "string \<Rightarrow> PageError + int" where
  "page_bigint s = (case bigint_of s of None \<Rightarrow> Inl (js_error (''Cannot convert '' @ s @ '' to a BigInt'')) | Some n \<Rightarrow> Inr n)"

definition address_of :: "PageEnv \<Rightarrow> string option \<Rightarrow> PageError + string" where
  "address_of pe a = (case a of None \<Rightarrow> Inl (js_error ''Address is invalid.'') | Some x \<Rightarrow> pe_getAddress pe x)"

definition pay_body :: "PageEnv \<Rightarrow> unit page" where
  "pay_body pe =
     bindP (loaded pg_config) (\<lambda>config.
     bindP (note_info pe ''Conectando wallet...'') (\<lambda>_.
     bindP (ensureChain pe (pc_chainId config)) (\<lambda>_.
     bindP (ask (pe_requestAddresses pe)) (\<lambda>accounts.
     let account = (case accounts of [] \<Rightarrow> None | a # _ \<Rightarrow> Some a) in
     bindP (loaded pg_session) (\<lambda>session.
     bindP (liftE (address_of pe (pv_routerAddress session))) (\<lambda>router.
     bindP (liftE (pe_getAddress pe (pv_tokenAddress session))) (\<lambda>token.
     bindP (liftE (page_bigint (pv_amountAtomic session))) (\<lambda>amount.
     let invoiceRef = (case pv_invoiceId session of Some i \<Rightarrow> i | None \<Rightarrow> []) in
     bindP (note_info pe ''Prepara el pago en tu wallet...'') (\<lambda>_.
     bindP (send_payment pe account router invoiceRef token amount) (\<lambda>payHash.
     bindP (onPage (\<lambda>s. s\<lparr>pg_paidLocally := True\<rparr>)) (\<lambda>_.
     bindP (render_now pe) (\<lambda>_.
     bindP (note_info pe ''Pago enviado. Esperando confirmacion on-chain...'') (\<lambda>_.
     bindP (ask (\<lambda>n. pe_waitReceipt pe n payHash)) (\<lambda>_.
     onDom (show_element pe ''action-btn'' False)))))))))))))))"

definition pay_failed :: "PageEnv \<Rightarrow> PageError \<Rightarrow> unit page" where
  "pay_failed pe e =
     onDom (disable pe ''action-btn'' False \<circ> note_text pe NoteError
       (case pr_shortMessage e of Some m \<Rightarrow> m
        | None \<Rightarrow> (case pr_message e of Some m \<Rightarrow> m | None \<Rightarrow> ''No se pudo completar el pago.'')))"

section \<open>Polling\<close>

definition show_answer :: "PageEnv \<Rightarrow> SessionView \<Rightarrow> PayInStatus option page" where
  "show_answer pe updated =
     bindP (onPage (\<lambda>s. s\<lparr>pg_session := Some updated\<rparr>)) (\<lambda>_.
     bindP (render_now pe) (\<lambda>_.
     if pv_status updated = PiConfirmed then
       bindP (note_info pe ''Pago confirmado y conciliado por AvaSettle.'') (\<lambda>_. Ret (Some PiConfirmed))
     else if pv_status updated = PiDetected then
       bindP (note_info pe ''Pago detectado on-chain. Esperando confirmaciones...'') (\<lambda>_. Ret (Some PiDetected))
     else Ret (Some (pv_status updated))))"

definition poll_once :: "PageEnv \<Rightarrow> PayInStatus option page" where
  "poll_once pe = catchP
     (bindP (loaded pg_session) (\<lambda>session.
      bindP (apiPost pe (''/checkout/sessions/'' @ pv_id session @ ''/reconcile'') None) (show_answer pe)))
     (\<lambda>_. Ret None)"

text \<open>The loop with the attempts left; a wait of four seconds ends each attempt.\<close>

fun poll_loop :: "PageEnv \<Rightarrow> nat \<Rightarrow> unit page" where
  "poll_loop pe 0 = onPage (\<lambda>s. s\<lparr>pg_polling := False\<rparr>)"
| "poll_loop pe (Suc n) =
     bindP (poll_once pe) (\<lambda>status.
     if status = Some PiConfirmed then Ret ()
     else bindP (ask (\<lambda>_. Inr ())) (\<lambda>_. poll_loop pe n))"

definition maxPolls :: nat where
  "maxPolls = 60"

text \<open>\<^verbatim>\<open>if (polling) return; polling = true;\<close> happens in one go.\<close>

definition poll :: "PageEnv \<Rightarrow> unit page" where
  "poll pe =
     bindP (await (\<lambda>s. (Inr (pg_polling s), s\<lparr>pg_polling := True\<rparr>))) (\<lambda>running.
     if running then Ret () else poll_loop pe maxPolls)"

text \<open>A click on the button; what \<^verbatim>\<open>void poll()\<close> starts runs on after it.\<close>

definition pay :: "PageEnv \<Rightarrow> unit page" where
  "pay pe =
     (if \<not> pe_ethereum pe
      then onDom (note_text pe NoteError ''No detectamos una wallet. Instala MetaMask o Core para pagar.'')
      else
        bindP (loaded pg_session) (\<lambda>session.
        if truthy (pv_routerAddress session) \<and> truthy (pv_invoiceId session) then
          bindP (onDom (disable pe ''action-btn'' True)) (\<lambda>_.
          bindP (catchP (bindP (pay_body pe) (\<lambda>_. Ret True))
                  (\<lambda>e. bindP (pay_failed pe e) (\<lambda>_. Ret False))) (\<lambda>paid.
          if paid then poll pe else Ret ()))
        else onDom (note_text pe NoteError ''Esta invoice no esta lista para cobrarse.'')))"

section \<open>The form and the boot\<close>

definition submit_form :: "PageEnv \<Rightarrow> unit page" where
  "submit_form pe =
     (let amount = (if pe_element pe ''amount-input'' then trim (pe_input pe ''amount-input'') else []);
          reference = (if pe_element pe ''reference-input'' then trim (pe_input pe ''reference-input'') else [])
      in bindP (onDom (setText pe ''create-error'' [] \<circ> disable pe ''create-submit'' True)) (\<lambda>_.
         catchP
           (bindP (apiPost pe ''/checkout/sessions'' (Some (JObj ([(''amount'', JStr amount)] @
                (if reference = [] then [] else [(''reference'', JStr reference)]))))) (\<lambda>created.
            onPage (\<lambda>s. s\<lparr>pg_location := Some (''?session='' @ pv_id created)\<rparr>)))
           (\<lambda>e. onDom (disable pe ''create-submit'' False \<circ>
              setText pe ''create-error'' (case pr_message e of Some m \<Rightarrow> m | None \<Rightarrow> [])))))"

definition render_labels :: "PageEnv \<Rightarrow> SessionView \<Rightarrow> PageConfig \<Rightarrow> Dom \<Rightarrow> Dom" where
  "render_labels pe session config d =
     (let d = setText pe ''net-badge'' (pc_networkName config) (setText pe ''amount-display'' (price session) d);
          d = (if truthy (pv_reference session)
               then show_element pe ''reference-row'' True (setText pe ''reference-display'' (the (pv_reference session)) d) else d)
      in if truthy (pv_invoiceId session)
         then setText pe ''invoice-id'' (truncateMiddle (the (pv_invoiceId session)) 12 10) d else d)"

definition renderInvoice :: "PageEnv \<Rightarrow> unit page" where
  "renderInvoice pe =
     bindP (loaded pg_session) (\<lambda>session.
     bindP (loaded pg_config) (\<lambda>config.
     bindP (onDom (render_labels pe session config)) (\<lambda>_.
     bindP (render_now pe) (\<lambda>_.
     if pv_status session = PiConfirmed then
       onDom (note_text pe NoteInfo ''Pago confirmado y conciliado por AvaSettle.'' \<circ> show_element pe ''action-btn'' False)
     else
       bindP (onDom (\<lambda>d. if pe_element pe ''action-btn''
         then setText pe ''action-btn'' (''Pagar '' @ price session) (d\<lparr>dm_payOnClick := True\<rparr>) else d)) (\<lambda>_.
       if pv_transactions session = [] then Ret () else poll pe)))))"

definition unavailable :: "PageEnv \<Rightarrow> string \<Rightarrow> unit page" where
  "unavailable pe m = onDom (setText pe ''unavailable-text'' m \<circ> show_element pe ''unavailable'' True)"

definition boot :: "PageEnv \<Rightarrow> unit page" where
  "boot pe =
     bindP (attempt (apiGet (pe_getConfig pe) pe ''/checkout/config'')) (\<lambda>fetched.
     case fetched of
       Inl _ \<Rightarrow> unavailable pe ''No pudimos conectar con AvaSettle. Intenta de nuevo en un momento.''
     | Inr config \<Rightarrow>
         bindP (onPage (\<lambda>s. s\<lparr>pg_config := Some config\<rparr>)) (\<lambda>_.
         if \<not> pc_routerConfigured config
         then unavailable pe ''El checkout aun no esta disponible: el contrato de cobros no esta desplegado en esta red.''
         else if \<not> truthy (pe_sessionParam pe) then
           if \<not> pc_demoEnabled config then unavailable pe ''El checkout de demostracion esta deshabilitado.''
           else onDom (\<lambda>d. (show_element pe ''create-panel'' True (setText pe ''create-asset'' (pc_tokenSymbol config) d))
                  \<lparr>dm_createOnSubmit := pe_element pe ''create-form''\<rparr>)
         else
           bindP (attempt (apiGet (pe_getSession pe) pe (''/checkout/sessions/'' @ the (pe_sessionParam pe)))) (\<lambda>found.
           case found of
             Inl _ \<Rightarrow> unavailable pe ''No encontramos esta invoice.''
           | Inr session \<Rightarrow>
               bindP (onPage (\<lambda>s. s\<lparr>pg_session := Some session\<rparr>)) (\<lambda>_.
               bindP (onDom (show_element pe ''pay-panel'' True)) (\<lambda>_.
               renderInvoice pe)))))"

section \<open>A click sends what the invoice says\<close>

text \<open>What most steps of the page keep: the globals and the transactions sent.\<close>

definition kept :: "Page \<Rightarrow> Page \<Rightarrow> bool" where
  "kept s s' \<longleftrightarrow> pg_session s' = pg_session s \<and> pg_sent s' = pg_sent s \<and> pg_paidLocally s' = pg_paidLocally s"

lemma kept_refl [simp]: "kept s s"
  by (simp add: kept_def)

lemma kept_trans: "kept a b \<Longrightarrow> kept b c \<Longrightarrow> kept a c"
  by (simp add: kept_def)

named_theorems kept_steps \<open>programs of the page that keep its globals\<close>

lemma kept_ask [kept_steps]: "steps (ask f) kept (\<lambda>_. True)"
  unfolding ask_def by (rule steps_await) (simp_all add: kept_def)

lemma kept_onDom [kept_steps]: "steps (onDom f) kept (\<lambda>_. True)"
  unfolding onDom_def onPage_def by (rule steps_await) (simp_all add: kept_def)

lemma kept_peek [kept_steps]: "steps (peek f) kept (\<lambda>_. True)"
  unfolding peek_def by (rule steps_await) simp_all

lemma kept_liftE [kept_steps]: "steps (liftE r) kept (\<lambda>_. True)"
  by auto

lemma kept_loaded [kept_steps]: "steps (loaded f) kept (\<lambda>_. True)"
  unfolding loaded_def by (auto intro!: kept_steps split: option.split)

lemma kept_render [kept_steps]: "steps (render_now pe) kept (\<lambda>_. True)"
  unfolding render_now_def by (rule steps_await) (auto simp: kept_def split: option.split)

lemma kept_notes [kept_steps]:
  "steps (note_info pe m) kept (\<lambda>_. True)" "steps (note_price pe m) kept (\<lambda>_. True)"
  unfolding note_info_def note_price_def by (auto intro!: kept_steps)

lemma kept_wallet [kept_steps]: "steps (wallet pe r) kept (\<lambda>_. True)"
  unfolding wallet_def by (rule kept_ask)

lemma kept_ensureChain [kept_steps]: "steps (ensureChain pe c) kept (\<lambda>_. True)"
  unfolding ensureChain_def
  by (auto intro!: kept_steps steps_catchP [of _ _ "\<lambda>_. True"] split: option.split)

lemma kept_permit [kept_steps]: "steps (tryPermitSignature pe account token spender amount) kept (\<lambda>_. True)"
  unfolding tryPermitSignature_def sign_permit_def case_prod_beta
  by (intro steps_catchP [of _ _ "\<lambda>_. True"] steps_bindP kept_steps) simp_all

lemma kept_failed [kept_steps]: "steps (pay_failed pe e) kept (\<lambda>_. True)"
  unfolding pay_failed_def by (rule kept_onDom)

lemma ends_kept:
  assumes "steps p kept (\<lambda>_. True)"
  shows "ends p s (\<lambda>_. kept s) (\<lambda>_. kept s)"
  by (rule ends_mono [OF steps_ends [OF assms]]) (auto intro: kept_trans)

text \<open>The transactions an invoice allows: the payment of its amount to its router, and an approval of just that.\<close>

definition is_payment :: "WalletTx \<Rightarrow> bool" where
  "is_payment tx = (case tx of ApproveTx _ _ _ \<Rightarrow> False | _ \<Rightarrow> True)"

definition pays_invoice :: "string \<Rightarrow> string \<Rightarrow> string \<Rightarrow> int \<Rightarrow> WalletTx list \<Rightarrow> bool" where
  "pays_invoice router ref token amount txs \<longleftrightarrow>
     txs \<in> {[], [ApproveTx token router amount], [PayInvoiceTx router ref token amount],
       [ApproveTx token router amount, PayInvoiceTx router ref token amount]} \<or>
     (\<exists>p. txs = [PayInvoiceWithPermitTx router ref token amount p])"

definition since :: "Page \<Rightarrow> WalletTx list \<Rightarrow> Page \<Rightarrow> bool" where
  "since s0 txs s \<longleftrightarrow> pg_session s = pg_session s0 \<and> pg_sent s = pg_sent s0 @ txs \<and> pg_paidLocally s = pg_paidLocally s0"

lemma since_kept: "since s0 txs s \<Longrightarrow> kept s s' \<Longrightarrow> since s0 txs s'"
  by (simp add: since_def kept_def)

lemma ends_since:
  assumes "steps p kept (\<lambda>_. True)" and "since s0 txs s"
  shows "ends p s (\<lambda>_. since s0 txs) (\<lambda>_. since s0 txs)"
  by (rule ends_mono [OF ends_kept [OF assms(1)]]) (auto intro: since_kept [OF assms(2)])

lemma since_bind:
  assumes "steps p kept (\<lambda>_. True)" and "since s0 txs s" and "\<And>s'. since s0 txs s' \<Longrightarrow> E s'"
    and "\<And>a s'. since s0 txs s' \<Longrightarrow> ends (k a) s' Q (\<lambda>_. E)"
  shows "ends (bindP p k) s Q (\<lambda>_. E)"
  by (rule ends_bind [OF ends_since [OF assms(1,2)]]) (auto intro: assms(3,4))

lemma ends_writeContract:
  assumes "since s0 txs s"
  shows "ends (writeContract pe account tx) s (\<lambda>_. since s0 (txs @ [tx])) (\<lambda>_. since s0 txs)"
  using assms by (auto simp: writeContract_def ends_await since_def split: sum.split)

definition unpaid :: "string \<Rightarrow> string \<Rightarrow> int \<Rightarrow> Page \<Rightarrow> Page \<Rightarrow> bool" where
  "unpaid router token amount s0 s \<longleftrightarrow> since s0 [] s \<or> since s0 [ApproveTx token router amount] s"

lemma ends_approve_first:
  assumes "since s0 [] s"
  shows "ends (approve_first pe account token router amount) s (\<lambda>_. unpaid router token amount s0)
    (\<lambda>_. unpaid router token amount s0)"
proof -
  let ?Q = "unpaid router token amount s0" and ?tx = "ApproveTx token router amount"
  have waited: "ends (bindP (note_info pe ''Esperando la aprobacion on-chain...'') (\<lambda>_.
      bindP (ask (\<lambda>n. pe_waitReceipt pe n h)) (\<lambda>_. Ret ()))) t (\<lambda>_. ?Q) (\<lambda>_. ?Q)"
    if "since s0 [?tx] t" for t h
    by (rule since_bind [OF kept_notes(1) that]; (rule since_bind [OF kept_ask])?) (auto simp: unpaid_def ends_basic)
  have send: "ends (writeContract pe account ?tx) t (\<lambda>_. since s0 [?tx]) (\<lambda>_. since s0 [])" if "since s0 [] t" for t
    using ends_writeContract [OF that, of pe account ?tx] by simp
  have "ends (bindP (note_price pe ''Aprueba '') (\<lambda>_.
       bindP (writeContract pe account ?tx) (\<lambda>approveHash.
       bindP (note_info pe ''Esperando la aprobacion on-chain...'') (\<lambda>_.
       bindP (ask (\<lambda>n. pe_waitReceipt pe n approveHash)) (\<lambda>_. Ret ()))))) t (\<lambda>_. ?Q) (\<lambda>_. ?Q)" if "since s0 [] t" for t
    by (rule since_bind [OF kept_notes(2) that]; (rule ends_bind [OF send])?) (auto simp: unpaid_def intro: waited)
  then show ?thesis
    unfolding approve_first_def
    by (intro since_bind [OF kept_ask assms]) (auto simp: unpaid_def ends_basic)
qed

definition paid :: "string \<Rightarrow> string \<Rightarrow> string \<Rightarrow> int \<Rightarrow> Page \<Rightarrow> Page \<Rightarrow> bool" where
  "paid router ref token amount s0 s \<longleftrightarrow>
     (\<exists>txs. pays_invoice router ref token amount txs \<and> (\<exists>tx\<in>set txs. is_payment tx) \<and> since s0 txs s)"

lemma paid_since:
  "since s0 [PayInvoiceWithPermitTx router ref token amount p] s \<Longrightarrow> paid router ref token amount s0 s"
  "since s0 [PayInvoiceTx router ref token amount] s \<Longrightarrow> paid router ref token amount s0 s"
  "since s0 [ApproveTx token router amount, PayInvoiceTx router ref token amount] s \<Longrightarrow> paid router ref token amount s0 s"
proof -
  have one: "pays_invoice router ref token amount txs \<Longrightarrow> tx \<in> set txs \<Longrightarrow> is_payment tx \<Longrightarrow> since s0 txs s \<Longrightarrow>
      paid router ref token amount s0 s" for txs tx
    by (auto simp: paid_def)
  show "since s0 [PayInvoiceWithPermitTx router ref token amount p] s \<Longrightarrow> paid router ref token amount s0 s"
    by (rule one [where tx = "PayInvoiceWithPermitTx router ref token amount p"]) (simp_all add: pays_invoice_def is_payment_def)
  show "since s0 [PayInvoiceTx router ref token amount] s \<Longrightarrow> paid router ref token amount s0 s"
    by (rule one [where tx = "PayInvoiceTx router ref token amount"]) (simp_all add: pays_invoice_def is_payment_def)
  show "since s0 [ApproveTx token router amount, PayInvoiceTx router ref token amount] s \<Longrightarrow> paid router ref token amount s0 s"
    by (rule one [where tx = "PayInvoiceTx router ref token amount"]) (simp_all add: pays_invoice_def is_payment_def)
qed

lemma ends_send_payment:
  assumes "since s0 [] s"
  shows "ends (send_payment pe account router ref token amount) s (\<lambda>_. paid router ref token amount s0)
    (\<lambda>_. unpaid router token amount s0)"
proof -
  let ?Q = "paid router ref token amount s0" and ?E = "unpaid router token amount s0"
  have confirm: "ends (bindP (note_price pe ''Confirma el pago de '') (\<lambda>_. writeContract pe account tx)) t (\<lambda>_. ?Q) (\<lambda>_. ?E)"
    if "since s0 txs t" "txs = [] \<or> txs = [ApproveTx token router amount]" "\<And>u. since s0 (txs @ [tx]) u \<Longrightarrow> ?Q u" for t txs tx
    using that(2)
    by (intro since_bind [OF kept_notes(2) that(1)] ends_mono [OF ends_writeContract that(3)]) (auto simp: unpaid_def)
  have classic: "ends (bindP (approve_first pe account token router amount) (\<lambda>_.
      bindP (note_price pe ''Confirma el pago de '') (\<lambda>_.
      writeContract pe account (PayInvoiceTx router ref token amount)))) t (\<lambda>_. ?Q) (\<lambda>_. ?E)" if "since s0 [] t" for t
  proof (rule ends_bind [OF ends_approve_first [OF that]])
    show "ends (bindP (note_price pe ''Confirma el pago de '') (\<lambda>_.
        writeContract pe account (PayInvoiceTx router ref token amount))) t (\<lambda>_. ?Q) (\<lambda>_. ?E)"
      if "unpaid router token amount s0 t" for t
      using that confirm [of "[]" t] confirm [of "[ApproveTx token router amount]" t] by (auto simp: unpaid_def intro: paid_since)
  qed
  show ?thesis
    unfolding send_payment_def
    by (rule since_bind [OF kept_permit assms])
      (use confirm [of "[]"] in \<open>auto simp: unpaid_def split: option.split intro: classic paid_since\<close>)
qed

text \<open>The payment ends with the flag set, and only then.\<close>

definition outcome :: "PageEnv \<Rightarrow> SessionView \<Rightarrow> Page \<Rightarrow> Page \<Rightarrow> bool" where
  "outcome pe v s0 s \<longleftrightarrow> (\<exists>txs router token amount.
     pg_sent s = pg_sent s0 @ txs \<and>
     (txs \<noteq> [] \<longrightarrow> address_of pe (pv_routerAddress v) = Inr router \<and> pe_getAddress pe (pv_tokenAddress v) = Inr token \<and>
        bigint_of (pv_amountAtomic v) = Some amount) \<and>
     pays_invoice router (case pv_invoiceId v of Some i \<Rightarrow> i | None \<Rightarrow> []) token amount txs \<and>
     pg_paidLocally s = (pg_paidLocally s0 \<or> (\<exists>tx\<in>set txs. is_payment tx)))"

lemma outcome_quiet: "since s0 [] s \<Longrightarrow> outcome pe v s0 s"
  unfolding outcome_def since_def pays_invoice_def by fastforce

lemma outcome_kept: "outcome pe v s0 s \<Longrightarrow> kept s s' \<Longrightarrow> outcome pe v s0 s'"
  by (auto simp: outcome_def kept_def)

lemma ends_outcome:
  assumes "steps p kept (\<lambda>_. True)" and "outcome pe v s0 s"
  shows "ends p s (\<lambda>_. outcome pe v s0) (\<lambda>_. outcome pe v s0)"
  by (rule ends_mono [OF ends_kept [OF assms(1)]]) (auto intro: outcome_kept [OF assms(2)])

lemma page_bigint_Inr [simp]: "page_bigint s = Inr n \<longleftrightarrow> bigint_of s = Some n"
  by (auto simp: page_bigint_def split: option.split)

lemma ends_pay_tail:
  assumes "address_of pe (pv_routerAddress v) = Inr router" and "pe_getAddress pe (pv_tokenAddress v) = Inr token"
    and "bigint_of (pv_amountAtomic v) = Some amount"
    and "paid router (case pv_invoiceId v of Some i \<Rightarrow> i | None \<Rightarrow> []) token amount s0 s"
  shows "ends (bindP (onPage (\<lambda>s. s\<lparr>pg_paidLocally := True\<rparr>)) (\<lambda>_.
     bindP (render_now pe) (\<lambda>_.
     bindP (note_info pe m) (\<lambda>_.
     bindP (ask (\<lambda>n. pe_waitReceipt pe n payHash)) (\<lambda>_. onDom f))))) s (\<lambda>_. outcome pe v s0) (\<lambda>_. outcome pe v s0)"
proof -
  have "outcome pe v s0 (s\<lparr>pg_paidLocally := True\<rparr>)"
    using assms unfolding outcome_def paid_def since_def by fastforce
  then show ?thesis
    by (subst ends_bindP) (simp add: onPage_def ends_await, intro ends_outcome steps_bindP kept_steps)
qed

lemma ends_pay_body:
  assumes "pg_session s0 = Some v" and "since s0 [] s"
  shows "ends (pay_body pe) s (\<lambda>_. outcome pe v s0) (\<lambda>_. outcome pe v s0)"
proof -
  have E: "\<And>s'. since s0 [] s' \<Longrightarrow> outcome pe v s0 s'" by (rule outcome_quiet)
  have lift: "ends (bindP (liftE r) k) t (\<lambda>_. outcome pe v s0) (\<lambda>_. outcome pe v s0)"
    if "since s0 [] t" "\<And>a. r = Inr a \<Longrightarrow> ends (k a) t (\<lambda>_. outcome pe v s0) (\<lambda>_. outcome pe v s0)"
    for t and r :: "PageError + 'b" and k
    using that E by (intro ends_liftE_bind)
  have session: "ends (bindP (loaded pg_session) k) t (\<lambda>_. outcome pe v s0) (\<lambda>_. outcome pe v s0)"
    if "since s0 [] t" "ends (k v) t (\<lambda>_. outcome pe v s0) (\<lambda>_. outcome pe v s0)" for t and k :: "SessionView \<Rightarrow> unit page"
    using that assms(1) by (simp add: loaded_def since_def ends_simps)
  have send: "outcome pe v s0 t" if "address_of pe (pv_routerAddress v) = Inr router"
      "pe_getAddress pe (pv_tokenAddress v) = Inr token" "bigint_of (pv_amountAtomic v) = Some amount"
      "unpaid router token amount s0 t" for router token amount t
    using that unfolding outcome_def unpaid_def since_def pays_invoice_def by (fastforce simp: is_payment_def)
  show ?thesis
    unfolding pay_body_def Let_def
    by (intro since_bind [OF kept_loaded assms(2) E] since_bind [OF kept_notes(1) _ E] since_bind [OF kept_ensureChain _ E]
        since_bind [OF kept_ask _ E] session lift ends_bind [OF ends_send_payment] ends_pay_tail; assumption?)
      (auto intro: send)
qed

text \<open>Polling sends nothing and never fails.\<close>

definition unsent :: "Page \<Rightarrow> Page \<Rightarrow> bool" where
  "unsent s s' \<longleftrightarrow> pg_sent s' = pg_sent s \<and> pg_paidLocally s' = pg_paidLocally s"

lemma unsent_kept: "steps p kept (\<lambda>_. True) \<Longrightarrow> steps p unsent (\<lambda>_. True)"
  by (erule steps_mono) (simp_all add: unsent_def kept_def)

lemma unsent_poll_once: "ends (poll_once pe) s (\<lambda>_. unsent s) (\<lambda>_ _. False)"
proof -
  have "steps (onPage (\<lambda>s. s\<lparr>pg_session := x\<rparr>)) unsent (\<lambda>_. True)" for x
    unfolding onPage_def by (rule steps_await) (simp_all add: unsent_def)
  then have "steps (show_answer pe u) unsent (\<lambda>_. True)" for u
    unfolding show_answer_def by (auto intro!: kept_steps [THEN unsent_kept])
  then have "steps (bindP (loaded pg_session) (\<lambda>session.
      bindP (apiPost pe (''/checkout/sessions/'' @ pv_id session @ ''/reconcile'') None) (show_answer pe))) unsent (\<lambda>_. True)"
    unfolding apiPost_def by (auto intro!: kept_steps [THEN unsent_kept])
  from steps_ends [OF this] show ?thesis
    unfolding poll_once_def ends_catchP ends_basic by (rule ends_mono) (auto simp: unsent_def)
qed

lemma unsent_poll_loop: "ends (poll_loop pe n) s (\<lambda>_. unsent s) (\<lambda>_ _. False)"
proof (induction n arbitrary: s)
  case 0
  then show ?case by (simp add: onPage_def ends_await unsent_def)
next
  case (Suc n)
  have "ends (bindP (ask (\<lambda>_. Inr ())) (\<lambda>_. poll_loop pe n)) t (\<lambda>_. unsent s) (\<lambda>_ _. False)" if "unsent s t" for t
    unfolding ends_bindP ask_def ends_await using that
    by (auto intro!: ends_mono [OF Suc.IH] simp: unsent_def)
  then show ?case
    by (auto intro!: ends_bind [OF unsent_poll_once] simp: ends_basic)
qed

lemma unsent_poll: "ends (poll pe) s (\<lambda>_. unsent s) (\<lambda>_ _. False)"
proof -
  have "ends (poll_loop pe maxPolls) (s\<lparr>pg_polling := True\<rparr>) (\<lambda>_. unsent s) (\<lambda>_ _. False)"
    by (rule ends_mono [OF unsent_poll_loop]) (simp_all add: unsent_def)
  then show ?thesis
    unfolding poll_def ends_bindP ends_await by (simp add: ends_basic unsent_def)
qed

lemma outcome_unsent: "outcome pe v s0 s \<Longrightarrow> unsent s s' \<Longrightarrow> outcome pe v s0 s'"
  by (simp add: outcome_def unsent_def)

lemma ends_onDom: "ends (onDom f) s Q E = Q () (s\<lparr>pg_dom := f (pg_dom s)\<rparr>)"
  by (simp add: onDom_def onPage_def ends_await)

lemma ends_onDom_bind: "ends (bindP (onDom f) k) s Q E = ends (k ()) (s\<lparr>pg_dom := f (pg_dom s)\<rparr>) Q E"
  by (simp add: ends_bindP ends_onDom)

lemma ends_loaded_bind: "f s = Some v \<Longrightarrow> ends (bindP (loaded f) k) s Q E = ends (k v) s Q E"
  by (simp add: loaded_def ends_simps)

text \<open>
  C37: A click on the pay button charges the invoice and nothing else.  Whatever the wallet, the chain
  and the API answer, the click never throws; the transactions it asks the wallet for are at
  most one payment, of the exact amount of the invoice in its token under its reference to its
  router, preceded at most by one approval of just that amount for that router (never when a
  permit was signed); and the page remembers a local payment exactly when one was sent.
\<close>

theorem pay_charges_invoice:
  assumes "pg_session s = Some v"
  shows "ends (pay pe) s (\<lambda>_ s'. \<exists>txs router token amount.
     pg_sent s' = pg_sent s @ txs \<and>
     (txs \<noteq> [] \<longrightarrow> address_of pe (pv_routerAddress v) = Inr router \<and> pe_getAddress pe (pv_tokenAddress v) = Inr token \<and>
        bigint_of (pv_amountAtomic v) = Some amount) \<and>
     pays_invoice router (case pv_invoiceId v of Some i \<Rightarrow> i | None \<Rightarrow> []) token amount txs \<and>
     pg_paidLocally s' = (pg_paidLocally s \<or> (\<exists>tx\<in>set txs. is_payment tx)))
   (\<lambda>_ _. False)"
proof -
  have dom: "since s [] (s\<lparr>pg_dom := d\<rparr>)" for d by (simp add: since_def)
  have body: "ends (catchP (bindP (pay_body pe) (\<lambda>_. Ret True)) (\<lambda>e. bindP (pay_failed pe e) (\<lambda>_. Ret False))) t
      (\<lambda>_. outcome pe v s) (\<lambda>_ _. False)" if "since s [] t" for t
    unfolding ends_catchP ends_bindP ends_basic
    by (rule ends_mono [OF ends_pay_body [OF assms that]])
      (auto simp: pay_failed_def ends_onDom outcome_def)
  have click: "ends (bindP (catchP (bindP (pay_body pe) (\<lambda>_. Ret True)) (\<lambda>e. bindP (pay_failed pe e) (\<lambda>_. Ret False)))
      (\<lambda>paid. if paid then poll pe else Ret ())) t (\<lambda>_. outcome pe v s) (\<lambda>_ _. False)" if "since s [] t" for t
    by (rule ends_bind [OF body [OF that]])
      (auto simp: ends_basic intro: ends_mono [OF unsent_poll] outcome_unsent)
  have "ends (pay pe) s (\<lambda>_. outcome pe v s) (\<lambda>_ _. False)"
    by (simp add: pay_def ends_loaded_bind [of pg_session s v, OF assms] ends_onDom_bind ends_onDom click dom outcome_quiet)
  then show ?thesis unfolding outcome_def .
qed

section \<open>Polling ends, and ends with the confirmation\<close>

definition reconcile_url :: "PageEnv \<Rightarrow> string \<Rightarrow> string" where
  "reconcile_url pe i = API_BASE pe @ ''/checkout/sessions/'' @ i @ ''/reconcile''"

text \<open>The answer to the request made at event \<open>n\<close> says that the invoice is confirmed.\<close>

definition confirms :: "PageEnv \<Rightarrow> string \<Rightarrow> nat \<Rightarrow> bool" where
  "confirms pe i n \<longleftrightarrow> (case pe_postSession pe n (reconcile_url pe i) None of OkJson u \<Rightarrow> pv_status u = PiConfirmed | _ \<Rightarrow> False)"

definition shows_confirmed :: "PageEnv \<Rightarrow> Page \<Rightarrow> bool" where
  "shows_confirmed pe s \<longleftrightarrow> (\<exists>u. pg_session s = Some u \<and> pv_status u = PiConfirmed) \<and>
     (\<forall>st. pe_stepElement pe st \<longrightarrow> dm_stepOn (pg_dom s) st) \<and>
     (pe_element pe ''status-pill'' \<longrightarrow> dm_text (pg_dom s) ''status-pill'' = ''Confirmado'') \<and>
     (pe_element pe ''action-note'' \<longrightarrow> dm_text (pg_dom s) ''action-note'' = ''Pago confirmado y conciliado por AvaSettle.'')"

lemma rendered_confirmed:
  assumes "pv_status u = PiConfirmed"
  shows "dm_stepOn (renderStatus pe u p d) st \<longleftrightarrow> (if pe_stepElement pe st then True else dm_stepOn d st)"
    and "pe_element pe ''status-pill'' \<Longrightarrow> dm_text (renderStatus pe u p d) ''status-pill'' = ''Confirmado''"
  using assms
  by (auto simp: renderStatus_def render_tx_def render_pill_def show_element_def setText_def reached_step_def
      status_label_def split: list.split)

lemma api_result_Inr: "api_result r = Inr u \<longleftrightarrow> r = OkJson u"
  by (cases r) (simp_all add: api_result_def)

text \<open>What the page shows after an answer.\<close>

definition answered :: "PageEnv \<Rightarrow> SessionView \<Rightarrow> Page \<Rightarrow> Page" where
  "answered pe u s = s\<lparr>pg_session := Some u, pg_dom :=
     (let d = renderStatus pe u (pg_paidLocally s) (pg_dom s) in
      if pv_status u = PiConfirmed then note_text pe NoteInfo ''Pago confirmado y conciliado por AvaSettle.'' d
      else if pv_status u = PiDetected
      then note_text pe NoteInfo ''Pago detectado on-chain. Esperando confirmaciones...'' d else d)\<rparr>"

lemma ends_show_answer: "ends (show_answer pe u) s Q E = Q (Some (pv_status u)) (answered pe u s)"
  by (cases "pv_status u = PiConfirmed"; cases "pv_status u = PiDetected")
    (simp_all add: show_answer_def ends_bindP onPage_def ends_await render_now_def note_info_def ends_onDom ends_basic
      answered_def Let_def)

lemma dm_note_text:
  "dm_stepOn (note_text pe k m d) = dm_stepOn d"
  "dm_text (note_text pe k m d) ''status-pill'' = dm_text d ''status-pill''"
  "pe_element pe ''action-note'' \<Longrightarrow> dm_text (note_text pe k m d) ''action-note'' = m"
  by (simp_all add: note_text_def)

text \<open>One attempt: the request is the one event of it.\<close>

lemma ends_poll_once_cases:
  assumes "pg_session s = Some x"
  shows "ends (poll_once pe) s Q E =
    (case api_result (pe_postSession pe (pg_event s) (reconcile_url pe (pv_id x)) None) of
       Inl e \<Rightarrow> Q None (s\<lparr>pg_event := Suc (pg_event s)\<rparr>)
     | Inr u \<Rightarrow> Q (Some (pv_status u)) (answered pe u (s\<lparr>pg_event := Suc (pg_event s)\<rparr>)))"
  by (simp add: poll_once_def ends_catchP ends_loaded_bind [of pg_session s x, OF assms] ends_bindP [of "apiPost _ _ _"]
      ends_show_answer)
    (simp add: apiPost_def ask_def ends_await ends_basic reconcile_url_def split: sum.split)

lemma ends_poll_once:
  assumes "pg_session s = Some x"
    and "\<And>u. pe_postSession pe (pg_event s) (reconcile_url pe (pv_id x)) None = OkJson u \<Longrightarrow> pv_id u = pv_id x"
  shows "ends (poll_once pe) s (\<lambda>r s'. pg_event s' = Suc (pg_event s) \<and>
     (\<exists>u. pg_session s' = Some u \<and> pv_id u = pv_id x) \<and>
     (r = Some PiConfirmed \<longleftrightarrow> confirms pe (pv_id x) (pg_event s)) \<and>
     (r = Some PiConfirmed \<longrightarrow> shows_confirmed pe s')) (\<lambda>_ _. False)"
proof (cases "api_result (pe_postSession pe (pg_event s) (reconcile_url pe (pv_id x)) None)")
  case (Inl e)
  then have "\<not> confirms pe (pv_id x) (pg_event s)"
    by (auto simp: api_result_def confirms_def split: Fetched.splits)
  then show ?thesis using Inl assms(1) by (simp add: ends_poll_once_cases [OF assms(1)])
next
  case (Inr u)
  then have "confirms pe (pv_id x) (pg_event s) \<longleftrightarrow> pv_status u = PiConfirmed" "pv_id u = pv_id x"
    using assms(2) by (simp_all add: api_result_Inr confirms_def)
  then show ?thesis using Inr
    by (simp add: ends_poll_once_cases [OF assms(1)] answered_def Let_def shows_confirmed_def rendered_confirmed dm_note_text)
qed

text \<open>The API answers about the session it is asked about.\<close>

definition same_session :: "PageEnv \<Rightarrow> string \<Rightarrow> bool" where
  "same_session pe i \<longleftrightarrow> (\<forall>n u. pe_postSession pe n (reconcile_url pe i) None = OkJson u \<longrightarrow> pv_id u = i)"

definition polled :: "string \<Rightarrow> Page \<Rightarrow> bool" where
  "polled i s \<longleftrightarrow> (\<exists>x. pg_session s = Some x \<and> pv_id x = i)"

lemma ends_poll_attempt:
  assumes "same_session pe i" and "polled i s"
  shows "ends (poll_once pe) s (\<lambda>r s'. pg_event s' = Suc (pg_event s) \<and> polled i s' \<and>
     (r = Some PiConfirmed \<longleftrightarrow> confirms pe i (pg_event s)) \<and> (r = Some PiConfirmed \<longrightarrow> shows_confirmed pe s')) (\<lambda>_ _. False)"
proof -
  obtain x where x: "pg_session s = Some x" "pv_id x = i" using assms(2) by (auto simp: polled_def)
  have "pv_id u = pv_id x" if "pe_postSession pe (pg_event s) (reconcile_url pe (pv_id x)) None = OkJson u" for u
    using that assms(1) x(2) by (auto simp: same_session_def)
  from ends_poll_once [OF x(1) this] show ?thesis
    by (rule ends_mono) (auto simp: polled_def x(2))
qed

lemma ends_wait: "ends (bindP (ask (\<lambda>_. Inr ())) (\<lambda>_. p)) s Q E = ends p (s\<lparr>pg_event := Suc (pg_event s)\<rparr>) Q E"
  by (simp add: ends_bindP ask_def ends_await)

lemma poll_loop_confirmed:
  "same_session pe i \<Longrightarrow> polled i s \<Longrightarrow> k < n \<Longrightarrow> confirms pe i (pg_event s + 2 * k) \<Longrightarrow>
   \<forall>j<k. \<not> confirms pe i (pg_event s + 2 * j) \<Longrightarrow>
   ends (poll_loop pe n) s (\<lambda>_ s'. pg_event s' = pg_event s + 2 * k + 1 \<and> shows_confirmed pe s') (\<lambda>_ _. False)"
proof (induction n arbitrary: s k)
  case (Suc n)
  have once: "ends (poll_loop pe (Suc n)) s Q (\<lambda>_ _. False)"
    if "\<And>r s'. pg_event s' = Suc (pg_event s) \<Longrightarrow> polled i s' \<Longrightarrow> (r = Some PiConfirmed \<longleftrightarrow> confirms pe i (pg_event s)) \<Longrightarrow>
        (r = Some PiConfirmed \<longrightarrow> shows_confirmed pe s') \<Longrightarrow>
        (if r = Some PiConfirmed then Q () s'
         else ends (poll_loop pe n) (s'\<lparr>pg_event := Suc (pg_event s')\<rparr>) Q (\<lambda>_ _. False))" for Q
    unfolding poll_loop.simps
    by (rule ends_bind [OF ends_poll_attempt [OF Suc.prems(1,2)]]) (use that in \<open>auto simp: ends_basic ends_wait\<close>)
  show ?case
  proof (cases k)
    case 0
    then show ?thesis using Suc.prems(4) by (intro once) auto
  next
    case k: (Suc k')
    show ?thesis
    proof (rule once)
      fix r s' assume s': "pg_event s' = Suc (pg_event s)" "polled i s'" "r = Some PiConfirmed \<longleftrightarrow> confirms pe i (pg_event s)"
      let ?s = "s'\<lparr>pg_event := Suc (pg_event s')\<rparr>"
      have "\<forall>j<k'. \<not> confirms pe i (pg_event ?s + 2 * j)"
        using Suc.prems(5) k s'(1) by (auto dest: spec [of _ "Suc _"])
      moreover have "polled i ?s" "confirms pe i (pg_event ?s + 2 * k')" using s' Suc.prems(4) k by (simp_all add: polled_def)
      ultimately have "ends (poll_loop pe n) ?s (\<lambda>_ t. pg_event t = pg_event ?s + 2 * k' + 1 \<and> shows_confirmed pe t) (\<lambda>_ _. False)"
        using Suc.IH [of ?s k'] Suc.prems(1,3) k by simp
      moreover have "\<not> confirms pe i (pg_event s)" using Suc.prems(5) k by auto
      ultimately show "if r = Some PiConfirmed then pg_event s' = pg_event s + 2 * k + 1 \<and> shows_confirmed pe s' else
          ends (poll_loop pe n) ?s (\<lambda>_ t. pg_event t = pg_event s + 2 * k + 1 \<and> shows_confirmed pe t) (\<lambda>_ _. False)"
        using s' k by simp
    qed
  qed
qed simp

lemma poll_loop_gives_up:
  "same_session pe i \<Longrightarrow> polled i s \<Longrightarrow> \<forall>k<n. \<not> confirms pe i (pg_event s + 2 * k) \<Longrightarrow>
   ends (poll_loop pe n) s (\<lambda>_ s'. pg_event s' = pg_event s + 2 * n \<and> \<not> pg_polling s') (\<lambda>_ _. False)"
proof (induction n arbitrary: s)
  case 0
  then show ?case by (simp add: onPage_def ends_await)
next
  case (Suc n)
  show ?case
    unfolding poll_loop.simps
  proof (rule ends_bind [OF ends_poll_attempt [OF Suc.prems(1,2)]])
    fix r s' assume s': "pg_event s' = Suc (pg_event s) \<and> polled i s' \<and>
        (r = Some PiConfirmed \<longleftrightarrow> confirms pe i (pg_event s)) \<and> (r = Some PiConfirmed \<longrightarrow> shows_confirmed pe s')"
    let ?s = "s'\<lparr>pg_event := Suc (pg_event s')\<rparr>"
    have "\<forall>k<n. \<not> confirms pe i (pg_event ?s + 2 * k)"
      using Suc.prems(3) s' by (auto dest: spec [of _ "Suc _"])
    then have "ends (poll_loop pe n) ?s (\<lambda>_ t. pg_event t = pg_event ?s + 2 * n \<and> \<not> pg_polling t) (\<lambda>_ _. False)"
      using Suc.IH [of ?s] Suc.prems(1) s' by (simp add: polled_def)
    moreover have "\<not> confirms pe i (pg_event s)" using Suc.prems(3) by auto
    ultimately show "ends (if r = Some PiConfirmed then Ret () else bindP (ask (\<lambda>_. Inr ())) (\<lambda>_. poll_loop pe n)) s'
        (\<lambda>_ t. pg_event t = pg_event s + 2 * Suc n \<and> \<not> pg_polling t) (\<lambda>_ _. False)"
      using s' by (simp add: ends_wait)
  qed simp
qed

text \<open>
  C38: Polling ends, and it ends with the confirmation when there is one.  A page that shows an
  invoice and is not polling makes at most sixty requests.  If one of the sixty answers says the
  invoice is confirmed, whatever the answers before it (errors, unreadable ones, other statuses),
  the loop stops right after the first such answer, with every step of the progress bar on and
  the confirmation shown; otherwise it gives up after the sixtieth and can be started again.
\<close>

theorem poll_ends_with_confirmation:
  assumes "same_session pe i" and "polled i s" and "\<not> pg_polling s"
  shows "(\<forall>k<60. confirms pe i (pg_event s + 2 * k) \<and> (\<forall>j<k. \<not> confirms pe i (pg_event s + 2 * j)) \<longrightarrow>
      ends (poll pe) s (\<lambda>_ s'. pg_event s' = pg_event s + 2 * k + 1 \<and> shows_confirmed pe s') (\<lambda>_ _. False)) \<and>
    ((\<forall>k<60. \<not> confirms pe i (pg_event s + 2 * k)) \<longrightarrow>
      ends (poll pe) s (\<lambda>_ s'. pg_event s' = pg_event s + 120 \<and> \<not> pg_polling s') (\<lambda>_ _. False))"
proof -
  let ?s = "s\<lparr>pg_polling := True\<rparr>"
  have start: "ends (poll pe) s Q E = ends (poll_loop pe 60) ?s Q E" for Q E
    using assms(3) by (simp add: poll_def ends_bindP ends_await maxPolls_def)
  have "polled i ?s" using assms(2) by (simp add: polled_def)
  then show ?thesis
    using poll_loop_confirmed [OF assms(1), of ?s _ 60] poll_loop_gives_up [OF assms(1), of ?s 60]
    unfolding start by simp
qed

section \<open>A sample page\<close>

definition sample_view :: SessionView where
  "sample_view =
     \<lparr>pv_id = ''s1'', pv_status = PiPending, pv_asset = ''USDC'', pv_amount = ''5'', pv_amountAtomic = ''5000000'',
      pv_receivedAmount = ''0'', pv_chainId = 43113, pv_tokenAddress = ''0xtoken'', pv_routerAddress = Some ''0xrouter'',
      pv_invoiceId = Some ''0xref'', pv_reference = None, pv_explorerBaseUrl = ''https://testnet.snowtrace.io'',
      pv_transactions = []\<rparr>"

definition sample_config :: PageConfig where
  "sample_config =
     \<lparr>pc_network = AvalancheFuji, pc_chainId = 43113, pc_networkName = ''Avalanche Fuji'',
      pc_explorerBaseUrl = ''https://testnet.snowtrace.io'', pc_demoEnabled = True, pc_routerAddress = Some ''0xrouter'',
      pc_routerConfigured = True, pc_tokenSymbol = ''USDC'', pc_tokenAddress = Some ''0xtoken'', pc_tokenDecimals = 6\<rparr>"

text \<open>A token without permits, no allowance yet; the third reconciliation finds the payment.\<close>

definition sample_page_env :: PageEnv where
  "sample_page_env =
     \<lparr>pe_element = (\<lambda>_. True), pe_stepElement = (\<lambda>_. True), pe_apiUrl = None, pe_sessionParam = Some ''s1'',
      pe_input = (\<lambda>_. []), pe_clock = (\<lambda>n. int n),
      pe_getConfig = (\<lambda>_ _. OkJson sample_config), pe_getSession = (\<lambda>_ _. OkJson sample_view),
      pe_postSession = (\<lambda>n _ _. if n < 4 then NoResponse ''Failed to fetch'' else OkJson (sample_view\<lparr>pv_status := PiConfirmed\<rparr>)),
      pe_ethereum = True, pe_wallet = (\<lambda>_ _. Inr ''0xa869''), pe_requestAddresses = (\<lambda>_. Inr [''0xpayer'']),
      pe_eip712Domain = (\<lambda>_ _. Inl (js_error ''reverted'')), pe_nonces = (\<lambda>_ _ _. Inr 0),
      pe_signTypedData = (\<lambda>_ _. Inr ''0xsig''), pe_parseSignature = (\<lambda>_. Inr (''r'', ''s'', None)),
      pe_allowance = (\<lambda>_ _ _ _. Inr 0), pe_writeContract = (\<lambda>_ _ _. Inr ''0xhash''),
      pe_waitReceipt = (\<lambda>_ _. Inr True), pe_getAddress = Inr\<rparr>"

definition blank_page :: Page where
  "blank_page =
     \<lparr>pg_config = Some sample_config, pg_session = Some sample_view, pg_paidLocally = False, pg_polling = False,
      pg_dom = \<lparr>dm_hidden = (\<lambda>_. False), dm_text = (\<lambda>_. []), dm_disabled = (\<lambda>_. False), dm_noteKind = NoteInfo,
        dm_stepOn = (\<lambda>_. False), dm_pillStatus = [], dm_txLink = [], dm_payOnClick = False, dm_createOnSubmit = False\<rparr>,
      pg_sent = [], pg_location = None, pg_event = 0\<rparr>"

lemma paid_shape:
  assumes "pays_invoice router ref token amount txs"
  shows "length (filter is_payment txs) \<le> 1 \<and> (\<forall>tx\<in>set txs. is_payment tx \<or> tx = ApproveTx token router amount)"
  using assms unfolding pays_invoice_def by (elim disjE exE) (auto simp: is_payment_def)

theorem pay_charges_invoice_witness:
  "ends (pay sample_page_env) blank_page (\<lambda>_ s'. length (filter is_payment (pg_sent s')) \<le> 1 \<and>
     (\<forall>tx\<in>set (pg_sent s'). is_payment tx \<or> tx = ApproveTx ''0xtoken'' ''0xrouter'' 5000000)) (\<lambda>_ _. False)"
proof -
  have session: "pg_session blank_page = Some sample_view" and sent: "pg_sent blank_page = []"
    by (simp_all add: blank_page_def)
  have router: "address_of sample_page_env (pv_routerAddress sample_view) = Inr ''0xrouter''"
    and token: "pe_getAddress sample_page_env (pv_tokenAddress sample_view) = Inr ''0xtoken''"
    by (simp_all add: address_of_def sample_page_env_def sample_view_def)
  have big: "bigint_of (pv_amountAtomic sample_view) = Some 5000000"
    by (simp add: sample_view_def bigint_of_def trim_def is_space_def is_digit_def digit_val_def parse_nat_def)
  from pay_charges_invoice [OF session, of sample_page_env] show ?thesis
    unfolding router token big sent append_Nil
  proof (rule ends_mono, goal_cases)
    case (1 u s')
    then obtain txs r t a where sent': "pg_sent s' = txs"
      and exact: "txs \<noteq> [] \<longrightarrow> r = ''0xrouter'' \<and> t = ''0xtoken'' \<and> a = 5000000"
      and pays: "pays_invoice r (case pv_invoiceId sample_view of Some i \<Rightarrow> i | None \<Rightarrow> []) t a txs"
      by (elim exE conjE) (metis sum.inject(2) option.inject)
    show ?case
    proof (cases "txs = []")
      case True
      then show ?thesis using sent' by simp
    next
      case False
      then show ?thesis using paid_shape [OF pays] exact sent' by simp
    qed
  qed simp
qed

theorem poll_ends_with_confirmation_witness:
  "ends (poll sample_page_env) blank_page (\<lambda>_ s'. pg_event s' = 5 \<and> shows_confirmed sample_page_env s') (\<lambda>_ _. False)"
proof -
  have "same_session sample_page_env ''s1''" by (simp add: same_session_def sample_page_env_def sample_view_def)
  moreover have "polled ''s1'' blank_page" "\<not> pg_polling blank_page"
    by (simp_all add: polled_def blank_page_def sample_view_def)
  moreover have "confirms sample_page_env ''s1'' (pg_event blank_page + 2 * 2) \<and>
      (\<forall>j<2. \<not> confirms sample_page_env ''s1'' (pg_event blank_page + 2 * j))"
    by (simp add: confirms_def sample_page_env_def blank_page_def)
  moreover have "pg_event blank_page + 2 * 2 + 1 = 5" by (simp add: blank_page_def)
  ultimately show ?thesis
    using poll_ends_with_confirmation [of sample_page_env "''s1''" blank_page, THEN conjunct1, THEN spec [of _ 2]] by simp
qed

end
