(* ===== verification/SdkTypes.thy ===== *)
theory SdkTypes
  imports Sdk
begin

text \<open>
  The types the client library declares for the answers (\<^verbatim>\<open>sdk/src/types.ts\<close> and the type arguments
  of \<^verbatim>\<open>request<T>\<close> in \<^verbatim>\<open>sdk/src/index.ts\<close>).  The library casts what it parsed to the declared type
  without looking at it; \<open>conforms\<close> is the check it leaves out.
\<close>

section \<open>Types and conformance\<close>

text \<open>
  The fragment of TypeScript the declarations use.  An object type lists its properties, each with
  whether it is optional; other properties may be present (structural typing, and the index
  signatures of the declarations).  \<open>TsHex\<close> is the template type of texts that start with \<^verbatim>\<open>0x\<close>.
\<close>

datatype TsType =
    TsUnknown
  | TsString
  | TsNumber
  | TsBoolean
  | TsHex
  | TsOneOf "string list"
  | TsNullable TsType
  | TsArray TsType
  | TsRecord TsType
  | TsObject "(string \<times> bool \<times> TsType) list"

fun conforms :: "TsType \<Rightarrow> json \<Rightarrow> bool" where
  "conforms TsUnknown j = True"
| "conforms TsString j = (case j of JStr s \<Rightarrow> True | _ \<Rightarrow> False)"
| "conforms TsNumber j = (case j of JInt n \<Rightarrow> True | JFrac s \<Rightarrow> True | _ \<Rightarrow> False)"
| "conforms TsBoolean j = (case j of JBool b \<Rightarrow> True | _ \<Rightarrow> False)"
| "conforms TsHex j = (case j of JStr s \<Rightarrow> startsWith s ''0x'' | _ \<Rightarrow> False)"
| "conforms (TsOneOf vs) j = (case j of JStr s \<Rightarrow> s \<in> set vs | _ \<Rightarrow> False)"
| "conforms (TsNullable t) j = (j = JNull \<or> conforms t j)"
| "conforms (TsArray t) j = (case j of JArr vs \<Rightarrow> list_all (conforms t) vs | _ \<Rightarrow> False)"
| "conforms (TsRecord t) j = (case j of JObj fs \<Rightarrow> list_all (\<lambda>(k, v). conforms t v) fs | _ \<Rightarrow> False)"
| "conforms (TsObject props) j =
     (case j of JObj fs \<Rightarrow> list_all (\<lambda>(name, optional, t).
          case map_of fs name of None \<Rightarrow> optional | Some v \<Rightarrow> conforms t v) props
      | _ \<Rightarrow> False)"

abbreviation needs :: "string \<Rightarrow> TsType \<Rightarrow> string \<times> bool \<times> TsType" where
  "needs name t \<equiv> (name, False, t)"

section \<open>The declarations\<close>

definition SettlementAsset_t :: TsType where
  "SettlementAsset_t = TsOneOf [''USDC'', ''USDT'']"

definition SettlementNetwork_t :: TsType where
  "SettlementNetwork_t = TsOneOf [''avalanche-fuji'', ''avalanche-mainnet'']"

definition PayInStatus_t :: TsType where
  "PayInStatus_t = TsOneOf [''pending'', ''detected'', ''confirmed'', ''expired'', ''underpaid'', ''overpaid'']"

definition PayInCollectionMode_t :: TsType where
  "PayInCollectionMode_t = TsOneOf [''derived-address'', ''payment-router'']"

definition PayInSweepStatus_t :: TsType where
  "PayInSweepStatus_t = TsOneOf [''pending'', ''broadcasted'', ''confirmed'', ''failed'', ''not_required'']"

definition PayoutStatus_t :: TsType where
  "PayoutStatus_t = TsOneOf [''prepared'', ''authorized'', ''broadcasted'', ''confirmed'', ''failed'']"

definition PayIn_t :: TsType where
  "PayIn_t = TsObject
     [needs ''id'' TsString, needs ''externalId'' TsString, needs ''status'' PayInStatus_t,
      needs ''network'' SettlementNetwork_t, needs ''chainId'' TsNumber, needs ''asset'' SettlementAsset_t,
      needs ''tokenAddress'' TsHex, needs ''expectedAmount'' TsString, needs ''expectedAmountAtomic'' TsString,
      needs ''receivedAmount'' TsString, needs ''depositAddress'' TsHex,
      needs ''collectionMode'' PayInCollectionMode_t, needs ''routerAddress'' (TsNullable TsHex),
      needs ''routerInvoiceId'' (TsNullable TsHex), needs ''sweepStatus'' PayInSweepStatus_t,
      needs ''expiresAt'' (TsNullable TsString), needs ''createdAt'' TsString,
      needs ''confirmedAt'' (TsNullable TsString)]"

definition Payout_t :: TsType where
  "Payout_t = TsObject
     [needs ''id'' TsString, needs ''externalId'' TsString, needs ''status'' PayoutStatus_t,
      needs ''asset'' SettlementAsset_t, needs ''amount'' TsString, needs ''amountAtomic'' TsString,
      needs ''beneficiaryAddress'' TsHex, needs ''transactionHash'' (TsNullable TsHex),
      needs ''failureReason'' (TsNullable TsString), needs ''createdAt'' TsString,
      needs ''confirmedAt'' (TsNullable TsString)]"

definition Client_props :: "(string \<times> bool \<times> TsType) list" where
  "Client_props =
     [needs ''id'' TsString, needs ''name'' TsString, needs ''status'' (TsOneOf [''active'', ''disabled'']),
      needs ''apiKeyPrefix'' TsString, needs ''createdAt'' TsString]"

definition Client_t :: TsType where
  "Client_t = TsObject Client_props"

text \<open>\<^verbatim>\<open>interface ClientWithApiKey extends Client\<close>\<close>

definition ClientWithApiKey_t :: TsType where
  "ClientWithApiKey_t = TsObject (Client_props @ [needs ''apiKey'' TsString])"

definition CheckoutConfig_t :: TsType where
  "CheckoutConfig_t = TsObject
     [needs ''network'' SettlementNetwork_t, needs ''chainId'' TsNumber, needs ''networkName'' TsString,
      needs ''explorerBaseUrl'' TsString, needs ''demoEnabled'' TsBoolean,
      needs ''router'' (TsObject [needs ''address'' (TsNullable TsHex), needs ''configured'' TsBoolean]),
      needs ''token'' (TsObject [needs ''symbol'' SettlementAsset_t, needs ''address'' (TsNullable TsHex),
        needs ''decimals'' TsNumber])]"

definition CheckoutSession_t :: TsType where
  "CheckoutSession_t = TsObject
     [needs ''id'' TsString, needs ''status'' PayInStatus_t, needs ''asset'' SettlementAsset_t,
      needs ''amount'' TsString, needs ''amountAtomic'' TsString, needs ''receivedAmount'' TsString,
      needs ''network'' SettlementNetwork_t, needs ''chainId'' TsNumber, needs ''tokenAddress'' TsHex,
      needs ''routerAddress'' (TsNullable TsHex), needs ''invoiceId'' (TsNullable TsHex),
      needs ''reference'' (TsNullable TsString), needs ''explorerBaseUrl'' TsString,
      needs ''transactions'' (TsArray (TsObject
        [needs ''hash'' TsHex, needs ''amount'' TsString, needs ''blockNumber'' TsString])),
      needs ''createdAt'' TsString, needs ''confirmedAt'' (TsNullable TsString),
      needs ''detectedAt'' (TsNullable TsString)]"

definition PrivateSettlement_t :: TsType where
  "PrivateSettlement_t = TsObject
     [needs ''id'' TsString, needs ''externalId'' TsString, needs ''status'' (TsOneOf [''recorded'', ''revealed'']),
      needs ''settlementId'' TsHex, needs ''commitment'' TsHex, needs ''asset'' SettlementAsset_t,
      needs ''amount'' TsString, needs ''counterparty'' TsHex, needs ''transactionHash'' (TsNullable TsHex),
      needs ''revealTransactionHash'' (TsNullable TsHex), needs ''createdAt'' TsString]"

definition TreasuryStatus_t :: TsType where
  "TreasuryStatus_t = TsObject
     [needs ''network'' SettlementNetwork_t, needs ''chainId'' TsNumber,
      needs ''treasuryAddress'' (TsNullable TsHex), needs ''enabledAssets'' (TsArray SettlementAsset_t)]"

definition TreasuryBalances_t :: TsType where
  "TreasuryBalances_t = TsObject
     [needs ''address'' TsHex, needs ''network'' SettlementNetwork_t, needs ''nativeBalance'' TsString,
      needs ''nativeSymbol'' TsString, needs ''tokenBalances'' (TsRecord TsString)]"

definition Readiness_t :: TsType where
  "Readiness_t = TsObject
     [needs ''status'' (TsOneOf [''ready'', ''degraded'']), needs ''checks'' (TsRecord TsBoolean)]"

section \<open>The declared result of each method\<close>

definition declared :: "SdkCall \<Rightarrow> TsType" where
  "declared c =
     (case c of
        Health_metadata \<Rightarrow> TsRecord TsUnknown
      | Health_live \<Rightarrow> TsObject [needs ''status'' TsString]
      | Health_ready \<Rightarrow> Readiness_t
      | Payins_create _ \<Rightarrow> PayIn_t | Payins_list _ \<Rightarrow> TsArray PayIn_t | Payins_get _ \<Rightarrow> PayIn_t
      | Payins_reconcile _ \<Rightarrow> PayIn_t | Payins_sweep _ _ _ \<Rightarrow> PayIn_t | Payins_accept _ _ \<Rightarrow> PayIn_t
      | Payins_topUp _ _ \<Rightarrow> PayIn_t | Payins_topUpAndSweep _ _ _ \<Rightarrow> PayIn_t
      | Payouts_create _ \<Rightarrow> Payout_t | Payouts_list _ \<Rightarrow> TsArray Payout_t | Payouts_get _ \<Rightarrow> Payout_t
      | Payouts_authorize _ _ \<Rightarrow> Payout_t | Payouts_authorizeBatch _ \<Rightarrow> TsArray Payout_t
      | Payouts_reconcile _ \<Rightarrow> Payout_t
      | Clients_create _ \<Rightarrow> ClientWithApiKey_t | Clients_list \<Rightarrow> TsArray Client_t | Clients_get _ \<Rightarrow> Client_t
      | Clients_update _ _ \<Rightarrow> Client_t | Clients_rotateKey _ \<Rightarrow> ClientWithApiKey_t
      | Treasury_status \<Rightarrow> TreasuryStatus_t | Treasury_balances \<Rightarrow> TreasuryBalances_t
      | Reports_summary \<Rightarrow> TsRecord TsUnknown | Reports_sweepQueue \<Rightarrow> TsRecord TsUnknown
      | Reports_webhookDeliveries _ _ \<Rightarrow> TsRecord TsUnknown | Reports_audit _ _ _ _ \<Rightarrow> TsArray TsUnknown
      | Checkout_config \<Rightarrow> CheckoutConfig_t | Checkout_createSession _ \<Rightarrow> CheckoutSession_t
      | Checkout_getSession _ \<Rightarrow> CheckoutSession_t | Checkout_reconcileSession _ \<Rightarrow> CheckoutSession_t
      | Settlements_record _ \<Rightarrow> PrivateSettlement_t | Settlements_list _ _ \<Rightarrow> TsArray PrivateSettlement_t
      | Settlements_get _ \<Rightarrow> PrivateSettlement_t | Settlements_reveal _ \<Rightarrow> PrivateSettlement_t)"

lemmas ts_defs = SettlementAsset_t_def SettlementNetwork_t_def PayInStatus_t_def PayInCollectionMode_t_def
  PayInSweepStatus_t_def PayoutStatus_t_def PayIn_t_def Payout_t_def Client_props_def Client_t_def
  ClientWithApiKey_t_def CheckoutConfig_t_def CheckoutSession_t_def PrivateSettlement_t_def TreasuryStatus_t_def
  TreasuryBalances_t_def Readiness_t_def

section \<open>Bodies that conform\<close>

lemma enum_texts:
  "asset_text a \<in> {''USDC'', ''USDT''}"
  "network_text n \<in> {''avalanche-fuji'', ''avalanche-mainnet''}"
  "payin_status_text s \<in> {''pending'', ''detected'', ''confirmed'', ''expired'', ''underpaid'', ''overpaid''}"
  "mode_text m \<in> {''derived-address'', ''payment-router''}"
  "sweep_status_text w \<in> {''pending'', ''broadcasted'', ''confirmed'', ''failed'', ''not_required''}"
  "payout_status_text p \<in> {''prepared'', ''authorized'', ''broadcasted'', ''confirmed'', ''failed''}"
  "client_status_text cs \<in> {''active'', ''disabled''}"
  "settlement_status_text st \<in> {''recorded'', ''revealed''}"
  by (simp_all add: asset_text_def network_text_def payin_status_text_def mode_text_def sweep_status_text_def
      payout_status_text_def client_status_text_def settlement_status_text_def
      split: SettlementAsset.split SettlementNetwork.split PayInStatus.split PayInCollectionMode.split
      PayInSweepStatus.split PayoutStatus.split ClientStatus.split PrivateSettlementStatus.split)

lemma enum_conforms:
  "conforms SettlementAsset_t (JStr (asset_text a))" "conforms SettlementNetwork_t (JStr (network_text n))"
  "conforms PayInStatus_t (JStr (payin_status_text s))" "conforms PayInCollectionMode_t (JStr (mode_text m))"
  "conforms PayInSweepStatus_t (JStr (sweep_status_text w))" "conforms PayoutStatus_t (JStr (payout_status_text p))"
  "conforms (TsOneOf [''active'', ''disabled'']) (JStr (client_status_text cs))"
  "conforms (TsOneOf [''recorded'', ''revealed'']) (JStr (settlement_status_text st))"
  using enum_texts unfolding ts_defs conforms.simps json.case list.set by blast+

text \<open>Objects are compared property by property; the types of the properties stay folded.\<close>

declare conforms.simps [simp del]

lemmas conforms_object = conforms.simps(10)

lemma null_conforms:
  "conforms (TsNullable TsString) (jopt v)" "conforms (TsNullable TsString) (jtime t)" "conforms TsString (jdate u)"
  "conforms (TsNullable TsHex) (jopt v) \<longleftrightarrow> (\<forall>s. v = Some s \<longrightarrow> startsWith s ''0x'')"
  "conforms TsHex (jopt v) \<longleftrightarrow> (\<exists>s. v = Some s \<and> startsWith s ''0x'')"
  by (simp_all add: conforms.simps jopt_def jtime_def jdate_def split: option.split)

lemma plain_conforms:
  "conforms TsUnknown j" "conforms TsString (JStr s)" "conforms TsNumber (JInt n)" "conforms TsBoolean (JBool b)"
  "conforms TsHex (JStr s) \<longleftrightarrow> startsWith s ''0x''"
  "conforms (TsArray t) (JArr vs) \<longleftrightarrow> list_all (conforms t) vs"
  "conforms (TsRecord t) (JObj fs) \<longleftrightarrow> list_all (\<lambda>f. conforms t (snd f)) fs"
  by (simp_all add: conforms.simps list_all_iff case_prod_beta)

lemmas conforms_rules = enum_conforms null_conforms plain_conforms

end
