(* ===== verification/Typing.thy ===== *)
theory Typing
  imports AuditLog Webhooks
begin

text \<open>
  A type system for handlers.  \<open>returns p I Q\<close>: every step the handler takes in a state that
  satisfies \<open>I\<close> ends in one that does, whatever the others did in between, and a value it ends
  with satisfies \<open>Q\<close>.  Read with \<open>I\<close> as "every stored row is well typed" and \<open>Q\<close> as a type it is
  the typing judgement of the handler, and it is preserved by every interleaving.
\<close>

section \<open>The judgement\<close>

primrec returns :: "('s, 'e, 'a) prog \<Rightarrow> ('s \<Rightarrow> bool) \<Rightarrow> ('a \<Rightarrow> bool) \<Rightarrow> bool" where
  "returns (Ret a) I Q = Q a"
| "returns (Raise e) I Q = True"
| "returns (Step f) I Q =
     (\<forall>s. I s \<longrightarrow> (case (map_prod returns id \<circ> f) s of (r, s') \<Rightarrow> I s' \<and> r I Q))"

lemma returns_Step [simp]:
  "returns (Step f) I Q = (\<forall>s. I s \<longrightarrow> I (snd (f s)) \<and> returns (fst (f s)) I Q)"
  by (auto simp: case_prod_beta)

declare returns.simps(3) [simp del]

text \<open>Binding is composition of judgements, so a handler is typed by going through its text.\<close>

lemma returns_bindP [simp]: "returns (bindP m k) I Q = returns m I (\<lambda>a. returns (k a) I Q)"
  by (induction m) auto

lemma returns_catchP:
  "returns m I Q \<Longrightarrow> (\<And>e. returns (h e) I Q) \<Longrightarrow> returns (catchP m h) I Q"
  by (induction m) auto

lemma returns_mono: "returns m I Q \<Longrightarrow> (\<And>a. Q a \<Longrightarrow> Q' a) \<Longrightarrow> returns m I Q'"
  by (induction m) auto

lemma returns_await:
  "(\<And>s. I s \<Longrightarrow> I (snd (f s))) \<Longrightarrow> (\<And>s a. I s \<Longrightarrow> fst (f s) = Inr a \<Longrightarrow> Q a) \<Longrightarrow> returns (await f) I Q"
  by (auto simp: await_def split: sum.splits)

lemma returns_liftE [simp]: "returns (liftE r) I Q \<longleftrightarrow> (\<forall>a. r = Inr a \<longrightarrow> Q a)"
  by (cases r) (simp_all add: liftE_def)

lemma returns_peek: "(\<And>s. Q (f s)) \<Longrightarrow> returns (peek f) I Q"
  unfolding peek_def by (rule returns_await) auto

lemma returns_now: "(\<And>t. Q t) \<Longrightarrow> returns (now env) I Q"
  unfolding now_def by (rule returns_peek)

lemma returns_attempt: "returns p I (\<lambda>a. Q (Inr a)) \<Longrightarrow> (\<And>e. Q (Inl e)) \<Longrightarrow> returns (attempt p) I Q"
  unfolding attempt_def by (rule returns_catchP) auto

lemma returns_forP:
  "(\<And>x. x \<in> set xs \<Longrightarrow> returns (body x) I P) \<Longrightarrow> (\<And>as. list_all P as \<Longrightarrow> Q as) \<Longrightarrow> returns (forP xs body) I Q"
proof (induction xs arbitrary: Q)
  case (Cons x xs)
  have "returns (body x) I (\<lambda>a. returns (forP xs body) I (\<lambda>as. Q (a # as)))"
    using Cons.prems(1) [of x]
    by (rule returns_mono) (auto intro!: Cons.IH Cons.prems)
  then show ?case by simp
qed simp

lemma returns_allP:
  assumes "\<And>p. p \<in> set ps \<Longrightarrow> returns p I P" and "\<And>as. list_all P as \<Longrightarrow> Q as"
  shows "returns (allP ps) I Q"
  unfolding allP_def allSettled_def returns_bindP
proof (rule returns_forP [where P = "\<lambda>r. \<forall>a. r = Inr a \<longrightarrow> P a"])
  show "returns (attempt p) I (\<lambda>r. \<forall>a. r = Inr a \<longrightarrow> P a)" if "p \<in> set ps" for p
    using assms(1) [OF that] by (auto intro: returns_attempt)
  show "returns (liftE (collect rs)) I Q" if "list_all (\<lambda>r. \<forall>a. r = Inr a \<longrightarrow> P a) rs" for rs
    using that assms(2) by (auto simp: list_all_iff dest: collect_InrD)
qed

text \<open>\<open>returns\<close> extends \<open>preserves\<close> by what is known of the result.\<close>

lemma returns_preserves: "returns p I Q \<Longrightarrow> preserves p I"
  by (induction p) auto

lemma preserves_returns: "preserves p I \<Longrightarrow> (\<And>a. Q a) \<Longrightarrow> returns p I Q"
  by (induction p) auto

text \<open>Typed handlers stay typed however they are interleaved.\<close>

theorem pool_returns:
  assumes "pool_run ps s tr ps' s'" and "I s" and "\<And>k. k < length ps \<Longrightarrow> returns (ps ! k) I (Q k)"
  shows "I s' \<and> (\<forall>k<length ps. returns (ps' ! k) I (Q k))"
  using assms
proof (induction rule: pool_run.induct)
  case (pool_next i ps f s p s' tr ps'' s'')
  have "returns (Step f) I (Q i)" using pool_next.prems(2) [OF pool_next.hyps(1)] pool_next.hyps(2) by simp
  then have "I s'" and "returns p I (Q i)" using pool_next.hyps(3) pool_next.prems(1) by force+
  moreover have "returns (ps[i := p] ! k) I (Q k)" if "k < length ps" for k
    using that pool_next.prems(2) \<open>returns p I (Q i)\<close> by (cases "k = i") auto
  ultimately show ?case using pool_next.IH by simp
qed simp

lemma pool_run_length: "pool_run ps s tr ps' s' \<Longrightarrow> length ps' = length ps"
  by (induction rule: pool_run.induct) auto

section \<open>Invariants of the ledgers\<close>

text \<open>
  An invariant that looks at the three ledgers only: the calls of the node, the audit log, the
  outbox and the other tables keep it, whatever it says.
\<close>

definition ledgers_alike :: "World \<Rightarrow> World \<Rightarrow> bool" where
  "ledgers_alike w w' \<longleftrightarrow>
     w_payouts w' = w_payouts w \<and> w_payins w' = w_payins w \<and> w_settlements w' = w_settlements w"

locale ledger_invariant =
  fixes I :: "World \<Rightarrow> bool"
  assumes same: "ledgers_alike w w' \<Longrightarrow> I w \<Longrightarrow> I w'"
begin

lemma bumped [simp]: "I (bump w) = I w"
  using same [of w "bump w"] same [of "bump w" w] by (auto simp: ledgers_alike_def)

lemma rpc: "(\<And>n v. call n = Inr v \<Longrightarrow> Q v) \<Longrightarrow> returns (rpc call) I Q"
  unfolding rpc_def by (rule returns_await) (auto split: sum.splits)

lemma submit: "(\<And>n h. rpc_submit env n tx = Inr h \<Longrightarrow> Q h) \<Longrightarrow> returns (submit env tx) I Q"
  unfolding submit_def
  by (rule returns_await) (auto simp: ledgers_alike_def elim: same [rotated] split: sum.splits)

lemma randomUUID: "(\<And>i. Q i) \<Longrightarrow> returns (randomUUID env) I Q"
  unfolding randomUUID_def by (rule returns_await) auto

lemma randomBytesHex: "(\<And>i. Q i) \<Longrightarrow> returns (randomBytesHex env) I Q"
  unfolding randomBytesHex_def by (rule returns_await) auto

text \<open>A statement: what it returns on the tables it finds, and that it keeps the invariant.\<close>

lemma statement:
  assumes "\<And>t w. I w \<Longrightarrow> I (snd (stmt t w))" and "\<And>t w a. I w \<Longrightarrow> fst (stmt t w) = Inr a \<Longrightarrow> Q a"
  shows "returns (query env stmt) I Q"
  unfolding query_def by (rule returns_await) (auto simp: assms split: option.splits)

lemma read:
  assumes "\<And>t w. I w \<Longrightarrow> Q (f t w)"
  shows "returns (query env (\<lambda>t w. (Inr (f t w), w))) I Q"
  by (rule statement) (auto simp: assms)

text \<open>A statement on another table.\<close>

lemma elsewhere:
  assumes "\<And>t w. ledgers_alike w (snd (stmt t w))" and "\<And>a. Q a"
  shows "returns (query env stmt) I Q"
  by (rule statement) (auto simp: assms(2) intro: same [OF assms(1)])

lemma listBySubject: "(\<And>es. Q es) \<Longrightarrow> returns (listBySubject env i) I Q"
  unfolding listBySubject_def by (rule read)

lemma record_event: "(\<And>ev. Q ev) \<Longrightarrow> returns (record_event env ty i actor payload) I Q"
  unfolding record_event_def Let_def returns_bindP
  by (intro randomUUID returns_now elsewhere) (auto simp: insert_audit_def ledgers_alike_def)

lemma enqueue: "Q () \<Longrightarrow> returns (enqueue env c ev payload) I Q"
  unfolding enqueue_def Let_def
  by (auto intro!: returns_now returns_catchP elsewhere simp: ledgers_alike_def)

end

end
