(* ===== verification/WellTyped.thy ===== *)
theory WellTyped
  imports SdkTypes Typing
begin

text \<open>
  Well-typed ledgers: the fields the data model declares as \<^verbatim>\<open>`0x${string}`\<close> hold such texts.  Every
  handler of the API keeps the ledgers well typed and returns well-typed records, if the
  libraries and the node return what their types promise.
\<close>

section \<open>Well-typed rows\<close>

abbreviation hex :: "string \<Rightarrow> bool" where
  "hex s \<equiv> startsWith s ''0x''"

abbreviation hex_or_null :: "string option \<Rightarrow> bool" where
  "hex_or_null v \<equiv> pred_option hex v"

definition payout_typed :: "PayoutRecord \<Rightarrow> bool" where
  "payout_typed r \<longleftrightarrow> hex (po_beneficiaryAddress r) \<and> hex_or_null (po_transactionHash r)"

definition payin_typed :: "PayInRecord \<Rightarrow> bool" where
  "payin_typed r \<longleftrightarrow> (\<exists>a. pi_tokenAddress r = Some a \<and> hex a) \<and> hex (pi_depositAddress r) \<and>
     hex_or_null (pi_routerAddress r) \<and> hex_or_null (pi_routerInvoiceId r) \<and>
     list_all (hex \<circ> tr_hash) (pi_transfers r)"

definition settlement_typed :: "PrivateSettlementRecord \<Rightarrow> bool" where
  "settlement_typed r \<longleftrightarrow> hex (ps_settlementId r) \<and> hex (ps_commitment r) \<and> hex (ps_counterparty r) \<and>
     hex_or_null (ps_transactionHash r) \<and> hex_or_null (ps_revealTransactionHash r)"

definition typed :: "World \<Rightarrow> bool" where
  "typed w \<longleftrightarrow> list_all payout_typed (w_payouts w) \<and> list_all payin_typed (w_payins w) \<and>
     list_all settlement_typed (w_settlements w)"

interpretation typed: ledger_invariant typed
  by unfold_locales (simp add: ledgers_alike_def typed_def)

text \<open>
  The types viem gives to what it returns: hashes and addresses are texts with the prefix \<^verbatim>\<open>0x\<close>.
\<close>

definition viem_types :: "Env \<Rightarrow> bool" where
  "viem_types env \<longleftrightarrow>
     (\<forall>n tx h. rpc_submit env n tx = Inr h \<longrightarrow> hex h) \<and>
     (\<forall>s. hex (keccak256 env s)) \<and> (\<forall>m a k. hex (mnemonicToAccount env m a k)) \<and>
     (\<forall>s a. getAddress env s = Inr a \<longrightarrow> hex a) \<and>
     (\<forall>n tk a lo hi ls. rpc_transferLogs env n tk a lo hi = Inr ls \<longrightarrow>
        list_all (hex_or_null \<circ> tl_transactionHash) ls) \<and>
     (\<forall>n ro i tk lo hi ls. rpc_invoiceLogs env n ro i tk lo hi = Inr ls \<longrightarrow>
        list_all (hex_or_null \<circ> il_transactionHash) ls)"

lemma configured_address_hex: "readAddress pe name = Inr (Some a) \<Longrightarrow> hex a"
  by (auto simp: readAddress_def evm_address_format_def split: option.splits if_splits)

lemma asset_address_hex: "getAssetConfig pe asset = Inr ac \<Longrightarrow> hex_or_null (ac_address ac)"
  by (auto simp: getAssetConfig_def Let_def pred_option_def dest: configured_address_hex split: sum.splits)

lemma router_address_hex: "paymentRouterAddress pe = Inr v \<Longrightarrow> hex_or_null v"
  by (auto simp: paymentRouterAddress_def pred_option_def dest: configured_address_hex)

section \<open>Statements\<close>

text \<open>
  The typing rules have the shape of a continuation: to type a handler that goes on with what a
  statement returns, type the rest for every value of the right type.
\<close>

named_theorems typing_rules \<open>typing judgements of statements and handlers\<close>

declare typed.rpc [typing_rules] typed.submit [typing_rules] typed.randomUUID [typing_rules]
  typed.randomBytesHex [typing_rules] typed.listBySubject [typing_rules] typed.record_event [typing_rules]
  typed.enqueue [typing_rules] returns_now [typing_rules] returns_peek [typing_rules]
  returns_catchP [typing_rules]

lemma find_ok: "list_all P rows \<Longrightarrow> pred_option P (find R rows)"
  by (auto simp: list_all_iff pred_option_def dest: find_SomeD)

lemma find_okD: "find R rows = Some x \<Longrightarrow> list_all P rows \<Longrightarrow> P x"
  by (auto simp: list_all_iff dest: find_SomeD)

lemma list_all_page: "list_all P rows \<Longrightarrow> list_all P (page_desc k n m (filter R rows))"
  using set_page_desc [of k n m "filter R rows"] by (fastforce simp: list_all_iff)

lemma list_all_update:
  assumes "list_all P rows" and "\<And>r. P r \<Longrightarrow> P (f r)" and "sql_update g f rows = (rows', ret)"
  shows "list_all P rows'" and "pred_option P (find R ret)"
  using assms by (auto simp: sql_update_def list_all_iff pred_option_def dest!: find_SomeD)

lemma list_all_insert:
  assumes "list_all P rows" and "P r" and "sql_insert i c e r rows = Inr (rows', ret)"
  shows "list_all P rows'" and "pred_option P (find R ret)"
  using assms by (auto simp: sql_insert_def pred_option_def split: if_splits)

text \<open>A patch is well typed when the hashes in it are.\<close>

definition payout_patch_typed :: "PayoutField list \<Rightarrow> bool" where
  "payout_patch_typed patch \<longleftrightarrow> list_all (\<lambda>f. case f of PoTransactionHash v \<Rightarrow> hex_or_null v | _ \<Rightarrow> True) patch"

lemma payout_patch_keeps:
  assumes "payout_patch_typed patch" and "payout_typed r"
  shows "payout_typed (apply_payout_patch (t, patch) r)"
proof -
  have "payout_typed (fold set_payout_field patch r)"
    using assms
  proof (induction patch arbitrary: r)
    case (Cons f patch)
    then show ?case by (cases f) (auto simp: payout_patch_typed_def payout_typed_def)
  qed simp
  then show ?thesis by (simp add: apply_payout_patch_def payout_typed_def)
qed

lemma type_payout_update [typing_rules]:
  assumes "payout_patch_typed patch" and "\<And>v. pred_option payout_typed v \<Longrightarrow> Q v"
  shows "returns (payout_update env i patch g) typed Q"
  unfolding payout_update_def
proof (rule typed.statement)
  fix t w assume "typed w"
  obtain rows ret where u: "sql_update (payout_guard i g) (apply_payout_patch (t, patch)) (w_payouts w) = (rows, ret)"
    by fastforce
  note ok = list_all_update [where P = payout_typed, OF _ payout_patch_keeps [OF assms(1)] u]
  show "typed (snd (payout_update_stmt i patch g t w))"
    using \<open>typed w\<close> ok(1) by (simp add: payout_update_stmt_def u typed_def)
  show "fst (payout_update_stmt i patch g t w) = Inr a \<Longrightarrow> Q a" for a
    using \<open>typed w\<close> ok(2) assms(2) by (auto simp: payout_update_stmt_def u typed_def)
qed

lemma type_payout_insert [typing_rules]:
  assumes "payout_typed r" and "\<And>v. pred_option payout_typed v \<Longrightarrow> Q v"
  shows "returns (query env (payout_insert_stmt r)) typed Q"
proof (rule typed.statement)
  fix t w assume "typed w"
  then have rows: "list_all payout_typed (w_payouts w)" by (simp add: typed_def)
  show "typed (snd (payout_insert_stmt r t w))"
    using \<open>typed w\<close> list_all_insert(1) [OF rows assms(1)]
    by (auto simp: payout_insert_stmt_def typed_def split: sum.splits prod.splits)
  show "fst (payout_insert_stmt r t w) = Inr a \<Longrightarrow> Q a" for a
    using list_all_insert(2) [OF rows assms(1)] assms(2)
    by (auto simp: payout_insert_stmt_def split: sum.splits prod.splits if_splits)
qed

lemma type_payout_reads [typing_rules]:
  "(\<And>v. pred_option payout_typed v \<Longrightarrow> Q v) \<Longrightarrow> returns (payout_findById env i c) typed Q"
  "(\<And>v. pred_option payout_typed v \<Longrightarrow> Q v) \<Longrightarrow> returns (payout_findByExternalId env d e) typed Q"
  "(\<And>rs. list_all payout_typed rs \<Longrightarrow> P rs) \<Longrightarrow> returns (payout_list env f) typed P"
  unfolding payout_findById_def payout_findByExternalId_def payout_list_def
  by (auto intro!: typed.read simp: find_scoped_def find_external_def typed_def find_ok list_all_page)

lemma type_payout_create [typing_rules]:
  "payout_typed r \<Longrightarrow> (\<And>x. payout_typed (fst x) \<Longrightarrow> Q x) \<Longrightarrow> returns (payout_createOrGetExisting env r) typed Q"
  unfolding payout_createOrGetExisting_def
  by (auto intro!: typing_rules simp: pred_option_def split: option.splits)

section \<open>Payouts\<close>

abbreviation payout_response_typed :: "PayoutResponse \<Rightarrow> bool" where
  "payout_response_typed p \<equiv> payout_typed (por_record p)"

lemma type_payout_reading [typing_rules]:
  "payout_typed r \<Longrightarrow> (\<And>p. payout_response_typed p \<Longrightarrow> Q p) \<Longrightarrow> returns (payout_toResponse env r b) typed Q"
  "(\<And>r. payout_typed r \<Longrightarrow> R r) \<Longrightarrow> returns (requirePayout env i ctx) typed R"
  unfolding payout_toResponse_def requirePayout_def
  by (auto intro!: typing_rules simp: pred_option_def split: option.splits)

lemma type_responses:
  assumes "\<And>ps. list_all payout_response_typed ps \<Longrightarrow> Q ps" and "list_all payout_typed rs"
  shows "returns (allP (map (\<lambda>r. payout_toResponse env r False) rs)) typed Q"
  by (rule returns_allP [where P = payout_response_typed])
    (use assms in \<open>auto simp: list_all_iff intro!: typing_rules\<close>)

lemma type_payout_lookups [typing_rules]:
  "(\<And>ps. list_all payout_response_typed ps \<Longrightarrow> P ps) \<Longrightarrow> returns (listPayouts env f ctx) typed P"
  "(\<And>p. payout_response_typed p \<Longrightarrow> Q p) \<Longrightarrow> returns (getPayout env i ctx) typed Q"
  "(\<And>p. payout_response_typed p \<Longrightarrow> Q p) \<Longrightarrow> returns (getPayoutByExternalId env e ctx) typed Q"
  unfolding listPayouts_def getPayout_def getPayoutByExternalId_def
  by (auto intro!: typing_rules type_responses simp: pred_option_def split: option.splits)

section \<open>The gateway\<close>

lemma viem_facts:
  assumes "viem_types env"
  shows "rpc_submit env n tx = Inr h \<Longrightarrow> hex h" and "hex (keccak256 env s)" and "hex (mnemonicToAccount env m a k)"
    and "getAddress env s = Inr a' \<Longrightarrow> hex a'"
    and "rpc_transferLogs env n tk x lo hi = Inr ls \<Longrightarrow> list_all (hex_or_null \<circ> tl_transactionHash) ls"
    and "rpc_invoiceLogs env n ro i tk lo hi = Inr ils \<Longrightarrow> list_all (hex_or_null \<circ> il_transactionHash) ils"
  using assms unfolding viem_types_def by - (elim conjE, metis)+

abbreviation execution_typed :: "TransferExecution \<Rightarrow> bool" where
  "execution_typed ex \<equiv> hex (te_hash ex)"

lemma type_execution [typing_rules]:
  "hex h \<Longrightarrow> (\<And>ex. execution_typed ex \<Longrightarrow> Q ex) \<Longrightarrow> returns (toTransferExecution env h) typed Q"
  unfolding toTransferExecution_def by (auto intro!: typing_rules)

lemma type_gateway_reads [typing_rules]:
  "(\<And>n. P n) \<Longrightarrow> returns (getLatestBlockNumber env) typed P"
  "(\<And>b. R b) \<Longrightarrow> returns (getAssetBalance env asset) typed R"
  "S () \<Longrightarrow> returns (waitForTransaction env h) typed S"
  "S () \<Longrightarrow> returns (ensureVaultAllowance env v tk n) typed S"
  "(\<And>rn. T rn) \<Longrightarrow> returns (reconcileTransaction env h) typed T"
  unfolding getLatestBlockNumber_def getAssetBalance_def waitForTransaction_def ensureVaultAllowance_def
    reconcileTransaction_def Let_def
  by (auto intro!: typing_rules split: option.splits)

lemma type_transactions [typing_rules]:
  assumes "viem_types env" and "\<And>ex. execution_typed ex \<Longrightarrow> Q ex"
  shows "returns (sendErc20Transfer env asset to n) typed Q" and "returns (vaultPayout env asset ref to n) typed Q"
    and "returns (vaultPayoutBatch env asset ref tos ns) typed Q" and "returns (sendNativeTransfer env to n) typed Q"
    and "returns (recordPrivateSettlement env ref com) typed Q"
    and "returns (revealPrivateSettlement env i n tk cp nonce) typed Q"
  unfolding sendErc20Transfer_def vaultPayout_def vaultPayoutBatch_def sendNativeTransfer_def
    recordPrivateSettlement_def revealPrivateSettlement_def
  using assms viem_facts(1) [OF assms(1)] by (auto intro!: typing_rules split: option.splits)

lemma type_sweep [typing_rules]:
  "(\<And>s. Q s) \<Longrightarrow> returns (sweepDerivedPayIn env asset k a n) typed Q"
  unfolding sweepDerivedPayIn_def toTransferExecution_def Let_def by (auto intro!: typing_rules)

lemma type_paginate:
  assumes "\<And>a b P'. (\<And>ls. list_all P ls \<Longrightarrow> P' ls) \<Longrightarrow> returns (fetch a b) typed P'"
  shows "(\<And>ls. list_all P ls \<Longrightarrow> Q ls) \<Longrightarrow> returns (paginateLogs lo hi fetch) typed Q"
  using assms
proof (induction lo hi fetch arbitrary: Q rule: paginateLogs.induct)
  case (1 lo hi fetch)
  show ?case
    by (subst paginateLogs.simps) (auto simp: Let_def intro!: 1)
qed

lemma log_hex:
  "hex_or_null (tl_transactionHash l) \<Longrightarrow> hex (tr_hash (transfer_of_log env d l))"
  "hex_or_null (il_transactionHash i) \<Longrightarrow> hex (tr_hash (ip_transfer (payment_of_log env d i)))"
  by (auto simp: transfer_of_log_def payment_of_log_def startsWith_def split: option.split)

lemma type_logs:
  assumes "viem_types env"
  shows "(\<And>ls. list_all (hex_or_null \<circ> tl_transactionHash) ls \<Longrightarrow> Q ls) \<Longrightarrow>
      returns (paginateLogs lo hi (\<lambda>a b. rpc (\<lambda>n. rpc_transferLogs env n tk to a b))) typed Q"
    and "(\<And>ls. list_all (hex_or_null \<circ> il_transactionHash) ls \<Longrightarrow> P ls) \<Longrightarrow>
      returns (paginateLogs lo hi (\<lambda>a b. rpc (\<lambda>n. rpc_invoiceLogs env n ro i tk a b))) typed P"
  by (rule type_paginate [rotated]; (assumption | blast intro: typed.rpc dest: viem_facts(5,6) [OF assms]))+

lemma type_scans [typing_rules]:
  assumes "viem_types env"
  shows "(\<And>ts. list_all (hex \<circ> tr_hash) ts \<Longrightarrow> Q ts) \<Longrightarrow>
      returns (findIncomingErc20Transfers env asset to lo hi) typed Q"
    and "(\<And>ps. list_all (hex \<circ> tr_hash \<circ> ip_transfer) ps \<Longrightarrow> P ps) \<Longrightarrow>
      returns (findPaymentRouterInvoicePayments env asset ref n lo hi) typed P"
  unfolding findIncomingErc20Transfers_def findPaymentRouterInvoicePayments_def Let_def
  by (auto intro!: typing_rules type_logs assms simp: list_all_iff log_hex split: option.splits)

section \<open>Authorizing payouts\<close>

lemma sent_patch_typed: "execution_typed ex \<Longrightarrow> payout_patch_typed (sent_patch ex t)"
  by (simp add: payout_patch_typed_def sent_patch_def)

lemma plain_patches_typed:
  "payout_patch_typed [PoStatus s, PoFailureReason m]" "payout_patch_typed [PoStatus s, PoAuthorizedAt ta]"
  "payout_patch_typed [PoStatus s]" "payout_patch_typed (reconciled_patch payout rn t)"
  by (simp_all add: payout_patch_typed_def reconciled_patch_def Let_def)

lemmas payout_patches = sent_patch_typed plain_patches_typed

lemma type_execute [typing_rules]:
  "viem_types env \<Longrightarrow> (\<And>ex. execution_typed ex \<Longrightarrow> Q ex) \<Longrightarrow> returns (execute_transfer env r) typed Q"
  "R () \<Longrightarrow> returns (check_treasury env r) typed R"
  unfolding execute_transfer_def check_treasury_def by (auto intro!: typing_rules)

lemma type_settle [typing_rules]:
  assumes "viem_types env" and "\<And>v. pred_option payout_typed v \<Longrightarrow> Q v"
  shows "returns (settle_claimed env i actor t r) typed Q"
  unfolding settle_claimed_def broadcast_payout_def book_transfer_def broadcast_failed_def
  using assms by (auto intro!: typing_rules payout_patches simp: nonnull_def split: option.splits)

lemma type_authorize [typing_rules]:
  assumes "viem_types env" and "\<And>p. payout_response_typed p \<Longrightarrow> Q p"
  shows "returns (authorize_lost env i ctx) typed Q" and "returns (authorizePayout env i dto ctx) typed Q"
  unfolding authorizePayout_def authorize_lost_def Let_def
  using assms by (auto intro!: typing_rules payout_patches simp: nonnull_def split: option.splits)

lemma type_createPayout [typing_rules]:
  assumes "viem_types env" and "hex (cpd_beneficiaryAddress dto)" and "\<And>p. payout_response_typed p \<Longrightarrow> Q p"
  shows "returns (createPayout env dto ctx) typed Q"
  unfolding createPayout_def new_payout_def
  using assms by (auto intro!: typing_rules simp: payout_typed_def)

lemma type_release [typing_rules]:
  "(\<And>v. Q v) \<Longrightarrow> payout_patch_typed patch \<Longrightarrow> returns (release_legs env patch cs) typed Q"
  unfolding release_legs_def returns_bindP
  by (rule returns_allP [where P = "\<lambda>_. True"]) (auto intro!: typing_rules)

lemma type_claim_legs [typing_rules]:
  assumes "\<And>rs. list_all payout_typed rs \<Longrightarrow> Q rs"
  shows "list_all payout_typed cs \<Longrightarrow> returns (claim_legs env t cs ps) typed Q"
proof (induction ps arbitrary: cs)
  case (Cons p ps)
  then show ?case by (auto intro!: typing_rules payout_patches split: option.splits)
qed (simp add: assms)

lemma type_batch_parts [typing_rules]:
  "(\<And>u. Q u) \<Longrightarrow> returns (book_leg env actor ex v) typed Q"
  "returns (batch_failed env actor cs e) typed P"
  unfolding book_leg_def batch_failed_def
  by (auto intro!: typing_rules payout_patches returns_allP [where P = "\<lambda>_. True"])

lemma type_settle_batch [typing_rules]:
  assumes "viem_types env" and "\<And>vs. list_all (pred_option payout_typed) vs \<Longrightarrow> Q vs"
  shows "returns (settle_batch env asset actor t cs) typed Q"
  unfolding settle_batch_def broadcast_batch_def
  using assms
  by (auto intro!: typing_rules payout_patches returns_allP [where P = "pred_option payout_typed"]
      returns_forP [where P = "\<lambda>_. True"])

lemma type_authorizeBatch [typing_rules]:
  assumes "viem_types env" and "\<And>ps. list_all payout_response_typed ps \<Longrightarrow> Q ps"
  shows "returns (authorizePayoutBatch env js dto ctx) typed Q"
proof -
  have answers: "returns (allP (map (\<lambda>u. bindP (liftE (nonnull ''id'' u)) (\<lambda>r. payout_toResponse env r False)) vs)) typed Q"
    if "list_all (pred_option payout_typed) vs" for vs
    by (rule returns_allP [where P = payout_response_typed])
      (use that assms(2) in \<open>auto simp: list_all_iff pred_option_def nonnull_def intro!: typing_rules split: option.splits\<close>)
  have legs: "returns (allP (map (\<lambda>c. record_event env PAYOUT_AUTHORIZED (f c) actor pl) cs)) typed R"
    if "\<And>x. R x" for f actor pl cs and R :: "AuditEvent list \<Rightarrow> bool"
    by (rule returns_allP [where P = "\<lambda>_. True"]) (auto intro!: typing_rules that)
  have required: "returns (allP (map (\<lambda>i. requirePayout env i ctx) is)) typed R"
    if "\<And>x. R x" for "is" and R :: "PayoutRecord list \<Rightarrow> bool"
    by (rule returns_allP [where P = "\<lambda>_. True"]) (auto intro!: typing_rules that)
  show ?thesis
    unfolding authorizePayoutBatch_def Let_def
    using assms(1) by (auto intro!: typing_rules legs required answers)
qed

lemma type_reconcilePayout [typing_rules]:
  "(\<And>p. payout_response_typed p \<Longrightarrow> Q p) \<Longrightarrow> returns (reconcilePayout env i ctx) typed Q"
  unfolding reconcilePayout_def
  by (auto intro!: typing_rules payout_patches simp: nonnull_def split: option.splits)

section \<open>Pay-ins\<close>

definition payin_patch_typed :: "PayInField list \<Rightarrow> bool" where
  "payin_patch_typed patch \<longleftrightarrow> list_all (\<lambda>f. case f of PfTransfers ts \<Rightarrow> list_all (hex \<circ> tr_hash) ts | _ \<Rightarrow> True) patch"

lemma payin_patch_keeps:
  assumes "payin_patch_typed patch" and "payin_typed r"
  shows "payin_typed (apply_payin_patch (t, patch) r)"
proof -
  have "payin_typed (fold set_payin_field patch r)"
    using assms
  proof (induction patch arbitrary: r)
    case (Cons f patch)
    then show ?case by (cases f) (auto simp: payin_patch_typed_def payin_typed_def)
  qed simp
  then show ?thesis by (simp add: apply_payin_patch_def payin_typed_def)
qed

lemma type_payin_update [typing_rules]:
  assumes "payin_patch_typed patch" and "\<And>v. pred_option payin_typed v \<Longrightarrow> Q v"
  shows "returns (payin_update env i patch g) typed Q"
  unfolding payin_update_def
proof (rule typed.statement)
  fix t w assume "typed w"
  obtain rows ret where u: "sql_update (payin_guard i g) (apply_payin_patch (t, patch)) (w_payins w) = (rows, ret)"
    by fastforce
  note ok = list_all_update [where P = payin_typed, OF _ payin_patch_keeps [OF assms(1)] u]
  show "typed (snd (payin_update_stmt i patch g t w))"
    using \<open>typed w\<close> ok(1) by (simp add: payin_update_stmt_def u typed_def)
  show "fst (payin_update_stmt i patch g t w) = Inr a \<Longrightarrow> Q a" for a
    using \<open>typed w\<close> ok(2) assms(2) by (auto simp: payin_update_stmt_def u typed_def)
qed

text \<open>A pay-in without a token address is refused by the database, so the null never reaches a row.\<close>

lemma type_payin_insert [typing_rules]:
  assumes "pi_tokenAddress r \<noteq> None \<Longrightarrow> payin_typed r" and "\<And>v. pred_option payin_typed v \<Longrightarrow> Q v"
  shows "returns (query env (payin_insert_stmt r)) typed Q"
proof (rule typed.statement)
  fix t w assume "typed w"
  then have rows: "list_all payin_typed (w_payins w)" by (simp add: typed_def)
  show "typed (snd (payin_insert_stmt r t w))"
    using \<open>typed w\<close> list_all_insert(1) [OF rows assms(1)]
    by (auto simp: payin_insert_stmt_def typed_def split: sum.splits prod.splits)
  show "fst (payin_insert_stmt r t w) = Inr a \<Longrightarrow> Q a" for a
    using list_all_insert(2) [OF rows assms(1)] assms(2)
    by (auto simp: payin_insert_stmt_def split: sum.splits prod.splits if_splits)
qed

lemma type_payin_reads [typing_rules]:
  "(\<And>v. pred_option payin_typed v \<Longrightarrow> Q v) \<Longrightarrow> returns (payin_findById env i c) typed Q"
  "(\<And>v. pred_option payin_typed v \<Longrightarrow> Q v) \<Longrightarrow> returns (payin_findByExternalId env d e) typed Q"
  "(\<And>rs. list_all payin_typed rs \<Longrightarrow> P rs) \<Longrightarrow> returns (payin_list env f) typed P"
  "(\<And>rs. P rs) \<Longrightarrow> returns (listSweepRetryCandidates env n m) typed P"
  "(\<And>k. R k) \<Longrightarrow> returns (claimNextPayInIndex env) typed R"
  "S () \<Longrightarrow> returns (storeIdempotencyKey env c e i) typed S"
  unfolding payin_findById_def payin_findByExternalId_def payin_list_def listSweepRetryCandidates_def
    claimNextPayInIndex_def storeIdempotencyKey_def
  by (auto intro!: typed.read typed.elsewhere simp: find_scoped_def find_external_def typed_def find_ok list_all_page
      ledgers_alike_def split: option.splits)

lemma type_idempotency [typing_rules]:
  "(\<And>v. pred_option payin_typed v \<Longrightarrow> Q v) \<Longrightarrow> returns (findByIdempotencyKey env c k) typed Q"
  unfolding findByIdempotencyKey_def by (auto intro!: typed.read typing_rules split: option.splits)

lemma type_payin_create [typing_rules]:
  "(pi_tokenAddress r \<noteq> None \<Longrightarrow> payin_typed r) \<Longrightarrow> (\<And>x. payin_typed (fst x) \<Longrightarrow> Q x) \<Longrightarrow>
   returns (payin_createOrGetExisting env r) typed Q"
  unfolding payin_createOrGetExisting_def
  by (auto intro!: typing_rules simp: pred_option_def split: option.splits)

abbreviation payin_response_typed :: "PayInResponse \<Rightarrow> bool" where
  "payin_response_typed p \<equiv> payin_typed (pir_record p)"

lemma type_payin_reading [typing_rules]:
  "payin_typed r \<Longrightarrow> (\<And>p. payin_response_typed p \<Longrightarrow> Q p) \<Longrightarrow> returns (payin_toResponse env r b) typed Q"
  "(\<And>r. payin_typed r \<Longrightarrow> R r) \<Longrightarrow> returns (requirePayIn env i ctx) typed R"
  unfolding payin_toResponse_def requirePayIn_def
  by (auto intro!: typing_rules simp: pred_option_def split: option.splits)

lemma type_payin_responses:
  assumes "\<And>ps. list_all payin_response_typed ps \<Longrightarrow> Q ps" and "list_all payin_typed rs"
  shows "returns (allP (map (\<lambda>r. payin_toResponse env r False) rs)) typed Q"
  by (rule returns_allP [where P = payin_response_typed])
    (use assms in \<open>auto simp: list_all_iff intro!: typing_rules\<close>)

lemma type_payin_lookups [typing_rules]:
  "(\<And>ps. list_all payin_response_typed ps \<Longrightarrow> P ps) \<Longrightarrow> returns (listPayIns env f ctx) typed P"
  "(\<And>p. payin_response_typed p \<Longrightarrow> Q p) \<Longrightarrow> returns (getPayIn env i ctx) typed Q"
  unfolding listPayIns_def getPayIn_def by (auto intro!: typing_rules type_payin_responses)

text \<open>A new pay-in: its addresses come from the configuration, the mnemonic and the invoice hash.\<close>

lemma derived_address_hex: "viem_types env \<Longrightarrow> derivePayInAddress env k = Inr a \<Longrightarrow> hex a"
  by (auto simp: derivePayInAddress_def derivePayInAccount_def viem_facts(3) split: option.splits sum.splits)

lemma router_rail_typed:
  assumes "viem_types env" and "hex_or_null (cid_routerInvoiceId dto)" and "router_rail env dto b = Inr (addr, ivc)"
  shows "hex_or_null addr \<and> hex_or_null ivc"
  using assms router_address_hex [of "cfg env"] viem_facts(2) [OF assms(1)]
  by (auto simp: router_rail_def requirePaymentRouterAddress_def routerInvoiceIdFromExternalId_def
      split: if_splits sum.splits option.splits)

lemma new_payin_typed:
  assumes "hex_or_null (ac_address ac)" and "hex_or_null addr" and "hex_or_null ivc" and "hex dep"
    and "pi_tokenAddress (new_payin env dto ctx ac n mode addr ivc b t e k dep i net s) \<noteq> None"
  shows "payin_typed (new_payin env dto ctx ac n mode addr ivc b t e k dep i net s)"
  using assms by (auto simp: new_payin_def payin_typed_def)

lemma type_createPayIn [typing_rules]:
  assumes "viem_types env" and "hex_or_null (cid_routerInvoiceId dto)" and "\<And>p. payin_response_typed p \<Longrightarrow> Q p"
  shows "returns (createPayIn env dto ctx) typed Q"
proof -
  have "returns (create_new_payin env dto ctx) typed Q"
    unfolding create_new_payin_def Let_def
    using assms(3)
    by (auto intro!: typing_rules new_payin_typed split: option.split
        dest: asset_address_hex router_rail_typed [OF assms(1,2)] derived_address_hex [OF assms(1)])
  then show ?thesis
    unfolding createPayIn_def using assms(3)
    by (auto intro!: typing_rules simp: pred_option_def split: option.splits)
qed

lemma merged_hex:
  assumes "mergeTransfers ts us = Inr vs" and "list_all (hex \<circ> tr_hash) ts" and "list_all (hex \<circ> tr_hash) us"
  shows "list_all (hex \<circ> tr_hash) vs"
proof -
  have "set (dedup_transfers (ts @ us)) \<subseteq> set (ts @ us)" by (rule dedup_keys(3))
  moreover have "set vs = set (dedup_transfers (ts @ us))"
    using assms(1) by (auto simp: mergeTransfers_def Let_def split: if_splits sum.splits)
  ultimately have "set vs \<subseteq> set ts \<union> set us" by simp
  then show ?thesis using assms(2,3) by (auto simp: list_all_iff)
qed

lemma reconcile_patch_typed: "list_all (hex \<circ> tr_hash) ts \<Longrightarrow> payin_patch_typed (reconcile_patch env p ac ts n st b t)"
  by (simp add: reconcile_patch_def payin_patch_typed_def)

lemma plain_payin_patches:
  "payin_patch_typed (swept_patch sweep t)" "payin_patch_typed [PfSweepStatus s, PfSweepFailureReason m]"
  "payin_patch_typed [PfStatus st, PfAcceptedAt ta, PfAcceptanceNote nt, PfConfirmedAt tc]"
  by (simp_all add: swept_patch_def payin_patch_typed_def)

lemmas payin_patches = reconcile_patch_typed plain_payin_patches

lemma type_find_transfers [typing_rules]:
  assumes "viem_types env" and "\<And>ts. list_all (hex \<circ> tr_hash) ts \<Longrightarrow> Q ts"
  shows "returns (findPayInTransfers env r b) typed Q"
  unfolding findPayInTransfers_def using assms by (auto intro!: typing_rules simp: list_all_iff)

lemma type_background [typing_rules]: "Q () \<Longrightarrow> returns (start_background task) typed Q"
  unfolding start_background_def
  by (rule returns_await) (auto elim: typed.same [rotated] simp: ledgers_alike_def)

lemma type_announce [typing_rules]:
  "(\<And>u. Q u) \<Longrightarrow> returns (announce_reconciled env i ctx r u ts n st) typed Q"
  unfolding announce_reconciled_def by (auto intro!: typing_rules)

lemma type_reconcilePayIn [typing_rules]:
  assumes "viem_types env" and "\<And>p. payin_response_typed p \<Longrightarrow> Q p"
  shows "returns (reconcilePayIn env i ctx) typed Q"
  unfolding reconcilePayIn_def Let_def
  using assms
  by (auto intro!: typing_rules payin_patches simp: pred_option_def payin_typed_def split: option.splits
      elim: merged_hex)

lemma type_sweepPayIn [typing_rules]:
  assumes "\<And>p. payin_response_typed p \<Longrightarrow> Q p"
  shows "returns (sweepPayIn env i dto ctx) typed Q"
proof -
  have attempt: "returns (attempt_sweep env i dto ctx r n) typed R"
    if "\<And>x. payin_typed (fst x) \<Longrightarrow> R x" for r n R
    unfolding attempt_sweep_def using that
    by (auto intro!: typing_rules payin_patches simp: pred_option_def split: option.splits)
  have failed: "returns (sweep_failed env i dto ctx e) typed R"
    if "\<And>x. payin_typed (fst x) \<Longrightarrow> R x" for e R
    unfolding sweep_failed_def using that
    by (auto intro!: typing_rules payin_patches simp: pred_option_def split: option.splits)
  show ?thesis
    unfolding sweepPayIn_def using assms
    by (auto intro!: typing_rules attempt failed payin_patches simp: pred_option_def split: option.splits)
qed

lemma type_topups [typing_rules]:
  assumes "viem_types env"
  shows "(\<And>ex. R ex) \<Longrightarrow> returns (send_topup env i a ctx r) typed R"
    and "(\<And>p. payin_response_typed p \<Longrightarrow> Q p) \<Longrightarrow> returns (topUpPayIn env i a ctx) typed Q"
    and "(\<And>p. payin_response_typed p \<Longrightarrow> Q p) \<Longrightarrow> returns (topUpAndSweep env i a n ctx) typed Q"
  unfolding topUpPayIn_def topUpAndSweep_def send_topup_def
  using assms by (auto intro!: typing_rules)

lemma type_accept [typing_rules]:
  "(\<And>p. payin_response_typed p \<Longrightarrow> Q p) \<Longrightarrow> returns (acceptPayIn env i note ctx) typed Q"
  unfolding acceptPayIn_def
  by (auto intro!: typing_rules payin_patches simp: pred_option_def split: option.splits)

lemma type_sweep_jobs [typing_rules]:
  assumes "viem_types env"
  shows "(\<And>n. Q n) \<Longrightarrow> returns (retryPendingSweeps env m ctx) typed Q"
    and "R () \<Longrightarrow> returns (background_sweep env task) typed R"
  unfolding retryPendingSweeps_def background_sweep_def
  using assms by (auto intro!: typing_rules returns_forP [where P = "\<lambda>_. True"] split: BackgroundTask.splits)

section \<open>Settlements\<close>

definition settlement_patch_typed :: "SettlementPatch \<Rightarrow> bool" where
  "settlement_patch_typed p \<longleftrightarrow>
     pred_option hex_or_null (sp_transactionHash p) \<and> pred_option hex_or_null (sp_revealTransactionHash p)"

lemma settlement_patch_keeps:
  "settlement_patch_typed p \<Longrightarrow> settlement_typed r \<Longrightarrow> settlement_typed (apply_settlement_patch (t, p) r)"
  by (auto simp: settlement_patch_typed_def settlement_typed_def apply_settlement_patch_def split: option.split)

lemma type_settlement_update [typing_rules]:
  assumes "settlement_patch_typed p" and "\<And>v. pred_option settlement_typed v \<Longrightarrow> Q v"
  shows "returns (settlement_update env i p) typed Q"
  unfolding settlement_update_def
proof (rule typed.statement)
  fix t w assume "typed w"
  obtain rows ret where u: "sql_update (\<lambda>r. ps_id r = i) (apply_settlement_patch (t, p)) (w_settlements w) = (rows, ret)"
    by fastforce
  note ok = list_all_update [where P = settlement_typed, OF _ settlement_patch_keeps [OF assms(1)] u]
  let ?stmt = "let (rows, ret) = sql_update (\<lambda>r. ps_id r = i) (apply_settlement_patch (t, p)) (w_settlements w)
     in (Inr (find (\<lambda>_. True) ret), w\<lparr>w_settlements := rows\<rparr>)"
  show "typed (snd ?stmt)"
    using \<open>typed w\<close> ok(1) by (simp add: u typed_def)
  show "fst ?stmt = Inr a \<Longrightarrow> Q a" for a
    using \<open>typed w\<close> ok(2) assms(2) by (auto simp: u typed_def)
qed

lemma type_settlement_delete [typing_rules]:
  "Q () \<Longrightarrow> returns (settlement_delete env i) typed Q"
  unfolding settlement_delete_def by (rule typed.statement) (auto simp: typed_def list_all_iff)

lemma type_settlement_reads [typing_rules]:
  "(\<And>v. pred_option settlement_typed v \<Longrightarrow> Q v) \<Longrightarrow> returns (settlement_findById env i c) typed Q"
  "(\<And>rs. list_all settlement_typed rs \<Longrightarrow> P rs) \<Longrightarrow> returns (settlement_list env c n m) typed P"
  "(\<And>r. settlement_typed r \<Longrightarrow> R r) \<Longrightarrow> returns (requireRecord env i ctx) typed R"
  unfolding requireRecord_def settlement_findById_def settlement_list_def
  by (auto intro!: typed.read simp: find_scoped_def typed_def find_ok list_all_page split: option.splits
      dest!: find_okD [where P = settlement_typed])

lemma type_settlement_create [typing_rules]:
  assumes "settlement_typed r" and "\<And>x. settlement_typed (fst x) \<Longrightarrow> Q x"
  shows "returns (settlement_createOrGetExisting env r) typed Q"
proof -
  have stamped: "settlement_typed (r\<lparr>ps_createdAt := t, ps_updatedAt := t\<rparr>)" for t
    using assms(1) by (simp add: settlement_typed_def)
  have inserted: "returns (query env (settlement_insert_stmt r)) typed R"
    if "\<And>v. pred_option settlement_typed v \<Longrightarrow> R v" for R
  proof (rule typed.statement)
    fix t w assume "typed w"
    then have rows: "list_all settlement_typed (w_settlements w)" by (simp add: typed_def)
    show "typed (snd (settlement_insert_stmt r t w))"
      using \<open>typed w\<close> list_all_insert(1) [OF rows stamped]
      by (auto simp: settlement_insert_stmt_def typed_def split: sum.splits prod.splits)
    show "fst (settlement_insert_stmt r t w) = Inr a \<Longrightarrow> R a" for a
      using list_all_insert(2) [OF rows stamped] that
      by (auto simp: settlement_insert_stmt_def split: sum.splits prod.splits)
  qed
  show ?thesis
    unfolding settlement_createOrGetExisting_def
    using assms(2)
    by (auto intro!: inserted typed.read simp: pred_option_def typed_def split: option.splits
        dest!: find_okD [where P = settlement_typed])
qed

text \<open>The settlement id and the commitment are hashes, the counterparty is checksummed by viem.\<close>

definition settlement_response_typed :: "PrivateSettlementResponse \<Rightarrow> bool" where
  "settlement_response_typed p \<longleftrightarrow> hex (psr_settlementId p) \<and> hex (psr_commitment p) \<and> hex (psr_counterparty p) \<and>
     hex_or_null (psr_transactionHash p) \<and> hex_or_null (psr_revealTransactionHash p)"

lemma settlement_response: "settlement_typed r \<Longrightarrow> settlement_response_typed (settlement_toResponse r b)"
  by (simp add: settlement_typed_def settlement_response_typed_def settlement_toResponse_def)

lemma new_settlement_typed:
  "viem_types env \<Longrightarrow> getAddress env a = Inr cp \<Longrightarrow> settlement_typed (new_settlement env dto ctx tk n cp nonce i)"
  by (simp add: new_settlement_def settlement_typed_def computeSettlementId_def computeSettlementCommitment_def
      viem_facts)

lemma type_settlements [typing_rules]:
  assumes "viem_types env"
  shows "(\<And>p. settlement_response_typed p \<Longrightarrow> Q p) \<Longrightarrow> returns (record_settlement env dto ctx) typed Q"
    and "(\<And>ps. list_all settlement_response_typed ps \<Longrightarrow> P ps) \<Longrightarrow> returns (list_settlements env n m ctx) typed P"
    and "(\<And>p. settlement_response_typed p \<Longrightarrow> Q p) \<Longrightarrow> returns (get_settlement env i ctx) typed Q"
    and "(\<And>p. settlement_response_typed p \<Longrightarrow> Q p) \<Longrightarrow> returns (reveal_settlement env i ctx) typed Q"
  unfolding record_settlement_def commit_settlement_def list_settlements_def get_settlement_def reveal_settlement_def
  using assms
  by (auto intro!: typing_rules new_settlement_typed simp: settlement_response settlement_patch_typed_def pred_option_def
      lib_call_def list_all_iff split: option.splits sum.splits)

section \<open>Checkout, Chain Flow, reconciliation\<close>

abbreviation session_typed :: "CheckoutSessionView \<Rightarrow> bool" where
  "session_typed v \<equiv> (\<exists>a. cv_tokenAddress v = Some a \<and> hex a) \<and> hex_or_null (cv_routerAddress v) \<and>
     hex_or_null (cv_invoiceId v) \<and> list_all (hex \<circ> ct_hash) (cv_transactions v)"

lemma toView_typed: "payin_typed r \<Longrightarrow> toView env r = Inr v \<Longrightarrow> session_typed v"
  by (auto simp: toView_def payin_typed_def list_all_iff split: sum.splits)

lemma type_checkout [typing_rules]:
  assumes "viem_types env" and "\<And>v. session_typed v \<Longrightarrow> Q v"
  shows "returns (createSession env cdto) typed Q" and "returns (getSession env i) typed Q"
    and "returns (reconcileSession env i) typed Q"
  unfolding createSession_def getSession_def reconcileSession_def
  using assms(1) by (auto intro!: typing_rules assms(2) dest: toView_typed)

lemma type_first_by [typing_rules]:
  assumes "\<And>v. Q v"
  shows "returns (first_by_externalId env ctx is) typed Q"
  by (induction "is") (auto intro!: typing_rules simp: assms tryGetPayoutByExternalId_def split: option.split)

lemma type_resolve [typing_rules]:
  "(\<And>p. Q p) \<Longrightarrow> returns (resolvePayout env edto ctx) typed Q"
  unfolding resolvePayout_def Let_def by (auto intro!: typing_rules split: option.split)

lemma type_retiro [typing_rules]:
  assumes "viem_types env"
  shows "(\<And>d. toCreatePayoutDto dto = Inr d \<Longrightarrow> hex (cpd_beneficiaryAddress d)) \<Longrightarrow> (\<And>r. Q r) \<Longrightarrow>
      returns (prepararRetiro env dto ctx) typed Q"
    and "(\<And>r. Q r) \<Longrightarrow> returns (autorizarRetiro env edto ctx) typed Q"
    and "(\<And>r. Q r) \<Longrightarrow> returns (consultarEstadoRetiro env edto ctx) typed Q"
  unfolding prepararRetiro_def autorizarRetiro_def consultarEstadoRetiro_def
  using assms by (auto intro!: typing_rules)

lemma type_run [typing_rules]:
  assumes "viem_types env" and "\<And>r. Q r"
  shows "returns (run_reconciliation env ctx) typed Q"
  unfolding run_reconciliation_def reconcile_in_batches_def allSettled_def reconcile_payout_item_def
    reconcile_payin_item_def Let_def
  using assms
  by (auto intro!: typing_rules returns_allP [where P = "\<lambda>_. True"] returns_forP [where P = "\<lambda>_. True"] returns_attempt)

lemma type_tick [typing_rules]:
  "viem_types env \<Longrightarrow> Q () \<Longrightarrow> returns (auto_reconcile_tick env) typed Q"
  unfolding auto_reconcile_tick_def by (auto intro!: typing_rules)

section \<open>Clients, webhooks and reports\<close>

text \<open>These never touch the ledgers; nothing is claimed of what they return.\<close>

lemma type_cache [typing_rules]: "Q () \<Longrightarrow> returns (modify_cache f) typed Q"
  unfolding modify_cache_def
  by (rule returns_await) (auto elim: typed.same [rotated] simp: ledgers_alike_def)

lemma type_client_statements [typing_rules]:
  "(\<And>v. Q v) \<Longrightarrow> returns (client_findById env i) typed Q"
  "(\<And>v. Q v) \<Longrightarrow> returns (findActiveByApiKeyHash env h) typed Q"
  "(\<And>cs. P cs) \<Longrightarrow> returns (client_list env) typed P"
  "(\<And>n. R n) \<Longrightarrow> returns (client_count env) typed R"
  "(\<And>v. Q v) \<Longrightarrow> returns (client_update env i p) typed Q"
  "(\<And>v. Q v) \<Longrightarrow> returns (client_rotateApiKey env i h a) typed Q"
  unfolding client_findById_def findActiveByApiKeyHash_def client_list_def client_count_def client_update_def
    client_rotateApiKey_def Let_def
  by (auto intro!: typed.elsewhere simp: ledgers_alike_def split: prod.splits)

lemma type_clients [typing_rules]:
  "(\<And>x. Q x) \<Longrightarrow> returns (createClient env cdto) typed Q" "(\<And>cs. P cs) \<Longrightarrow> returns (listClients env) typed P"
  "(\<And>c. R c) \<Longrightarrow> returns (getClient env i) typed R" "(\<And>c. R c) \<Longrightarrow> returns (updateClient env i p) typed R"
  "(\<And>x. Q x) \<Longrightarrow> returns (rotateApiKey env i) typed Q" "(\<And>c. S c) \<Longrightarrow> returns (client_canActivate env rq) typed S"
  unfolding createClient_def generateApiKey_def listClients_def getClient_def requireClient_def updateClient_def
    rotateApiKey_def client_canActivate_def resolveActiveClientByApiKey_def Let_def
  by (auto intro!: typing_rules typed.elsewhere simp: client_insert_def Let_def ledgers_alike_def
      split: option.splits prod.splits if_splits)

lemma type_webhook_parts [typing_rules]:
  "Q () \<Longrightarrow> returns (setStatus env i st n m) typed Q" "Q () \<Longrightarrow> returns (reschedule env row n m2) typed Q"
  "Q () \<Longrightarrow> returns (recordDelivery env c row url b n m t) typed Q"
  "(\<And>ds. P ds) \<Longrightarrow> returns (listRecentDeliveries env c n b) typed P"
  "(\<And>rows. R rows) \<Longrightarrow> returns (query env (claim_due n)) typed R"
  unfolding setStatus_def reschedule_def recordDelivery_def listRecentDeliveries_def
  by (auto intro!: typed.elsewhere returns_catchP simp: ledgers_alike_def claim_due_def Let_def split: prod.splits)

lemma type_delivery [typing_rules]:
  "(\<And>v. Q v) \<Longrightarrow> returns (post_event env row c url n) typed Q" "R () \<Longrightarrow> returns (deliverOnce env row) typed R"
proof -
  have post: "returns (post_event env row c url n) typed Q" if "\<And>v. Q v" for c url n Q
    unfolding post_event_def Let_def using that by (auto intro!: typing_rules)
  show "returns (post_event env row c url n) typed Q" if "\<And>v. Q v" using that by (rule post)
  show "returns (deliverOnce env row) typed R" if "R ()"
    unfolding deliverOnce_def Let_def using that
    by (auto intro!: typing_rules returns_attempt post split: option.split sum.split)
qed

lemma type_webhooks [typing_rules]:
  "(\<And>n. Q n) \<Longrightarrow> returns (dispatchDueEvents env n) typed Q" "R () \<Longrightarrow> returns (dispatcher_tick env b) typed R"
  unfolding dispatcher_tick_def dispatchDueEvents_def
  by (auto intro!: typing_rules returns_forP [where P = "\<lambda>_. True"] typed.elsewhere
      simp: ledgers_alike_def claim_due_def Let_def split: prod.splits)

lemma type_reports [typing_rules]:
  "(\<And>r. Q r) \<Longrightarrow> returns (getInstitutionalSummary env i) typed Q" "(\<And>r. P r) \<Longrightarrow> returns (getSweepQueue env) typed P"
  "(\<And>r. R r) \<Longrightarrow> returns (getWebhookDeliveries env i n b) typed R"
  "(\<And>r. S r) \<Longrightarrow> returns (getAuditTrail env i fr to sub mx) typed S"
  unfolding getInstitutionalSummary_def getSweepQueue_def getWebhookDeliveries_def getAuditTrail_def make_report_def
    listForTrail_def Let_def
  by (auto intro!: typing_rules returns_attempt typed.elsewhere
      simp: ledgers_alike_def payout_groups_stmt_def payin_groups_stmt_def)

lemma type_status [typing_rules]:
  "(\<And>b. Q b) \<Longrightarrow> returns (getBalances env) typed Q" "(\<And>l. P l) \<Longrightarrow> returns (getLiveness env) typed P"
  "(\<And>r. rd_status r \<in> {''ready'', ''degraded''} \<Longrightarrow> R r) \<Longrightarrow> returns (getReadiness env) typed R"
  unfolding getBalances_def asset_entry_def getNativeBalance_def getLiveness_def getReadiness_def
    database_getReadiness_def count_clients_def probe_rpc_def getChainId_def Let_def
  by (auto intro!: typing_rules returns_allP [where P = "\<lambda>_. True"] typed.elsewhere simp: ledgers_alike_def)

end
