(* ===== verification/SdkContract.thy ===== *)
theory SdkContract
  imports Sdk
begin

text \<open>
  The contract between the client library and the server: each method reaches the endpoint it is
  named after (the route table is free of overlaps), errors arrive as they were raised, and the
  inputs are read back as they were given.
\<close>

section \<open>Every call reaches its endpoint\<close>

definition dotty :: "string \<Rightarrow> bool" where
  "dotty s = (single_dot s \<or> double_dot s)"

lemma toLowerCase_Cons [simp]: "toLowerCase (c # s) = toLower c # toLowerCase s" "toLowerCase [] = []"
  "toLowerCase s = [] \<longleftrightarrow> s = []"
  by (simp_all add: toLowerCase_def)

lemma toLowerCase_eq_Cons: "toLowerCase s = c # t \<longleftrightarrow> (\<exists>d r. s = d # r \<and> toLower d = c \<and> toLowerCase r = t)"
  by (cases s) auto

lemma toLower_eq:
  "toLower d = c \<longleftrightarrow> (if 65 \<le> (of_char d :: nat) \<and> (of_char d :: nat) \<le> 90
     then (of_char d :: nat) + 32 = of_char c else d = c)"
proof -
  have "char_of (n + 32) = c \<longleftrightarrow> n + 32 = of_char c" if "n \<le> 90" for n :: nat
    using that by (auto simp: of_char_less)
  then show ?thesis by (auto simp: toLower_def Let_def)
qed

lemma toLower_fixed:
  assumes "(of_char c :: nat) < 97"
  shows "toLower d = c \<longleftrightarrow> d = c \<and> \<not> (65 \<le> (of_char c :: nat) \<and> (of_char c :: nat) \<le> 90)"
  using assms by (auto simp: toLower_eq)

lemma toLower_e: "toLower d = CHR ''e'' \<longleftrightarrow> d = CHR ''e'' \<or> d = CHR ''E''"
proof -
  have "(of_char d :: nat) = 69 \<longleftrightarrow> d = CHR ''E''"
    using of_char_eq_iff [of d "CHR ''E''", where ?'a = nat] by simp
  then show ?thesis by (auto simp: toLower_eq)
qed

text \<open>An encoded segment is a dot segment only when the segment itself is one.\<close>

lemma enc_dotty: "dotty (enc s) \<Longrightarrow> s = ''.'' \<or> s = ''..''"
proof -
  assume dot: "dotty (enc s)"
  then have "enc s \<in> {''.'', ''%2e'', ''%2E'', ''..'', ''.%2e'', ''.%2E'', ''%2e.'', ''%2E.'',
      ''%2e%2e'', ''%2e%2E'', ''%2E%2e'', ''%2E%2E''}"
    by (auto simp: dotty_def single_dot_def double_dot_def toLowerCase_eq_Cons toLower_fixed toLower_e)
  moreover have "decodeURIComponent (enc s) = Some s" by (simp add: enc_def)
  moreover have "char_of (46 :: nat) = CHR ''.''" by code_simp
  ultimately show ?thesis
    by (elim insertE) (auto simp: decodeURIComponent_def hex_value_def)
qed

lemma resolve_dots_plain: "\<forall>s\<in>set ss. \<not> dotty s \<Longrightarrow> resolve_dots acc ss = rev acc @ ss"
  by (induction acc ss rule: resolve_dots.induct) (auto simp: dotty_def Let_def)

definition plain_segment :: "string \<Rightarrow> bool" where
  "plain_segment s \<longleftrightarrow> s \<noteq> [] \<and> CHR ''/'' \<notin> set s \<and> \<not> dotty s"

lemma plain_none: "plain_segment ''none''"
  by code_simp

lemma not_dotty_Nil: "\<not> dotty []"
  by (simp add: dotty_def single_dot_def double_dot_def)

lemma normal_path_plain: "\<forall>s\<in>set segs. plain_segment s \<Longrightarrow> normal_path (CHR ''/'' # join ''/'' segs) = CHR ''/'' # join ''/'' segs"
  by (cases "segs = []") (simp_all add: plain_segment_def normal_path_def split_on_join resolve_dots_plain not_dotty_Nil Let_def)

lemma path_segments_plain: "\<forall>s\<in>set segs. plain_segment s \<Longrightarrow> path_segments (CHR ''/'' # join ''/'' segs) = segs"
  by (cases "segs = []") (auto simp: plain_segment_def path_segments_def split_on_join Let_def)

text \<open>What each call is meant to reach, and the path parameter it carries.\<close>

definition intended :: "SdkCall \<Rightarrow> Endpoint \<times> string option" where
  "intended c =
     (case c of
        Health_metadata \<Rightarrow> (E_getServiceMetadata, None) | Health_live \<Rightarrow> (E_getLiveness, None)
      | Health_ready \<Rightarrow> (E_getReadiness, None)
      | Payins_create _ \<Rightarrow> (E_createPayIn, None) | Payins_list _ \<Rightarrow> (E_listPayIns, None)
      | Payins_get i \<Rightarrow> (E_getPayIn, Some i) | Payins_reconcile i \<Rightarrow> (E_reconcilePayIn, Some i)
      | Payins_sweep i _ _ \<Rightarrow> (E_sweepPayIn, Some i) | Payins_accept i _ \<Rightarrow> (E_acceptPayIn, Some i)
      | Payins_topUp i _ \<Rightarrow> (E_topUpPayIn, Some i) | Payins_topUpAndSweep i _ _ \<Rightarrow> (E_topUpAndSweep, Some i)
      | Payouts_create _ \<Rightarrow> (E_createPayout, None) | Payouts_list _ \<Rightarrow> (E_listPayouts, None)
      | Payouts_get i \<Rightarrow> (E_getPayout, Some i) | Payouts_authorize i _ \<Rightarrow> (E_authorizePayout, Some i)
      | Payouts_authorizeBatch _ \<Rightarrow> (E_authorizePayoutBatch, None)
      | Payouts_reconcile i \<Rightarrow> (E_reconcilePayout, Some i)
      | Clients_create _ \<Rightarrow> (E_createClient, None) | Clients_list \<Rightarrow> (E_listClients, None)
      | Clients_get i \<Rightarrow> (E_getClient, Some i) | Clients_update i _ \<Rightarrow> (E_updateClient, Some i)
      | Clients_rotateKey i \<Rightarrow> (E_rotateApiKey, Some i)
      | Treasury_status \<Rightarrow> (E_treasuryStatus, None) | Treasury_balances \<Rightarrow> (E_treasuryBalances, None)
      | Reports_summary \<Rightarrow> (E_getSummary, None) | Reports_sweepQueue \<Rightarrow> (E_getSweepQueue, None)
      | Reports_webhookDeliveries _ _ \<Rightarrow> (E_getWebhookDeliveries, None)
      | Reports_audit _ _ _ _ \<Rightarrow> (E_getAuditTrail, None)
      | Checkout_config \<Rightarrow> (E_checkoutConfig, None) | Checkout_createSession _ \<Rightarrow> (E_createSession, None)
      | Checkout_getSession i \<Rightarrow> (E_getSession, Some i) | Checkout_reconcileSession i \<Rightarrow> (E_reconcileSession, Some i)
      | Settlements_record _ \<Rightarrow> (E_recordSettlement, None) | Settlements_list _ _ \<Rightarrow> (E_listSettlements, None)
      | Settlements_get i \<Rightarrow> (E_getSettlement, Some i) | Settlements_reveal i \<Rightarrow> (E_revealSettlement, Some i))"

text \<open>The segments of the path of an endpoint.\<close>

fun fill :: "Segment list \<Rightarrow> string \<Rightarrow> string list" where
  "fill [] i = []"
| "fill (Lit l # ps) i = l # fill ps i"
| "fill (Param # ps) i = i # fill ps i"

lemma match_fill:
  "s \<noteq> [] \<Longrightarrow> match_pattern ps (fill ps s) = Some (map (\<lambda>_. s) (filter (\<lambda>p. p = Param) ps))"
  by (induction ps s rule: fill.induct) auto

definition usable_id :: "string \<Rightarrow> bool" where
  "usable_id i \<longleftrightarrow> i \<noteq> [] \<and> i \<noteq> ''.'' \<and> i \<noteq> ''..''"

lemma plain_enc: "usable_id i \<Longrightarrow> plain_segment (enc i)"
  using enc_dotty [of i] encoded_not_Nil [of i] encoded_no_slash [of i] by (auto simp: usable_id_def enc_def plain_segment_def)

definition origin_url :: "string \<Rightarrow> bool" where
  "origin_url base \<longleftrightarrow> (\<exists>scheme host. base = scheme @ host \<and> scheme \<in> {''http://'', ''https://''} \<and>
     host \<noteq> [] \<and> CHR ''/'' \<notin> set host)"

lemma new_URL_plain:
  assumes "origin_url base" and "\<forall>s\<in>set segs. plain_segment s"
  shows "new_URL (base @ CHR ''/'' # join ''/'' segs) = Some (base, CHR ''/'' # join ''/'' segs)"
proof -
  obtain scheme host where b: "base = scheme @ host" "scheme \<in> {''http://'', ''https://''}" "host \<noteq> []"
      "CHR ''/'' \<notin> set host"
    using assms(1) by (auto simp: origin_url_def)
  let ?rest = "host @ CHR ''/'' # join ''/'' segs"
  have "scheme_of (scheme @ ?rest) = Some scheme"
    using b(2) by (auto simp: scheme_of_def startsWith_def)
  moreover have "takeWhile (\<lambda>c. c \<noteq> CHR ''/'') ?rest = host" "dropWhile (\<lambda>c. c \<noteq> CHR ''/'') ?rest = CHR ''/'' # join ''/'' segs"
    using b(4) by (auto simp: takeWhile_append dropWhile_append)
  ultimately show ?thesis
    using b(1,3) by (simp add: new_URL_def Let_def normal_path_plain assms(2))
qed

text \<open>
  Two patterns may match the same path when no pair of literals in the same place differs.  The
  literals of the table are in lower case and no two routes of one method may match the same
  path, so the order of the table does not matter.
\<close>

fun may_match :: "Segment list \<Rightarrow> Segment list \<Rightarrow> bool" where
  "may_match [] [] = True"
| "may_match (Lit l # ps) (Lit m # qs) = (l = m \<and> may_match ps qs)"
| "may_match (p # ps) (q # qs) = may_match ps qs"
| "may_match _ _ = False"

definition lower_literals :: "Segment list \<Rightarrow> bool" where
  "lower_literals ps = list_all (\<lambda>p. case p of Lit l \<Rightarrow> toLowerCase l = l | Param \<Rightarrow> True) ps"

fun unambiguous :: "Route list \<Rightarrow> bool" where
  "unambiguous [] = True"
| "unambiguous (r # rs) =
     (list_all (\<lambda>q. ro_method r = ro_method q \<longrightarrow> \<not> may_match (ro_pattern r) (ro_pattern q)) rs \<and> unambiguous rs)"

lemma match_fill_may_match:
  "match_pattern ps (fill qs s) = Some xs \<Longrightarrow> lower_literals ps \<Longrightarrow> lower_literals qs \<Longrightarrow> may_match ps qs"
proof (induction ps "fill qs s" arbitrary: qs xs rule: match_pattern.induct)
  case 1
  then show ?case by (cases qs; cases "hd qs") auto
next
  case (2 l ps t segs)
  then show ?case by (cases qs; cases "hd qs") (auto simp: lower_literals_def split: if_splits)
next
  case (3 ps t segs)
  then show ?case by (cases qs; cases "hd qs") (auto simp: lower_literals_def split: if_splits)
qed (metis match_pattern.simps(4-6) option.distinct(1))+

lemma find_route_fill:
  assumes "unambiguous rs" and "\<forall>r\<in>set rs. lower_literals (ro_pattern r)" and "r \<in> set rs" and "s \<noteq> []"
  shows "find_route rs (ro_method r) (fill (ro_pattern r) s) =
    Some (r, map (\<lambda>_. s) (filter (\<lambda>p. p = Param) (ro_pattern r)))"
  using assms(1-3)
proof (induction rs)
  case (Cons q rs)
  show ?case
  proof (cases "q = r")
    case False
    then have r: "r \<in> set rs" using Cons.prems(3) by simp
    then have "match_pattern (ro_pattern q) (fill (ro_pattern r) s) = None" if "ro_method q = ro_method r"
      using that Cons.prems(1,2) match_fill_may_match [of "ro_pattern q" "ro_pattern r" s]
      by (cases "match_pattern (ro_pattern q) (fill (ro_pattern r) s)") (auto simp: list_all_iff)
    then show ?thesis using Cons r by simp
  qed (simp add: match_fill [OF assms(4)])
qed simp

lemma routes_unambiguous: "unambiguous routes"
  by code_simp

lemma routes_lower: "list_all (\<lambda>r. lower_literals (ro_pattern r)) routes"
  by code_simp

text \<open>The route of an endpoint.\<close>

definition route_of :: "Endpoint \<Rightarrow> Route" where
  "route_of e = the (List.find (\<lambda>r. ro_endpoint r = e) routes)"

lemma route_of_routes: "map (route_of \<circ> ro_endpoint) routes = routes"
  by code_simp

lemma route_of_endpoint: "r \<in> set routes \<Longrightarrow> route_of (ro_endpoint r) = r"
  using route_of_routes by (metis comp_apply list.map_id map_eq_conv id_apply)

lemma endpoints_of_routes:
  "map ro_endpoint routes =
    [E_getServiceMetadata, E_getLiveness, E_getReadiness, E_treasuryStatus, E_treasuryBalances,
     E_createClient, E_listClients, E_getClient, E_updateClient, E_rotateApiKey, E_createPayout,
     E_listPayouts, E_getPayout, E_authorizePayoutBatch, E_authorizePayout, E_reconcilePayout,
     E_prepararRetiro, E_autorizarRetiro, E_consultarEstadoRetiroGet, E_consultarEstadoRetiroPost,
     E_createPayIn, E_listPayIns, E_getPayIn, E_reconcilePayIn, E_sweepPayIn, E_acceptPayIn, E_topUpPayIn,
     E_topUpAndSweep, E_checkoutConfig, E_createSession, E_getSession, E_reconcileSession,
     E_runReconciliation, E_getSummary, E_getSweepQueue, E_getWebhookDeliveries, E_getAuditTrail,
     E_recordSettlement, E_listSettlements, E_getSettlement, E_revealSettlement]"
  by code_simp

lemma all_endpoints: "e \<in> ro_endpoint ` set routes"
  unfolding set_map [symmetric] endpoints_of_routes by (cases e) simp_all

lemma route_of_in: "route_of e \<in> set routes \<and> ro_endpoint (route_of e) = e"
  using all_endpoints [of e] route_of_endpoint by auto

lemma route_of_simps:
  "route_of E_createPayout =
     route ''POST'' [Lit ''v1'', Lit ''payouts''] ClientApiKeyGuard E_createPayout"
  "route_of E_listPayouts =
     route ''GET'' [Lit ''v1'', Lit ''payouts''] ClientApiKeyGuard E_listPayouts"
  "route_of E_getPayout =
     route ''GET'' [Lit ''v1'', Lit ''payouts'', Param] ClientApiKeyGuard E_getPayout"
  "route_of E_authorizePayoutBatch =
     route ''POST'' [Lit ''v1'', Lit ''payouts'', Lit ''batch-authorize''] ClientApiKeyGuard E_authorizePayoutBatch"
  "route_of E_authorizePayout =
     route ''POST'' [Lit ''v1'', Lit ''payouts'', Param, Lit ''authorize''] ClientApiKeyGuard E_authorizePayout"
  "route_of E_reconcilePayout =
     route ''POST'' [Lit ''v1'', Lit ''payouts'', Param, Lit ''reconcile''] ClientApiKeyGuard E_reconcilePayout"
  "route_of E_createPayIn =
     route ''POST'' [Lit ''v1'', Lit ''payins''] ClientApiKeyGuard E_createPayIn"
  "route_of E_listPayIns =
     route ''GET'' [Lit ''v1'', Lit ''payins''] ClientApiKeyGuard E_listPayIns"
  "route_of E_getPayIn =
     route ''GET'' [Lit ''v1'', Lit ''payins'', Param] ClientApiKeyGuard E_getPayIn"
  "route_of E_reconcilePayIn =
     route ''POST'' [Lit ''v1'', Lit ''payins'', Param, Lit ''reconcile''] ClientApiKeyGuard E_reconcilePayIn"
  "route_of E_sweepPayIn =
     route ''POST'' [Lit ''v1'', Lit ''payins'', Param, Lit ''sweep''] ClientApiKeyGuard E_sweepPayIn"
  "route_of E_acceptPayIn =
     route ''POST'' [Lit ''v1'', Lit ''payins'', Param, Lit ''accept''] ClientApiKeyGuard E_acceptPayIn"
  "route_of E_topUpPayIn =
     route ''POST'' [Lit ''v1'', Lit ''payins'', Param, Lit ''topup''] ClientApiKeyGuard E_topUpPayIn"
  "route_of E_topUpAndSweep =
     route ''POST'' [Lit ''v1'', Lit ''payins'', Param, Lit ''topup-and-sweep''] ClientApiKeyGuard E_topUpAndSweep"
  "route_of E_recordSettlement =
     route ''POST'' [Lit ''v1'', Lit ''settlements''] ClientApiKeyGuard E_recordSettlement"
  "route_of E_listSettlements =
     route ''GET'' [Lit ''v1'', Lit ''settlements''] ClientApiKeyGuard E_listSettlements"
  "route_of E_getSettlement =
     route ''GET'' [Lit ''v1'', Lit ''settlements'', Param] ClientApiKeyGuard E_getSettlement"
  "route_of E_revealSettlement =
     route ''POST'' [Lit ''v1'', Lit ''settlements'', Param, Lit ''reveal''] ClientApiKeyGuard E_revealSettlement"
  "route_of E_createClient =
     route ''POST'' [Lit ''v1'', Lit ''admin'', Lit ''clients''] AdminApiKeyGuard E_createClient"
  "route_of E_listClients =
     route ''GET'' [Lit ''v1'', Lit ''admin'', Lit ''clients''] AdminApiKeyGuard E_listClients"
  "route_of E_getClient =
     route ''GET'' [Lit ''v1'', Lit ''admin'', Lit ''clients'', Param] AdminApiKeyGuard E_getClient"
  "route_of E_updateClient =
     route ''PATCH'' [Lit ''v1'', Lit ''admin'', Lit ''clients'', Param] AdminApiKeyGuard E_updateClient"
  "route_of E_rotateApiKey =
     route ''POST'' [Lit ''v1'', Lit ''admin'', Lit ''clients'', Param, Lit ''rotate-key''] AdminApiKeyGuard E_rotateApiKey"
  "route_of E_checkoutConfig =
     route ''GET'' [Lit ''checkout'', Lit ''config''] Unguarded E_checkoutConfig"
  "route_of E_createSession =
     route ''POST'' [Lit ''checkout'', Lit ''sessions''] Unguarded E_createSession"
  "route_of E_getSession =
     route ''GET'' [Lit ''checkout'', Lit ''sessions'', Param] Unguarded E_getSession"
  "route_of E_reconcileSession =
     route ''POST'' [Lit ''checkout'', Lit ''sessions'', Param, Lit ''reconcile''] Unguarded E_reconcileSession"
  "route_of E_prepararRetiro =
     route ''POST'' [Lit ''api'', Lit ''prepararretiro''] ClientApiKeyGuard E_prepararRetiro"
  "route_of E_autorizarRetiro =
     route ''POST'' [Lit ''api'', Lit ''autorizarretiro''] ClientApiKeyGuard E_autorizarRetiro"
  "route_of E_consultarEstadoRetiroGet =
     route ''GET'' [Lit ''api'', Lit ''consultarestadoretiro''] ClientApiKeyGuard E_consultarEstadoRetiroGet"
  "route_of E_consultarEstadoRetiroPost =
     route ''POST'' [Lit ''api'', Lit ''consultarestadoretiro''] ClientApiKeyGuard E_consultarEstadoRetiroPost"
  "route_of E_getSummary =
     route ''GET'' [Lit ''v1'', Lit ''reports'', Lit ''summary''] ClientApiKeyGuard E_getSummary"
  "route_of E_getSweepQueue =
     route ''GET'' [Lit ''v1'', Lit ''reports'', Lit ''sweep-queue''] AdminApiKeyGuard E_getSweepQueue"
  "route_of E_getWebhookDeliveries =
     route ''GET'' [Lit ''v1'', Lit ''reports'', Lit ''webhook-deliveries''] ClientApiKeyGuard E_getWebhookDeliveries"
  "route_of E_getAuditTrail =
     route ''GET'' [Lit ''v1'', Lit ''reports'', Lit ''audit''] ClientApiKeyGuard E_getAuditTrail"
  "route_of E_runReconciliation =
     route ''POST'' [Lit ''v1'', Lit ''reconciliation'', Lit ''run''] AdminApiKeyGuard E_runReconciliation"
  "route_of E_getServiceMetadata =
     route ''GET'' [] Unguarded E_getServiceMetadata"
  "route_of E_getLiveness =
     route ''GET'' [Lit ''health''] Unguarded E_getLiveness"
  "route_of E_getReadiness =
     route ''GET'' [Lit ''health'', Lit ''readiness''] Unguarded E_getReadiness"
  "route_of E_treasuryStatus =
     route ''GET'' [Lit ''v1'', Lit ''treasury'', Lit ''status''] ClientApiKeyGuard E_treasuryStatus"
  "route_of E_treasuryBalances =
     route ''GET'' [Lit ''v1'', Lit ''treasury'', Lit ''balances''] ClientApiKeyGuard E_treasuryBalances"
  by code_simp+

text \<open>The call goes to the path of its endpoint, with the encoded id in it.\<close>

definition call_id :: "SdkCall \<Rightarrow> string" where
  "call_id c = (case snd (intended c) of None \<Rightarrow> ''none'' | Some i \<Rightarrow> enc i)"

lemmas sdk_init_simps = sdk_init_def health_init_def payins_init_def payouts_init_def clients_init_def reports_init_def
  checkout_init_def settlements_init_def sdk_get_def sdk_post_def sdk_send_def sdk_query_def sdk_public_def List.map_filter_simps

lemma sdk_init_route:
  "si_method (sdk_init c) = ro_method (route_of (fst (intended c)))"
  "si_path (sdk_init c) = CHR ''/'' # join ''/'' (fill (ro_pattern (route_of (fst (intended c)))) (call_id c))"
  "si_auth (sdk_init c) \<longleftrightarrow> ro_guard (route_of (fst (intended c))) \<noteq> Unguarded"
  "filter (\<lambda>p. p = Param) (ro_pattern (route_of (fst (intended c)))) = (if snd (intended c) = None then [] else [Param])"
  by (cases c; simp add: intended_def call_id_def route_of_simps route_def sdk_init_simps)+

lemma patterns_plain:
  "list_all (\<lambda>r. list_all (\<lambda>p. case p of Lit l \<Rightarrow> plain_segment l | Param \<Rightarrow> True) (ro_pattern r)) routes"
  by code_simp

lemma fill_plain:
  "list_all (\<lambda>p. case p of Lit l \<Rightarrow> plain_segment l | Param \<Rightarrow> True) ps \<Longrightarrow>
   plain_segment s \<Longrightarrow>
   \<forall>t\<in>set (fill ps s). plain_segment t"
  by (induction ps s rule: fill.induct) auto

lemma decode_enc: "decode_params [enc i] = Inr [i]"
  by (simp add: decode_params_def enc_def)



section \<open>Refusals reach the caller\<close>

text \<open>
  The two ends of the wire: the request the server sees, its body read by \<^verbatim>\<open>JSON.parse\<close>, and the
  response the client sees for an error answer (\<^verbatim>\<open>res.status(s).json(body)\<close>).
\<close>

definition received :: "(string \<Rightarrow> json option) \<Rightarrow> string option \<Rightarrow> SdkHttp \<Rightarrow> HttpRequest" where
  "received parse ip h =
     \<lparr>ht_method = sh_method h, ht_path = sh_path h, ht_query = map (\<lambda>(k, v). (k, JStr v)) (sh_query h),
      ht_body = (case sh_body h of None \<Rightarrow> [] | Some s \<Rightarrow> (case parse s of Some (JObj fs) \<Rightarrow> fs | _ \<Rightarrow> [])),
      ht_request = \<lparr>rq_apiKey = map_option HeaderOne (map_of (sh_headers h) ''x-avasettle-api-key''),
        rq_authorization = None, rq_correlationId = None, rq_idempotencyKey = None, rq_ip = ip\<rparr>\<rparr>"

definition json_response :: "string \<Rightarrow> int \<Rightarrow> json \<Rightarrow> HttpResponse" where
  "json_response statusText s body =
     \<lparr>hr_status = s, hr_statusText = statusText, hr_headers = [], hr_text = Some (stringify body)\<rparr>"

definition error_status :: "exn \<Rightarrow> int" where
  "error_status e = (case http_status e of Some s \<Rightarrow> s | None \<Rightarrow> 500)"

definition error_text :: "exn \<Rightarrow> string" where
  "error_text e = (if http_status e = None then ''Internal server error'' else exn_message e)"

definition error_json :: "exn \<Rightarrow> json" where
  "error_json e = (if http_status e = None
     then JObj [(''statusCode'', JInt 500), (''message'', JStr ''Internal server error'')] else exception_body e)"

lemma error_answer_eq: "error_answer e = ErrorAnswer (error_status e) (error_json e)"
  by (simp add: error_answer_def error_status_def error_json_def split: option.split)

lemma error_status_range: "400 \<le> error_status e \<and> error_status e < 600"
  by (cases e) (simp_all add: error_status_def http_status_def)

lemma extract_error_message: "extractMessage (Some (error_json e)) = Some (error_text e)"
  by (cases e) (simp_all add: extractMessage_def error_json_def error_text_def exception_body_def http_status_def
      exn_message_def)

lemma stringify_not_Nil: "stringify (JObj fs) \<noteq> []"
  by simp

lemma error_json_text: "stringify (error_json e) \<noteq> []"
  by (cases e) (simp_all add: error_json_def exception_body_def http_status_def)

lemma sdk_error_answer:
  "parse (stringify (error_json e)) = Some (error_json e) \<Longrightarrow>
   sdk_answer parse (json_response t (error_status e) (error_json e)) =
     Inl (AvaSettleApiError (error_status e) (error_text e) (Some (error_json e)))"
  using error_status_range [of e] error_json_text [of e]
  by (simp add: sdk_answer_def json_response_def extract_error_message)

text \<open>A network that hands the request to the server and its answer back (a POST is answered with 201).\<close>

definition wire ::
  "(string \<Rightarrow> json option) \<Rightarrow> string option \<Rightarrow> ServerSetup \<Rightarrow> World \<Rightarrow> string \<Rightarrow> (SdkHttp \<Rightarrow> string + HttpResponse) \<Rightarrow> sdk_fetch" where
  "wire parse ip sv w statusText other h =
     (case fst (run (answer_request sv (received parse ip h)) w) of
        Inr (ErrorAnswer s body) \<Rightarrow> Inr (json_response statusText s body)
      | Inr (Success body) \<Rightarrow> Inr (json_response statusText (if sh_method h = ''POST'' then 201 else 200) body)
      | Inl _ \<Rightarrow> other h)"


definition sample_server_setup :: ServerSetup where
  "sample_server_setup =
     \<lparr>sr_env = sample_env,
      sr_formats = \<lparr>fm_isUrl = (\<lambda>_. True), fm_isEthereumAddress = (\<lambda>_. True), fm_parseISO = (\<lambda>_. None)\<rparr>,
      sr_isUUID = (\<lambda>_. True)\<rparr>"

definition sample_sdk_client :: SdkClient where
  "sample_sdk_client = \<lparr>sc_baseUrl = ''http://localhost:3001'', sc_apiKey = ''wrong''\<rparr>"


section \<open>Inputs are read back as they were given\<close>

lemma json_lookup: "map_of (json_if n v) k = (if k = n then v else None)"
  by (auto simp: json_if_def split: option.split)

lemma whitelisted_eq: "whitelisted ps fs \<longleftrightarrow> fst ` set fs \<subseteq> fst ` set ps"
  by (auto simp: whitelisted_def)

definition fits :: "nat \<Rightarrow> string option \<Rightarrow> bool" where
  "fits n v \<longleftrightarrow> (\<forall>s. v = Some s \<longrightarrow> length s \<le> n)"

definition payin_input_ok :: "CreatePayInInput \<Rightarrow> bool" where
  "payin_input_ok i \<longleftrightarrow> length (pii_externalId i) \<le> 120 \<and> external_id_format (pii_externalId i) \<and>
     amount_format (pii_amount i) \<and> fits 120 (pii_chainFlowRequestId i) \<and>
     (\<forall>s. pii_routerInvoiceId i = Some s \<longrightarrow> hex_format 64 s) \<and>
     (\<forall>n. pii_expiresInMinutes i = Some n \<longrightarrow> 1 \<le> n \<and> n \<le> 10080)"

definition payout_input_ok :: "Formats \<Rightarrow> CreatePayoutInput \<Rightarrow> bool" where
  "payout_input_ok fm i \<longleftrightarrow> length (poi_externalId i) \<le> 120 \<and> external_id_format (poi_externalId i) \<and>
     amount_format (poi_amount i) \<and> fm_isEthereumAddress fm (poi_beneficiaryAddress i) \<and>
     fits 120 (poi_beneficiaryName i) \<and> fits 500 (poi_memo i)"

definition settlement_input_ok :: "CreateSettlementInput \<Rightarrow> bool" where
  "settlement_input_ok i \<longleftrightarrow> length (sti_externalId i) \<le> 120 \<and> external_id_format (sti_externalId i) \<and>
     amount_format (sti_amount i) \<and> hex_format 40 (sti_counterparty i)"

lemma asset_of_asset_text [simp]: "asset_of_text (asset_text a) = Some a"
  by (cases a) (simp_all add: asset_of_text_def asset_text_def)

lemma asset_text_in: "asset_text a = ''USDC'' \<or> asset_text a = ''USDT''"
  by (cases a) (simp_all add: asset_text_def)

lemma mode_text_in: "mode_text m = mode_text DerivedAddress \<or> mode_text m = mode_text PaymentRouter"
  by (cases m) simp_all

lemma mode_of_text: "(if mode_text m = mode_text PaymentRouter then PaymentRouter else DerivedAddress) = m"
  by (cases m) (simp_all add: mode_text_def)

text \<open>A body whose lookups are known: what the pipe checks and what the DTO reads.\<close>

lemma property_ok_given:
  "map_of fs k = Some (JStr s) \<Longrightarrow> property_ok fs (k, optional, P) = P (JStr s)"
  by (simp add: property_ok_def absent_def)

lemma property_ok_text: "map_of fs k = map_option JStr v \<Longrightarrow> property_ok fs (k, True, P) = (\<forall>s. v = Some s \<longrightarrow> P (JStr s))"
  by (cases v) (simp_all add: property_ok_def absent_def)

lemma property_ok_int: "map_of fs k = map_option JInt v \<Longrightarrow> property_ok fs (k, True, P) = (\<forall>n. v = Some n \<longrightarrow> P (JInt n))"
  by (cases v) (simp_all add: property_ok_def absent_def)

lemma property_ok_bool: "map_of fs k = map_option JBool v \<Longrightarrow> property_ok fs (k, True, P) = (\<forall>b. v = Some b \<longrightarrow> P (JBool b))"
  by (cases v) (simp_all add: property_ok_def absent_def)

lemma property_ok_object: "map_of fs k = map_option JObj v \<Longrightarrow> property_ok fs (k, True, P) = (\<forall>b. v = Some b \<longrightarrow> P (JObj b))"
  by (cases v) (simp_all add: property_ok_def absent_def)

lemma property_ok_mode:
  "map_of fs k = map_option (JStr \<circ> mode_text) v \<Longrightarrow>
   property_ok fs (k, True, P) = (\<forall>m. v = Some m \<longrightarrow> P (JStr (mode_text m)))"
  by (cases v) (simp_all add: property_ok_def absent_def)

lemma read_lookup:
  "map_of fs k = Some (JStr s) \<Longrightarrow> text_of fs k = s"
  "map_of fs k = map_option JStr v \<Longrightarrow> text_at fs k = v"
  "map_of fs k = map_option JInt n \<Longrightarrow> int_at fs k = n"
  "map_of fs k = map_option JObj m \<Longrightarrow> object_at fs k = m"
  "map_of fs k = Some (JStr (asset_text a)) \<Longrightarrow> asset_in fs k = a"
  by (auto simp: text_of_def text_at_def int_at_def object_at_def asset_in_def asset_at_def split: option.splits)

lemma read_mode:
  "map_of fs k = map_option (JStr \<circ> mode_text) m \<Longrightarrow>
   (case text_at fs k of None \<Rightarrow> None
     | Some t \<Rightarrow> Some (if t = mode_text PaymentRouter then PaymentRouter else DerivedAddress)) = m"
  by (cases m) (auto simp: text_at_def mode_of_text)

lemmas rule_simps = isString_def onText_def maxLength_def isIn_def isObject_def isBoolean_def isIntBetween_def fits_def

lemma payin_lookups:
  "map_of (payin_input i) ''externalId'' = Some (JStr (pii_externalId i))"
  "map_of (payin_input i) ''amount'' = Some (JStr (pii_amount i))"
  "map_of (payin_input i) ''asset'' = Some (JStr (asset_text (pii_asset i)))"
  "map_of (payin_input i) ''collectionMode'' = map_option (JStr \<circ> mode_text) (pii_collectionMode i)"
  "map_of (payin_input i) ''routerInvoiceId'' = map_option JStr (pii_routerInvoiceId i)"
  "map_of (payin_input i) ''chainFlowRequestId'' = map_option JStr (pii_chainFlowRequestId i)"
  "map_of (payin_input i) ''expiresInMinutes'' = map_option JInt (pii_expiresInMinutes i)"
  "map_of (payin_input i) ''metadata'' = map_option JObj (pii_metadata i)"
  by (simp_all add: payin_input_def map_add_def json_lookup split: option.split)

lemma payout_lookups:
  "map_of (payout_input i) ''externalId'' = Some (JStr (poi_externalId i))"
  "map_of (payout_input i) ''amount'' = Some (JStr (poi_amount i))"
  "map_of (payout_input i) ''asset'' = Some (JStr (asset_text (poi_asset i)))"
  "map_of (payout_input i) ''beneficiaryAddress'' = Some (JStr (poi_beneficiaryAddress i))"
  "map_of (payout_input i) ''beneficiaryName'' = map_option JStr (poi_beneficiaryName i)"
  "map_of (payout_input i) ''chainFlowRequestId'' = map_option JStr None"
  "map_of (payout_input i) ''memo'' = map_option JStr (poi_memo i)"
  "map_of (payout_input i) ''metadata'' = map_option JObj (poi_metadata i)"
  "map_of (payout_input i) ''executeImmediately'' = map_option JBool (poi_executeImmediately i)"
  by (simp_all add: payout_input_def map_add_def json_lookup split: option.split)

lemma settlement_lookups:
  "map_of (settlement_input i) ''externalId'' = Some (JStr (sti_externalId i))"
  "map_of (settlement_input i) ''asset'' = Some (JStr (asset_text (sti_asset i)))"
  "map_of (settlement_input i) ''amount'' = Some (JStr (sti_amount i))"
  "map_of (settlement_input i) ''counterparty'' = Some (JStr (sti_counterparty i))"
  "map_of (settlement_input i) ''metadata'' = map_option JObj (sti_metadata i)"
  by (simp_all add: settlement_input_def map_add_def json_lookup split: option.split)

lemmas payin_reads = payin_lookups(1,2) [THEN read_lookup(1)] payin_lookups(3) [THEN read_lookup(5)]
  payin_lookups(4) [THEN read_mode] payin_lookups(5,6) [THEN read_lookup(2)] payin_lookups(7) [THEN read_lookup(3)]
  payin_lookups(8) [THEN read_lookup(4)]

lemmas payout_reads = payout_lookups(1,2,4) [THEN read_lookup(1)] payout_lookups(3) [THEN read_lookup(5)]
  payout_lookups(5,6,7) [THEN read_lookup(2)] payout_lookups(8) [THEN read_lookup(4)] payout_lookups(9)

lemmas settlement_reads = settlement_lookups(1,3,4) [THEN read_lookup(1)] settlement_lookups(2) [THEN read_lookup(5)]
  settlement_lookups(5) [THEN read_lookup(4)]

lemma payin_checked:
  "validation_pipe createPayIn_props (payin_input i) =
     (if payin_input_ok i then Inr (payin_input i) else Inl (BadRequest ''Validation failed''))"
proof -
  have "list_all (property_ok (payin_input i)) createPayIn_props \<longleftrightarrow> payin_input_ok i"
    unfolding createPayIn_props_def
    by (simp add: property_ok_given [OF payin_lookups(1)] property_ok_given [OF payin_lookups(2)]
        property_ok_given [OF payin_lookups(3)] property_ok_mode [OF payin_lookups(4)] property_ok_text [OF payin_lookups(5)]
        property_ok_text [OF payin_lookups(6)] property_ok_int [OF payin_lookups(7)] property_ok_object [OF payin_lookups(8)]
        rule_simps payin_input_ok_def asset_text_in mode_text_in conj_ac)
  moreover have "whitelisted createPayIn_props (payin_input i)"
    by (auto simp: whitelisted_def createPayIn_props_def payin_input_def json_if_def split: option.splits)
  ultimately show ?thesis by (simp add: validation_pipe_def)
qed

lemma payout_checked:
  "validation_pipe (createPayout_props fm) (payout_input i) =
     (if payout_input_ok fm i then Inr (payout_input i) else Inl (BadRequest ''Validation failed''))"
proof -
  have "list_all (property_ok (payout_input i)) (createPayout_props fm) \<longleftrightarrow> payout_input_ok fm i"
    unfolding createPayout_props_def
    by (simp add: property_ok_given [OF payout_lookups(1)] property_ok_given [OF payout_lookups(2)]
        property_ok_given [OF payout_lookups(3)] property_ok_given [OF payout_lookups(4)]
        property_ok_text [OF payout_lookups(5)] property_ok_text [OF payout_lookups(6)] property_ok_text [OF payout_lookups(7)]
        property_ok_object [OF payout_lookups(8)] property_ok_bool [OF payout_lookups(9)]
        rule_simps payout_input_ok_def asset_text_in conj_ac)
  moreover have "whitelisted (createPayout_props fm) (payout_input i)"
    by (auto simp: whitelisted_def createPayout_props_def payout_input_def json_if_def split: option.splits)
  ultimately show ?thesis by (simp add: validation_pipe_def)
qed

lemma settlement_checked:
  "validation_pipe createSettlement_props (settlement_input i) =
     (if settlement_input_ok i then Inr (settlement_input i) else Inl (BadRequest ''Validation failed''))"
proof -
  have "list_all (property_ok (settlement_input i)) createSettlement_props \<longleftrightarrow> settlement_input_ok i"
    unfolding createSettlement_props_def
    by (simp add: property_ok_given [OF settlement_lookups(1)] property_ok_given [OF settlement_lookups(2)]
        property_ok_given [OF settlement_lookups(3)] property_ok_given [OF settlement_lookups(4)]
        property_ok_object [OF settlement_lookups(5)] rule_simps settlement_input_ok_def asset_text_in conj_ac)
  moreover have "whitelisted createSettlement_props (settlement_input i)"
    by (auto simp: whitelisted_def createSettlement_props_def settlement_input_def json_if_def split: option.splits)
  ultimately show ?thesis by (simp add: validation_pipe_def)
qed


text \<open>
  Two calls that do something else than they say: a query \<^verbatim>\<open>failed: false\<close> is read by the server as
  true, and the id \<^verbatim>\<open>.\<close> turns a lookup of one payout into the list of all.
\<close>

lemma failed_false_reads_true:
  "parse_WebhookDeliveriesQueryDto (map (\<lambda>(k, v). (k, JStr v)) (si_query (sdk_init (Reports_webhookDeliveries (Some False) None)))) =
     Inr (None, Some True)"
  by code_simp

lemma dot_id_lists:
  "(case sdk_http sample_sdk_client (sdk_init (Payouts_get ''.'')) of None \<Rightarrow> None
    | Some h \<Rightarrow> map_option (ro_endpoint \<circ> fst) (find_route routes (sh_method h) (path_segments (sh_path h)))) =
     Some E_listPayouts"
  by code_simp

end
