(* ===== verification/SdkAnswers.thy ===== *)
theory SdkAnswers
  imports WellTyped SdkContract
begin

text \<open>
  The casts of the client library are sound: what the server answers to a call conforms to the
  type the library declares for it, in every interleaving with other requests and jobs, but for
  three methods whose declared type the server never meets.
\<close>

section \<open>Bodies of well-typed records conform\<close>

lemma hex_null_conforms: "conforms (TsNullable TsHex) (jopt v) \<longleftrightarrow> hex_or_null v"
  by (auto simp: null_conforms pred_option_def)

lemmas body_rules = conforms_object hex_null_conforms enum_conforms null_conforms(1-3,5) plain_conforms

lemma payout_conforms: "payout_response_typed p \<Longrightarrow> conforms Payout_t (payout_json p)"
  by (simp add: Payout_t_def payout_json_def payout_fields_def payout_typed_def body_rules)

lemma payin_conforms: "payin_response_typed p \<Longrightarrow> conforms PayIn_t (payin_json p)"
  by (auto simp add: PayIn_t_def payin_json_def payin_fields_def payin_typed_def body_rules)

lemma settlement_conforms: "settlement_response_typed p \<Longrightarrow> conforms PrivateSettlement_t (settlement_json p)"
  by (simp add: PrivateSettlement_t_def settlement_json_def settlement_response_typed_def body_rules)

lemma client_conforms:
  "conforms Client_t (client_json c)" "conforms ClientWithApiKey_t (client_key_json x)"
  by (simp_all add: Client_t_def ClientWithApiKey_t_def Client_props_def client_json_def client_key_json_def
      client_fields_def body_rules)

lemma session_conforms: "session_typed v \<Longrightarrow> conforms CheckoutSession_t (session_json v)"
  by (auto simp: CheckoutSession_t_def session_json_def body_rules list_all_iff)

lemma config_conforms:
  assumes "getConfig pe = Inr c"
  shows "conforms CheckoutConfig_t (checkout_config_json c)"
proof -
  have "hex_or_null (cc_routerAddress c)" "hex_or_null (cc_tokenAddress c)"
    using assms by (auto simp: getConfig_def dest: router_address_hex asset_address_hex split: sum.splits)
  then show ?thesis by (simp add: CheckoutConfig_t_def checkout_config_json_def body_rules)
qed

lemma readiness_conforms: "rd_status r \<in> {''ready'', ''degraded''} \<Longrightarrow> conforms Readiness_t (readiness_json r)"
  by (auto simp: Readiness_t_def readiness_json_def checks_json_def body_rules conforms.simps(6))

lemma list_conforms:
  "list_all P xs \<Longrightarrow> (\<And>x. P x \<Longrightarrow> conforms t (encode x)) \<Longrightarrow> conforms (TsArray t) (list_json encode xs)"
  by (auto simp: list_json_def body_rules list_all_iff)

lemma record_conforms:
  "conforms (TsRecord TsUnknown) (metadata_json m)" "conforms (TsRecord TsUnknown) (summary_json s)"
  "conforms (TsRecord TsUnknown) (report_json name item r)"
  "conforms (TsObject [needs ''status'' TsString]) (liveness_json l)"
  by (simp_all add: metadata_json_def summary_json_def report_json_def liveness_json_def Let_def body_rules)

text \<open>The three answers that never conform: objects of another shape, and an object for an array.\<close>

lemma mismatches:
  "\<not> conforms TreasuryStatus_t (treasury_status_json s)" "\<not> conforms TreasuryBalances_t (treasury_balances_json b)"
  "\<not> conforms (TsArray TsUnknown) (report_json name item r)"
  by (simp_all add: TreasuryStatus_t_def treasury_status_json_def TreasuryBalances_t_def treasury_balances_json_def
      report_json_def conforms.simps)

section \<open>Validated inputs are well typed\<close>

definition address_check :: "Formats \<Rightarrow> bool" where
  "address_check fm \<longleftrightarrow> (\<forall>a. fm_isEthereumAddress fm a \<longrightarrow> hex a)"

lemma map_sum_InrD: "map_sum id f r = Inr y \<Longrightarrow> \<exists>x. r = Inr x \<and> y = f x"
  by (cases r) auto

lemma pipe_checked:
  "validation_pipe ps fs = Inr fs' \<Longrightarrow> fs' = fs \<and> (\<forall>p\<in>set ps. property_ok fs p)"
  by (auto simp: validation_pipe_def list_all_iff split: if_splits)

lemma optional_text:
  assumes "validation_pipe ps fs = Inr fs'" and "(k, True, onText P) \<in> set ps" and "text_at fs' k = Some s"
  shows "P s"
proof -
  have "property_ok fs (k, True, onText P)" "fs' = fs" using pipe_checked [OF assms(1)] assms(2) by auto
  then show ?thesis
    using assms(3) by (auto simp: property_ok_def absent_def text_at_def onText_def split: option.splits json.splits if_splits)
qed

lemma required_text:
  assumes "validation_pipe ps fs = Inr fs'" and "(k, False, onText P) \<in> set ps"
  shows "P (text_of fs' k)"
proof -
  have "property_ok fs (k, False, onText P)" "fs' = fs" using pipe_checked [OF assms(1)] assms(2) by auto
  then show ?thesis
    by (auto simp: property_ok_def absent_def text_of_def text_at_def onText_def split: option.splits json.splits if_splits)
qed

lemma payout_dto_typed:
  assumes "address_check fm" and "parse_CreatePayoutDto fm body = Inr d"
  shows "hex (cpd_beneficiaryAddress d)"
proof -
  obtain fs where fs: "validation_pipe (createPayout_props fm) body = Inr fs"
      "cpd_beneficiaryAddress d = text_of fs ''beneficiaryAddress''"
    using assms(2) by (auto simp: parse_CreatePayoutDto_def dest!: map_sum_InrD)
  then show ?thesis
    using required_text [OF fs(1), of "''beneficiaryAddress''" "fm_isEthereumAddress fm"] assms(1)
    by (auto simp: createPayout_props_def address_check_def)
qed

lemma payin_dto_typed:
  assumes "parse_CreatePayInDto body = Inr d"
  shows "hex_or_null (cid_routerInvoiceId d)"
proof -
  obtain fs where fs: "validation_pipe createPayIn_props body = Inr fs"
      "cid_routerInvoiceId d = text_at fs ''routerInvoiceId''"
    using assms by (auto simp: parse_CreatePayInDto_def dest!: map_sum_InrD)
  then show ?thesis
    using optional_text [OF fs(1), of "''routerInvoiceId''" "hex_format 64"]
    by (auto simp: createPayIn_props_def hex_format_def pred_option_def)
qed

lemma retiro_dto_typed:
  assumes "address_check fm" and "parse_ChainFlowRetiroDto fm body = Inr dto" and "toCreatePayoutDto dto = Inr d"
  shows "hex (cpd_beneficiaryAddress d)"
proof -
  obtain ps fs where fs: "validation_pipe ps body = Inr fs"
      "cf_tcCuentaDestino dto = text_at fs ''tcCuentaDestino''" "cf_beneficiaryAddress dto = text_at fs ''beneficiaryAddress''"
      "(''tcCuentaDestino'', True, onText (fm_isEthereumAddress fm)) \<in> set ps"
      "(''beneficiaryAddress'', True, onText (fm_isEthereumAddress fm)) \<in> set ps"
    using assms(2) unfolding parse_ChainFlowRetiroDto_def by (force dest!: map_sum_InrD)
  then have "hex_or_null (cf_tcCuentaDestino dto)" "hex_or_null (cf_beneficiaryAddress dto)"
    using optional_text [OF fs(1)] assms(1) by (auto simp: address_check_def pred_option_def)
  then show ?thesis
    using assms(3)
    by (auto simp: toCreatePayoutDto_def Let_def truthy_def pred_option_def split: if_splits sum.splits option.splits)
qed

section \<open>Every handler answers as declared\<close>

text \<open>The methods whose declared result no answer of the server conforms to.\<close>

definition misdeclared :: "SdkCall \<Rightarrow> bool" where
  "misdeclared c = (case c of Treasury_status \<Rightarrow> True | Treasury_balances \<Rightarrow> True | Reports_audit _ _ _ _ \<Rightarrow> True
     | _ \<Rightarrow> False)"

definition as_declared :: "Endpoint \<Rightarrow> json \<Rightarrow> bool" where
  "as_declared e =
     (if e \<in> {E_createPayout, E_getPayout, E_authorizePayout, E_reconcilePayout} then conforms Payout_t
      else if e \<in> {E_listPayouts, E_authorizePayoutBatch} then conforms (TsArray Payout_t)
      else if e \<in> {E_createPayIn, E_getPayIn, E_reconcilePayIn, E_sweepPayIn, E_acceptPayIn, E_topUpPayIn, E_topUpAndSweep}
        then conforms PayIn_t
      else if e = E_listPayIns then conforms (TsArray PayIn_t)
      else if e \<in> {E_recordSettlement, E_getSettlement, E_revealSettlement} then conforms PrivateSettlement_t
      else if e = E_listSettlements then conforms (TsArray PrivateSettlement_t)
      else if e \<in> {E_getClient, E_updateClient} then conforms Client_t
      else if e \<in> {E_createClient, E_rotateApiKey} then conforms ClientWithApiKey_t
      else if e = E_listClients then conforms (TsArray Client_t)
      else if e \<in> {E_createSession, E_getSession, E_reconcileSession} then conforms CheckoutSession_t
      else if e = E_checkoutConfig then conforms CheckoutConfig_t
      else if e = E_getReadiness then conforms Readiness_t
      else if e = E_getLiveness then conforms (TsObject [needs ''status'' TsString])
      else if e \<in> {E_getServiceMetadata, E_getSummary, E_getSweepQueue, E_getWebhookDeliveries}
        then conforms (TsRecord TsUnknown)
      else if e = E_treasuryStatus then (\<lambda>b. \<not> conforms TreasuryStatus_t b)
      else if e = E_treasuryBalances then (\<lambda>b. \<not> conforms TreasuryBalances_t b)
      else if e = E_getAuditTrail then (\<lambda>b. \<not> conforms (TsArray TsUnknown) b)
      else (\<lambda>_. True))"

lemma as_declared_call:
  "as_declared (fst (intended c)) body \<Longrightarrow> conforms (declared c) body \<longleftrightarrow> \<not> misdeclared c"
  by (cases c) (simp_all add: as_declared_def intended_def declared_def misdeclared_def)

lemma type_reply: "returns (reply encode p) I Q \<longleftrightarrow> returns p I (\<lambda>a. Q (encode a))"
  by (simp add: reply_def)

lemma type_validated:
  "returns (validated encode dto h) I Q \<longleftrightarrow> (\<forall>d. dto = Inr d \<longrightarrow> returns (h d) I (\<lambda>a. Q (encode a)))"
  by (simp add: validated_def type_reply)

lemmas handler_rules = typing_rules payout_conforms payin_conforms settlement_conforms client_conforms session_conforms
  config_conforms readiness_conforms record_conforms mismatches list_conforms [of payout_response_typed]
  list_conforms [of payin_response_typed] list_conforms [of settlement_response_typed]

lemma type_payout_handlers:
  assumes "viem_types (ca_env c)" and "address_check (ca_formats c)"
  shows "returns (payouts_createPayout c) typed (conforms Payout_t)"
    and "returns (payouts_listPayouts c) typed (conforms (TsArray Payout_t))"
    and "returns (payouts_getPayout c i) typed (conforms Payout_t)"
    and "returns (payouts_authorizePayoutBatch c) typed (conforms (TsArray Payout_t))"
    and "returns (payouts_authorizePayout c i) typed (conforms Payout_t)"
    and "returns (payouts_reconcilePayout c i) typed (conforms Payout_t)"
  unfolding payouts_createPayout_def payouts_listPayouts_def payouts_getPayout_def payouts_authorizePayoutBatch_def
    payouts_authorizePayout_def payouts_reconcilePayout_def type_validated type_reply
  using assms by (auto intro!: handler_rules intro: payout_dto_typed)

lemma type_payin_handlers:
  assumes "viem_types (ca_env c)"
  shows "returns (payins_createPayIn c) typed (conforms PayIn_t)"
    and "returns (payins_listPayIns c) typed (conforms (TsArray PayIn_t))"
    and "returns (payins_getPayIn c i) typed (conforms PayIn_t)"
    and "returns (payins_reconcilePayIn c i) typed (conforms PayIn_t)"
    and "returns (payins_sweepPayIn c i) typed (conforms PayIn_t)"
    and "returns (payins_acceptPayIn c i) typed (conforms PayIn_t)"
    and "returns (payins_topUpPayIn c i) typed (conforms PayIn_t)"
    and "returns (payins_topUpAndSweep c i) typed (conforms PayIn_t)"
  unfolding payins_createPayIn_def payins_listPayIns_def payins_getPayIn_def payins_reconcilePayIn_def
    payins_sweepPayIn_def payins_acceptPayIn_def payins_topUpPayIn_def payins_topUpAndSweep_def type_validated type_reply
  using assms by (auto intro!: handler_rules intro: payin_dto_typed)

lemma type_settlement_handlers:
  assumes "viem_types (ca_env c)"
  shows "returns (settlements_record c) typed (conforms PrivateSettlement_t)"
    and "returns (settlements_list c) typed (conforms (TsArray PrivateSettlement_t))"
    and "returns (settlements_get c i) typed (conforms PrivateSettlement_t)"
    and "returns (settlements_reveal c i) typed (conforms PrivateSettlement_t)"
  unfolding settlements_record_def settlements_list_def settlements_get_def settlements_reveal_def
    type_validated type_reply
  using assms by (auto intro!: handler_rules)

lemma type_client_handlers:
  "returns (clients_createClient c) typed (conforms ClientWithApiKey_t)"
  "returns (clients_listClients c) typed (conforms (TsArray Client_t))"
  "returns (clients_getClient c i) typed (conforms Client_t)"
  "returns (clients_updateClient c i) typed (conforms Client_t)"
  "returns (clients_rotateApiKey c i) typed (conforms ClientWithApiKey_t)"
  unfolding clients_createClient_def clients_listClients_def clients_getClient_def clients_updateClient_def
    clients_rotateApiKey_def type_validated type_reply
  by (auto intro!: handler_rules list_conforms [of "\<lambda>_. True"] simp: type_validated list_all_iff)

lemma type_checkout_handlers:
  assumes "viem_types (ca_env c)"
  shows "returns (checkout_getConfig c) typed (conforms CheckoutConfig_t)"
    and "returns (checkout_createSession c) typed (conforms CheckoutSession_t)"
    and "returns (checkout_getSession c i) typed (conforms CheckoutSession_t)"
    and "returns (checkout_reconcileSession c i) typed (conforms CheckoutSession_t)"
  unfolding checkout_getConfig_def checkout_createSession_def checkout_getSession_def checkout_reconcileSession_def
    type_validated type_reply
  using assms by (auto intro!: handler_rules)

lemma type_status_handlers:
  "returns (app_getServiceMetadata c) typed (conforms (TsRecord TsUnknown))"
  "returns (health_getLiveness c) typed (conforms (TsObject [needs ''status'' TsString]))"
  "returns (health_getReadiness c) typed (conforms Readiness_t)"
  "returns (treasury_getStatus c) typed (\<lambda>b. \<not> conforms TreasuryStatus_t b)"
  "returns (treasury_getBalances c) typed (\<lambda>b. \<not> conforms TreasuryBalances_t b)"
  "returns (reports_getSummary c) typed (conforms (TsRecord TsUnknown))"
  "returns (reports_getSweepQueue c) typed (conforms (TsRecord TsUnknown))"
  "returns (reports_getWebhookDeliveries c) typed (conforms (TsRecord TsUnknown))"
  "returns (reports_getAuditTrail c) typed (\<lambda>b. \<not> conforms (TsArray TsUnknown) b)"
  unfolding app_getServiceMetadata_def health_getLiveness_def health_getReadiness_def treasury_getStatus_def
    treasury_getBalances_def reports_getSummary_def reports_getSweepQueue_def reports_getWebhookDeliveries_def
    reports_getAuditTrail_def type_validated type_reply
  by (auto intro!: handler_rules)

lemma type_other_handlers:
  assumes "viem_types (ca_env c)" and "address_check (ca_formats c)"
  shows "returns (chainFlow_prepararRetiro c) typed (\<lambda>_. True)"
    and "returns (chainFlow_autorizarRetiro c) typed (\<lambda>_. True)"
    and "returns (chainFlow_consultarEstadoRetiroGet c) typed (\<lambda>_. True)"
    and "returns (chainFlow_consultarEstadoRetiroPost c) typed (\<lambda>_. True)"
    and "returns (reconciliation_run c) typed (\<lambda>_. True)"
  unfolding chainFlow_prepararRetiro_def chainFlow_autorizarRetiro_def chainFlow_consultarEstadoRetiroGet_def
    chainFlow_consultarEstadoRetiroPost_def reconciliation_run_def type_validated type_reply
  using assms by (auto intro!: handler_rules intro: retiro_dto_typed)

lemma type_handler:
  assumes "viem_types (ca_env c)" and "address_check (ca_formats c)"
  shows "returns (handler e c i) typed (as_declared e)"
  by (cases e) (simp_all add: handler_def as_declared_def type_payout_handlers [OF assms]
      type_payin_handlers [OF assms(1)] type_settlement_handlers [OF assms(1)] type_client_handlers
      type_checkout_handlers [OF assms(1)] type_status_handlers type_other_handlers [OF assms])

section \<open>The server with its timers\<close>

text \<open>Everything that runs in a server process: requests and the ticks of the three timers.\<close>

datatype Job = HttpJob ServerSetup HttpRequest | ReconcileJob Env | DispatchJob Env bool | SweepJob Env BackgroundTask

fun job :: "Job \<Rightarrow> Answer option io" where
  "job (HttpJob sv r) = bindP (answer_request sv r) (\<lambda>a. Ret (Some a))"
| "job (ReconcileJob env) = bindP (auto_reconcile_tick env) (\<lambda>_. Ret None)"
| "job (DispatchJob env running) = bindP (dispatcher_tick env running) (\<lambda>_. Ret None)"
| "job (SweepJob env task) = bindP (background_sweep env task) (\<lambda>_. Ret None)"

fun typed_libraries :: "Job \<Rightarrow> bool" where
  "typed_libraries (HttpJob sv r) \<longleftrightarrow> viem_types (sr_env sv) \<and> address_check (sr_formats sv)"
| "typed_libraries (ReconcileJob env) \<longleftrightarrow> viem_types env"
| "typed_libraries (DispatchJob env running) \<longleftrightarrow> True"
| "typed_libraries (SweepJob env task) \<longleftrightarrow> viem_types env"

text \<open>The successful answers of a job are as declared for the endpoint its request is routed to.\<close>

fun job_answers :: "Job \<Rightarrow> Answer option \<Rightarrow> bool" where
  "job_answers (HttpJob sv r) (Some (Success body)) \<longleftrightarrow>
     (case find_route routes (ht_method r) (path_segments (ht_path r)) of
        None \<Rightarrow> False | Some (rt, raw) \<Rightarrow> as_declared (ro_endpoint rt) body)"
| "job_answers j a \<longleftrightarrow> True"

lemma type_guard: "returns (run_guard env g r) typed (\<lambda>_. True)"
  by (cases g) (auto simp: run_guard_def intro!: typing_rules)

lemma type_route_request:
  assumes "viem_types (sr_env sv)" and "address_check (sr_formats sv)"
  shows "returns (route_request sv r) typed (\<lambda>body. job_answers (HttpJob sv r) (Some (Success body)))"
  unfolding route_request_def
  using assms by (auto intro!: returns_mono [OF type_guard] type_handler split: option.split prod.split)

lemma type_job: "typed_libraries j \<Longrightarrow> returns (job j) typed (job_answers j)"
proof (induction j rule: job.induct)
  case (1 sv r)
  have "job_answers (HttpJob sv r) (Some (error_answer e))" for e
    by (simp add: error_answer_def split: option.split)
  with 1 show ?case
    unfolding job.simps answer_request_def
    by (auto intro!: returns_catchP returns_mono [OF type_route_request] simp del: job_answers.simps(1))
qed (auto intro!: typing_rules)

text \<open>
  C34: The casts of the client library are sound.  The library casts the JSON of an answer to the type
  its method declares and never checks it.  While any requests and timers run at the same time, on any
  servers with any failures, every successful answer of the endpoint a method calls conforms to the
  declared type, unless the method is the status or the balances of the treasury or the audit report:
  their answers never conform.  The ledgers stay well typed.  Assumed: viem returns what its types
  promise, and the address check admits only texts that begin with 0x.
\<close>

theorem sdk_answers_typed:
  assumes "\<And>j. j \<in> set jobs \<Longrightarrow> typed_libraries j" and "typed w"
    and "pool_run (map job jobs) w tr ps w'"
    and "k < length jobs" and "jobs ! k = HttpJob sv r" and "ps ! k = Ret (Some (Success body))"
    and "find_route routes (ht_method r) (path_segments (ht_path r)) = Some (rt, raw)"
    and "ro_endpoint rt = fst (intended c)"
  shows "(conforms (declared c) body \<longleftrightarrow> \<not> misdeclared c) \<and> typed w'"
proof -
  have "returns (map job jobs ! i) typed (job_answers (jobs ! i))" if "i < length (map job jobs)" for i
    using that assms(1) by (auto intro: type_job)
  note answers = pool_returns [OF assms(3) assms(2) this]
  then have "job_answers (jobs ! k) (Some (Success body))" using assms(4,6) by fastforce
  then have "as_declared (fst (intended c)) body" using assms(5,7,8) by simp
  with answers show ?thesis by (simp add: as_declared_call)
qed

text \<open>A payer looks at the checkout session of the sample pay-in while the reconciliation timer ticks.\<close>

definition hex_setup :: ServerSetup where
  "hex_setup =
     \<lparr>sr_env = sample_env\<lparr>mnemonicToAccount := \<lambda>m a i. ''0x'' @ show_int i,
        getAddress := \<lambda>a. if startsWith a ''0x'' then Inr a else Inl ''Address is invalid.''\<rparr>,
      sr_formats = \<lparr>fm_isUrl = (\<lambda>_. True), fm_isEthereumAddress = (\<lambda>a. startsWith a ''0x''), fm_parseISO = (\<lambda>_. None)\<rparr>,
      sr_isUUID = (\<lambda>_. True)\<rparr>"

definition session_request :: HttpRequest where
  "session_request =
     \<lparr>ht_method = ''GET'', ht_path = ''/checkout/sessions/q1'', ht_query = [], ht_body = [],
      ht_request = \<lparr>rq_apiKey = None, rq_authorization = None, rq_correlationId = None, rq_idempotencyKey = None,
        rq_ip = None\<rparr>\<rparr>"

theorem sdk_answers_typed_witness:
  "\<exists>tr ps w' body. pool_run (map job [HttpJob hex_setup session_request, ReconcileJob (sr_env hex_setup)])
       full_world tr ps w' \<and>
     ps ! 0 = Ret (Some (Success body)) \<and> conforms (declared (Checkout_getSession ''q1'')) body"
proof -
  let ?p = "job (HttpJob hex_setup session_request)" and ?jobs = "[HttpJob hex_setup session_request, ReconcileJob (sr_env hex_setup)]"
  let ?rt = "route ''GET'' [Lit ''checkout'', Lit ''sessions'', Param] Unguarded E_getSession"
  have "case fst (run ?p full_world) of Inr (Some (Success b)) \<Rightarrow> True | _ \<Rightarrow> False" by code_simp
  then obtain body where body: "fst (run ?p full_world) = Inr (Some (Success body))"
    by (auto split: sum.splits option.splits Answer.splits)
  obtain tr where run: "pool_run (map job ?jobs) full_world tr
      ((map job ?jobs)[0 := finished (fst (run ?p full_world))]) (snd (run ?p full_world))"
    using run_in_pool [of 0 "map job ?jobs" ?p full_world] by auto
  have "viem_types (sr_env hex_setup)" "address_check (sr_formats hex_setup)"
    by (auto simp: viem_types_def address_check_def hex_setup_def sample_env_def startsWith_def split: if_splits)
  then have libraries: "typed_libraries j" if "j \<in> set ?jobs" for j using that by auto
  have typed: "typed full_world"
    by (simp add: typed_def full_world_def sample_world_def empty_world_def sample_payout_def sample_payin_def
        sample_settlement_def sample_token_def payout_typed_def payin_typed_def settlement_typed_def startsWith_def)
  have "find_route routes (ht_method session_request) (path_segments (ht_path session_request)) = Some (?rt, [''q1''])"
    by code_simp
  then have "conforms (declared (Checkout_getSession ''q1'')) body"
    using sdk_answers_typed [OF libraries typed run, of 0 hex_setup session_request body ?rt "[''q1'']"
        "Checkout_getSession ''q1''"] body
    by (simp add: intended_def route_def misdeclared_def)
  moreover have "((map job ?jobs)[0 := finished (fst (run ?p full_world))]) ! 0 = Ret (Some (Success body))"
    using body by simp
  ultimately show ?thesis using run by blast
qed

end
