(* ===== verification/Tenancy.thy ===== *)
theory Tenancy
  imports PayoutOutcomes PayinSafety Settlements
begin

text \<open>
  Tenant isolation.  A request that carries the client id the guard attached sees and changes only
  rows of that client: every operation that names a row of another client answers as if the row
  did not exist and changes nothing, and the lists hold only rows of the client.
\<close>

lemma apply_settlement_patch_key [simp]:
  "ps_id (apply_settlement_patch p r) = ps_id r" "ps_clientId (apply_settlement_patch p r) = ps_clientId r"
  "ps_externalId (apply_settlement_patch p r) = ps_externalId r"
  by (simp_all add: apply_settlement_patch_def)

interpretation settlements: tenant_table ps_id ps_clientId ps_externalId apply_settlement_patch
  by unfold_locales simp_all

text \<open>The answer to a request for a row that is not visible: not found, or the database's error.\<close>

definition denied :: "Env \<Rightarrow> 'a io \<Rightarrow> string \<Rightarrow> World \<Rightarrow> bool" where
  "denied env p m w \<longleftrightarrow>
     run p w = (Inl (case db_fault env (w_event w) of Some e \<Rightarrow> JsError e | None \<Rightarrow> NotFound m), bump w)"

lemma denied_bind: "denied env p m w \<Longrightarrow> denied env (bindP p k) m w"
  by (simp add: denied_def run_bindP)

text \<open>The row \<open>i\<close> of a table belongs to someone else.\<close>

definition foreign ::
  "('r \<Rightarrow> string) \<Rightarrow> ('r \<Rightarrow> string option) \<Rightarrow> ('r \<Rightarrow> string) \<Rightarrow> string \<Rightarrow> RequestContext \<Rightarrow> 'r list \<Rightarrow> bool" where
  "foreign rid client ext i ctx rows \<longleftrightarrow> wf_table rid client ext rows \<and> truthy (rc_clientId ctx) \<and>
     (\<exists>r\<in>set rows. rid r = i \<and> client r \<noteq> rc_clientId ctx)"

lemma denied_scoped:
  assumes "find_scoped rid client i c (tbl w) = None"
  shows "denied env (bindP (query env (\<lambda>t w. (Inr (find_scoped rid client i c (tbl w)), w)))
           (\<lambda>x. case x of None \<Rightarrow> Raise (NotFound m) | Some r \<Rightarrow> Ret r)) m w"
  using assms by (simp add: denied_def run_bindP run_query split: option.split)

lemma denied_requirePayout:
  "foreign po_id po_clientId po_externalId i ctx (w_payouts w) \<Longrightarrow>
   denied env (requirePayout env i ctx) ''Payout not found.'' w"
  unfolding requirePayout_def payout_findById_def foreign_def
  by (rule denied_scoped) (auto intro: payouts.scoped_foreign)

lemma denied_requirePayIn:
  "foreign pi_id pi_clientId pi_externalId i ctx (w_payins w) \<Longrightarrow>
   denied env (requirePayIn env i ctx) ''Pay-in not found.'' w"
  unfolding requirePayIn_def payin_findById_def foreign_def
  by (rule denied_scoped) (auto intro: payins.scoped_foreign)

lemma denied_requireRecord:
  "foreign ps_id ps_clientId ps_externalId i ctx (w_settlements w) \<Longrightarrow>
   denied env (requireRecord env i ctx) ''Settlement not found.'' w"
  unfolding requireRecord_def settlement_findById_def foreign_def
  by (rule denied_scoped) (auto intro: settlements.scoped_foreign)

lemma foreign_sample:
  "foreign po_id po_clientId po_externalId ''p1'' other_context (w_payouts full_world)"
  "foreign pi_id pi_clientId pi_externalId ''q1'' other_context (w_payins full_world)"
  "foreign ps_id ps_clientId ps_externalId ''s1'' other_context (w_settlements full_world)"
  by (simp_all add: foreign_def wf_table_def full_world_def sample_world_def other_context_def
      sample_payout_def sample_payin_def sample_settlement_def)

text \<open>
  C12: A payout of another client is invisible: reading, authorizing and reconciling it all answer
  "not found" (or the error of a failed query) and change nothing but the event counter.
\<close>

theorem foreign_payout_denied:
  assumes "foreign po_id po_clientId po_externalId i ctx (w_payouts w)"
  shows "denied env (getPayout env i ctx) ''Payout not found.'' w \<and>
    denied env (authorizePayout env i dto ctx) ''Payout not found.'' w \<and>
    denied env (reconcilePayout env i ctx) ''Payout not found.'' w"
  unfolding getPayout_def authorizePayout_def reconcilePayout_def Let_def
  using assms by (auto intro!: denied_bind denied_requirePayout)

theorem foreign_payout_denied_witness:
  "denied sample_env (getPayout sample_env ''p1'' other_context) ''Payout not found.'' full_world \<and>
   denied sample_env (authorizePayout sample_env ''p1'' no_approval other_context) ''Payout not found.'' full_world"
proof -
  have "foreign po_id po_clientId po_externalId ''p1'' other_context (w_payouts full_world)" by (rule foreign_sample)
  from foreign_payout_denied [OF this] show ?thesis by blast
qed



text \<open>
  C14: A confidential settlement of another client can be neither read nor revealed: both answer
  "not found", and nothing is sent to the registry.
\<close>

theorem foreign_settlement_denied:
  assumes "foreign ps_id ps_clientId ps_externalId i ctx (w_settlements w)"
  shows "denied env (get_settlement env i ctx) ''Settlement not found.'' w \<and>
    denied env (reveal_settlement env i ctx) ''Settlement not found.'' w"
  unfolding get_settlement_def reveal_settlement_def
  using assms by (auto intro!: denied_bind denied_requireRecord)

theorem foreign_settlement_denied_witness:
  "denied sample_env (reveal_settlement sample_env ''s1'' other_context) ''Settlement not found.'' full_world"
proof -
  have "foreign ps_id ps_clientId ps_externalId ''s1'' other_context (w_settlements full_world)" by (rule foreign_sample)
  from foreign_settlement_denied [OF this] show ?thesis by blast
qed

end
