(* ===== verification/SettlementOutcomes.thy ===== *)
theory SettlementOutcomes
  imports Tenancy
begin

text \<open>
  Recording a confidential settlement is all or nothing: the row is claimed before the registry is
  called and given back when anything after the claim fails.
\<close>

definition wf_settlements :: "World \<Rightarrow> bool" where
  "wf_settlements w = wf_table ps_id ps_clientId ps_externalId (w_settlements w)"

definition settled_as :: "Env \<Rightarrow> CreateSettlementDto \<Rightarrow> RequestContext \<Rightarrow> PrivateSettlementRecord \<Rightarrow> bool" where
  "settled_as env dto ctx r \<longleftrightarrow> ps_clientId r = rc_clientId ctx \<and> ps_externalId r = csd_externalId dto \<and>
     ps_status r = StRecorded \<and> ps_transactionHash r \<noteq> None \<and>
     (\<exists>amount. ps_amountAtomic r = show_int amount \<and>
        ps_commitment r = computeSettlementCommitment env amount (ps_tokenAddress r) (ps_counterparty r) (ps_nonce r))"

lemma settlement_frame: "same_ledgers w w' \<Longrightarrow> w_settlements w' = w_settlements w"
  by (simp add: same_ledgers_def)

lemma ends_settlement_update:
  assumes "healthy env" and "w_settlements w = rows @ [r]" and "\<forall>x\<in>set rows. ps_id x \<noteq> ps_id r"
  shows "ends (settlement_update env (ps_id r) p) w
     (\<lambda>u w'. \<exists>t. u = Some (apply_settlement_patch (t, p) r) \<and> w_settlements w' = rows @ [apply_settlement_patch (t, p) r])
     (\<lambda>_ _. False)"
proof -
  have "filter (\<lambda>x. ps_id x = ps_id r) rows = []" using assms(3) by (auto simp: filter_empty_conv)
  moreover have "map (\<lambda>x. if ps_id x = ps_id r then f x else x) rows = rows" for f
    using assms(3) by (intro map_idI) auto
  ultimately show ?thesis
    using assms(2) by (simp add: settlement_update_def ends_query [OF assms(1)] sql_update_def find_True) blast
qed

lemma ends_settlement_delete:
  assumes "healthy env" and "w_settlements w = rows @ [x]" and "ps_id x = i" and "\<forall>x\<in>set rows. ps_id x \<noteq> i"
  shows "ends (settlement_delete env i) w (\<lambda>_ w'. w_settlements w' = rows) (\<lambda>_ _. False)"
  using assms by (auto simp: settlement_delete_def ends_query filter_id_conv)

text \<open>The row with the hash of the registry transaction filled in.\<close>

definition hashed :: "PrivateSettlementRecord \<Rightarrow> PrivateSettlementRecord \<Rightarrow> bool" where
  "hashed r u \<longleftrightarrow> (\<exists>t h. u = apply_settlement_patch (t, \<lparr>sp_status = None, sp_transactionHash = Some (Some h),
     sp_revealTransactionHash = None\<rparr>) r)"

lemma hashedI:
  "hashed r (apply_settlement_patch (t, \<lparr>sp_status = None, sp_transactionHash = Some (Some h),
     sp_revealTransactionHash = None\<rparr>) r)"
  unfolding hashed_def by blast

lemma steps_registry: "steps (recordPrivateSettlement env a b) same_ledgers (\<lambda>_. True)"
  by (rule frame.harmless_chain)

text \<open>The claim is booked, or released.\<close>

lemma ends_commit:
  assumes "healthy env" and "w_settlements w = rows @ [r]" and "\<forall>x\<in>set rows. ps_id x \<noteq> ps_id r"
  shows "ends (commit_settlement env ctx r) w
     (\<lambda>u w'. hashed r u \<and> w_settlements w' = rows @ [u])
     (\<lambda>_ w'. w_settlements w' = rows @ [r])"
proof -
  have reg: "ends (recordPrivateSettlement env (ps_settlementRef r) (ps_commitment r)) w
      (\<lambda>_ w'. w_settlements w' = rows @ [r]) (\<lambda>_ w'. w_settlements w' = rows @ [r])"
    using assms(2) by (intro ends_mono [OF ends_frame [OF steps_registry]]) (auto dest: settlement_frame)
  have log: "ends (record_event env ty i actor p) w' (\<lambda>_ w''. w_settlements w'' = w_settlements w') (\<lambda>_ _. False)" for ty i actor p w'
    by (rule ends_mono [OF ends_record_event [OF assms(1)]]) auto
  show ?thesis
    unfolding commit_settlement_def
    by (rule ends_bind [OF reg], rule ends_bind [OF ends_settlement_update [OF assms(1) _ assms(3)]])
       (auto intro!: ends_bind [OF log] hashedI simp: ends_basic)
qed

lemma ends_commit_or_release:
  assumes "healthy env" and "w_settlements w = rows @ [r]" and "\<forall>x\<in>set rows. ps_id x \<noteq> ps_id r"
  shows "ends (catchP (commit_settlement env ctx r)
       (\<lambda>e. bindP (settlement_delete env (ps_id r)) (\<lambda>_. Raise e))) w
     (\<lambda>u w'. hashed r u \<and> w_settlements w' = rows @ [u])
     (\<lambda>_ w'. w_settlements w' = rows)"
  unfolding ends_catchP
  by (rule ends_mono [OF ends_commit [OF assms]])
     (auto intro!: ends_bind [OF ends_settlement_delete [OF assms(1) _ refl assms(3)]] simp: ends_basic)

text \<open>What the insert of a fresh claim, or a replay, answers.\<close>

lemma ends_claim:
  assumes "healthy env" and "wf_settlements w" and "ps_clientId q \<noteq> None"
  shows "ends (settlement_createOrGetExisting env q) w
     (\<lambda>(r, existed) w'. w_sent w' = w_sent w \<and>
        (if existed then w_settlements w' = w_settlements w \<and> r \<in> set (w_settlements w) \<and>
            ps_clientId r = ps_clientId q \<and> ps_externalId r = ps_externalId q
         else (\<exists>t. r = q\<lparr>ps_createdAt := t, ps_updatedAt := t\<rparr>) \<and> w_settlements w' = w_settlements w @ [r] \<and>
            (\<forall>x\<in>set (w_settlements w). ps_id x \<noteq> ps_id r) \<and>
            (\<forall>x\<in>set (w_settlements w). \<not> (ps_clientId x = ps_clientId q \<and> ps_externalId x = ps_externalId q))))
     (\<lambda>_ w'. w_settlements w' = w_settlements w)"
proof -
  let ?q = "q\<lparr>ps_createdAt := time env w, ps_updatedAt := time env w\<rparr>"
  consider (dup) "\<not> key_conflict ps_clientId ps_externalId ?q (w_settlements w)"
      "list_ex (\<lambda>x. ps_id x = ps_id ?q) (w_settlements w)"
    | (replay) "key_conflict ps_clientId ps_externalId ?q (w_settlements w)"
    | (fresh) "\<not> key_conflict ps_clientId ps_externalId ?q (w_settlements w)"
      "\<not> list_ex (\<lambda>x. ps_id x = ps_id ?q) (w_settlements w)"
    by blast
  then show ?thesis
  proof cases
    case dup
    then show ?thesis
      by (simp add: settlement_createOrGetExisting_def ends_bindP ends_query [OF assms(1)] settlement_insert_stmt_def sql_insert_def)
  next
    case replay
    let ?P = "\<lambda>x. ps_clientId q \<noteq> None \<and> ps_clientId x = ps_clientId q \<and> ps_externalId x = ps_externalId q"
    have "\<exists>x\<in>set (w_settlements w). ?P x" using replay by (auto simp: key_conflict_def list_ex_iff)
    then have "find ?P (w_settlements w) \<noteq> None" by (auto simp: find_None_iff)
    then obtain x where x: "find ?P (w_settlements w) = Some x" by blast
    from find_SomeD [OF x] replay x show ?thesis
      by (auto simp: settlement_createOrGetExisting_def ends_simps ends_query [OF assms(1)] settlement_insert_stmt_def
          sql_insert_def)
  next
    case fresh
    have "\<forall>x\<in>set (w_settlements w). \<not> (ps_clientId x = ps_clientId q \<and> ps_externalId x = ps_externalId q)"
      using fresh(1) assms(3) by (simp add: key_conflict_def list_ex_iff)
    moreover have "\<forall>x\<in>set (w_settlements w). ps_id x \<noteq> ps_id q" using fresh(2) by (simp add: list_ex_iff)
    ultimately show ?thesis
      using fresh
      by (simp add: settlement_createOrGetExisting_def ends_simps ends_query [OF assms(1)] settlement_insert_stmt_def
          sql_insert_def) blast
  qed
qed

lemma settled_as_new:
  assumes "hashed (new_settlement env dto ctx token n cp nonce i\<lparr>ps_createdAt := t, ps_updatedAt := t\<rparr>) u"
  shows "settled_as env dto ctx u"
  using assms by (auto simp: hashed_def settled_as_def new_settlement_def apply_settlement_patch_def)

text \<open>The two answers: the replay of an existing row, or one row more.\<close>

definition settlement_answer ::
  "Env \<Rightarrow> CreateSettlementDto \<Rightarrow> RequestContext \<Rightarrow> World \<Rightarrow> PrivateSettlementResponse \<Rightarrow> World \<Rightarrow> bool" where
  "settlement_answer env dto ctx w resp w' \<longleftrightarrow>
     (\<exists>r. resp = settlement_toResponse r (psr_idempotentReplay resp) \<and>
        (if psr_idempotentReplay resp
         then w_settlements w' = w_settlements w \<and> w_sent w' = w_sent w \<and> r \<in> set (w_settlements w) \<and>
           ps_clientId r = rc_clientId ctx \<and> ps_externalId r = csd_externalId dto
         else w_settlements w' = w_settlements w @ [r] \<and> settled_as env dto ctx r \<and>
           (\<forall>x\<in>set (w_settlements w). \<not> (ps_clientId x = rc_clientId ctx \<and> ps_externalId x = csd_externalId dto))))"

lemma ends_claim_and_commit:
  assumes "healthy env" and "wf_settlements w" and "rc_clientId ctx \<noteq> None"
    and q: "q = new_settlement env dto ctx token n cp nonce i"
    and w': "w_settlements w' = w_settlements w" "w_sent w' = w_sent w"
  shows "ends (bindP (settlement_createOrGetExisting env q) (\<lambda>(r, existed).
      if existed then Ret (settlement_toResponse r True)
      else bindP (catchP (commit_settlement env ctx r)
             (\<lambda>e. bindP (settlement_delete env (ps_id r)) (\<lambda>_. Raise e))) (\<lambda>u. Ret (settlement_toResponse u False)))) w'
     (settlement_answer env dto ctx w) (\<lambda>_ w'. w_settlements w' = w_settlements w)"
proof -
  have wf: "wf_settlements w'" and c: "ps_clientId q \<noteq> None"
    using assms(2,3) w' q by (simp_all add: wf_settlements_def new_settlement_def)
  have key: "ps_clientId q = rc_clientId ctx" "ps_externalId q = csd_externalId dto"
    using q by (simp_all add: new_settlement_def)
  show ?thesis
  proof (rule ends_bind [OF ends_claim [OF assms(1) wf c]], goal_cases)
    case (1 p w'')
    obtain r existed where p: "p = (r, existed)" by fastforce
    show ?case
    proof (cases existed)
      case True
      then show ?thesis using 1 p w' key by (auto simp: ends_basic settlement_answer_def settlement_toResponse_def)
    next
      case False
      note c = 1 [unfolded p case_prod_conv if_not_P [OF False] w' key]
      then obtain t where r: "r = q\<lparr>ps_createdAt := t, ps_updatedAt := t\<rparr>"
        "w_settlements w'' = w_settlements w @ [r]" "\<forall>x\<in>set (w_settlements w). ps_id x \<noteq> ps_id r"
        "\<forall>x\<in>set (w_settlements w). \<not> (ps_clientId x = rc_clientId ctx \<and> ps_externalId x = csd_externalId dto)"
        by blast
      have "settled_as env dto ctx u" if "hashed r u" for u
        using settled_as_new that r(1) q by blast
      then show ?thesis
        unfolding p using False r(4)
        by (auto intro!: ends_bind [OF ends_commit_or_release [OF assms(1) r(2,3)]]
            simp: ends_basic settlement_answer_def settlement_toResponse_def)
    qed
  qed (use w' in simp)
qed


definition sample_settle :: CreateSettlementDto where
  "sample_settle = \<lparr>csd_externalId = ''ext-s1'', csd_asset = USDC, csd_amount = ''5'', csd_counterparty = ''0xc'',
     csd_metadata = None\<rparr>"

definition registry_env :: Env where
  "registry_env = sample_env\<lparr>process_env := (process_env sample_env)
     (''AVASETTLE_PRIVATE_SETTLEMENT_REGISTRY_ADDRESS'' \<mapsto> sample_token,
      ''AVASETTLE_SETTLEMENT_REGISTRAR_PRIVATE_KEY'' \<mapsto> ''0x02'')\<rparr>"


end
