(* ===== verification/PayinOutcomes.thy ===== *)
theory PayinOutcomes
  imports PayinSafety Neutral
begin

text \<open>
  What the pay-in handlers do when they run alone and the database answers: when a
  reconciliation confirms a pay-in, what a manual acceptance may do, and how the sweep leaves the
  row.
\<close>

section \<open>One row followed through a handler\<close>

definition payin_row :: "string \<Rightarrow> World \<Rightarrow> PayInRecord option" where
  "payin_row i w = find (\<lambda>r. pi_id r = i) (w_payins w)"

definition wf_payins :: "World \<Rightarrow> bool" where
  "wf_payins w = wf_table pi_id pi_clientId pi_externalId (w_payins w)"

definition lies :: "string \<Rightarrow> PayInRecord \<Rightarrow> World \<Rightarrow> World \<Rightarrow> bool" where
  "lies i r w0 w \<longleftrightarrow> wf_payins w \<and> payin_row i w = Some r \<and>
     (\<forall>j. j \<noteq> i \<longrightarrow> payin_row j w = payin_row j w0)"

lemma lies_frame: "same_ledgers w w' \<Longrightarrow> lies i r w0 w \<Longrightarrow> lies i r w0 w'"
  by (simp add: lies_def payin_row_def wf_payins_def same_ledgers_def)

lemma lies_bump [simp]: "lies i r w0 (bump w) = lies i r w0 w"
  by (simp add: lies_def payin_row_def wf_payins_def)

lemma payin_row_Some: "payin_row i w = Some r \<Longrightarrow> pi_id r = i \<and> r \<in> set (w_payins w)"
  by (auto simp: payin_row_def dest: find_SomeD)

lemma lies_id: "lies i r w0 w \<Longrightarrow> pi_id r = i"
  by (auto simp: lies_def dest: payin_row_Some)

lemma ends_payin_update:
  assumes "healthy env" and "lies i r w0 w"
  shows "ends (payin_update env i patch g) w
     (\<lambda>a w'. w_sent w' = w_sent w \<and> w_audit w' = w_audit w \<and>
        (if payin_guard i g r
         then \<exists>t. a = Some (apply_payin_patch (t, patch) r) \<and> lies i (apply_payin_patch (t, patch) r) w0 w'
         else a = None \<and> lies i r w0 w')) (\<lambda>_ _. False)"
proof -
  let ?t = "time env w" and ?P = "payin_guard i g"
  let ?f = "apply_payin_patch (?t, patch)"
  let ?w' = "w\<lparr>w_payins := fst (sql_update ?P ?f (w_payins w))\<rparr>"
  have wf: "wf_payins w" and r: "payin_row i w = Some r" using assms(2) by (auto simp: lies_def)
  have find: "payin_row j ?w' = map_option (\<lambda>r. if ?P r then ?f r else r) (payin_row j w)" for j
    by (simp add: payin_row_def payins.update_find)
  have ret: "snd (sql_update ?P ?f (w_payins w)) = (if ?P r then [?f r] else [])"
    using wf r by (intro payins.update_returned) (auto simp: wf_payins_def payin_row_def payin_guard_def)
  have other: "payin_row j ?w' = payin_row j w" if "j \<noteq> i" for j
    using that find [of j] by (auto simp: payin_guard_def map_option_case dest: payin_row_Some split: option.splits)
  have "wf_payins ?w'" using payins.update_wf wf by (simp add: wf_payins_def)
  then have "lies i (if ?P r then ?f r else r) w0 ?w'"
    using find [of i] other r assms(2) by (auto simp: lies_def)
  then show ?thesis
    using ret by (auto simp: payin_update_def ends_query [OF assms(1)] payin_update_stmt_def split: prod.splits)
qed

lemma ends_payin_require:
  assumes "healthy env" and "lies i r w0 w" and "truthy (rc_clientId ctx) \<longrightarrow> pi_clientId r = rc_clientId ctx"
  shows "ends (requirePayIn env i ctx) w (\<lambda>a w'. a = r \<and> w' = bump w) (\<lambda>_ _. False)"
proof -
  have "r \<in> set (w_payins w)" and "pi_id r = i" using assms(2) by (auto simp: lies_def dest: payin_row_Some)
  then have "find_scoped pi_id pi_clientId i (rc_clientId ctx) (w_payins w) = Some r"
    using payins.scoped_own [of r] assms(2,3) by (auto simp: lies_def wf_payins_def)
  then show ?thesis
    by (simp add: requirePayIn_def payin_findById_def ends_simps ends_query [OF assms(1)])
qed

lemma ends_payin_response:
  "healthy env \<Longrightarrow> ends (payin_toResponse env r b) w
     (\<lambda>resp w'. w' = bump w \<and> pir_record resp = r \<and> pir_idempotentReplay resp = b) (\<lambda>_ _. False)"
  by (simp add: payin_toResponse_def ends_simps ends_listBySubject)

lemma ends_record_lies:
  assumes "healthy env" and "lies i r w0 w"
  shows "ends (record_event env ty j actor payload) w (\<lambda>_ w'. lies i r w0 w' \<and> w_sent w' = w_sent w) (\<lambda>_ _. False)"
  using assms(2)
  by (intro ends_mono [OF ends_record_event [OF assms(1)]]) (auto simp: lies_def payin_row_def wf_payins_def)

lemma ends_enqueue_lies:
  assumes "lies i r w0 w"
  shows "ends (enqueue env c ev p) w (\<lambda>_ w'. lies i r w0 w' \<and> w_sent w' = w_sent w) (\<lambda>_ _. False)"
  using assms
  by (auto simp: enqueue_def Let_def ends_simps query_def lies_def payin_row_def wf_payins_def split: option.splits)

section \<open>The newest block\<close>

lemma latest_block_snoc:
  "latest_block (bs @ [b]) = Some (case latest_block bs of None \<Rightarrow> b | Some m \<Rightarrow> max m b)"
  by (simp add: latest_block_def max_def split: option.split)

lemma latest_block_None: "latest_block bs = None \<longleftrightarrow> bs = []"
  by (cases bs rule: rev_cases) (auto simp: latest_block_snoc, simp add: latest_block_def)

lemma latest_block_ge: "latest_block bs = Some m \<Longrightarrow> b \<in> set bs \<Longrightarrow> b \<le> m"
proof (induction bs arbitrary: m rule: rev_induct)
  case (snoc x bs)
  then show ?case
    by (cases "latest_block bs") (auto simp: latest_block_snoc latest_block_None)
qed simp

lemma collect_map_InrD: "collect (map f xs) = Inr ys \<Longrightarrow> list_all2 (\<lambda>x y. f x = Inr y) xs ys"
  by (drule collect_InrD) (simp add: list_all2_conv_all_nth, metis length_map nth_map)

lemma bigInt_Inr [simp]: "bigInt s = Inr n \<longleftrightarrow> bigint_of s = Some n"
  by (auto simp: bigInt_def split: option.splits)

lemma list_all2_ex: "list_all2 P xs ys \<Longrightarrow> x \<in> set xs \<Longrightarrow> \<exists>y\<in>set ys. P x y"
  by (induction rule: list_all2_induct) auto

text \<open>Enough confirmations: every transfer is at least that deep.\<close>

lemma enough_deep:
  assumes "enough_confirmations env latest blocks = Inr True"
    and "collect (map (\<lambda>t. bigInt (tr_blockNumber t)) ts) = Inr blocks" and "t \<in> set ts"
  shows "\<exists>b m. bigint_of (tr_blockNumber t) = Some b \<and> minConfirmations (cfg env) = Inr m \<and> b + m \<le> latest"
proof -
  have "list_all2 (\<lambda>t b. bigint_of (tr_blockNumber t) = Some b) ts blocks"
    using collect_map_InrD [OF assms(2)] by simp
  then obtain b where b: "bigint_of (tr_blockNumber t) = Some b" "b \<in> set blocks"
    using list_all2_ex [OF _ assms(3)] by blast
  moreover obtain top m where "latest_block blocks = Some top" "minConfirmations (cfg env) = Inr m" "m \<le> latest - top"
    using assms(1) by (auto simp: enough_confirmations_def map_sum_def split: option.splits if_splits sum.splits)
  ultimately show ?thesis using latest_block_ge [of blocks top b] by force
qed

section \<open>Reconciliation\<close>

text \<open>What the record says after a scan that reached block \<open>latest\<close>.\<close>

definition accounted :: "Env \<Rightarrow> PayInRecord \<Rightarrow> bool" where
  "accounted env r \<longleftrightarrow> (\<exists>amounts expected latest.
     list_all2 (\<lambda>t n. bigint_of (tr_amountAtomic t) = Some n) (pi_transfers r) amounts \<and>
     bigint_of (pi_expectedAmountAtomic r) = Some expected \<and>
     pi_receivedAmountAtomic r = show_int (sum_list amounts) \<and> pi_lastScannedBlock r = Some (show_int latest) \<and>
     (pi_status r \<in> {PiPending, PiExpired} \<longleftrightarrow> sum_list amounts = 0) \<and>
     (pi_status r = PiUnderpaid \<longleftrightarrow> sum_list amounts \<noteq> 0 \<and> sum_list amounts < expected) \<and>
     (pi_status r = PiOverpaid \<longleftrightarrow> sum_list amounts \<noteq> 0 \<and> sum_list amounts > expected) \<and>
     (pi_status r = PiConfirmed \<longrightarrow> sum_list amounts = expected \<and>
        (\<forall>t\<in>set (pi_transfers r). \<exists>b m. bigint_of (tr_blockNumber t) = Some b \<and>
           minConfirmations (cfg env) = Inr m \<and> b + m \<le> latest)))"

lemma apply_reconcile_patch [simp]:
  "pi_transfers (apply_payin_patch (t, reconcile_patch env p ac ts n st lb t') r) = ts"
  "pi_expectedAmountAtomic (apply_payin_patch (t, reconcile_patch env p ac ts n st lb t') r) = pi_expectedAmountAtomic r"
  "pi_receivedAmountAtomic (apply_payin_patch (t, reconcile_patch env p ac ts n st lb t') r) = show_int n"
  "pi_lastScannedBlock (apply_payin_patch (t, reconcile_patch env p ac ts n st lb t') r) = Some (show_int lb)"
  "pi_status (apply_payin_patch (t, reconcile_patch env p ac ts n st lb t') r) = st"
  by (simp_all add: apply_payin_patch_def reconcile_patch_def)

lemma foldl_sum: "foldl (+) (n::int) xs = n + sum_list xs"
  by (induction xs arbitrary: n) auto

lemma accounted_patch:
  assumes "collect (map (\<lambda>t. bigInt (tr_amountAtomic t)) ts) = Inr amounts"
    and "bigint_of (pi_expectedAmountAtomic r) = Some expected"
    and "collect (map (\<lambda>t. bigInt (tr_blockNumber t)) ts) = Inr blocks"
    and "enough_confirmations env latest blocks = Inr enough"
    and "r' = apply_payin_patch (t, reconcile_patch env r ac ts (foldl (+) 0 amounts)
           (payin_status (foldl (+) 0 amounts) expected enough expired) latest t') r"
  shows "accounted env r'"
proof -
  have sum: "foldl (+) 0 amounts = sum_list amounts" by (simp add: foldl_sum)
  have "list_all2 (\<lambda>t n. bigint_of (tr_amountAtomic t) = Some n) ts amounts"
    using collect_map_InrD [OF assms(1)] by simp
  moreover have "enough \<Longrightarrow> \<forall>t\<in>set ts. \<exists>b m. bigint_of (tr_blockNumber t) = Some b \<and>
      minConfirmations (cfg env) = Inr m \<and> b + m \<le> latest"
    using enough_deep [OF _ assms(3)] assms(4) by simp
  ultimately show ?thesis
    using assms(2,5) unfolding accounted_def sum
    by (intro exI [of _ amounts] exI [of _ expected] exI [of _ latest]) (auto simp: payin_status_def)
qed

lemma ends_announce:
  assumes "healthy env" and "lies i u w0 w"
  shows "ends (announce_reconciled env i ctx r u ts n st) w (\<lambda>_ w'. lies i u w0 w') (\<lambda>_ _. False)"
proof -
  have detect: "ends (if c then enqueue env cl ev p else Ret ()) w' (\<lambda>_. lies i u w0) (\<lambda>_ _. False)"
    if "lies i u w0 w'" for c cl ev p w'
    using that by (auto simp: ends_basic intro: ends_mono [OF ends_enqueue_lies])
  have bg: "ends (start_background task) w' (\<lambda>_. lies i u w0) (\<lambda>_ _. False)" if "lies i u w0 w'" for task w'
    using that by (auto simp: start_background_def ends_await lies_def payin_row_def wf_payins_def)
  show ?thesis
    unfolding announce_reconciled_def
    by (rule ends_bind [OF ends_record_lies [OF assms]], rule ends_bind [OF detect])
       (auto simp: ends_basic intro!: ends_bind [OF ends_enqueue_lies] bg intro: ends_mono [OF ends_enqueue_lies])
qed

lemma harmless_scan: "steps (findPayInTransfers env r n) same_ledgers (\<lambda>_. True)"
  unfolding findPayInTransfers_def
  by (auto intro!: frame.harmless_calls frame.harmless_chain)

text \<open>An unguarded update always finds the row.\<close>

lemma ends_store_reconciled:
  assumes "healthy env" and "lies i r w0 w"
  shows "ends (payin_update env i patch no_guard) w
     (\<lambda>a w'. \<exists>t. a = Some (apply_payin_patch (t, patch) r) \<and> lies i (apply_payin_patch (t, patch) r) w0 w') (\<lambda>_ _. False)"
proof -
  have "payin_guard i no_guard r" using lies_id [OF assms(2)] by (simp add: payin_guard_def no_guard_def)
  then show ?thesis by (intro ends_mono [OF ends_payin_update [OF assms]]) auto
qed


text \<open>A node that reports one transfer of the expected amount, deep in the chain.\<close>

definition paid_env :: Env where
  "paid_env = sample_env\<lparr>rpc_transferLogs := (\<lambda>_ _ _ _ _. Inr
     [\<lparr>tl_transactionHash = Some ''0xt'', tl_blockNumber = Some 9, tl_logIndex = Some 1, tl_from = Some ''0xf'',
       tl_to = Some ''0xd'', tl_value = Some 5\<rparr>])\<rparr>"

lemma paid_facts:
  "healthy paid_env" "wf_payins full_world" "payin_row ''q1'' full_world = Some sample_payin"
  "rc_clientId sample_context = pi_clientId sample_payin" "pi_status sample_payin = PiPending"
  by (simp_all add: healthy_def paid_env_def sample_env_def wf_payins_def wf_table_def full_world_def
      payin_row_def sample_payin_def sample_context_def)


section \<open>Manual acceptance\<close>

lemma lies_rows: "lies i r w w' \<Longrightarrow> payin_row i w = Some r \<Longrightarrow> payin_row j w' = payin_row j w"
  by (cases "j = i") (auto simp: lies_def)

definition accepted :: "string option \<Rightarrow> PayInRecord \<Rightarrow> PayInRecord \<Rightarrow> bool" where
  "accepted note r r' \<longleftrightarrow> pi_status r' = PiConfirmed \<and> pi_acceptedAt r' \<noteq> None \<and> pi_acceptanceNote r' = note \<and>
     pi_confirmedAt r' \<noteq> None \<and> pi_receivedAmountAtomic r' = pi_receivedAmountAtomic r \<and> pi_transfers r' = pi_transfers r"

text \<open>The guarded update of an acceptance: it takes the row from one of the two statuses, or nothing.\<close>

lemma ends_accept_update:
  assumes "healthy env" and "lies i r w w1"
  shows "ends (payin_update env i [PfStatus PiConfirmed, PfAcceptedAt (Some t), PfAcceptanceNote note,
        PfConfirmedAt (case c of Some x \<Rightarrow> Some x | None \<Rightarrow> Some t)] (status_guard [PiUnderpaid, PiOverpaid])) w1
     (\<lambda>u w2. if pi_status r \<in> {PiUnderpaid, PiOverpaid} then \<exists>r'. u = Some r' \<and> lies i r' w w2 \<and> accepted note r r'
        else u = None \<and> lies i r w w2) (\<lambda>_ _. False)"
proof -
  have "payin_guard i (status_guard [PiUnderpaid, PiOverpaid]) r \<longleftrightarrow> pi_status r \<in> {PiUnderpaid, PiOverpaid}"
    using lies_id [OF assms(2)] by (simp add: payin_guard_def status_guard_def)
  then show ?thesis
    by (intro ends_mono [OF ends_payin_update [OF assms]])
      (auto simp: apply_payin_patch_def accepted_def split: option.splits)
qed

text \<open>
  C9: Manual acceptance works from exactly two statuses.  An underpaid or overpaid pay-in becomes
  confirmed, stamped with the acceptance and its note, and what was received stays as recorded; a
  confirmed pay-in is answered unchanged as a replay; from any other status the request is a
  conflict.  In the last two cases no pay-in changes at all, and in the first no other one does.
\<close>

theorem acceptPayIn_outcome:
  assumes "healthy env" and "wf_payins w" and "payin_row i w = Some r"
    and "truthy (rc_clientId ctx) \<longrightarrow> pi_clientId r = rc_clientId ctx"
  shows "ends (acceptPayIn env i note ctx) w
     (\<lambda>resp w'. let r' = pir_record resp in
        (\<forall>j. j \<noteq> i \<longrightarrow> payin_row j w' = payin_row j w) \<and> payin_row i w' = Some r' \<and>
        (if pi_status r \<in> {PiUnderpaid, PiOverpaid}
         then pi_status r' = PiConfirmed \<and> pi_acceptedAt r' \<noteq> None \<and> pi_acceptanceNote r' = note \<and>
           pi_confirmedAt r' \<noteq> None \<and> pi_receivedAmountAtomic r' = pi_receivedAmountAtomic r \<and>
           pi_transfers r' = pi_transfers r \<and> \<not> pir_idempotentReplay resp
         else pi_status r = PiConfirmed \<and> r' = r \<and> pir_idempotentReplay resp))
     (\<lambda>e w'. pi_status r \<notin> {PiUnderpaid, PiOverpaid, PiConfirmed} \<and> is_conflict e \<and>
        (\<forall>j. payin_row j w' = payin_row j w))" (is "ends _ w ?Q ?E")
proof -
  define Q where "Q = ?Q"
  define E where "E = ?E"
  have st: "lies i r w w" using assms(2,3) by (simp add: lies_def)
  have answer: "ends (payin_toResponse env u b) w' Q E"
    if "\<And>resp w''. pir_record resp = u \<Longrightarrow> pir_idempotentReplay resp = b \<Longrightarrow> w'' = bump w' \<Longrightarrow> Q resp w''" for u b w'
    using that by (intro ends_mono [OF ends_payin_response [OF assms(1)]]) auto
  have good: "Q resp w'"
    if "pi_status r \<in> {PiUnderpaid, PiOverpaid}" "lies i (pir_record resp) w w'" "accepted note r (pir_record resp)"
      "\<not> pir_idempotentReplay resp" for resp w'
    using that by (simp add: Q_def lies_def accepted_def Let_def)
  have replay: "Q resp w'" if "pi_status r = PiConfirmed" "lies i r w w'" "pir_record resp = r"
      "pir_idempotentReplay resp" for resp w'
    using that by (simp add: Q_def lies_def Let_def)
  have bad: "E (Conflict m) w'" if "pi_status r \<notin> {PiUnderpaid, PiOverpaid, PiConfirmed}" "lies i r w w'" for m w'
    using that lies_rows [OF that(2) assms(3)] by (simp add: E_def)
  have lost: "ends (bindP (requirePayIn env i ctx) (\<lambda>current. if pi_status current = PiConfirmed
      then payin_toResponse env current True else Raise (Conflict (m current)))) w2 Q E"
    if "pi_status r \<notin> {PiUnderpaid, PiOverpaid}" "lies i r w w2" for m w2
    by (rule ends_bind [OF ends_payin_require [OF assms(1) that(2) assms(4)]])
       (use lies_rows [OF that(2) assms(3)] that in \<open>auto intro!: answer replay bad simp: ends_basic\<close>)
  have won: "ends (bindP (record_event env ty j act p) (\<lambda>_. bindP (enqueue env c ev q) (\<lambda>_.
      payin_toResponse env r' False))) w2 Q E"
    if "pi_status r \<in> {PiUnderpaid, PiOverpaid}" "lies i r' w w2" "accepted note r r'" for ty j act p c ev q r' w2
    by (rule ends_bind [OF ends_record_lies [OF assms(1) that(2)]], rule ends_bind [OF ends_enqueue_lies])
       (use that in \<open>auto intro!: answer good\<close>)
  have "ends (acceptPayIn env i note ctx) w Q E"
    unfolding acceptPayIn_def
    by (rule ends_bind [OF ends_payin_require [OF assms(1) st assms(4)]],
        unfold ends_bindP [of "now _"] ends_now, rule ends_bind [OF ends_accept_update [OF assms(1)]])
       (use st in \<open>auto split: if_splits intro!: lost won\<close>)
  then show ?thesis unfolding Q_def E_def .
qed

definition underpaid_world :: World where
  "underpaid_world = full_world\<lparr>w_payins := [sample_payin\<lparr>pi_status := PiUnderpaid\<rparr>]\<rparr>"

theorem acceptPayIn_outcome_witness:
  "ends (acceptPayIn sample_env ''q1'' (Some ''ok'') sample_context) underpaid_world
     (\<lambda>resp w'. pi_status (pir_record resp) = PiConfirmed \<and> pi_acceptanceNote (pir_record resp) = Some ''ok'') (\<lambda>_ _. False)"
proof -
  let ?r = "sample_payin\<lparr>pi_status := PiUnderpaid\<rparr>"
  have w: "wf_payins underpaid_world" "payin_row ''q1'' underpaid_world = Some ?r"
    by (simp_all add: wf_payins_def wf_table_def underpaid_world_def payin_row_def sample_payin_def)
  have h: "healthy sample_env" by (simp add: healthy_def sample_env_def)
  show ?thesis
    by (rule ends_mono [OF acceptPayIn_outcome [OF h w]])
       (auto simp: Let_def sample_context_def sample_payin_def)
qed

end
