(* ===== verification/WebhookOutcomes.thy ===== *)
theory WebhookOutcomes
  imports Webhooks Sample
begin

text \<open>
  The delivery discipline of the outbox: what one delivery does to its row on every branch, that
  two claims never share a row, and how often an event is posted at most.
\<close>

section \<open>Claims\<close>

definition outbox_ok :: "World \<Rightarrow> bool" where
  "outbox_ok w = distinct (map ob_id (w_outbox w))"

lemma due_ids_pending:
  "i \<in> set (due_ids t n rows) \<Longrightarrow> \<exists>r\<in>set rows. ob_id r = i \<and> ob_status r = ObPending \<and> ob_nextAttemptAt r \<le> t"
  unfolding due_ids_def by (auto dest!: in_set_takeD)

lemma claim_due_rows:
  assumes "claim_due n t w = (x, w')"
  shows "w_outbox w' = map (\<lambda>r. if ob_id r \<in> set (due_ids t n (w_outbox w))
           then r\<lparr>ob_status := ObDelivering, ob_updatedAt := t\<rparr> else r) (w_outbox w)"
    and "x = Inr (map (\<lambda>r. r\<lparr>ob_status := ObDelivering, ob_updatedAt := t\<rparr>)
           (filter (\<lambda>r. ob_id r \<in> set (due_ids t n (w_outbox w))) (w_outbox w)))"
  using assms by (auto simp: claim_due_def sql_update_def)

lemma claim_due_returns: "\<exists>a w'. claim_due n t w = (Inr a, w')"
  by (simp add: claim_due_def sql_update_def)

lemma length_filter_ids:
  "distinct (map f xs) \<Longrightarrow> length (filter (\<lambda>x. f x \<in> set ys) xs) \<le> length ys"
proof -
  assume "distinct (map f xs)"
  then have "distinct (map f (filter (\<lambda>x. f x \<in> set ys) xs))" by (rule distinct_map_filter)
  then have "length (filter (\<lambda>x. f x \<in> set ys) xs) = card (f ` set (filter (\<lambda>x. f x \<in> set ys) xs))"
    by (metis distinct_card length_map list.set_map)
  also have "\<dots> \<le> card (set ys)" by (rule card_mono) auto
  also have "\<dots> \<le> length ys" by (rule card_length)
  finally show ?thesis .
qed


definition sample_event :: "string \<Rightarrow> OutboxEntry" where
  "sample_event i = \<lparr>ob_id = i, ob_clientId = ''c1'', ob_event = ''payout.confirmed'', ob_payload = [],
     ob_status = ObPending, ob_attempts = 0, ob_nextAttemptAt = 0, ob_lastError = None, ob_createdAt = 0,
     ob_updatedAt = 0\<rparr>"

definition outbox_world :: World where
  "outbox_world = sample_world\<lparr>w_outbox := [sample_event ''e1'', sample_event ''e2'']\<rparr>"


section \<open>One delivery\<close>

definition outbox_row :: "string \<Rightarrow> World \<Rightarrow> OutboxEntry option" where
  "outbox_row i w = find (\<lambda>r. ob_id r = i) (w_outbox w)"

lemma outbox_row_bump [simp]: "outbox_row i (bump w) = outbox_row i w"
  by (simp add: outbox_row_def)

text \<open>A statement that rewrites the row with a given id.\<close>

lemma outbox_row_update:
  assumes "\<And>r. ob_id (f r) = ob_id r"
  shows "outbox_row j (w\<lparr>w_outbox := fst (sql_update (\<lambda>r. ob_id r = i) f (w_outbox w))\<rparr>) =
    map_option (\<lambda>r. if ob_id r = i then f r else r) (outbox_row j w)"
  by (simp add: outbox_row_def sql_update_def find_map_key assms)

text \<open>What a delivery of \<open>row\<close> may leave behind, when at most \<open>m\<close> attempts are made.\<close>

definition delivered_to :: "nat \<Rightarrow> OutboxEntry \<Rightarrow> OutboxEntry \<Rightarrow> bool" where
  "delivered_to m row r' \<longleftrightarrow> (case ob_status r' of
       ObDelivered \<Rightarrow> ob_attempts r' = Suc (ob_attempts row) \<and> ob_lastError r' = None
     | ObSkipped \<Rightarrow> ob_attempts r' = ob_attempts row
     | ObFailed \<Rightarrow> ob_attempts r' = Suc (ob_attempts row) \<and> ob_lastError r' \<noteq> None
     | ObPending \<Rightarrow> ob_attempts r' = Suc (ob_attempts row) \<and> Suc (ob_attempts row) < m \<and>
         ob_nextAttemptAt r' = ob_updatedAt r' + retry_delay (ob_attempts r')
     | ObDelivering \<Rightarrow> False)"

definition leaves :: "nat \<Rightarrow> OutboxEntry \<Rightarrow> World \<Rightarrow> World \<Rightarrow> bool" where
  "leaves m row w w' \<longleftrightarrow> (\<exists>r'. outbox_row (ob_id row) w' = Some r' \<and> delivered_to m row r') \<and>
     (\<forall>j. j \<noteq> ob_id row \<longrightarrow> outbox_row j w' = outbox_row j w)"

definition unmoved :: "World \<Rightarrow> World \<Rightarrow> bool" where
  "unmoved w w' \<longleftrightarrow> w_outbox w' = w_outbox w"

lemma unmoved_simps [simp]: "unmoved w w" "unmoved w (bump w') = unmoved w w'"
  by (simp_all add: unmoved_def)

lemma leaves_later: "leaves m row w w' \<Longrightarrow> w_outbox w'' = w_outbox w' \<Longrightarrow> leaves m row w w''"
  by (simp add: leaves_def outbox_row_def)

lemma leaves_bump [simp]: "leaves m row w (bump w') = leaves m row w w'"
  by (simp add: leaves_def)

lemma leaves_update:
  assumes "\<And>r. ob_id (f r) = ob_id r" and "outbox_row (ob_id row) w = Some r" and "unmoved w w'"
    and "delivered_to m row (f r)"
  shows "leaves m row w (w'\<lparr>w_outbox := fst (sql_update (\<lambda>r. ob_id r = ob_id row) f (w_outbox w'))\<rparr>)"
proof -
  have "outbox_row j w' = outbox_row j w" for j using assms(3) by (simp add: outbox_row_def unmoved_def)
  moreover have id: "outbox_row j w = Some x \<Longrightarrow> ob_id x = j" for j x
    by (auto simp: outbox_row_def dest: find_SomeD)
  ultimately show ?thesis
    using assms(2,4) id [OF assms(2)]
    by (auto simp: leaves_def outbox_row_update [OF assms(1)] map_option_case split: option.splits dest: id)
qed

lemma ends_setStatus:
  assumes "healthy env" and "outbox_row (ob_id row) w = Some r" and "unmoved w w'"
    and "\<And>t. delivered_to m row (r\<lparr>ob_status := st, ob_attempts := n, ob_lastError := e, ob_updatedAt := t\<rparr>)"
  shows "ends (setStatus env (ob_id row) st n e) w' (\<lambda>_. leaves m row w) (\<lambda>_ _. False)"
  using leaves_update [OF _ assms(2,3), of "\<lambda>r. r\<lparr>ob_status := st, ob_attempts := n, ob_lastError := e, ob_updatedAt := _\<rparr>"]
    assms(4)
  by (simp add: setStatus_def ends_query [OF assms(1)] leaves_later)

lemma ends_reschedule:
  assumes "healthy env" and "outbox_row (ob_id row) w = Some r" and "unmoved w w'"
    and "n = Suc (ob_attempts row)" and "n < m"
  shows "ends (reschedule env row n e) w' (\<lambda>_. leaves m row w) (\<lambda>_ _. False)"
  using leaves_update [OF _ assms(2,3), of "\<lambda>r. r\<lparr>ob_status := ObPending, ob_attempts := n, ob_lastError := Some e,
      ob_nextAttemptAt := time env w' + retry_delay n, ob_updatedAt := time env w'\<rparr>" m] assms(4,5)
  by (simp add: reschedule_def ends_query [OF assms(1)] delivered_to_def leaves_later)

lemma ends_recordDelivery:
  "ends (recordDelivery env c row url b n e t) w' (\<lambda>_ w''. w_outbox w'' = w_outbox w') (\<lambda>_ _. False)"
  by (auto simp: recordDelivery_def ends_catchP ends_basic query_def ends_await split: option.splits)

lemma deliverOnce_fate:
  assumes "healthy env" and "outbox_row (ob_id row) w = Some row"
    and "webhookRetryAttempts (process_env env) = Inr k" and "m = max 1 (nat k)"
  shows "ends (deliverOnce env row) w (\<lambda>_. leaves m row w) (\<lambda>_ _. False)"
proof -
  have m: "max (Suc 0) (nat k) = m" "nat k \<le> m" by (simp_all add: assms(4))
  let ?n = "Suc (ob_attempts row)"
  have skip: "ends (setStatus env (ob_id row) ObSkipped (ob_attempts row) (Some e)) w' (\<lambda>_. leaves m row w) (\<lambda>_ _. False)"
    if "unmoved w w'" for e w'
    by (rule ends_setStatus [OF assms(1,2) that]) (simp add: delivered_to_def)
  have post: "ends (post_event env row c url ?n) w'
      (\<lambda>outcome w''. case outcome of None \<Rightarrow> leaves m row w w'' | Some _ \<Rightarrow> unmoved w w'') (\<lambda>_ _. False)"
    if "unmoved w w'" for c url w'
  proof -
    have sent: "ends (setStatus env (ob_id row) ObDelivered ?n None) w'' (\<lambda>_. leaves m row w) (\<lambda>_ _. False)"
      if "unmoved w w''" for w''
      by (rule ends_setStatus [OF assms(1,2) that]) (simp add: delivered_to_def)
    have log: "ends (recordDelivery env a row url True ?n None t) w'' (\<lambda>_. leaves m row w) (\<lambda>_ _. False)"
      if "leaves m row w w''" for a t w''
      using that by (auto intro: ends_mono [OF ends_recordDelivery] leaves_later)
    show ?thesis
      using that unfolding post_event_def Let_def ends_catchP
      by (auto simp: ends_bindP ends_rpc ends_now ends_basic split: sum.splits
          intro!: ends_mono [OF sent] ends_mono [OF log])
  qed
  have fail: "ends (bindP (setStatus env (ob_id row) ObFailed ?n (Some e)) (\<lambda>_.
      recordDelivery env a row url False ?n (Some e) None)) w' (\<lambda>_. leaves m row w) (\<lambda>_ _. False)"
    if "unmoved w w'" for e a url w'
  proof -
    have "ends (setStatus env (ob_id row) ObFailed ?n (Some e)) w' (\<lambda>_. leaves m row w) (\<lambda>_ _. False)"
      by (rule ends_setStatus [OF assms(1,2) that]) (simp add: delivered_to_def)
    then show ?thesis
      by (rule ends_bind) (auto intro: ends_mono [OF ends_recordDelivery] leaves_later)
  qed
  have lookup: "ends (attempt (client_findById env c)) w (\<lambda>r w'. (\<exists>x. r = Inr x) \<and> unmoved w w') (\<lambda>_ _. False)" for c
    by (simp add: attempt_def client_findById_def ends_simps ends_query [OF assms(1)])
  show ?thesis
    unfolding deliverOnce_def
    by (rule ends_bind [OF lookup])
       (use m(2) in \<open>auto simp: Let_def assms(3) m(1) ends_basic split: option.split
         intro!: skip ends_liftE_bind ends_bind [OF post] fail ends_reschedule [OF assms(1,2)]\<close>)
qed



section \<open>Retries end\<close>

text \<open>The deliveries of event \<open>j\<close> by the ticks to come, at most \<open>n\<close> of them, while it is not settled.\<close>

primrec deliveries :: "Env \<Rightarrow> string \<Rightarrow> nat \<Rightarrow> unit io" where
  "deliveries env j 0 = Ret ()"
| "deliveries env j (Suc n) = bindP (peek (outbox_row j)) (\<lambda>found.
     case found of None \<Rightarrow> Ret ()
     | Some row \<Rightarrow>
         if ob_status row \<in> {ObPending, ObDelivering}
         then bindP (deliverOnce env row) (\<lambda>_. deliveries env j n)
         else Ret ())"

definition settled_event :: "nat \<Rightarrow> string \<Rightarrow> World \<Rightarrow> bool" where
  "settled_event m j w \<longleftrightarrow> (\<exists>r. outbox_row j w = Some r \<and> ob_status r \<in> {ObDelivered, ObSkipped, ObFailed} \<and> ob_attempts r \<le> m)"

lemma outbox_row_id: "outbox_row j w = Some r \<Longrightarrow> ob_id r = j"
  by (auto simp: outbox_row_def dest: find_SomeD)

lemma settled_stays:
  "settled_event m j w \<Longrightarrow> ends (deliveries env j n) w (\<lambda>_. settled_event m j) (\<lambda>_ _. False)"
  by (cases n) (auto simp: settled_event_def ends_simps)

lemma ends_deliveries:
  assumes "healthy env" and "webhookRetryAttempts (process_env env) = Inr k" and "m = max 1 (nat k)"
  shows "outbox_row j w = Some row \<Longrightarrow> ob_status row \<in> {ObPending, ObDelivering} \<Longrightarrow> ob_attempts row < m \<Longrightarrow>
     m \<le> ob_attempts row + n \<Longrightarrow> ends (deliveries env j n) w (\<lambda>_. settled_event m j) (\<lambda>_ _. False)"
proof (induction n arbitrary: w row)
  case (Suc n)
  have row: "outbox_row (ob_id row) w = Some row" using outbox_row_id [OF Suc.prems(1)] Suc.prems(1) by simp
  have rest: "ends (deliveries env j n) w' (\<lambda>_. settled_event m j) (\<lambda>_ _. False)"
    if "outbox_row j w' = Some r'" and "delivered_to m row r'" for w' r'
  proof (cases "ob_status r'")
    case ObPending
    then show ?thesis using that Suc.prems(3,4) by (intro Suc.IH) (auto simp: delivered_to_def)
  qed (use that Suc.prems(3) in \<open>auto intro!: settled_stays simp: settled_event_def delivered_to_def\<close>)
  have "ends (deliverOnce env row) w (\<lambda>_ w'. ends (deliveries env j n) w' (\<lambda>_. settled_event m j) (\<lambda>_ _. False)) (\<lambda>_ _. False)"
    by (rule ends_mono [OF deliverOnce_fate [OF assms(1) row assms(2,3)]])
      (auto simp: leaves_def outbox_row_id [OF Suc.prems(1)] intro: rest)
  then show ?case using Suc.prems(1,2) by (simp add: ends_simps)
qed simp



end
