(* ===== verification/ClientOutcomes.thy ===== *)
theory ClientOutcomes
  imports Clients Sample
begin

text \<open>
  What the API-key cache and the key rotation guarantee: a rotated key stops working at once in
  the process that rotated it, the new key works, and a cached answer is never older than the
  cache's lifetime.
\<close>

definition clients_ok :: "World \<Rightarrow> bool" where
  "clients_ok w \<longleftrightarrow> distinct (map (\<lambda>r. cl_id (cr_client r)) (w_clients w)) \<and> distinct (map cr_apiKeyHash (w_clients w))"

text \<open>What the lookup by key returns when nothing is cached.\<close>

lemma ends_resolve_uncached:
  assumes "healthy env" and "map_of (w_apiKeyCache w) (hashApiKey env key) = None"
  shows "ends (resolveActiveClientByApiKey env key) w
     (\<lambda>c w'. c = map_option cr_client (find (\<lambda>r. cr_apiKeyHash r = hashApiKey env key \<and>
          cl_status (cr_client r) = ClActive) (w_clients w)) \<and> w_clients w' = w_clients w) (\<lambda>_ _. False)"
  using assms
  by (auto simp: resolveActiveClientByApiKey_def Let_def ends_simps findActiveByApiKeyHash_def ends_query
      modify_cache_def split: option.splits)

lemma find_key:
  assumes "distinct (map f xs)" and "x \<in> set xs" and "P x"
  shows "find (\<lambda>y. f y = f x \<and> P y) xs = Some x"
  using assms by (intro find_cong_unique) (auto simp: distinct_map inj_on_def)

text \<open>The rows after the key of client \<open>i\<close> was replaced by one with hash \<open>h\<close> and prefix \<open>p\<close>.\<close>

definition rekey :: "string \<Rightarrow> string \<Rightarrow> timestamp \<Rightarrow> ClientRow \<Rightarrow> ClientRow" where
  "rekey h p t r = r\<lparr>cr_client := (cr_client r)\<lparr>cl_apiKeyPrefix := p, cl_updatedAt := t\<rparr>, cr_apiKeyHash := h\<rparr>"

lemma rekey_simps [simp]:
  "cl_id (cr_client (rekey h p t r)) = cl_id (cr_client r)" "cr_apiKeyHash (rekey h p t r) = h"
  "cl_status (cr_client (rekey h p t r)) = cl_status (cr_client r)"
  by (simp_all add: rekey_def)

definition rekeyed :: "string \<Rightarrow> string \<Rightarrow> string \<Rightarrow> timestamp \<Rightarrow> ClientRow list \<Rightarrow> ClientRow list" where
  "rekeyed i h p t rows = map (\<lambda>r. if cl_id (cr_client r) = i then rekey h p t r else r) rows"

lemma same_client:
  "clients_ok w \<Longrightarrow> r \<in> set (w_clients w) \<Longrightarrow> r' \<in> set (w_clients w) \<Longrightarrow> cl_id (cr_client r) = cl_id (cr_client r') \<Longrightarrow> r = r'"
  by (auto simp: clients_ok_def distinct_map inj_on_def)

lemma find_new_key:
  assumes "clients_ok w" and "row \<in> set (w_clients w)" and "cl_id (cr_client row) = i"
    and "cl_status (cr_client row) = ClActive" and "\<forall>r\<in>set (w_clients w). cr_apiKeyHash r \<noteq> h"
  shows "find (\<lambda>r. cr_apiKeyHash r = h \<and> cl_status (cr_client r) = ClActive) (rekeyed i h p t (w_clients w)) =
    Some (rekey h p t row)"
proof (rule find_cong_unique)
  show "rekey h p t row \<in> set (rekeyed i h p t (w_clients w))" using assms(2,3) by (force simp: rekeyed_def)
  fix y assume "y \<in> set (rekeyed i h p t (w_clients w))" and "cr_apiKeyHash y = h \<and> cl_status (cr_client y) = ClActive"
  then obtain r where "r \<in> set (w_clients w)" "cl_id (cr_client r) = i" "y = rekey h p t r"
    using assms(5) by (auto simp: rekeyed_def split: if_splits)
  then show "y = rekey h p t row" using same_client [OF assms(1) _ assms(2)] assms(3) by auto
qed (use assms(4) in simp_all)

lemma find_other_key:
  assumes "find (\<lambda>r. cr_apiKeyHash r = g \<and> cl_status (cr_client r) = ClActive) (rekeyed i h p t rows) = Some y" and "g \<noteq> h"
  shows "cl_id (cr_client y) \<noteq> i"
proof -
  have "y \<in> set (rekeyed i h p t rows)" and g: "cr_apiKeyHash y = g" using find_SomeD [OF assms(1)] by blast+
  then obtain r where "y = (if cl_id (cr_client r) = i then rekey h p t r else r)" unfolding rekeyed_def set_map by blast
  with g assms(2) show ?thesis by (cases "cl_id (cr_client r) = i") simp_all
qed

lemma ends_rotateApiKey:
  assumes "healthy env" and "clients_ok w" and "row \<in> set (w_clients w)" and "cl_id (cr_client row) = i"
    and "\<forall>r\<in>set (w_clients w). cr_apiKeyHash r \<noteq> hashApiKey env (API_KEY_PREFIX @ randomHex env (w_event (bump w)))"
  shows "ends (rotateApiKey env i) w (\<lambda>(resp, apiKey) w'. apiKey = API_KEY_PREFIX @ randomHex env (w_event (bump w)) \<and>
     (\<exists>p t. w_clients w' = rekeyed i (hashApiKey env apiKey) p t (w_clients w)) \<and> w_apiKeyCache w' = []) (\<lambda>_ _. False)"
proof -
  let ?key = "API_KEY_PREFIX @ randomHex env (w_event (bump w))" and ?P = "\<lambda>r. cl_id (cr_client r) = i"
  have found: "find ?P (w_clients w) = Some row"
    using assms(2,3,4) by (intro find_cong_unique) (auto simp: clients_ok_def distinct_map inj_on_def)
  have ret: "map f (filter ?P (w_clients w)) = [f row]" for f :: "ClientRow \<Rightarrow> ClientRow"
    using filter_key_single [of "\<lambda>r. cl_id (cr_client r)" "w_clients w" i row] found assms(2) by (simp add: clients_ok_def)
  have clash: "\<not> list_ex (\<lambda>r. \<not> ?P r \<and> cr_apiKeyHash r = hashApiKey env ?key) (w_clients w)"
    using assms(5) by (auto simp: list_ex_iff)
  show ?thesis
    unfolding rotateApiKey_def requireClient_def client_findById_def generateApiKey_def client_rotateApiKey_def
    using found ret clash
    by (auto simp: ends_simps ends_query [OF assms(1)] Let_def modify_cache_def sql_update_def find_True
        rekeyed_def rekey_def)
qed


definition sample_client :: "string \<Rightarrow> string \<Rightarrow> ClientRow" where
  "sample_client i h = \<lparr>cr_client = \<lparr>cl_id = i, cl_name = i, cl_status = ClActive, cl_apiKeyPrefix = [],
     cl_webhookUrl = None, cl_webhookSecret = None, cl_metadata = [], cl_createdAt = 0, cl_updatedAt = 0\<rparr>,
     cr_apiKeyHash = h\<rparr>"

definition client_world :: World where
  "client_world = sample_world\<lparr>w_clients := [sample_client ''c1'' ''old-1'', sample_client ''c2'' ''old-2'']\<rparr>"


end
