(* ===== verification/Spec2Isabelle.thy ===== *)
theory Spec2Isabelle
  imports PayoutLifecycle Access Bootstrap CheckoutPage SdkAnswers DatabasePool SettlementOutcomes PayinOutcomes
    WebhookOutcomes ClientOutcomes Sanitizer Mapper
begin

text \<open>
  AvaSettle is a settlement API in TypeScript: clients (tenants) pay beneficiaries in stablecoins
  on Avalanche (payouts), collect payments (pay-ins) and commit confidential settlements; operators
  manage clients and sweeps; payers use a hosted checkout page.  The state is a PostgreSQL database,
  a chain reached through a node, and a few in-process maps.  This development models the API server
  (\<^verbatim>\<open>src/src\<close>), the client library (\<^verbatim>\<open>sdk/src\<close>) and the checkout page
  (\<^verbatim>\<open>avasettle-landing/src/scripts/checkout.ts\<close>), all paths under \<^verbatim>\<open>src/\<close>.

  How code is modelled.  An \<^verbatim>\<open>async\<close> method is a resumption (\<^verbatim>\<open>Effects\<close>): a value, an exception or
  one atomic step on the shared state followed by the rest; a step is what happens between two points
  where the method waits.  \<open>run\<close> executes a program alone, \<open>ends\<close> states a postcondition for its value
  and its exception, and \<open>pool_run\<close> is the relation of all interleavings of a list of programs, with
  the trace of their steps.  \<open>World\<close> (theory \<^verbatim>\<open>World\<close>) is the shared state: the tables, the counter,
  the transactions handed to wallets, the key cache, the background jobs started and an event number.  \<open>Env\<close>
  holds what the code does not define: the process environment, the clock, the answers of the node,
  of the HTTP client and of the random generator by event number, hashing, signing and address
  arithmetic, and the failures of the database (any query may fail at any event).  Nothing is assumed
  of them unless a theorem says so.  SQL statements are functions on lists of rows (\<^verbatim>\<open>Tables\<close>).
  Integers are unbounded as JavaScript's bigint; the float sums of the reports are rounded to 53 bits
  as IEEE doubles (\<^verbatim>\<open>Floats\<close>).

  The theories and what they model:
  \<^item> \<^verbatim>\<open>Prelude\<close>, \<^verbatim>\<open>Types\<close>, \<^verbatim>\<open>Effects\<close>, \<^verbatim>\<open>World\<close>, \<^verbatim>\<open>Tables\<close>, \<^verbatim>\<open>Floats\<close>, \<^verbatim>\<open>Uri\<close>: the standard library
    parts the code uses, the types of \<^verbatim>\<open>*.types.ts\<close>, effects, state, SQL, doubles, URIs.
  \<^item> \<^verbatim>\<open>Configuration\<close> (\<^verbatim>\<open>configuration/\<close>), \<^verbatim>\<open>Mapper\<close> (\<^verbatim>\<open>database/postgres-mapper.ts\<close>, \<^verbatim>\<open>sql-patch.ts\<close>),
    \<^verbatim>\<open>Migrations\<close> and \<^verbatim>\<open>DatabasePool\<close> (\<^verbatim>\<open>database/\<close>), \<^verbatim>\<open>Blockchain\<close> (\<^verbatim>\<open>blockchain/\<close>), \<^verbatim>\<open>AuditLog\<close>
    (\<^verbatim>\<open>audit/\<close>), \<^verbatim>\<open>Webhooks\<close>, \<^verbatim>\<open>Clients\<close> (with \<^verbatim>\<open>auth/\<close>), \<^verbatim>\<open>Throttle\<close>, \<^verbatim>\<open>Sanitizer\<close> and
    \<^verbatim>\<open>Observability\<close> (\<^verbatim>\<open>observability/\<close>), \<^verbatim>\<open>Payouts\<close>, \<^verbatim>\<open>Payins\<close>, \<^verbatim>\<open>Settlements\<close>, \<^verbatim>\<open>Checkout\<close>,
    \<^verbatim>\<open>ChainFlow\<close>, \<^verbatim>\<open>Reconciliation\<close>, \<^verbatim>\<open>Reports\<close>, \<^verbatim>\<open>Status\<close> (treasury, health, startup, metadata):
    one definition per method, named as the method, with a prefix where two classes share the name.
  \<^item> \<^verbatim>\<open>Validation\<close> (the DTO classes), \<^verbatim>\<open>Wire\<close> (the JSON bodies of the answers), \<^verbatim>\<open>Http\<close> (controllers,
    routes, guards, answers), \<^verbatim>\<open>Service\<close> (all requests and jobs as one type) and \<^verbatim>\<open>Bootstrap\<close>
    (\<^verbatim>\<open>main.ts\<close>: the order of the settings, the server options, when the process starts; the timers of
    the jobs) put the parts together.
  \<^item> \<^verbatim>\<open>Sdk\<close> (\<^verbatim>\<open>sdk/src/index.ts\<close>), \<^verbatim>\<open>SdkTypes\<close> (\<^verbatim>\<open>sdk/src/types.ts\<close>: the declared types of the answers
    as values, with the check \<open>conforms\<close>) and \<^verbatim>\<open>CheckoutPage\<close> (the page) are the two callers of the API.

  What the lemmas show:
  \<^item> \<^verbatim>\<open>PayoutSafety\<close> and \<^verbatim>\<open>PayoutLifecycle\<close>: in every interleaving of payout requests, on any number of
    servers, with any failures, a payout is sent at most once, is not claimed again after it was sent,
    and follows an abstract life cycle (a refinement).  The interface is the locale \<open>protocol\<close>
    (\<^verbatim>\<open>Effects\<close>): ghost states per handler, permitted actions, a global invariant; \<open>refined_protocol\<close>
    adds the abstract machine.  \<^verbatim>\<open>PayinSafety\<close> uses the same locale for derivation indices.
  \<^item> \<^verbatim>\<open>PayoutOutcomes\<close>, \<^verbatim>\<open>PayinOutcomes\<close>, \<^verbatim>\<open>SettlementOutcomes\<close>, \<^verbatim>\<open>WebhookOutcomes\<close>, \<^verbatim>\<open>ClientOutcomes\<close>:
    what a handler leaves behind on every branch when it runs alone and the database answers, and that
    webhook retries end.
  \<^item> \<^verbatim>\<open>Tenancy\<close> (locale \<open>tenant_table\<close>, interpreted for the three ledgers), \<^verbatim>\<open>Neutral\<close> (locale
    \<open>ledger_relation\<close>), \<^verbatim>\<open>Service\<close>, \<^verbatim>\<open>Access\<close>: isolation of tenants, the append-only audit log, and
    that a stranger gets no further than the guards.
  \<^item> The component theories hold their own functional theorems: complete log scans, that the shared,
    pruned throttle map is a separate limiter per caller, exact reports and readiness, migrations
    (consistent, idempotent, guarded by checksum, atomic transactions), row round trips, masking of logs.
  \<^item> \<^verbatim>\<open>SdkContract\<close>: every library call reaches the endpoint it is named after, errors arrive as they
    were raised, inputs are read back unchanged.
  \<^item> \<^verbatim>\<open>Typing\<close> is a type system for handlers (the judgement \<open>returns\<close>, its rules, and that typed handlers
    stay typed in every interleaving; the locale \<open>ledger_invariant\<close>).  \<^verbatim>\<open>WellTyped\<close> types every handler
    and job against the template types of the data model, and \<^verbatim>\<open>SdkAnswers\<close> concludes that each
    answer has the type the library casts it to, three methods apart.  It assumes that viem returns
    what its types promise (\<open>viem_types\<close>) and that the address check of class-validator admits only
    texts that begin with \<^verbatim>\<open>0x\<close> (\<open>address_check\<close>).
  \<^item> \<^verbatim>\<open>CheckoutPage\<close>: a click charges exactly the invoice, and polling ends.

  Bounds.  Recursion follows the loops of the code: structural over lists, by the distance to the last
  block in \<open>paginateLogs\<close>, by the remaining attempts in \<open>poll_loop\<close> (sixty, as the code has it).  No
  definition uses fuel in place of a loop of the code; \<open>deliveries\<close> counts the ticks of the dispatcher
  that deliver one event.

  Not modelled: the Solidity contracts (seen through the node's answers only); Swagger, how CORS
  options act on a response, and sockets; where log lines go; the text of JSON values on the
  wire (a body is a JSON value); the wording of validation messages; the styling and markup of
  the page (its elements are the properties the script sets); characters beyond 8 bits.
\<close>

end
